(* ===== verification/Prelude.thy ===== *)
theory Prelude imports Main "HOL-Library.Word" begin

text \<open>
  Shared vocabulary of the development: the machine types of the program (a signed
  32-bit \<open>int\<close>, a \<open>std::string\<close> as a list of bytes), the ways a C++ operation can go
  wrong as values of a datatype, the result monad that threads them, and the generic
  facts on lists and maps that the component theories share.
\<close>

unbundle bit_operations_syntax

section \<open>Automation\<close>

named_theorems result_simps "evaluation of the result monad"

named_theorems frame_simps "fields an operation leaves alone"

section \<open>Machine types and failures\<close>

type_synonym int32 = "32 word"

type_synonym uint64 = "64 word"

text \<open>
  What the C++ standard, or the library called, lets happen instead of a result. The
  ones up to \<open>EmptyQueueFront\<close> are undefined behaviour, the others are exceptions.
\<close>

datatype cpp_error =
    OutOfBoundsRead
  | OutOfBoundsWrite
  | SignedOverflow
  | IndeterminateRead
  | NullDereference
  | DanglingPointer
  | EmptyQueueFront
  | BadFunctionCall
  | StdOutOfRange
  | SerializationError
  | SystemError

type_synonym 'a result = "cpp_error + 'a"

definition rbind :: "'a result \<Rightarrow> ('a \<Rightarrow> 'b result) \<Rightarrow> 'b result" where
  "rbind r f = (case r of Inl e \<Rightarrow> Inl e | Inr x \<Rightarrow> f x)"

lemma rbind_Inl [simp, result_simps]: "rbind (Inl e) f = Inl e"
  by (simp add: rbind_def)

lemma rbind_Inr [simp, result_simps]: "rbind (Inr x) f = f x"
  by (simp add: rbind_def)

lemma rbind_assoc: "rbind (rbind r f) g = rbind r (\<lambda>x. rbind (f x) g)"
  by (cases r) simp_all

lemma rbind_eq_Inr: "rbind r f = Inr y \<longleftrightarrow> (\<exists>x. r = Inr x \<and> f x = Inr y)"
  by (cases r) auto

lemma rbind_cong [fundef_cong]:
  "r = r' \<Longrightarrow> (\<And>x. r' = Inr x \<Longrightarrow> f x = f' x) \<Longrightarrow> rbind r f = rbind r' f'"
  by (cases r') auto

section \<open>Characters and machine words\<close>

text \<open>
  A \<open>char\<close> is a signed byte on the program's platform: promoting one to \<open>int\<close>
  extends its sign, converting an \<open>int\<close> to \<open>char\<close> keeps its low eight bits.
\<close>

definition char_to_int :: "char \<Rightarrow> int32" where
  "char_to_int c = signed (of_char c :: 8 word)"

definition int_to_char :: "int32 \<Rightarrow> char" where
  "int_to_char w = char_of (unat w)"

lemma of_char_nat_word: "(of_char c :: 'a::comm_semiring_1) = of_nat (of_char c)"
  by (simp only: of_nat_of_char)

lemma bit_of_char_word:
  "bit (of_char c :: 'a::len word) n \<longleftrightarrow>
     n < min LENGTH('a) 8 \<and>
     [digit0 c, digit1 c, digit2 c, digit3 c, digit4 c, digit5 c, digit6 c, digit7 c] ! n"
  unfolding of_char_def by (simp only: bit_horner_sum_bit_word_iff) (simp add: numeral_eq_Suc)

lemma char_to_int_low: "char_to_int c AND 0xff = of_char c"
proof (rule bit_word_eqI)
  fix n :: nat
  assume "n < LENGTH(32)"
  moreover have "(0xff :: int32) = mask 8" by (simp add: mask_eq_exp_minus_1)
  ultimately show "bit (char_to_int c AND 0xff) n \<longleftrightarrow> bit (of_char c :: int32) n"
    by (cases "n < 8")
       (simp_all only: char_to_int_def bit_and_iff bit_mask_iff bit_signed_iff bit_of_char_word,
        simp_all add: min_def)
qed

lemma unat_of_char [simp]: "unat (of_char c :: int32) = of_char c"
proof -
  have "(of_char c :: nat) < 4294967296"
    using nat_of_char_less_256 [of c] by linarith
  then show ?thesis
    by (simp only: of_char_nat_word [where 'a = int32] unat_of_nat) simp
qed

lemma int_to_char_low: "of_char (int_to_char w) = w AND 0xff"
proof -
  have m: "(0xff :: int32) = mask 8" by (simp add: mask_eq_exp_minus_1)
  have "unat (of_char (int_to_char w) :: int32) = unat (take_bit 8 w)"
    by (simp only: unat_of_char unsigned_take_bit_eq) (simp add: int_to_char_def take_bit_eq_mod)
  then show ?thesis
    by (simp only: m word_unat_eq_iff take_bit_eq_mask)
qed

lemma int_to_char_byte: "char_to_int (int_to_char w) AND 0xff = w AND 0xff"
  by (simp only: char_to_int_low int_to_char_low)

lemma int_to_char_inverse [simp]: "int_to_char (char_to_int c) = c"
proof -
  have "(of_char (int_to_char (char_to_int c)) :: int32) = of_char c"
    by (simp only: int_to_char_low char_to_int_low)
  then have "(of_char (int_to_char (char_to_int c)) :: nat) = of_char c"
    by (metis unat_of_char)
  then show ?thesis by simp
qed

end
