(* ===== verification/Cxx_String.thy ===== *)
theory Cxx_String imports Prelude begin

text \<open>
  The members of \<open>std::string\<close> the program uses, on lists of bytes: \<open>find\<close> with a start
  position, \<open>npos\<close> as \<open>None\<close>, \<open>substr\<close>, and the decimal printing of integers that
  \<open>std::to_string\<close>, \<open>operator<<\<close> and \<open>fmt::format_int\<close> share.
\<close>

section \<open>Searching\<close>

definition matches_at :: "string \<Rightarrow> string \<Rightarrow> nat \<Rightarrow> bool" where
  "matches_at s pat i \<longleftrightarrow> i + length pat \<le> length s \<and> take (length pat) (drop i s) = pat"

fun find_scan :: "string \<Rightarrow> string \<Rightarrow> nat \<Rightarrow> nat option" where
  "find_scan pat [] k = (if pat = [] then Some k else None)"
| "find_scan pat (c # cs) k =
     (if take (length pat) (c # cs) = pat then Some k else find_scan pat cs (Suc k))"

definition str_find :: "string \<Rightarrow> string \<Rightarrow> nat \<Rightarrow> nat option" where
  "str_find s pat pos = (if pos \<le> length s then find_scan pat (drop pos s) pos else None)"

definition str_contains :: "string \<Rightarrow> string \<Rightarrow> bool" where
  "str_contains s pat \<longleftrightarrow> str_find s pat 0 \<noteq> None"

definition substr :: "string \<Rightarrow> nat \<Rightarrow> nat \<Rightarrow> string" where
  "substr s pos n = take n (drop pos s)"

lemma take_eq_length: "take (length p) s = p \<Longrightarrow> length p \<le> length s"
  by (metis length_take min.absorb_iff2 min.commute)

lemma matches_at_append: "matches_at (u @ pat @ v) pat (length u)"
  by (simp add: matches_at_def)

lemma matches_at_split: "matches_at s pat i \<Longrightarrow> s = take i s @ pat @ drop (i + length pat) s"
  unfolding matches_at_def by (metis add.commute append_take_drop_id drop_drop)

lemma find_scan_Some:
  "find_scan pat cs k = Some i \<Longrightarrow>
     k \<le> i \<and> matches_at cs pat (i - k) \<and> (\<forall>j<i - k. \<not> matches_at cs pat j)"
proof (induction pat cs k rule: find_scan.induct)
  case (1 pat k)
  then show ?case by (auto simp: matches_at_def split: if_splits)
next
  case (2 pat c cs k)
  show ?case
  proof (cases "take (length pat) (c # cs) = pat")
    case True
    with 2 take_eq_length [OF True] show ?thesis by (auto simp: matches_at_def)
  next
    case False
    with 2 have ih: "Suc k \<le> i" "matches_at cs pat (i - Suc k)"
      "\<forall>j<i - Suc k. \<not> matches_at cs pat j" by auto
    then have "i - k = Suc (i - Suc k)" by arith
    moreover have "\<not> matches_at (c # cs) pat j" if "j < i - k" for j
      using that ih False by (cases j) (auto simp: matches_at_def)
    ultimately show ?thesis using ih by (auto simp: matches_at_def)
  qed
qed

lemma find_scan_None: "find_scan pat cs k = None \<Longrightarrow> \<not> matches_at cs pat j"
proof (induction pat cs k arbitrary: j rule: find_scan.induct)
  case (1 pat k)
  then show ?case by (auto simp: matches_at_def split: if_splits)
next
  case (2 pat c cs k)
  then show ?case by (cases j) (auto simp: matches_at_def split: if_splits)
qed

lemma matches_at_drop: "pos \<le> length s \<Longrightarrow> matches_at (drop pos s) pat j \<longleftrightarrow> matches_at s pat (pos + j)"
  by (auto simp: matches_at_def add.commute)

lemma str_find_Some:
  assumes "str_find s pat pos = Some i"
  shows "pos \<le> i" "matches_at s pat i" "\<And>j. pos \<le> j \<Longrightarrow> j < i \<Longrightarrow> \<not> matches_at s pat j"
proof -
  from assms have p: "pos \<le> length s" and f: "find_scan pat (drop pos s) pos = Some i"
    by (auto simp: str_find_def split: if_splits)
  note r = find_scan_Some [OF f]
  show le: "pos \<le> i" using r by simp
  show "matches_at s pat i" using r le by (simp add: matches_at_drop [OF p])
  show "\<not> matches_at s pat j" if "pos \<le> j" "j < i" for j
  proof -
    have "j - pos < i - pos" using that by simp
    with r have "\<not> matches_at (drop pos s) pat (j - pos)" by blast
    with that show ?thesis by (simp add: matches_at_drop [OF p])
  qed
qed

lemma str_find_None:
  assumes "str_find s pat pos = None" and "pos \<le> j"
  shows "\<not> matches_at s pat j"
proof (cases "pos \<le> length s")
  case True
  with assms have "\<not> matches_at (drop pos s) pat (j - pos)"
    by (auto simp: str_find_def dest: find_scan_None)
  with assms True show ?thesis by (simp add: matches_at_drop)
next
  case False
  with assms show ?thesis by (simp add: matches_at_def)
qed

lemma str_find_bound: "str_find s pat pos = Some i \<Longrightarrow> i + length pat \<le> length s"
  by (drule str_find_Some(2)) (simp add: matches_at_def)

lemma str_find_eq_SomeI:
  assumes "pos \<le> i" "matches_at s pat i" "\<And>j. pos \<le> j \<Longrightarrow> j < i \<Longrightarrow> \<not> matches_at s pat j"
  shows "str_find s pat pos = Some i"
proof (cases "str_find s pat pos")
  case None
  with assms show ?thesis using str_find_None by blast
next
  case (Some k)
  then have k: "pos \<le> k" "matches_at s pat k" "\<And>j. pos \<le> j \<Longrightarrow> j < k \<Longrightarrow> \<not> matches_at s pat j"
    using str_find_Some by blast+
  have "k = i"
  proof (rule ccontr)
    assume "k \<noteq> i"
    then have "k < i \<or> i < k" by arith
    with k assms show False by blast
  qed
  with Some show ?thesis by simp
qed

lemma str_contains_iff: "str_contains s pat \<longleftrightarrow> (\<exists>u v. s = u @ pat @ v)"
proof
  assume "str_contains s pat"
  then obtain i where "str_find s pat 0 = Some i" by (auto simp: str_contains_def)
  then have "matches_at s pat i" by (rule str_find_Some(2))
  then show "\<exists>u v. s = u @ pat @ v" by (metis matches_at_split)
next
  assume "\<exists>u v. s = u @ pat @ v"
  then obtain u v where "s = u @ pat @ v" by blast
  then have "matches_at s pat (length u)" by (simp add: matches_at_append)
  then show "str_contains s pat" using str_find_None [of s pat 0 "length u"]
    by (auto simp: str_contains_def)
qed

lemma str_contains_append [simp, intro]: "str_contains (u @ pat @ v) pat"
  by (auto simp: str_contains_iff)

lemma str_contains_prefix [simp, intro]: "str_contains (pat @ v) pat"
  using str_contains_append [of "[]"] by simp

lemma str_contains_mono: "str_contains s pat \<Longrightarrow> str_contains (u @ s @ v) pat"
  unfolding str_contains_iff by (metis append.assoc)

section \<open>Decimal numbers\<close>

fun show_nat :: "nat \<Rightarrow> string" where
  "show_nat n =
     (if n < 10 then [char_of (48 + n)] else show_nat (n div 10) @ [char_of (48 + n mod 10)])"

declare show_nat.simps [simp del]

definition show_int :: "int \<Rightarrow> string" where
  "show_int i = (if i < 0 then CHR ''-'' # show_nat (nat (- i)) else show_nat (nat i))"

definition format_int :: "int32 \<Rightarrow> string" where
  "format_int w = show_int (sint w)"

definition digit_val :: "char \<Rightarrow> nat" where
  "digit_val c = of_char c - 48"

definition read_nat :: "string \<Rightarrow> nat" where
  "read_nat s = foldl (\<lambda>n c. 10 * n + digit_val c) 0 s"

lemma digit_val_digit [simp]: "d < 10 \<Longrightarrow> digit_val (char_of (48 + d)) = d"
  by (simp add: digit_val_def)

lemma read_show_nat [simp]: "read_nat (show_nat n) = n"
proof (induction n rule: show_nat.induct)
  case (1 n)
  show ?case
  proof (cases "n < 10")
    case True
    then show ?thesis by (simp add: show_nat.simps [of n] read_nat_def)
  next
    case False
    with 1 have "read_nat (show_nat (n div 10)) = n div 10" by blast
    with False show ?thesis by (simp add: show_nat.simps [of n] read_nat_def)
  qed
qed

lemma show_nat_inject [simp]: "show_nat m = show_nat n \<longleftrightarrow> m = n"
  by (metis read_show_nat)

lemma digit_range: "(d::nat) < 10 \<Longrightarrow> of_char (char_of (48 + d)) \<in> {48..57 :: nat}"
  by simp

lemma show_nat_digits: "c \<in> set (show_nat n) \<Longrightarrow> of_char c \<in> {48..57 :: nat}"
proof (induction n rule: show_nat.induct)
  case (1 n)
  show ?case
  proof (cases "n < 10")
    case True
    with "1.prems" show ?thesis by (simp add: show_nat.simps [of n])
  next
    case False
    with "1.prems" have "c \<in> set (show_nat (n div 10)) \<or> c = char_of (48 + n mod 10)"
      by (auto simp: show_nat.simps [of n])
    with False "1.IH" show ?thesis by auto
  qed
qed

lemma show_nat_nonempty [simp]: "show_nat n \<noteq> []"
  by (subst show_nat.simps) simp

lemma not_digit_show_nat: "of_char c \<notin> {48..57 :: nat} \<Longrightarrow> c \<notin> set (show_nat n)"
  using show_nat_digits by blast

lemma colon_not_show_int [simp]: "CHR '':'' \<notin> set (show_int i)"
  by (simp add: show_int_def not_digit_show_nat)

lemma show_int_inject [simp]: "show_int i = show_int j \<longleftrightarrow> i = j"
proof -
  have minus: "CHR ''-'' \<notin> set (show_nat n)" for n by (simp add: not_digit_show_nat)
  have "show_nat n \<noteq> CHR ''-'' # s" for n s using minus [of n] by (metis list.set_intros(1))
  then show ?thesis by (auto simp: show_int_def dest: sym)
qed

lemma format_int_inject [simp]: "format_int v = format_int w \<longleftrightarrow> v = w"
proof
  assume "format_int v = format_int w"
  then have "sint v = sint w" by (simp add: format_int_def)
  then have "word_of_int (sint v) = (word_of_int (sint w) :: int32)" by (rule arg_cong)
  then show "v = w" by simp
qed simp

lemma colon_not_format_int [simp]: "CHR '':'' \<notin> set (format_int w)"
  by (simp add: format_int_def)

text \<open>
  The text after the last separator is determined, so a name built as host, colon and
  number names one pair only.
\<close>

lemma append_sep_inject:
  assumes "u @ c # x = v @ c # y" and "c \<notin> set x" and "c \<notin> set y"
  shows "u = v" "x = y"
proof -
  have "rev x @ c # rev u = rev y @ c # rev v"
    using arg_cong [OF assms(1), of rev] by simp
  moreover have "takeWhile (\<lambda>d. d \<noteq> c) (rev z @ c # w) = rev z" if "c \<notin> set z" for z w
    using that by (subst takeWhile_append2) auto
  ultimately have "rev x = rev y" using assms(2,3) by metis
  then show "x = y" by simp
  with assms(1) show "u = v" by simp
qed

end
