(* ===== verification/Message_Wire.thy ===== *)
theory Message_Wire imports Cxx_String begin

text \<open>
  The byte level of \<open>ClusteredMessage.h\<close>: reading big-endian integers and
  length-prefixed strings out of \<open>c_str()\<close> and writing integers into a buffer. A read
  past the terminating NUL, a write past the buffer and an \<open>int\<close> that overflows are
  undefined behaviour in the code and errors of the model. The operands of \<open>|\<close> in
  \<open>int_value\<close>, which the code reads through one running index, are taken from left to
  right.
\<close>

section \<open>Reading\<close>

definition int_max :: nat where
  "int_max = 2 ^ 31 - 1"

definition c_str_at :: "string \<Rightarrow> nat \<Rightarrow> char result" where
  "c_str_at s i =
     (if i < length s then Inr (s ! i)
      else if i = length s then Inr (CHR 0x00)
      else Inl OutOfBoundsRead)"

text \<open>\<open>value[startIdx++]\<close>: the character and the advanced index.\<close>

definition read_char :: "string \<Rightarrow> nat \<Rightarrow> (char \<times> nat) result" where
  "read_char s i =
     rbind (c_str_at s i) (\<lambda>c. if int_max \<le> i then Inl SignedOverflow else Inr (c, Suc i))"

definition int_value :: "string \<Rightarrow> nat \<Rightarrow> (int32 \<times> nat) result" where
  "int_value s i =
     rbind (read_char s i) (\<lambda>(a, i).
     rbind (read_char s i) (\<lambda>(b, i).
     rbind (read_char s i) (\<lambda>(c, i).
     rbind (read_char s i) (\<lambda>(d, i).
       Inr (push_bit 24 (char_to_int a AND 0xff) OR push_bit 16 (char_to_int b AND 0xff) OR
            push_bit 8 (char_to_int c AND 0xff) OR (char_to_int d AND 0xff), i)))))"

text \<open>The loop \<open>while (startIdx < size) s << value[startIdx++];\<close>\<close>

function read_loop :: "string \<Rightarrow> nat \<Rightarrow> nat \<Rightarrow> string \<Rightarrow> (string \<times> nat) result" where
  "read_loop s i n acc =
     (if i < n then rbind (c_str_at s i) (\<lambda>c. read_loop s (Suc i) n (acc @ [c]))
      else Inr (acc, i))"
  by pat_completeness auto
termination
  by (relation "measure (\<lambda>(s, i, n, acc). n - i)") auto

declare read_loop.simps [simp del]

definition string_value :: "string \<Rightarrow> nat \<Rightarrow> (string \<times> nat) result" where
  "string_value s i =
     rbind (int_value s i) (\<lambda>(size, i).
       if 0 < sint size then
         (if int int_max < int i + sint size then Inl SignedOverflow
          else read_loop s i (i + nat (sint size)) [])
       else Inr ([], i))"

text \<open>The class has its own static copies of the two readers, textually the same.\<close>

definition ClusteredMessage_int_value :: "string \<Rightarrow> nat \<Rightarrow> (int32 \<times> nat) result" where
  "ClusteredMessage_int_value s i =
     rbind (read_char s i) (\<lambda>(a, i).
     rbind (read_char s i) (\<lambda>(b, i).
     rbind (read_char s i) (\<lambda>(c, i).
     rbind (read_char s i) (\<lambda>(d, i).
       Inr (push_bit 24 (char_to_int a AND 0xff) OR push_bit 16 (char_to_int b AND 0xff) OR
            push_bit 8 (char_to_int c AND 0xff) OR (char_to_int d AND 0xff), i)))))"

definition ClusteredMessage_string_value :: "string \<Rightarrow> nat \<Rightarrow> (string \<times> nat) result" where
  "ClusteredMessage_string_value s i =
     rbind (ClusteredMessage_int_value s i) (\<lambda>(size, i).
       if 0 < sint size then
         (if int int_max < int i + sint size then Inl SignedOverflow
          else read_loop s i (i + nat (sint size)) [])
       else Inr ([], i))"

section \<open>Writing\<close>

text \<open>
  A buffer is the byte list behind \<open>std::string::data()\<close> after \<open>resize\<close>, which is followed by
  a NUL: that one may be overwritten with NUL only, and a write at a higher index is undefined.
\<close>

definition write_char :: "string \<Rightarrow> nat \<Rightarrow> char \<Rightarrow> (string \<times> nat) result" where
  "write_char buf i c =
     (if i < length buf \<or> i = length buf \<and> c = CHR 0x00 then
        (if int_max \<le> i then Inl SignedOverflow else Inr (buf[i := c], Suc i))
      else Inl OutOfBoundsWrite)"

definition set_int :: "string \<Rightarrow> nat \<Rightarrow> int32 \<Rightarrow> (string \<times> nat) result" where
  "set_int buf i v =
     rbind (write_char buf i (int_to_char (drop_bit 24 (v AND 0xff000000)))) (\<lambda>(buf, i).
     rbind (write_char buf i (int_to_char (drop_bit 16 (v AND 0x00ff0000)))) (\<lambda>(buf, i).
     rbind (write_char buf i (int_to_char (drop_bit 8 (v AND 0x0000ff00)))) (\<lambda>(buf, i).
       write_char buf i (int_to_char (v AND 0x000000ff)))))"

text \<open>The overload whose index is a temporary: the advanced index is lost.\<close>

definition set_int_at :: "string \<Rightarrow> nat \<Rightarrow> int32 \<Rightarrow> string result" where
  "set_int_at buf i v = rbind (set_int buf i v) (\<lambda>(buf, _). Inr buf)"

text \<open>
  The overloads on \<open>std::string&\<close>: \<open>value[i]\<close> may name the terminator as well, with the
  same restriction.
\<close>

definition write_str :: "string \<Rightarrow> nat \<Rightarrow> char \<Rightarrow> (string \<times> nat) result" where
  "write_str s i c =
     (if i < length s \<or> i = length s \<and> c = CHR 0x00 then
        (if int_max \<le> i then Inl SignedOverflow else Inr (s[i := c], Suc i))
      else Inl OutOfBoundsWrite)"

definition set_int_str :: "string \<Rightarrow> nat \<Rightarrow> int32 \<Rightarrow> (string \<times> nat) result" where
  "set_int_str s i v =
     rbind (write_str s i (int_to_char (drop_bit 24 (v AND 0xff000000)))) (\<lambda>(s, i).
     rbind (write_str s i (int_to_char (drop_bit 16 (v AND 0x00ff0000)))) (\<lambda>(s, i).
     rbind (write_str s i (int_to_char (drop_bit 8 (v AND 0x0000ff00)))) (\<lambda>(s, i).
       write_str s i (int_to_char (v AND 0x000000ff)))))"

definition set_int_str_at :: "string \<Rightarrow> nat \<Rightarrow> int32 \<Rightarrow> string result" where
  "set_int_str_at s i v = rbind (set_int_str s i v) (\<lambda>(s, _). Inr s)"

text \<open>\<open>for (char c : str) result[index++] = c;\<close>\<close>

fun write_chars :: "string \<Rightarrow> nat \<Rightarrow> string \<Rightarrow> (string \<times> nat) result" where
  "write_chars buf i [] = Inr (buf, i)"
| "write_chars buf i (c # cs) = rbind (write_char buf i c) (\<lambda>(buf, i). write_chars buf i cs)"

section \<open>The byte strings written and read\<close>

definition int_bytes :: "int32 \<Rightarrow> string" where
  "int_bytes v =
     [int_to_char (drop_bit 24 (v AND 0xff000000)), int_to_char (drop_bit 16 (v AND 0x00ff0000)),
      int_to_char (drop_bit 8 (v AND 0x0000ff00)), int_to_char (v AND 0x000000ff)]"

definition str_bytes :: "string \<Rightarrow> string" where
  "str_bytes s = int_bytes (of_nat (length s)) @ s"

lemma length_int_bytes [simp]: "length (int_bytes v) = 4"
  by (simp add: int_bytes_def)

lemma length_str_bytes [simp]: "length (str_bytes s) = 4 + length s"
  by (simp add: str_bytes_def)

lemma word_of_bytes:
  "push_bit 24 (drop_bit 24 (v AND 0xff000000) AND 0xff) OR
   push_bit 16 (drop_bit 16 (v AND 0x00ff0000) AND 0xff) OR
   push_bit 8 (drop_bit 8 (v AND 0x0000ff00) AND 0xff) OR ((v AND 0x000000ff) AND 0xff) = (v :: int32)"
proof (rule bit_word_eqI)
  have m: "(0xff :: int32) = mask 8" "(0xff00 :: int32) = push_bit 8 (mask 8)"
    "(0xff0000 :: int32) = push_bit 16 (mask 8)" "(0xff000000 :: int32) = push_bit 24 (mask 8)"
    by (simp_all add: mask_eq_exp_minus_1)
  fix n :: nat
  assume n: "n < LENGTH(32)"
  then consider "n < 8" | "8 \<le> n" "n < 16" | "16 \<le> n" "n < 24" | "24 \<le> n" "n < 32"
    by fastforce
  then show "bit (push_bit 24 (drop_bit 24 (v AND 0xff000000) AND 0xff) OR
      push_bit 16 (drop_bit 16 (v AND 0x00ff0000) AND 0xff) OR
      push_bit 8 (drop_bit 8 (v AND 0x0000ff00) AND 0xff) OR ((v AND 0x000000ff) AND 0xff)) n =
      bit v n"
    unfolding m
    by cases (auto simp: bit_or_iff bit_and_iff bit_push_bit_iff bit_drop_bit_eq bit_mask_iff)
qed

lemma int_bytes_decode:
  assumes "int_bytes v = [a, b, c, d]"
  shows "push_bit 24 (char_to_int a AND 0xff) OR push_bit 16 (char_to_int b AND 0xff) OR
    push_bit 8 (char_to_int c AND 0xff) OR (char_to_int d AND 0xff) = v"
  using assms word_of_bytes [of v] unfolding int_bytes_def
  by (auto simp only: list.inject int_to_char_byte)

lemma int_bytes_inject [simp]: "int_bytes v = int_bytes w \<longleftrightarrow> v = w"
proof
  assume "int_bytes v = int_bytes w"
  moreover obtain a b c d where "int_bytes v = [a, b, c, d]" by (simp add: int_bytes_def)
  ultimately show "v = w" using int_bytes_decode by metis
qed simp

subsection \<open>Reading back what was written\<close>

lemma c_str_at_mid [simp]: "c_str_at (u @ c # v) (length u) = Inr c"
  by (simp add: c_str_at_def)

lemma c_str_at_eq: "i < length s \<Longrightarrow> c_str_at s i = Inr (s ! i)"
  by (simp add: c_str_at_def)

lemma c_str_at_past: "length s < i \<Longrightarrow> c_str_at s i = Inl OutOfBoundsRead"
  by (simp add: c_str_at_def)

lemma read_char_eq: "i < length s \<Longrightarrow> i < int_max \<Longrightarrow> read_char s i = Inr (s ! i, Suc i)"
  by (simp add: read_char_def c_str_at_eq)

lemma int_value_at:
  assumes "i + 4 \<le> length s" and "i + 4 \<le> int_max" and "take 4 (drop i s) = int_bytes v"
  shows "int_value s i = Inr (v, i + 4)"
proof -
  have nth: "s ! (i + k) = int_bytes v ! k" if "k < 4" for k
    using assms(1) that by (metis add.commute add_leD2 assms(3) nth_drop nth_take)
  have "int_bytes v = [s ! i, s ! (Suc i), s ! (Suc (Suc i)), s ! (Suc (Suc (Suc i)))]"
    using nth [of 0] nth [of 1] nth [of 2] nth [of 3]
    by (simp add: int_bytes_def numeral_eq_Suc)
  note v = int_bytes_decode [OF this]
  show ?thesis using assms(1,2) by (simp add: int_value_def read_char_eq v del: push_bit_and)
qed

lemma int_value_append:
  assumes "length u + 4 \<le> int_max"
  shows "int_value (u @ int_bytes v @ w) (length u) = Inr (v, length u + 4)"
  using assms by (intro int_value_at) simp_all

lemma read_loop_ok:
  "i \<le> n \<Longrightarrow> n \<le> length s \<Longrightarrow> read_loop s i n acc = Inr (acc @ take (n - i) (drop i s), n)"
proof (induction s i n acc rule: read_loop.induct)
  case (1 s i n acc)
  show ?case
  proof (cases "i < n")
    case True
    with 1 have "read_loop s (Suc i) n (acc @ [s ! i]) =
        Inr ((acc @ [s ! i]) @ take (n - Suc i) (drop (Suc i) s), n)"
      by (simp add: c_str_at_eq)
    moreover from True have "take (n - i) (drop i s) = s ! i # take (n - Suc i) (drop (Suc i) s)"
      using "1.prems" by (metis Cons_nth_drop_Suc Suc_diff_Suc less_le_trans take_Suc_Cons)
    ultimately show ?thesis using True "1.prems"
      by (subst read_loop.simps) (simp add: c_str_at_eq)
  next
    case False
    with "1.prems" show ?thesis by (subst read_loop.simps) simp
  qed
qed

lemma read_loop_past:
  "length s + 1 < n \<Longrightarrow> i \<le> length s + 1 \<Longrightarrow> read_loop s i n acc = Inl OutOfBoundsRead"
proof (induction s i n acc rule: read_loop.induct)
  case (1 s i n acc)
  then have i: "i < n" by simp
  show ?case
  proof (cases "i \<le> length s")
    case True
    then obtain c where "c_str_at s i = Inr c" by (auto simp: c_str_at_def le_less)
    with 1 i True show ?thesis by (subst read_loop.simps) simp
  next
    case False
    with i show ?thesis by (subst read_loop.simps) (simp add: c_str_at_past)
  qed
qed

lemma string_value_append:
  assumes "length u + 4 + length s \<le> int_max"
  shows "string_value (u @ str_bytes s @ w) (length u) = Inr (s, length u + 4 + length s)"
proof -
  let ?v = "of_nat (length s) :: int32"
  have len: "length s < 2 ^ 31" using assms by (simp add: int_max_def)
  have sint: "sint ?v = int (length s)"
    using len by (simp add: signed_of_nat signed_take_bit_int_eq_self)
  have "int_value (u @ int_bytes ?v @ s @ w) (length u) = Inr (?v, length u + 4)"
    using assms by (intro int_value_append) simp
  moreover have "read_loop (u @ int_bytes ?v @ s @ w) (length u + 4) (length u + 4 + length s) [] =
      Inr (s, length u + 4 + length s)"
    by (subst read_loop_ok) simp_all
  moreover have "int (length u + 4) + int (length s) \<le> int int_max"
    using assms by (simp only: of_nat_add [symmetric] of_nat_le_iff)
  ultimately show ?thesis
    by (simp add: string_value_def str_bytes_def sint)
qed

lemma class_int_value [simp]: "ClusteredMessage_int_value = int_value"
  by (intro ext) (simp add: ClusteredMessage_int_value_def int_value_def)

lemma class_string_value [simp]: "ClusteredMessage_string_value = string_value"
  by (intro ext) (simp add: ClusteredMessage_string_value_def string_value_def)

subsection \<open>Where reading stops\<close>

lemma read_char_bound: "read_char s i = Inr (c, j) \<Longrightarrow> j = Suc i \<and> i \<le> length s \<and> i < int_max"
  by (auto simp: read_char_def c_str_at_def rbind_eq_Inr split: if_splits)

lemma int_value_bound: "int_value s i = Inr (v, j) \<Longrightarrow> j = i + 4 \<and> j \<le> length s + 1 \<and> j \<le> int_max"
  by (auto simp: int_value_def rbind_eq_Inr dest!: read_char_bound)

lemma read_loop_index: "read_loop s i n acc = Inr (r, j) \<Longrightarrow> j = max i n"
proof (induction s i n acc rule: read_loop.induct)
  case (1 s i n acc)
  then show ?case by (subst (asm) (2) read_loop.simps) (auto simp: rbind_eq_Inr split: if_splits)
qed

lemma read_char_end: "length s < i \<Longrightarrow> read_char s i = Inl OutOfBoundsRead"
  by (simp add: read_char_def c_str_at_past)

lemma int_value_past:
  assumes "length s < i + 3" "i \<le> length s + 1" "length s < int_max"
  shows "int_value s i = Inl OutOfBoundsRead"
proof -
  have step: "read_char s k = Inl OutOfBoundsRead \<or> (\<exists>c. read_char s k = Inr (c, Suc k) \<and> k \<le> length s)"
    for k using assms(3) by (auto simp: read_char_def c_str_at_def)
  show ?thesis
    using step [of i] step [of "Suc i"] step [of "Suc (Suc i)"] step [of "Suc (Suc (Suc i))"] assms
    by (auto simp: int_value_def)
qed

subsection \<open>Writing as overwriting a segment\<close>

lemma write_chars_fit:
  "length buf \<le> int_max \<Longrightarrow> i + length cs \<le> length buf \<Longrightarrow>
   write_chars buf i cs = Inr (take i buf @ cs @ drop (i + length cs) buf, i + length cs)"
proof (induction buf i cs rule: write_chars.induct)
  case (2 buf i c cs)
  then have w: "write_char buf i c = Inr (buf[i := c], Suc i)" by (simp add: write_char_def)
  have "take (Suc i) (buf[i := c]) = take i buf @ [c]"
    using 2 by (simp add: take_Suc_conv_app_nth)
  moreover have "drop (Suc (i + length cs)) (buf[i := c]) = drop (Suc (i + length cs)) buf"
    by (simp add: drop_update_cancel)
  ultimately show ?case using 2 w by simp
qed simp

text \<open>One character more is written if it is a NUL; what follows it never is.\<close>

lemma write_char_edge:
  "length buf < int_max \<Longrightarrow>
   write_char buf (length buf) c =
     (if c = CHR 0x00 then Inr (buf, Suc (length buf)) else Inl OutOfBoundsWrite)"
  by (simp add: write_char_def list_update_beyond)

lemma write_chars_past:
  "i \<le> Suc (length buf) \<Longrightarrow> length buf < int_max \<Longrightarrow> Suc (length buf) < i + length cs \<Longrightarrow>
   write_chars buf i cs = Inl OutOfBoundsWrite"
proof (induction buf i cs rule: write_chars.induct)
  case (2 buf i c cs)
  consider "i < length buf" | "i = length buf" | "i = Suc (length buf)" using 2 by linarith
  then show ?case
  proof cases
    case 1
    with 2 show ?thesis by (simp add: write_char_def)
  next
    case 2
    with "2.prems" have "cs \<noteq> []" by auto
    with 2 "2.prems" "2.IH" show ?thesis by (auto simp: write_char_edge neq_Nil_conv)
  next
    case 3
    then show ?thesis by (simp add: write_char_def)
  qed
qed simp

lemma set_int_write_chars: "set_int buf i v = write_chars buf i (int_bytes v)"
proof -
  have "rbind r (\<lambda>(b, i). Inr (b, i)) = r" for r :: "(string \<times> nat) result"
    by (cases r) auto
  then show ?thesis by (simp add: set_int_def int_bytes_def)
qed

lemma write_chars_append:
  "rbind (write_chars buf i xs) (\<lambda>(b, j). write_chars b j ys) = write_chars buf i (xs @ ys)"
proof (induction buf i xs rule: write_chars.induct)
  case (2 buf i c cs)
  then show ?case by (cases "write_char buf i c") (auto simp: write_char_def split: if_splits)
qed simp

lemma write_chars_then:
  "rbind (write_chars buf i xs) (\<lambda>(b, j). rbind (write_chars b j ys) f) =
   rbind (write_chars buf i (xs @ ys)) f"
  unfolding write_chars_append [symmetric] by (cases "write_chars buf i xs") auto

lemma write_chars_edge:
  assumes "length buf < int_max" and "i + length cs = Suc (length buf)" and "cs \<noteq> []"
  shows "write_chars buf i cs =
    (if last cs = CHR 0x00 then Inr (take i buf @ butlast cs, Suc (length buf)) else Inl OutOfBoundsWrite)"
proof -
  let ?b = "take i buf @ butlast cs"
  have l: "i + length (butlast cs) = length buf" using assms(2, 3) by (cases cs rule: rev_cases) auto
  have "write_chars buf i (butlast cs) = Inr (?b, length buf)"
    using write_chars_fit [of buf i "butlast cs"] assms(1) l by simp
  moreover have "length ?b = length buf" using l by simp
  ultimately have "rbind (write_chars buf i (butlast cs)) (\<lambda>(b, j). write_chars b j [last cs]) =
      (if last cs = CHR 0x00 then Inr (?b, Suc (length buf)) else Inl OutOfBoundsWrite)"
    using write_char_edge [of ?b "last cs"] assms(1) by simp
  then show ?thesis
    unfolding write_chars_append append_butlast_last_id [OF assms(3)] .
qed

end
