(* ===== verification/Clustered_Message.thy ===== *)
theory Clustered_Message imports Message_Wire begin

text \<open>
  \<open>ClusteredMessage.h\<close>: the message object with its fields, constructor, accessors and
  mutators, the five decoders \<open>to_message\<close> (two members, three free functions), the
  encoder \<open>to_cstring\<close> and its wrapper \<open>to_string\<close> with its fixed buffer of 2048 bytes.
  A \<open>std::function\<close> is the name of the function it holds, or empty; a \<open>std::any\<close> is
  empty, a \<open>std::string\<close>, a C string, or a value of some other type. The field
  \<open>request\<close> has no initialiser in the code, so here it is an optional value, \<open>None\<close>
  while it is indeterminate.
\<close>

section \<open>The message\<close>

datatype any_val = AnyNone | AnyString string | AnyCString string | AnyOther nat

datatype callback = EmptyFunction | Callback nat

record clustered_message =
  cm_message_size :: int32
  cm_protocol_version :: int32
  cm_system_codec_id :: int32
  cm_send :: bool
  cm_address :: string
  cm_replay :: string
  cm_port :: int32
  cm_host :: string
  cm_headers :: int32
  cm_body :: any_val
  cm_reply :: any_val
  cm_request :: "bool option"
  cm_func :: callback
  cm_callbackFunc :: callback
  cm_local :: bool

fun has_value :: "any_val \<Rightarrow> bool" where
  "has_value AnyNone = False"
| "has_value _ = True"

text \<open>\<open>std::any_cast<std::string>\<close> with \<open>bad_any_cast\<close> caught and replaced by the empty string.\<close>

fun any_to_string :: "any_val \<Rightarrow> string" where
  "any_to_string (AnyString s) = s"
| "any_to_string _ = []"

definition ClusteredMessage ::
  "int32 \<Rightarrow> int32 \<Rightarrow> int32 \<Rightarrow> bool \<Rightarrow> string \<Rightarrow> string \<Rightarrow> int32 \<Rightarrow> string \<Rightarrow> int32 \<Rightarrow> any_val \<Rightarrow>
   clustered_message" where
  "ClusteredMessage messageSize protocolVersion systemCodecId sends addr rep prt hst hdrs bdy =
     \<lparr>cm_message_size = messageSize, cm_protocol_version = protocolVersion,
      cm_system_codec_id = systemCodecId, cm_send = sends, cm_address = addr, cm_replay = rep,
      cm_port = prt, cm_host = hst, cm_headers = hdrs, cm_body = bdy, cm_reply = AnyNone,
      cm_request = None, cm_func = EmptyFunction, cm_callbackFunc = EmptyFunction,
      cm_local = False\<rparr>"

section \<open>Accessors and mutators\<close>

definition getMessageSize :: "clustered_message \<Rightarrow> int32" where
  "getMessageSize m = cm_message_size m"

definition getProtocolVersion :: "clustered_message \<Rightarrow> int32" where
  "getProtocolVersion m = cm_protocol_version m"

definition getSystemCodecId :: "clustered_message \<Rightarrow> int32" where
  "getSystemCodecId m = cm_system_codec_id m"

definition isSend :: "clustered_message \<Rightarrow> bool" where
  "isSend m = cm_send m"

definition getAddress :: "clustered_message \<Rightarrow> string" where
  "getAddress m = cm_address m"

definition getReplay :: "clustered_message \<Rightarrow> string" where
  "getReplay m = cm_replay m"

definition getPort :: "clustered_message \<Rightarrow> int32" where
  "getPort m = cm_port m"

definition getHost :: "clustered_message \<Rightarrow> string" where
  "getHost m = cm_host m"

definition getHeaders :: "clustered_message \<Rightarrow> int32" where
  "getHeaders m = cm_headers m"

definition body :: "clustered_message \<Rightarrow> any_val" where
  "body m = cm_body m"

definition reply :: "clustered_message \<Rightarrow> any_val" where
  "reply m = cm_reply m"

definition getFunc :: "clustered_message \<Rightarrow> callback" where
  "getFunc m = cm_func m"

definition getCallbackFunc :: "clustered_message \<Rightarrow> callback" where
  "getCallbackFunc m = cm_callbackFunc m"

definition isLocal :: "clustered_message \<Rightarrow> bool" where
  "isLocal m = cm_local m"

text \<open>Reading \<open>request\<close> before it was set is undefined.\<close>

definition isRequest :: "clustered_message \<Rightarrow> bool result" where
  "isRequest m = (case cm_request m of None \<Rightarrow> Inl IndeterminateRead | Some b \<Rightarrow> Inr b)"

definition setRequest :: "bool \<Rightarrow> clustered_message \<Rightarrow> clustered_message" where
  "setRequest b m = m\<lparr>cm_request := Some b\<rparr>"

definition set_reply :: "any_val \<Rightarrow> clustered_message \<Rightarrow> clustered_message" where
  "set_reply r m = m\<lparr>cm_reply := r\<rparr>"

definition setPort :: "int32 \<Rightarrow> clustered_message \<Rightarrow> clustered_message" where
  "setPort p m = m\<lparr>cm_port := p\<rparr>"

definition setHost :: "string \<Rightarrow> clustered_message \<Rightarrow> clustered_message" where
  "setHost h m = m\<lparr>cm_host := h\<rparr>"

definition set_body :: "any_val \<Rightarrow> clustered_message \<Rightarrow> clustered_message" where
  "set_body b m = m\<lparr>cm_body := b\<rparr>"

definition setFunc :: "callback \<Rightarrow> callback \<Rightarrow> clustered_message \<Rightarrow> clustered_message" where
  "setFunc f g m = m\<lparr>cm_func := f, cm_callbackFunc := g, cm_local := True\<rparr>"

definition bodyAsString :: "clustered_message \<Rightarrow> string" where
  "bodyAsString m = any_to_string (cm_body m)"

definition replyAsString :: "clustered_message \<Rightarrow> string" where
  "replyAsString m = any_to_string (cm_reply m)"

lemmas message_defs = getMessageSize_def getProtocolVersion_def getSystemCodecId_def isSend_def
  getAddress_def getReplay_def getPort_def getHost_def getHeaders_def body_def reply_def
  getFunc_def getCallbackFunc_def isLocal_def setRequest_def set_reply_def setPort_def setHost_def
  set_body_def setFunc_def bodyAsString_def replyAsString_def

definition show_bool :: "bool \<Rightarrow> string" where
  "show_bool b = (if b then ''1'' else ''0'')"

definition print_message :: "clustered_message \<Rightarrow> string" where
  "print_message m =
     ''message_size: '' @ format_int (cm_message_size m) @
     [CHR 0x0a] @ '' protocol_version: '' @ format_int (cm_protocol_version m) @
     [CHR 0x0a] @ '' system_codec_id: '' @ format_int (cm_system_codec_id m) @
     [CHR 0x0a] @ '' send: '' @ show_bool (cm_send m) @
     [CHR 0x0a] @ '' address: '' @ cm_address m @
     [CHR 0x0a] @ '' replay: '' @ cm_replay m @
     [CHR 0x0a] @ '' port: '' @ format_int (cm_port m) @
     [CHR 0x0a] @ '' host: '' @ cm_host m @
     [CHR 0x0a] @ '' headers: '' @ format_int (cm_headers m) @
     [CHR 0x0a] @ '' body: '' @ show_bool (has_value (cm_body m))"

section \<open>Decoding\<close>

text \<open>\<open>to_message(const std::string&, bool)\<close>\<close>

definition to_message :: "string \<Rightarrow> bool \<Rightarrow> clustered_message result" where
  "to_message msg req =
     rbind (int_value msg 0) (\<lambda>(size, i).
     rbind (read_char msg i) (\<lambda>(version, i).
     rbind (read_char msg i) (\<lambda>(codec, i).
     rbind (read_char msg i) (\<lambda>(send_byte, i).
     rbind (string_value msg i) (\<lambda>(addr, i).
     rbind (string_value msg i) (\<lambda>(rep, i).
     rbind (int_value msg i) (\<lambda>(prt, i).
     rbind (string_value msg i) (\<lambda>(hst, i).
     rbind (int_value msg i) (\<lambda>(hdrs, i).
     rbind (string_value msg i) (\<lambda>(bdy, i).
       Inr (setRequest req
         (ClusteredMessage size (char_to_int version) (char_to_int codec) (char_to_int send_byte = 0)
            addr rep prt hst hdrs (AnyString bdy)))))))))))))"

text \<open>\<open>to_message(std::string&&, bool)\<close>\<close>

definition to_message_rref :: "string \<Rightarrow> bool \<Rightarrow> clustered_message result" where
  "to_message_rref msg req =
     rbind (int_value msg 0) (\<lambda>(size, i).
     rbind (read_char msg i) (\<lambda>(version, i).
     rbind (read_char msg i) (\<lambda>(codec, i).
     rbind (read_char msg i) (\<lambda>(send_byte, i).
     rbind (string_value msg i) (\<lambda>(addr, i).
     rbind (string_value msg i) (\<lambda>(rep, i).
     rbind (int_value msg i) (\<lambda>(prt, i).
     rbind (string_value msg i) (\<lambda>(hst, i).
     rbind (int_value msg i) (\<lambda>(hdrs, i).
     rbind (string_value msg i) (\<lambda>(bdy, i).
       Inr (setRequest req
         (ClusteredMessage size (char_to_int version) (char_to_int codec) (char_to_int send_byte = 0)
            addr rep prt hst hdrs (AnyString bdy)))))))))))))"

text \<open>\<open>to_message(std::string&&)\<close>, which leaves \<open>request\<close> unset\<close>

definition to_message_plain :: "string \<Rightarrow> clustered_message result" where
  "to_message_plain msg =
     rbind (int_value msg 0) (\<lambda>(size, i).
     rbind (read_char msg i) (\<lambda>(version, i).
     rbind (read_char msg i) (\<lambda>(codec, i).
     rbind (read_char msg i) (\<lambda>(send_byte, i).
     rbind (string_value msg i) (\<lambda>(addr, i).
     rbind (string_value msg i) (\<lambda>(rep, i).
     rbind (int_value msg i) (\<lambda>(prt, i).
     rbind (string_value msg i) (\<lambda>(hst, i).
     rbind (int_value msg i) (\<lambda>(hdrs, i).
     rbind (string_value msg i) (\<lambda>(bdy, i).
       Inr (ClusteredMessage size (char_to_int version) (char_to_int codec) (char_to_int send_byte = 0)
            addr rep prt hst hdrs (AnyString bdy))))))))))))"

text \<open>The two member functions, on the static readers of the class\<close>

definition ClusteredMessage_to_message :: "string \<Rightarrow> clustered_message result" where
  "ClusteredMessage_to_message msg =
     rbind (ClusteredMessage_int_value msg 0) (\<lambda>(size, i).
     rbind (read_char msg i) (\<lambda>(version, i).
     rbind (read_char msg i) (\<lambda>(codec, i).
     rbind (read_char msg i) (\<lambda>(send_byte, i).
     rbind (ClusteredMessage_string_value msg i) (\<lambda>(addr, i).
     rbind (ClusteredMessage_string_value msg i) (\<lambda>(rep, i).
     rbind (ClusteredMessage_int_value msg i) (\<lambda>(prt, i).
     rbind (ClusteredMessage_string_value msg i) (\<lambda>(hst, i).
     rbind (ClusteredMessage_int_value msg i) (\<lambda>(hdrs, i).
     rbind (ClusteredMessage_string_value msg i) (\<lambda>(bdy, i).
       Inr (ClusteredMessage size (char_to_int version) (char_to_int codec) (char_to_int send_byte = 0)
            addr rep prt hst hdrs (AnyString bdy))))))))))))"

definition ClusteredMessage_to_message_rref :: "string \<Rightarrow> clustered_message result" where
  "ClusteredMessage_to_message_rref msg =
     rbind (ClusteredMessage_int_value msg 0) (\<lambda>(size, i).
     rbind (read_char msg i) (\<lambda>(version, i).
     rbind (read_char msg i) (\<lambda>(codec, i).
     rbind (read_char msg i) (\<lambda>(send_byte, i).
     rbind (ClusteredMessage_string_value msg i) (\<lambda>(addr, i).
     rbind (ClusteredMessage_string_value msg i) (\<lambda>(rep, i).
     rbind (ClusteredMessage_int_value msg i) (\<lambda>(prt, i).
     rbind (ClusteredMessage_string_value msg i) (\<lambda>(hst, i).
     rbind (ClusteredMessage_int_value msg i) (\<lambda>(hdrs, i).
     rbind (ClusteredMessage_string_value msg i) (\<lambda>(bdy, i).
       Inr (ClusteredMessage size (char_to_int version) (char_to_int codec) (char_to_int send_byte = 0)
            addr rep prt hst hdrs (AnyString bdy))))))))))))"

section \<open>Encoding\<close>

definition to_cstring :: "clustered_message \<Rightarrow> string \<Rightarrow> nat \<Rightarrow> (string \<times> nat) result" where
  "to_cstring m result index =
     rbind (set_int result index (cm_message_size m)) (\<lambda>(result, index).
     rbind (write_char result index (int_to_char 1)) (\<lambda>(result, index).
     rbind (write_char result index (int_to_char 9)) (\<lambda>(result, index).
     rbind (write_char result index (int_to_char 0)) (\<lambda>(result, index).
     rbind (set_int result index (of_nat (length (cm_replay m)))) (\<lambda>(result, index).
     rbind (write_chars result index (cm_replay m)) (\<lambda>(result, index).
     rbind (set_int result index (of_nat (length (cm_address m)))) (\<lambda>(result, index).
     rbind (write_chars result index (cm_address m)) (\<lambda>(result, index).
     rbind (set_int result index (cm_port m)) (\<lambda>(result, index).
     rbind (set_int result index (of_nat (length (cm_host m)))) (\<lambda>(result, index).
     rbind (write_chars result index (cm_host m)) (\<lambda>(result, index).
     rbind (set_int result index 4) (\<lambda>(result, index).
     rbind (case cm_reply m of
              AnyString _ \<Rightarrow>
                (let s_body = replyAsString m
                 in rbind (set_int result index (of_nat (length s_body))) (\<lambda>(result, index).
                    write_chars result index s_body))
            | _ \<Rightarrow> Inr (result, index)) (\<lambda>(result, index).
     rbind (set_int_at result 0 (of_nat index - 4)) (\<lambda>result.
       Inr (result, index)))))))))))))))"

definition buffer_size :: nat where
  "buffer_size = 2048"

text \<open>The last \<open>resize\<close> cuts the buffer, or fills it up with NUL.\<close>

definition to_string :: "clustered_message \<Rightarrow> string result" where
  "to_string m =
     rbind (to_cstring m (replicate buffer_size (CHR 0x00)) 0) (\<lambda>(s_message, index).
       Inr (take index s_message @ replicate (index - length s_message) (CHR 0x00)))"

end
