(* ===== verification/Message_Codec.thy ===== *)
theory Message_Codec imports Clustered_Message begin

text \<open>
  What the encoder and the decoders of \<open>ClusteredMessage.h\<close> do on whole messages: the
  exact frame \<open>to_string\<close> builds and when its buffer is too small, what the decoders
  return on a frame, followed by anything, the round trip (with the two addresses
  exchanged, as the encoder writes the reply address first), and the two ways a decoder
  runs off the end of its input. The contract between the two sides is the locale
  \<open>wire_codec\<close>, interpreted by \<open>to_string\<close> and \<open>to_message\<close>.
\<close>

section \<open>Frames\<close>

definition wire_frame ::
  "int32 \<Rightarrow> char \<Rightarrow> char \<Rightarrow> char \<Rightarrow> string \<Rightarrow> string \<Rightarrow> int32 \<Rightarrow> string \<Rightarrow> int32 \<Rightarrow> string \<Rightarrow> string" where
  "wire_frame sz ver codec sb addr rep prt hst hdrs bdy =
     int_bytes sz @ [ver, codec, sb] @ str_bytes addr @ str_bytes rep @ int_bytes prt @
     str_bytes hst @ int_bytes hdrs @ str_bytes bdy"

definition decoded_frame ::
  "int32 \<Rightarrow> char \<Rightarrow> char \<Rightarrow> char \<Rightarrow> string \<Rightarrow> string \<Rightarrow> int32 \<Rightarrow> string \<Rightarrow> int32 \<Rightarrow> string \<Rightarrow>
   clustered_message" where
  "decoded_frame sz ver codec sb addr rep prt hst hdrs bdy =
     ClusteredMessage sz (char_to_int ver) (char_to_int codec) (char_to_int sb = 0)
       addr rep prt hst hdrs (AnyString bdy)"

text \<open>The body part of what the encoder writes: only a \<open>std::string\<close> reply is written.\<close>

fun reply_bytes :: "any_val \<Rightarrow> string" where
  "reply_bytes (AnyString b) = str_bytes b"
| "reply_bytes _ = []"

definition frame_length :: "clustered_message \<Rightarrow> nat" where
  "frame_length m =
     27 + length (cm_replay m) + length (cm_address m) + length (cm_host m) +
     length (reply_bytes (cm_reply m))"

definition frame_tail :: "clustered_message \<Rightarrow> string" where
  "frame_tail m =
     [int_to_char 1, int_to_char 9, int_to_char 0] @ str_bytes (cm_replay m) @
     str_bytes (cm_address m) @ int_bytes (cm_port m) @ str_bytes (cm_host m) @ int_bytes 4 @
     reply_bytes (cm_reply m)"

definition message_frame :: "clustered_message \<Rightarrow> string" where
  "message_frame m = int_bytes (of_nat (frame_length m) - 4) @ frame_tail m"

lemma length_wire_frame [simp]:
  "length (wire_frame sz ver codec sb addr rep prt hst hdrs bdy) =
     31 + length addr + length rep + length hst + length bdy"
  by (simp add: wire_frame_def)

lemma length_frame_tail: "length (frame_tail m) = frame_length m - 4"
  by (simp add: frame_tail_def frame_length_def)

lemma length_message_frame [simp]: "length (message_frame m) = frame_length m"
  by (simp add: message_frame_def length_frame_tail) (simp add: frame_length_def)

section \<open>Decoding\<close>

lemma drop_append_length: "drop i s = x @ w \<Longrightarrow> length x = k \<Longrightarrow> drop (i + k) s = w"
  by (metis add.commute append_eq_conv_conj drop_drop)

lemma drop_length: "drop i s = x @ w \<Longrightarrow> x \<noteq> [] \<Longrightarrow> i + length x + length w = length s"
  by (metis add.assoc append_is_Nil_conv drop_eq_Nil le_add_diff_inverse length_append length_drop
      nat_le_linear)

lemma read_char_drop:
  assumes "drop i s = c # w" and "i < int_max"
  shows "read_char s i = Inr (c, Suc i)"
proof -
  have "i < length s" using assms(1) by (metis drop_all list.distinct(1) not_le)
  moreover have "s ! i = c" using assms(1) calculation by (metis Cons_nth_drop_Suc list.inject)
  ultimately show ?thesis using assms(2) by (simp add: read_char_eq)
qed

lemma int_value_drop:
  assumes "drop i s = int_bytes v @ w" and "i + 4 \<le> int_max"
  shows "int_value s i = Inr (v, i + 4)"
proof (rule int_value_at)
  have "int_bytes v \<noteq> []" by (simp add: int_bytes_def)
  with drop_length [OF assms(1)] show "i + 4 \<le> length s" by simp
qed (use assms in auto)

lemma string_value_drop:
  assumes "drop i s = str_bytes x @ w" and "i + 4 + length x \<le> int_max"
  shows "string_value s i = Inr (x, i + 4 + length x)"
proof -
  have "str_bytes x \<noteq> []" by (simp add: str_bytes_def int_bytes_def)
  with drop_length [OF assms(1)] have "i \<le> length s" by simp
  then have "s = take i s @ str_bytes x @ w" and l: "length (take i s) = i"
    by (simp_all flip: assms(1))
  with string_value_append [of "take i s" x w] assms(2) show ?thesis by simp
qed

lemma drop_Suc_Cons_eq: "drop i s = c # w \<Longrightarrow> drop (Suc i) s = w"
  by (metis drop_Suc tl_drop list.sel(3))

text \<open>
  Everything before the body: a message that starts with these fields is decoded to
  them, and what happens next is up to the reader of the body.
\<close>

definition wire_head ::
  "int32 \<Rightarrow> char \<Rightarrow> char \<Rightarrow> char \<Rightarrow> string \<Rightarrow> string \<Rightarrow> int32 \<Rightarrow> string \<Rightarrow> int32 \<Rightarrow> string" where
  "wire_head sz ver codec sb addr rep prt hst hdrs =
     int_bytes sz @ [ver, codec, sb] @ str_bytes addr @ str_bytes rep @ int_bytes prt @
     str_bytes hst @ int_bytes hdrs"

lemma length_wire_head [simp]:
  "length (wire_head sz ver codec sb addr rep prt hst hdrs) =
     27 + length addr + length rep + length hst"
  by (simp add: wire_head_def)

lemma to_message_head:
  assumes "msg = wire_head sz ver codec sb addr rep prt hst hdrs @ rest"
    and len: "27 + length addr + length rep + length hst \<le> int_max"
  shows "to_message msg req =
    rbind (string_value msg (27 + length addr + length rep + length hst)) (\<lambda>(bdy, _).
      Inr (setRequest req (decoded_frame sz ver codec sb addr rep prt hst hdrs bdy)))"
proof -
  let ?i = "7 + 4 + length addr" and ?j = "7 + 4 + length addr + 4 + length rep"
  let ?k = "?j + 4 + 4 + length hst"
  have d0: "drop 0 msg = int_bytes sz @ ver # codec # sb # str_bytes addr @ str_bytes rep @
      int_bytes prt @ str_bytes hst @ int_bytes hdrs @ rest"
    by (simp add: assms(1) wire_head_def)
  have d4: "drop 4 msg = ver # codec # sb # str_bytes addr @ str_bytes rep @
      int_bytes prt @ str_bytes hst @ int_bytes hdrs @ rest"
    using drop_append_length [OF d0, of 4] by simp
  note d5 = drop_Suc_Cons_eq [OF d4] note d6 = drop_Suc_Cons_eq [OF d5]
  have d7: "drop 7 msg = str_bytes addr @ str_bytes rep @
      int_bytes prt @ str_bytes hst @ int_bytes hdrs @ rest"
    using drop_Suc_Cons_eq [OF d6] by simp
  have d8: "drop ?i msg = str_bytes rep @ int_bytes prt @ str_bytes hst @ int_bytes hdrs @ rest"
    using drop_append_length [OF d7, of "4 + length addr"] by (simp add: add.assoc)
  have d9: "drop ?j msg = int_bytes prt @ str_bytes hst @ int_bytes hdrs @ rest"
    using drop_append_length [OF d8, of "4 + length rep"] by (simp only: length_str_bytes add.assoc)
  have d10: "drop (?j + 4) msg = str_bytes hst @ int_bytes hdrs @ rest"
    using drop_append_length [OF d9, of 4] by simp
  have d11: "drop ?k msg = int_bytes hdrs @ rest"
    using drop_append_length [OF d10, of "4 + length hst"] by (simp only: length_str_bytes add.assoc)
  have k: "?k + 4 = 27 + length addr + length rep + length hst" by simp
  have m: "31 \<le> int_max" by (simp add: int_max_def)
  have steps: "int_value msg 0 = Inr (sz, 4)" "read_char msg 4 = Inr (ver, 5)"
    "read_char msg 5 = Inr (codec, 6)" "read_char msg 6 = Inr (sb, 7)"
    "string_value msg 7 = Inr (addr, ?i)" "string_value msg ?i = Inr (rep, ?j)"
    "int_value msg ?j = Inr (prt, ?j + 4)" "string_value msg (?j + 4) = Inr (hst, ?k)"
    "int_value msg ?k = Inr (hdrs, ?k + 4)"
    using len m int_value_drop [OF d0] read_char_drop [OF d4] read_char_drop [OF d5]
      read_char_drop [OF d6] string_value_drop [OF d7] string_value_drop [OF d8]
      int_value_drop [OF d9] string_value_drop [OF d10] int_value_drop [OF d11]
    by simp_all
  show ?thesis
    by (simp only: to_message_def decoded_frame_def steps rbind_Inr prod.case k)
qed

lemma wire_frame_head:
  "wire_frame sz ver codec sb addr rep prt hst hdrs bdy =
     wire_head sz ver codec sb addr rep prt hst hdrs @ str_bytes bdy"
  by (simp add: wire_frame_def wire_head_def)

lemma to_message_frame:
  assumes len: "31 + length addr + length rep + length hst + length bdy \<le> int_max"
  shows "to_message (wire_frame sz ver codec sb addr rep prt hst hdrs bdy @ rest) req =
    Inr (setRequest req (decoded_frame sz ver codec sb addr rep prt hst hdrs bdy))"
proof -
  let ?h = "wire_head sz ver codec sb addr rep prt hst hdrs"
  let ?msg = "?h @ str_bytes bdy @ rest"
  have "string_value ?msg (length ?h) = Inr (bdy, length ?h + 4 + length bdy)"
    using len by (intro string_value_append) simp
  moreover have "to_message ?msg req =
      rbind (string_value ?msg (length ?h)) (\<lambda>(bdy, _).
        Inr (setRequest req (decoded_frame sz ver codec sb addr rep prt hst hdrs bdy)))"
    using to_message_head [OF refl, of addr rep hst sz ver codec sb prt hdrs "str_bytes bdy @ rest"] len
    by simp
  ultimately show ?thesis by (simp add: wire_frame_head)
qed

text \<open>A message that stops after the headers makes the reader of the body run past the end.\<close>

lemma to_message_no_body:
  assumes "27 + length addr + length rep + length hst < int_max"
  shows "to_message (wire_head sz ver codec sb addr rep prt hst hdrs) req = Inl OutOfBoundsRead"
proof -
  let ?h = "wire_head sz ver codec sb addr rep prt hst hdrs"
  have "string_value ?h (length ?h) = Inl OutOfBoundsRead"
    using assms by (simp add: string_value_def int_value_past)
  then show ?thesis
    using to_message_head [OF refl, of addr rep hst sz ver codec sb prt hdrs "[]"] assms by simp
qed

section \<open>What a successful decoding consumed\<close>

lemma read_loop_length:
  "read_loop s i n acc = Inr (r, j) \<Longrightarrow> i \<le> n \<Longrightarrow> i \<le> length s + 1 \<Longrightarrow>
     j = n \<and> length r = length acc + (n - i) \<and> n \<le> length s + 1"
proof (induction s i n acc rule: read_loop.induct)
  case (1 s i n acc)
  show ?case
  proof (cases "i < n")
    case True
    with 1 show ?thesis
      by (subst (asm) (2) read_loop.simps) (fastforce simp: rbind_eq_Inr c_str_at_def split: if_splits)
  next
    case False
    with 1 show ?thesis by (subst (asm) (2) read_loop.simps) auto
  qed
qed

lemma string_value_bound:
  assumes "string_value s i = Inr (r, j)"
  shows "j = i + 4 + length r \<and> j \<le> length s + 1"
proof -
  from assms obtain v k where v: "int_value s i = Inr (v, k)"
    and k: "(if 0 < sint v then
         (if int int_max < int k + sint v then Inl SignedOverflow
          else read_loop s k (k + nat (sint v)) [])
       else Inr ([], k)) = Inr (r, j)"
    by (auto simp: string_value_def rbind_eq_Inr)
  note b = int_value_bound [OF v]
  show ?thesis
  proof (cases "0 < sint v")
    case True
    with k have "read_loop s k (k + nat (sint v)) [] = Inr (r, j)" by (simp split: if_splits)
    then show ?thesis using b by (auto dest!: read_loop_length)
  next
    case False
    with k b show ?thesis by simp
  qed
qed

lemma to_message_consumes:
  assumes "to_message s req = Inr m"
  shows "30 + length (cm_address m) + length (cm_replay m) + length (cm_host m) +
    length (bodyAsString m) \<le> length s"
  using assms
  by (auto simp: to_message_def rbind_eq_Inr message_defs ClusteredMessage_def
      dest!: int_value_bound read_char_bound string_value_bound)

text \<open>
  The five decoders differ in the references they take and in whether they set
  \<open>request\<close>, not in what they read.
\<close>

lemma to_message_rref_eq: "to_message_rref = to_message"
  by (intro ext) (simp only: to_message_rref_def to_message_def)

lemma to_message_via_plain:
  "to_message msg req = rbind (to_message_plain msg) (\<lambda>m. Inr (setRequest req m))"
  by (simp add: to_message_def to_message_plain_def rbind_assoc split_def)

lemma member_to_message_eq:
  "ClusteredMessage_to_message = to_message_plain"
  "ClusteredMessage_to_message_rref = to_message_plain"
  by (intro ext; simp only: ClusteredMessage_to_message_def ClusteredMessage_to_message_rref_def
      to_message_plain_def class_int_value class_string_value)+

section \<open>Encoding\<close>

lemma write_char_write_chars: "write_char buf i c = write_chars buf i [c]"
  by (cases "write_char buf i c") auto

lemma write_chars_0: "write_chars buf 0 cs = write_chars buf 0 (cs @ [])"
  by simp

lemma to_cstring_segments:
  "to_cstring m buf i =
     rbind (write_chars buf i (int_bytes (cm_message_size m) @ frame_tail m)) (\<lambda>(buf, i).
     rbind (set_int_at buf 0 (of_nat i - 4)) (\<lambda>buf. Inr (buf, i)))"
proof -
  let ?fin = "\<lambda>(buf, i). rbind (set_int_at buf 0 (of_nat i - 4)) (\<lambda>buf. Inr (buf, i))"
  have body: "(case cm_reply m of
              AnyString _ \<Rightarrow>
                (let s_body = replyAsString m
                 in rbind (write_chars b j (int_bytes (of_nat (length s_body)))) (\<lambda>(b, j).
                    write_chars b j s_body))
            | _ \<Rightarrow> Inr (b, j)) = write_chars b j (reply_bytes (cm_reply m))" for b j
    by (cases "cm_reply m")
       (simp_all add: replyAsString_def write_chars_append str_bytes_def)
  show ?thesis
    unfolding to_cstring_def set_int_write_chars write_char_write_chars body
    by (simp only: write_chars_then append_assoc frame_tail_def str_bytes_def append_Cons append_Nil)
qed

lemma take_replace: "length x = length y \<Longrightarrow> take (length x) (y @ z) = y"
  by simp

lemma last_message_frame:
  "last (message_frame m) = CHR 0x00 \<longleftrightarrow>
     (\<exists>b. cm_reply m = AnyString b \<and> (b = [] \<or> last b = CHR 0x00))"
proof -
  have zero: "int_to_char 0 = CHR 0x00" and four: "int_to_char 4 \<noteq> CHR 0x00"
    by (simp_all add: int_to_char_def of_char_def char_of_def bit_0)
  have "last (int_bytes 0) = CHR 0x00" and "last (int_bytes 4) \<noteq> CHR 0x00"
    by (simp_all add: int_bytes_def zero four)
  then show ?thesis
    by (cases "cm_reply m") (auto simp: message_frame_def frame_tail_def str_bytes_def int_bytes_def)
qed

text \<open>
  A frame fits the buffer, or it is one byte longer and ends with NUL: that byte is written over
  the NUL behind the buffer.
\<close>

definition frame_fits :: "clustered_message \<Rightarrow> bool" where
  "frame_fits m \<longleftrightarrow>
     frame_length m \<le> buffer_size \<or>
     frame_length m = Suc buffer_size \<and> last (message_frame m) = CHR 0x00"

lemma to_string_eq: "to_string m = (if frame_fits m then Inr (message_frame m) else Inl OutOfBoundsWrite)"
proof -
  let ?buf = "replicate buffer_size (CHR 0x00)" and ?n = "frame_length m"
  let ?seg = "int_bytes (cm_message_size m) @ frame_tail m"
  have n: "27 \<le> ?n" by (simp add: frame_length_def)
  have len: "length ?seg = ?n" using n by (simp add: length_frame_tail)
  have max: "length ?buf < int_max" by (simp add: buffer_size_def int_max_def)
  have tail: "frame_tail m \<noteq> []" by (simp add: frame_tail_def)
  have patch: "set_int_at (int_bytes (cm_message_size m) @ r) 0 v = Inr (int_bytes v @ r)"
    if "length r \<le> buffer_size" for r v
  proof -
    have "length (int_bytes (cm_message_size m) @ r) \<le> int_max"
      using that by (simp add: buffer_size_def int_max_def)
    from write_chars_fit [OF this, of 0 "int_bytes v"] show ?thesis
      by (simp add: set_int_at_def set_int_write_chars)
  qed
  consider "?n \<le> buffer_size" | "?n = Suc buffer_size" | "Suc buffer_size < ?n" by linarith
  then show ?thesis
  proof cases
    case 1
    then have "write_chars ?buf 0 ?seg = Inr (?seg @ drop ?n ?buf, ?n)"
      using write_chars_fit [of ?buf 0 ?seg] max len by simp
    moreover have "length (frame_tail m @ drop ?n ?buf) \<le> buffer_size"
      using 1 n by (simp add: length_frame_tail)
    ultimately have "to_cstring m ?buf 0 = Inr (message_frame m @ drop ?n ?buf, ?n)"
      using patch [of "frame_tail m @ drop ?n ?buf"] by (simp add: to_cstring_segments message_frame_def)
    moreover have "take ?n (message_frame m @ drop ?n ?buf) = message_frame m"
      by (simp add: take_replace)
    ultimately show ?thesis using 1 by (simp add: to_string_def frame_fits_def)
  next
    case 2
    have w: "write_chars ?buf 0 ?seg =
        (if last (message_frame m) = CHR 0x00 then Inr (butlast ?seg, ?n) else Inl OutOfBoundsWrite)"
      using write_chars_edge [of ?buf 0 ?seg] max len 2 tail by (simp add: message_frame_def)
    have "butlast ?seg = int_bytes (cm_message_size m) @ butlast (frame_tail m)"
      using tail by (simp add: butlast_append)
    moreover have "length (butlast (frame_tail m)) \<le> buffer_size" using 2 by (simp add: length_frame_tail)
    ultimately have "set_int_at (butlast ?seg) 0 (of_nat ?n - 4) = Inr (butlast (message_frame m))"
      using patch [of "butlast (frame_tail m)" "of_nat ?n - 4"] tail
      by (simp add: message_frame_def butlast_append)
    with w have "to_cstring m ?buf 0 =
        (if last (message_frame m) = CHR 0x00 then Inr (butlast (message_frame m), ?n) else Inl OutOfBoundsWrite)"
      by (simp add: to_cstring_segments)
    moreover have "message_frame m \<noteq> []" using n by (metis length_message_frame list.size(3) not_numeral_le_zero)
    then have "butlast (message_frame m) @ [CHR 0x00] = message_frame m" if "last (message_frame m) = CHR 0x00"
      using that by (metis append_butlast_last_id)
    ultimately show ?thesis using 2 by (simp add: to_string_def frame_fits_def)
  next
    case 3
    then have "write_chars ?buf 0 ?seg = Inl OutOfBoundsWrite"
      using write_chars_past [of 0 ?buf ?seg] max len by simp
    with 3 show ?thesis by (simp add: to_string_def to_cstring_segments frame_fits_def)
  qed
qed

lemma frame_fits_length: "frame_length m \<le> buffer_size \<Longrightarrow> frame_fits m"
  by (simp add: frame_fits_def)

lemma frame_fits_bodyless:
  "\<forall>b. cm_reply m \<noteq> AnyString b \<Longrightarrow> frame_fits m \<longleftrightarrow> frame_length m \<le> buffer_size"
  by (simp add: frame_fits_def last_message_frame)

lemma message_frame_wire:
  assumes "cm_reply m = AnyString b"
  shows "message_frame m =
    wire_frame (of_nat (frame_length m) - 4) (int_to_char 1) (int_to_char 9) (int_to_char 0)
      (cm_replay m) (cm_address m) (cm_port m) (cm_host m) 4 b"
  by (simp add: message_frame_def frame_tail_def wire_frame_def assms)

lemma message_frame_head:
  assumes "\<forall>b. cm_reply m \<noteq> AnyString b"
  shows "message_frame m =
    wire_head (of_nat (frame_length m) - 4) (int_to_char 1) (int_to_char 9) (int_to_char 0)
      (cm_replay m) (cm_address m) (cm_port m) (cm_host m) 4"
  using assms by (cases "cm_reply m") (simp_all add: message_frame_def frame_tail_def wire_head_def)

section \<open>The contract of a codec\<close>

text \<open>
  What a sender and a receiver of frames rely on: a message that can be sent is encoded,
  and decoding what was sent, whatever the stream holds behind it, gives the view the
  receiver has of the message.
\<close>

locale wire_codec =
  fixes enc :: "'m \<Rightarrow> string result"
    and dec :: "string \<Rightarrow> 'n result"
    and sendable :: "'m \<Rightarrow> bool"
    and view :: "'m \<Rightarrow> 'n"
  assumes enc_ok: "sendable m \<Longrightarrow> \<exists>s. enc m = Inr s"
    and dec_enc: "sendable m \<Longrightarrow> enc m = Inr s \<Longrightarrow> dec (s @ rest) = Inr (view m)"
begin

lemma transmit: "sendable m \<Longrightarrow> rbind (enc m) (\<lambda>s. dec (s @ rest)) = Inr (view m)"
  using enc_ok [of m] dec_enc [of m] by auto

lemma transmit_alone: "sendable m \<Longrightarrow> rbind (enc m) dec = Inr (view m)"
  using transmit [of m "[]"] by simp

lemma enc_view_inject:
  "sendable m \<Longrightarrow> sendable m' \<Longrightarrow> enc m = enc m' \<Longrightarrow> view m = view m'"
  using enc_ok [of m] dec_enc [of m _ "[]"] dec_enc [of m' _ "[]"] by auto

text \<open>No frame is a proper prefix of a frame with another content.\<close>

lemma prefix_free:
  assumes "sendable m" "sendable m'" "enc m = Inr s" "enc m' = Inr (s @ t)"
  shows "view m = view m'"
  using dec_enc [OF assms(1,3), of t] dec_enc [OF assms(2,4), of "[]"] by simp

text \<open>Of several frames in one buffer the decoder sees the first.\<close>

lemma batch_first:
  assumes "sendable m" "enc m = Inr s" "enc m' = Inr s'"
  shows "dec (s @ s') = dec s"
  using dec_enc [OF assms(1,2), of s'] dec_enc [OF assms(1,2), of "[]"] by simp

end

definition sendable_message :: "clustered_message \<Rightarrow> bool" where
  "sendable_message m \<longleftrightarrow>
     (case cm_reply m of AnyString _ \<Rightarrow> frame_length m \<le> buffer_size | _ \<Rightarrow> False)"

definition received_message :: "bool \<Rightarrow> clustered_message \<Rightarrow> clustered_message" where
  "received_message req m =
     setRequest req
       (ClusteredMessage (of_nat (frame_length m) - 4) 1 9 True (cm_replay m) (cm_address m)
          (cm_port m) (cm_host m) 4 (AnyString (replyAsString m)))"

lemma char_to_int_header [simp]:
  "char_to_int (int_to_char 1) = 1" "char_to_int (int_to_char 9) = 9"
  "char_to_int (int_to_char 0) = 0"
  by (simp_all add: char_to_int_def int_to_char_def of_char_nat_word [where 'a = "8 word"])

lemma frame_length_bound: "frame_length m \<le> buffer_size \<Longrightarrow> frame_length m < int_max"
  by (simp add: buffer_size_def int_max_def)

lemma decode_sent:
  assumes "sendable_message m" and "to_string m = Inr s"
  shows "to_message (s @ rest) req = Inr (received_message req m)"
proof -
  from assms(1) obtain b where b: "cm_reply m = AnyString b" and n: "frame_length m \<le> buffer_size"
    by (auto simp: sendable_message_def split: any_val.splits)
  from assms(2) n have "s = message_frame m" by (simp add: to_string_eq frame_fits_length)
  moreover have "31 + length (cm_replay m) + length (cm_address m) + length (cm_host m) + length b
      \<le> int_max"
    using frame_length_bound [OF n] by (simp add: frame_length_def b)
  ultimately show ?thesis
    by (simp add: message_frame_wire [OF b] to_message_frame decoded_frame_def received_message_def
        replyAsString_def b)
qed

interpretation message_codec: wire_codec to_string "\<lambda>s. to_message s req" sendable_message
  "received_message req" for req
  by unfold_locales
     (auto simp: decode_sent to_string_eq frame_fits_length sendable_message_def split: any_val.splits)

section \<open>Properties\<close>

text \<open>
  C2. \<open>to_string\<close> returns exactly the frame of the message, its length patched into the
  first four bytes, when the frame fits the 2048 bytes of its buffer, or has one byte more and
  that byte, the last one of the body or of its length, is the NUL that may stand behind a
  string. Otherwise it writes past the buffer: there is no third outcome and no truncation.
\<close>

theorem to_string_outcome:
  "to_string m =
     (let bytes = 27 + length (cm_replay m) + length (cm_address m) + length (cm_host m) +
            (case cm_reply m of AnyString b \<Rightarrow> 4 + length b | _ \<Rightarrow> 0)
      in if bytes \<le> 2048 \<or>
            bytes = 2049 \<and> (\<exists>b. cm_reply m = AnyString b \<and> (b = [] \<or> last b = CHR 0x00))
         then Inr (message_frame m) else Inl OutOfBoundsWrite)"
proof -
  have "frame_length m = 27 + length (cm_replay m) + length (cm_address m) + length (cm_host m) +
      (case cm_reply m of AnyString b \<Rightarrow> 4 + length b | _ \<Rightarrow> 0)"
    by (cases "cm_reply m") (simp_all add: frame_length_def)
  then show ?thesis unfolding Let_def by (simp add: to_string_eq frame_fits_def last_message_frame buffer_size_def)
qed

text \<open>
  C1. Decoding what was encoded gives the message back, with the reply address and the
  address exchanged and the body taken from the reply, whatever the stream holds behind
  the frame.
\<close>

theorem message_roundtrip:
  assumes "cm_reply m = AnyString b" and "frame_length m \<le> buffer_size"
  shows "rbind (to_string m) (\<lambda>s. to_message (s @ rest) req) =
    Inr (setRequest req
      (ClusteredMessage (of_nat (frame_length m) - 4) 1 9 True (cm_replay m) (cm_address m)
         (cm_port m) (cm_host m) 4 (AnyString b)))"
  using message_codec.transmit [of m rest req] assms
  by (simp add: sendable_message_def received_message_def replyAsString_def)

definition example_message :: clustered_message where
  "example_message = set_reply (AnyString ''hi'')
     (ClusteredMessage 0 1 9 True ''reply'' ''addr'' 8080 ''h'' 4 AnyNone)"

theorem message_roundtrip_witness:
  "rbind (to_string example_message) (\<lambda>s. to_message (s @ ''xyz'') False) =
    Inr (setRequest False
      (ClusteredMessage (of_nat (frame_length example_message) - 4) 1 9 True ''addr'' ''reply''
         8080 ''h'' 4 (AnyString ''hi'')))"
  using message_roundtrip [of example_message "''hi''" "''xyz''" False]
  by (simp add: example_message_def set_reply_def ClusteredMessage_def frame_length_def
      buffer_size_def)

text \<open>
  A message whose reply is not a \<open>std::string\<close> is encoded without a body, and the
  program's own decoder, given that frame, reads past its end.
\<close>

theorem bodyless_frame_overread:
  assumes "\<forall>b. cm_reply m \<noteq> AnyString b" and "frame_length m \<le> buffer_size"
  shows "rbind (to_string m) (\<lambda>s. to_message s req) = Inl OutOfBoundsRead"
proof -
  have "27 + length (cm_replay m) + length (cm_address m) + length (cm_host m) < int_max"
    using frame_length_bound [OF assms(2)] by (simp add: frame_length_def)
  with assms(2) show ?thesis
    by (simp add: to_string_eq frame_fits_length message_frame_head [OF assms(1)] to_message_no_body)
qed

theorem bodyless_frame_overread_witness:
  "rbind (to_string (ClusteredMessage 0 1 9 True ''r'' ''a'' 1 ''h'' 4 (AnyString ''x'')))
     (\<lambda>s. to_message s True) = Inl OutOfBoundsRead"
  by (rule bodyless_frame_overread) (simp_all add: ClusteredMessage_def frame_length_def buffer_size_def)

text \<open>
  The decoder on any well-framed input: the fields come back, and nothing behind the
  frame is looked at.
\<close>

theorem decode_wire_frame:
  assumes "31 + length addr + length rep + length hst + length bdy \<le> int_max"
  shows "to_message (wire_frame sz ver codec sb addr rep prt hst hdrs bdy @ rest) req =
    Inr (setRequest req
      (ClusteredMessage sz (char_to_int ver) (char_to_int codec) (char_to_int sb = 0)
         addr rep prt hst hdrs (AnyString bdy)))"
  using to_message_frame [OF assms] by (simp add: decoded_frame_def)

theorem decode_wire_frame_witness:
  "to_message (wire_frame 40 (CHR 0x01) (CHR 0x09) (CHR 0x00) ''news'' ''r1'' 80 ''h'' 4 ''hello'' @ ''zz'')
     False =
   Inr (setRequest False
     (ClusteredMessage 40 (char_to_int (CHR 0x01)) (char_to_int (CHR 0x09))
        (char_to_int (CHR 0x00) = 0) ''news'' ''r1'' 80 ''h'' 4 (AnyString ''hello'')))"
  by (rule decode_wire_frame) (simp add: int_max_def)

text \<open>
  C18. A decoding that succeeds has read nothing beyond the input and its terminator: the
  fixed fields and every string returned fit in it. An input of fewer than 30 bytes is
  never decoded.
\<close>

theorem decode_within_input:
  assumes "to_message s req = Inr m"
  shows "30 + length (getAddress m) + length (getReplay m) + length (getHost m) +
    length (bodyAsString m) \<le> length s"
  using to_message_consumes [OF assms] by (simp add: getAddress_def getReplay_def getHost_def)

theorem decode_within_input_witness:
  "to_message (wire_frame 0 (CHR 0x01) (CHR 0x09) (CHR 0x00) ''a'' ''r'' 80 ''h'' 4 ''b'') False =
     Inr (setRequest False (decoded_frame 0 (CHR 0x01) (CHR 0x09) (CHR 0x00) ''a'' ''r'' 80 ''h'' 4 ''b''))
   \<and> 34 \<le> length (wire_frame 0 (CHR 0x01) (CHR 0x09) (CHR 0x00) ''a'' ''r'' 80 ''h'' 4 ''b'')"
proof -
  have ok: "to_message (wire_frame 0 (CHR 0x01) (CHR 0x09) (CHR 0x00) ''a'' ''r'' 80 ''h'' 4 ''b'') False =
     Inr (setRequest False (decoded_frame 0 (CHR 0x01) (CHR 0x09) (CHR 0x00) ''a'' ''r'' 80 ''h'' 4 ''b''))"
    using to_message_frame [of "''a''" "''r''" "''h''" "''b''" _ _ _ _ _ _ "[]"]
    by (simp add: int_max_def)
  with decode_within_input [OF ok] show ?thesis
    by (simp add: message_defs decoded_frame_def ClusteredMessage_def)
qed

text \<open>
  The five decoders of the header are one function: they agree on every input, up to
  the \<open>request\<close> flag that only two of them set.
\<close>

theorem decoders_agree:
  "to_message_rref = to_message \<and>
   ClusteredMessage_to_message = to_message_plain \<and>
   ClusteredMessage_to_message_rref = to_message_plain \<and>
   to_message msg req = rbind (to_message_plain msg) (\<lambda>m. Inr (setRequest req m))"
  using to_message_rref_eq member_to_message_eq to_message_via_plain by blast

end
