(* ===== verification/Cxx_Map.thy ===== *)
theory Cxx_Map imports Prelude begin

text \<open>
  The associative containers of the standard library as maps, with the operations the
  program calls (\<open>emplace\<close>, \<open>operator[]\<close>, \<open>at\<close>, \<open>erase\<close>), the monad of actions that
  change a state and may throw, and the contract \<open>keyed_store\<close> of every table of the
  program in which the first registration of a key is the one that stays.
\<close>

section \<open>Containers\<close>

definition emplace :: "'k \<Rightarrow> 'v \<Rightarrow> ('k \<rightharpoonup> 'v) \<Rightarrow> ('k \<rightharpoonup> 'v)" where
  "emplace k v m = (case m k of None \<Rightarrow> m(k \<mapsto> v) | Some _ \<Rightarrow> m)"

text \<open>\<open>m[k]\<close>: a missing key is inserted with the default value.\<close>

definition map_index :: "'v \<Rightarrow> 'k \<Rightarrow> ('k \<rightharpoonup> 'v) \<Rightarrow> 'v \<times> ('k \<rightharpoonup> 'v)" where
  "map_index d k m = (case m k of None \<Rightarrow> (d, m(k \<mapsto> d)) | Some v \<Rightarrow> (v, m))"

definition map_at :: "'k \<Rightarrow> ('k \<rightharpoonup> 'v) \<Rightarrow> 'v result" where
  "map_at k m = (case m k of None \<Rightarrow> Inl StdOutOfRange | Some v \<Rightarrow> Inr v)"

definition erase :: "'k \<Rightarrow> ('k \<rightharpoonup> 'v) \<Rightarrow> ('k \<rightharpoonup> 'v)" where
  "erase k m = m(k := None)"

lemma emplace_new: "m k = None \<Longrightarrow> emplace k v m = m(k \<mapsto> v)"
  by (simp add: emplace_def)

lemma emplace_old: "m k = Some w \<Longrightarrow> emplace k v m = m"
  by (simp add: emplace_def)

lemma emplace_apply: "emplace k v m j = (if j = k \<and> m k = None then Some v else m j)"
  by (auto simp: emplace_def split: option.split)

lemma emplace_other [simp]: "j \<noteq> k \<Longrightarrow> emplace k v m j = m j"
  by (simp add: emplace_apply)

lemma erase_apply [simp]: "erase k m j = (if j = k then None else m j)"
  by (simp add: erase_def)

lemma map_index_Some: "m k = Some v \<Longrightarrow> map_index d k m = (v, m)"
  by (simp add: map_index_def)

lemma map_index_None: "m k = None \<Longrightarrow> map_index d k m = (d, m(k \<mapsto> d))"
  by (simp add: map_index_def)

lemma erase_emplace_new: "m k = None \<Longrightarrow> erase k (emplace k v m) = m"
  by (rule ext) (simp add: emplace_apply)

section \<open>Actions\<close>

text \<open>
  An action takes the state and returns a value or an error, and the state it leaves: an
  exception does not undo what was done before it.
\<close>

type_synonym ('s, 'a) action = "'s \<Rightarrow> 'a result \<times> 's"

definition abind :: "('s, 'a) action \<Rightarrow> ('a \<Rightarrow> ('s, 'b) action) \<Rightarrow> ('s, 'b) action" where
  "abind a f s = (case a s of (Inl e, s) \<Rightarrow> (Inl e, s) | (Inr x, s) \<Rightarrow> f x s)"

definition areturn :: "'a \<Rightarrow> ('s, 'a) action" where
  "areturn x s = (Inr x, s)"

definition alift :: "'a result \<Rightarrow> ('s, 'a) action" where
  "alift r s = (r, s)"

definition amodify :: "('s \<Rightarrow> 's) \<Rightarrow> ('s, unit) action" where
  "amodify f s = (Inr (), f s)"

lemma abind_Inr [simp, result_simps]: "a s = (Inr x, t) \<Longrightarrow> abind a f s = f x t"
  by (simp add: abind_def)

lemma abind_Inl [simp, result_simps]: "a s = (Inl e, t) \<Longrightarrow> abind a f s = (Inl e, t)"
  by (simp add: abind_def)

lemma areturn_apply [simp, result_simps]: "areturn x s = (Inr x, s)"
  by (simp add: areturn_def)

lemma alift_apply [simp, result_simps]: "alift r s = (r, s)"
  by (simp add: alift_def)

lemma amodify_apply [simp, result_simps]: "amodify f s = (Inr (), f s)"
  by (simp add: amodify_def)

lemma abind_alift_Inr [simp]: "abind (alift (Inr x)) f = f x"
  by (rule ext) simp

lemma abind_alift_Inl [simp]: "abind (alift (Inl e)) f = alift (Inl e)"
  by (rule ext) simp

lemma abind_areturn [simp]: "abind (areturn x) f = f x"
  by (rule ext) simp

lemma snd_abind:
  "snd (abind a f s) = (case a s of (Inl e, t) \<Rightarrow> t | (Inr x, t) \<Rightarrow> snd (f x t))"
  by (simp add: abind_def split: prod.split sum.split)

text \<open>A property of states that every part of a sequence keeps, the sequence keeps.\<close>

definition keeps :: "('s \<Rightarrow> bool) \<Rightarrow> ('s, 'a) action \<Rightarrow> bool" where
  "keeps P a \<longleftrightarrow> (\<forall>s. P s \<longrightarrow> P (snd (a s)))"

lemma keepsI: "(\<And>s. P s \<Longrightarrow> P (snd (a s))) \<Longrightarrow> keeps P a"
  by (simp add: keeps_def)

lemma keepsD: "keeps P a \<Longrightarrow> P s \<Longrightarrow> P (snd (a s))"
  by (simp add: keeps_def)

lemma keeps_abind [intro]: "keeps P a \<Longrightarrow> (\<And>x. keeps P (f x)) \<Longrightarrow> keeps P (abind a f)"
  unfolding keeps_def snd_abind by (fastforce split: prod.split sum.split)

lemma keeps_areturn [simp, intro]: "keeps P (areturn x)"
  by (simp add: keeps_def)

lemma keeps_alift [simp, intro]: "keeps P (alift r)"
  by (simp add: keeps_def)

lemma keeps_amodify [intro]: "(\<And>s. P s \<Longrightarrow> P (f s)) \<Longrightarrow> keeps P (amodify f)"
  by (simp add: keeps_def)

lemma keeps_if [intro]: "keeps P a \<Longrightarrow> keeps P b \<Longrightarrow> keeps P (if c then a else b)"
  by simp

lemma keeps_read [intro]: "(\<And>s. P s \<Longrightarrow> keeps P (f s)) \<Longrightarrow> keeps P (\<lambda>s. f s s)"
  by (simp add: keeps_def)

section \<open>Tables in which the first registration stays\<close>

locale keyed_store =
  fixes lookup :: "'s \<Rightarrow> 'k \<Rightarrow> 'v option"
    and add :: "'k \<Rightarrow> 'v \<Rightarrow> 's \<Rightarrow> 's"
  assumes add_new: "lookup s k = None \<Longrightarrow> lookup (add k v s) k = Some v"
    and add_old: "lookup s k = Some w \<Longrightarrow> lookup (add k v s) k = Some w"
    and add_other: "j \<noteq> k \<Longrightarrow> lookup (add k v s) j = lookup s j"
begin

lemma lookup_add:
  "lookup (add k v s) j = (if j = k \<and> lookup s k = None then Some v else lookup s j)"
  by (cases "j = k"; cases "lookup s k") (simp_all add: add_new add_old add_other)

lemma lookup_add_all:
  "lookup (fold (\<lambda>(k, v). add k v) xs s) j =
     (case lookup s j of Some v \<Rightarrow> Some v | None \<Rightarrow> map_of xs j)"
proof (induction xs arbitrary: s)
  case Nil
  show ?case by (simp split: option.split)
next
  case (Cons x xs)
  obtain k v where x: "x = (k, v)" by (cases x)
  from Cons [of "add k v s"] show ?case
    by (auto simp: x lookup_add split: option.splits)
qed

text \<open>A key that is taken keeps its value through any later registrations.\<close>

lemma first_wins:
  "lookup s k = Some v \<Longrightarrow> lookup (fold (\<lambda>(k, v). add k v) xs s) k = Some v"
  by (simp add: lookup_add_all)

lemma registered_stays:
  "lookup s k \<noteq> None \<Longrightarrow> lookup (add j v s) k = lookup s k"
  by (auto simp: lookup_add)

end

interpretation unordered_map: keyed_store "\<lambda>m. m" emplace
  by unfold_locales (simp_all add: emplace_apply)

end
