(* ===== verification/Event_Bus.thy ===== *)
theory Event_Bus imports Message_Codec Cxx_Map begin

text \<open>
  What \<open>event_bus.hpp\<close> and \<open>event_bus_hazeclast.hpp\<close> have in common: the options, the
  tables of consumers, pending replies and connections, the dispatch of a message
  (\<open>processOnTcpMessage\<close>), the sending of a frame (\<open>processStringMessage\<close>), the intake of
  bytes (\<open>onMessage\<close>), and the life of a client connection.

  The event loops and the TCP library are not part of the program. A lambda handed to an
  event loop is an element of \<open>bus_tasks\<close>, run as one step; an asynchronous connection
  is an element of \<open>bus_connects\<close> until its thread runs. What the bus does to the outside
  is the trace of effects. The user's callbacks are an argument \<open>cb\<close>: what the callback
  of a given number does to the message it is passed; the hash of \<open>std::hash\<close> is the
  argument \<open>hsh\<close>.
\<close>

section \<open>Options\<close>

record event_bus_options =
  eo_eventBusPoolSize :: int32
  eo_host :: string
  eo_port :: int32

text \<open>The port has no initialiser in the constructor: it is an argument here.\<close>

definition EventBusOptions :: "int32 \<Rightarrow> int32 \<Rightarrow> event_bus_options" where
  "EventBusOptions hardware_concurrency indeterminate =
     \<lparr>eo_eventBusPoolSize = hardware_concurrency, eo_host = [], eo_port = indeterminate\<rparr>"

definition getEventBusPoolSize :: "event_bus_options \<Rightarrow> int32" where
  "getEventBusPoolSize opts = eo_eventBusPoolSize opts"

definition options_getHost :: "event_bus_options \<Rightarrow> string" where
  "options_getHost opts = eo_host opts"

definition options_getPort :: "event_bus_options \<Rightarrow> int32" where
  "options_getPort opts = eo_port opts"

definition setEventBusPoolSize :: "int32 \<Rightarrow> event_bus_options \<Rightarrow> event_bus_options" where
  "setEventBusPoolSize n opts = opts\<lparr>eo_eventBusPoolSize := n\<rparr>"

definition options_setHost :: "string \<Rightarrow> event_bus_options \<Rightarrow> event_bus_options" where
  "options_setHost h opts = opts\<lparr>eo_host := h\<rparr>"

definition options_setPort :: "int32 \<Rightarrow> event_bus_options \<Rightarrow> event_bus_options" where
  "options_setPort p opts = opts\<lparr>eo_port := p\<rparr>"

section \<open>The state of a bus\<close>

text \<open>A \<open>TCPClient\<close>: its target, the message its connection callback sends, and whether it has a connection.\<close>

record client =
  cl_addr :: string
  cl_message :: string
  cl_conn :: bool

datatype task = RequestTask string any_val callback | MessageTask string

datatype connect = Connect uint64 string string

datatype bus_effect =
    Invoked nat clustered_message
  | ConnSend string
  | BufferReset
  | ClientConnect string
  | ClientSend string string

record bus =
  bus_options :: event_bus_options
  bus_consumers :: "string \<rightharpoonup> callback"
  bus_consumersLocal :: "string \<rightharpoonup> callback"
  bus_publishers :: "string \<rightharpoonup> callback"
  bus_endpoints :: "uint64 \<rightharpoonup> nat"
  bus_clients :: "client list"
  bus_tasks :: "task list"
  bus_connects :: "connect list"
  bus_trace :: "bus_effect list"

type_synonym user_code = "nat \<Rightarrow> clustered_message \<Rightarrow> clustered_message"

definition emit :: "bus_effect \<Rightarrow> ('z bus_scheme, unit) action" where
  "emit e = amodify (\<lambda>st. st\<lparr>bus_trace := bus_trace st @ [e]\<rparr>)"

text \<open>Calling a \<open>std::function\<close>: an empty one throws \<open>bad_function_call\<close>.\<close>

fun invoke :: "user_code \<Rightarrow> callback \<Rightarrow> clustered_message \<Rightarrow> ('z bus_scheme, clustered_message) action" where
  "invoke cb EmptyFunction m = alift (Inl BadFunctionCall)"
| "invoke cb (Callback n) m = abind (emit (Invoked n m)) (\<lambda>_. areturn (cb n m))"

text \<open>\<open>_consumers[key]\<close> and \<open>_publishers[key]\<close>\<close>

definition consumers_index :: "string \<Rightarrow> ('z bus_scheme, callback) action" where
  "consumers_index key st =
     (let (f, m) = map_index EmptyFunction key (bus_consumers st)
      in (Inr f, st\<lparr>bus_consumers := m\<rparr>))"

definition publishers_index :: "string \<Rightarrow> ('z bus_scheme, callback) action" where
  "publishers_index key st =
     (let (f, m) = map_index EmptyFunction key (bus_publishers st)
      in (Inr f, st\<lparr>bus_publishers := m\<rparr>))"

definition publishers_erase :: "string \<Rightarrow> ('z bus_scheme, unit) action" where
  "publishers_erase key = amodify (\<lambda>st. st\<lparr>bus_publishers := erase key (bus_publishers st)\<rparr>)"

section \<open>Sending a frame\<close>

definition processStringMessage ::
  "(string \<Rightarrow> uint64) \<Rightarrow> string \<Rightarrow> string \<Rightarrow> ('z bus_scheme, unit) action" where
  "processStringMessage hsh message_str addr st =
     (let h = hsh addr in
      case bus_endpoints st h of
        None \<Rightarrow> (Inr (), st\<lparr>bus_connects := bus_connects st @ [Connect h addr message_str]\<rparr>)
      | Some i \<Rightarrow>
          (if i < length (bus_clients st) \<and> cl_conn (bus_clients st ! i)
           then emit (ClientSend (cl_addr (bus_clients st ! i)) message_str) st
           else (Inl NullDereference, st)))"

text \<open>The body of the asynchronous connection.\<close>

fun run_connect :: "connect \<Rightarrow> ('z bus_scheme, unit) action" where
  "run_connect (Connect h addr message_str) =
     abind (amodify (\<lambda>st. st\<lparr>bus_clients := bus_clients st @ [\<lparr>cl_addr = addr, cl_message = message_str, cl_conn = False\<rparr>]\<rparr>)) (\<lambda>_.
     abind (emit (ClientConnect addr)) (\<lambda>_.
       amodify (\<lambda>st. st\<lparr>bus_endpoints := emplace h (length (bus_clients st) - 1) (bus_endpoints st)\<rparr>)))"

text \<open>The connection callback: connected, the client sends its message; disconnected, it does nothing.\<close>

definition client_connected :: "nat \<Rightarrow> ('z bus_scheme, unit) action" where
  "client_connected i st =
     (if i < length (bus_clients st) then
        (let c = bus_clients st ! i in
         emit (ClientSend (cl_addr c) (cl_message c))
           (st\<lparr>bus_clients := (bus_clients st)[i := c\<lparr>cl_conn := True\<rparr>]\<rparr>))
      else (Inr (), st))"

definition client_disconnected :: "nat \<Rightarrow> ('z bus_scheme, unit) action" where
  "client_disconnected i st =
     (if i < length (bus_clients st) then
        (Inr (), st\<lparr>bus_clients := (bus_clients st)[i := (bus_clients st ! i)\<lparr>cl_conn := False\<rparr>]\<rparr>)
      else (Inr (), st))"

section \<open>Dispatching a message\<close>

definition message_addr :: "clustered_message \<Rightarrow> string" where
  "message_addr m = getHost m @ '':'' @ format_int (getPort m)"

text \<open>A request to a consumer of this process: handler, then reply callback.\<close>

definition local_request :: "user_code \<Rightarrow> clustered_message \<Rightarrow> ('z bus_scheme, unit) action" where
  "local_request cb m =
     abind (invoke cb (getFunc m) m) (\<lambda>m.
     abind (areturn (set_body (reply m) m)) (\<lambda>m.
     abind (invoke cb (getCallbackFunc m) m) (\<lambda>_. areturn ())))"

text \<open>A request whose server is this node itself.\<close>

definition self_request :: "user_code \<Rightarrow> clustered_message \<Rightarrow> ('z bus_scheme, unit) action" where
  "self_request cb m =
     abind (consumers_index (getReplay m)) (\<lambda>function_invoke.
     abind (invoke cb function_invoke m) (\<lambda>m st.
       (case bus_publishers st (getAddress m) of
          None \<Rightarrow> (Inr (), st)
        | Some callback \<Rightarrow>
            abind (invoke cb callback (set_body (reply m) m)) (\<lambda>_.
              publishers_erase (getAddress m)) st)))"

text \<open>A request for another node.\<close>

definition forward_request ::
  "(string \<Rightarrow> uint64) \<Rightarrow> string \<Rightarrow> clustered_message \<Rightarrow> ('z bus_scheme, unit) action" where
  "forward_request hsh addr m st =
     (let msg = setHost (eo_host (bus_options st)) (setPort (eo_port (bus_options st)) m)
      in abind (alift (to_string msg)) (\<lambda>message_str. processStringMessage hsh message_str addr) st)"

text \<open>The answer to a request this node made.\<close>

definition deliver_reply :: "user_code \<Rightarrow> clustered_message \<Rightarrow> ('z bus_scheme, unit) action" where
  "deliver_reply cb m =
     abind (publishers_index (getAddress m)) (\<lambda>response_invoke.
     abind (invoke cb response_invoke m) (\<lambda>_. publishers_erase (getAddress m)))"

text \<open>A request from another node.\<close>

definition serve_request ::
  "user_code \<Rightarrow> (string \<Rightarrow> uint64) \<Rightarrow> string \<Rightarrow> clustered_message \<Rightarrow> ('z bus_scheme, unit) action" where
  "serve_request cb hsh addr m =
     abind (consumers_index (getAddress m)) (\<lambda>function_invoke st.
       (let response = ClusteredMessage 0 1 9 True (getAddress m) (getReplay m)
              (eo_port (bus_options st)) (getHost m) 4 (AnyCString [])
        in abind (invoke cb function_invoke m) (\<lambda>_.
           abind (alift (to_string response)) (\<lambda>message_str.
             processStringMessage hsh message_str addr)) st))"

definition processOnTcpMessage ::
  "user_code \<Rightarrow> (string \<Rightarrow> uint64) \<Rightarrow> clustered_message \<Rightarrow> ('z bus_scheme, unit) action" where
  "processOnTcpMessage cb hsh m =
     (let addr = message_addr m in
      abind (alift (isRequest m)) (\<lambda>req st.
        if req then
          if isLocal m then local_request cb m st
          else if getHost m = eo_host (bus_options st) \<and> getPort m = eo_port (bus_options st)
          then self_request cb m st
          else forward_request hsh addr m st
        else if str_contains (getAddress m) ''__vertx.reply'' then deliver_reply cb m st
        else serve_request cb hsh addr m st))"

section \<open>Intake\<close>

definition onMessage :: "string \<Rightarrow> ('z bus_scheme, unit) action" where
  "onMessage request =
     (if str_contains request ''ping'' then
        abind (emit (ConnSend ''pong'')) (\<lambda>_. emit BufferReset)
      else
        abind (amodify (\<lambda>st. st\<lparr>bus_tasks := bus_tasks st @ [MessageTask request]\<rparr>)) (\<lambda>_.
        abind (emit (ConnSend [])) (\<lambda>_. emit BufferReset)))"

text \<open>The lambda \<open>onMessage\<close> queues.\<close>

definition run_message ::
  "user_code \<Rightarrow> (string \<Rightarrow> uint64) \<Rightarrow> string \<Rightarrow> ('z bus_scheme, unit) action" where
  "run_message cb hsh request =
     abind (alift (to_message request False)) (\<lambda>m. processOnTcpMessage cb hsh m)"

text \<open>Registrations, with \<open>emplace\<close>: an address that is taken keeps its consumer.\<close>

definition localConsumer :: "string \<Rightarrow> callback \<Rightarrow> 'z bus_scheme \<Rightarrow> 'z bus_scheme" where
  "localConsumer address f st =
     st\<lparr>bus_consumersLocal := emplace address f (bus_consumersLocal st)\<rparr>"

end
