(* ===== verification/Event_Bus_Facts.thy ===== *)
theory Event_Bus_Facts imports Event_Bus begin

text \<open>
  What the shared part of the two event buses does: each branch of the dispatcher on
  each outcome, the fate of the bytes that arrive, and where frames are sent.
\<close>

section \<open>Evaluating the actions\<close>

lemma emit_apply [simp, result_simps]:
  "emit e st = (Inr (), st\<lparr>bus_trace := bus_trace st @ [e]\<rparr>)"
  by (simp add: emit_def)

lemma invoke_Callback [simp, result_simps]:
  "invoke cb (Callback n) m st = (Inr (cb n m), st\<lparr>bus_trace := bus_trace st @ [Invoked n m]\<rparr>)"
  by simp

lemma consumers_index_Some:
  "bus_consumers st k = Some f \<Longrightarrow> consumers_index k st = (Inr f, st)"
  by (simp add: consumers_index_def map_index_Some)

lemma consumers_index_None:
  "bus_consumers st k = None \<Longrightarrow>
     consumers_index k st =
       (Inr EmptyFunction, st\<lparr>bus_consumers := (bus_consumers st)(k \<mapsto> EmptyFunction)\<rparr>)"
  by (simp add: consumers_index_def map_index_None)

lemma publishers_index_Some:
  "bus_publishers st k = Some f \<Longrightarrow> publishers_index k st = (Inr f, st)"
  by (simp add: publishers_index_def map_index_Some)

lemma publishers_index_None:
  "bus_publishers st k = None \<Longrightarrow>
     publishers_index k st =
       (Inr EmptyFunction, st\<lparr>bus_publishers := (bus_publishers st)(k \<mapsto> EmptyFunction)\<rparr>)"
  by (simp add: publishers_index_def map_index_None)

lemma publishers_erase_apply [simp]:
  "publishers_erase k st = (Inr (), st\<lparr>bus_publishers := erase k (bus_publishers st)\<rparr>)"
  by (simp add: publishers_erase_def)

section \<open>Messages from the wire\<close>

definition wire_message ::
  "int32 \<Rightarrow> string \<Rightarrow> string \<Rightarrow> int32 \<Rightarrow> string \<Rightarrow> string \<Rightarrow> clustered_message" where
  "wire_message sz addr rep prt hst bdy =
     setRequest False (ClusteredMessage sz 1 9 True addr rep prt hst 4 (AnyString bdy))"

definition request_frame ::
  "int32 \<Rightarrow> string \<Rightarrow> string \<Rightarrow> int32 \<Rightarrow> string \<Rightarrow> string \<Rightarrow> string" where
  "request_frame sz addr rep prt hst bdy =
     wire_frame sz (int_to_char 1) (int_to_char 9) (int_to_char 0) addr rep prt hst 4 bdy"

definition fits_int :: "string \<Rightarrow> string \<Rightarrow> string \<Rightarrow> string \<Rightarrow> bool" where
  "fits_int addr rep hst bdy \<longleftrightarrow>
     31 + length addr + length rep + length hst + length bdy \<le> int_max"

lemma to_message_request_frame:
  "fits_int addr rep hst bdy \<Longrightarrow>
     to_message (request_frame sz addr rep prt hst bdy @ rest) False =
       Inr (wire_message sz addr rep prt hst bdy)"
  by (simp add: request_frame_def wire_message_def to_message_frame decoded_frame_def fits_int_def)

lemma wire_message_fields [simp]:
  "isRequest (wire_message sz addr rep prt hst bdy) = Inr False"
  "getAddress (wire_message sz addr rep prt hst bdy) = addr"
  "getReplay (wire_message sz addr rep prt hst bdy) = rep"
  "getHost (wire_message sz addr rep prt hst bdy) = hst"
  "getPort (wire_message sz addr rep prt hst bdy) = prt"
  "message_addr (wire_message sz addr rep prt hst bdy) = hst @ '':'' @ format_int prt"
  by (simp_all add: wire_message_def isRequest_def message_defs ClusteredMessage_def message_addr_def)

lemma run_message_frame:
  "fits_int addr rep hst bdy \<Longrightarrow>
     run_message cb hsh (request_frame sz addr rep prt hst bdy @ rest) =
       processOnTcpMessage cb hsh (wire_message sz addr rep prt hst bdy)"
  by (rule ext) (simp add: run_message_def to_message_request_frame)

lemma process_reply:
  "str_contains addr ''__vertx.reply'' \<Longrightarrow>
     processOnTcpMessage cb hsh (wire_message sz addr rep prt hst bdy) =
       deliver_reply cb (wire_message sz addr rep prt hst bdy)"
  by (rule ext) (simp add: processOnTcpMessage_def Let_def)

lemma process_serve:
  "\<not> str_contains addr ''__vertx.reply'' \<Longrightarrow>
     processOnTcpMessage cb hsh (wire_message sz addr rep prt hst bdy) =
       serve_request cb hsh (hst @ '':'' @ format_int prt) (wire_message sz addr rep prt hst bdy)"
  by (rule ext) (simp add: processOnTcpMessage_def Let_def)

lemma serve_frame:
  assumes "fits_int addr rep hst bdy" and "\<not> str_contains addr ''__vertx.reply''"
  shows "run_message cb hsh (request_frame sz addr rep prt hst bdy) st =
    serve_request cb hsh (hst @ '':'' @ format_int prt) (wire_message sz addr rep prt hst bdy) st"
  by (simp only: run_message_frame [OF assms(1), where rest = "[]", unfolded append_Nil2]
      process_serve [OF assms(2)])

text \<open>The bytes of a response: the reply address first, then the consumer's address, no body.\<close>

definition response_frame :: "string \<Rightarrow> string \<Rightarrow> int32 \<Rightarrow> string \<Rightarrow> string" where
  "response_frame addr rep prt hst =
     wire_head (of_nat (27 + length rep + length addr + length hst) - 4)
       (int_to_char 1) (int_to_char 9) (int_to_char 0) rep addr prt hst 4"

lemma to_string_response:
  assumes "27 + length rep + length addr + length hst \<le> buffer_size"
  shows "to_string (ClusteredMessage 0 1 9 True addr rep prt hst 4 (AnyCString [])) =
    Inr (response_frame addr rep prt hst)"
proof -
  let ?m = "ClusteredMessage 0 1 9 True addr rep prt hst 4 (AnyCString [])"
  have n: "\<forall>b. cm_reply ?m \<noteq> AnyString b" by (simp add: ClusteredMessage_def)
  have l: "frame_length ?m = 27 + length rep + length addr + length hst"
    by (simp add: frame_length_def ClusteredMessage_def)
  show ?thesis using assms
    by (simp add: to_string_eq frame_fits_bodyless [OF n] message_frame_head [OF n] l response_frame_def)
       (simp add: ClusteredMessage_def)
qed

text \<open>What is decoded from the network is not a request of this process.\<close>

lemma to_message_no_request: "to_message s False = Inr m \<Longrightarrow> isRequest m = Inr False"
  by (auto simp: to_message_def rbind_eq_Inr setRequest_def isRequest_def)

section \<open>Where frames go\<close>

text \<open>
  A connection is filed under the hash of its address; every client a table entry names
  exists.
\<close>

definition routes_ok :: "(string \<Rightarrow> uint64) \<Rightarrow> 'z bus_scheme \<Rightarrow> bool" where
  "routes_ok hsh st \<longleftrightarrow>
     (\<forall>h i. bus_endpoints st h = Some i \<longrightarrow>
        i < length (bus_clients st) \<and> hsh (cl_addr (bus_clients st ! i)) = h) \<and>
     (\<forall>h a m. Connect h a m \<in> set (bus_connects st) \<longrightarrow> h = hsh a)"

text \<open>The fields \<open>routes_ok\<close> reads are left alone by most actions.\<close>

lemma routes_ok_cong:
  "bus_endpoints st' = bus_endpoints st \<Longrightarrow> bus_clients st' = bus_clients st \<Longrightarrow>
   bus_connects st' = bus_connects st \<Longrightarrow> routes_ok hsh st' \<longleftrightarrow> routes_ok hsh st"
  by (simp add: routes_ok_def)

lemma routes_ok_updates [simp]:
  "routes_ok hsh (st\<lparr>bus_trace := t\<rparr>) = routes_ok hsh st"
  "routes_ok hsh (st\<lparr>bus_tasks := ts\<rparr>) = routes_ok hsh st"
  "routes_ok hsh (st\<lparr>bus_consumers := c\<rparr>) = routes_ok hsh st"
  "routes_ok hsh (st\<lparr>bus_consumersLocal := c\<rparr>) = routes_ok hsh st"
  "routes_ok hsh (st\<lparr>bus_publishers := c\<rparr>) = routes_ok hsh st"
  by (simp_all add: routes_ok_def)

text \<open>
  What dispatching a message can do to a bus, one write at a time: a property of states
  that each of these writes keeps, the dispatcher keeps. The property may depend on what the
  frames are that leave: \<open>frame_ok\<close> holds of the response to a request of another node, and is
  asked of the frame of a request that is passed on.
\<close>

locale dispatch_invariant =
  fixes hsh :: "string \<Rightarrow> uint64" and inv :: "'z bus_scheme \<Rightarrow> bool" and frame_ok :: "string \<Rightarrow> bool"
  assumes emitting: "inv st \<Longrightarrow> (\<And>a s. e = ClientSend a s \<Longrightarrow> frame_ok s) \<Longrightarrow>
      inv (st\<lparr>bus_trace := bus_trace st @ [e]\<rparr>)"
    and unknown_consumer: "inv st \<Longrightarrow> bus_consumers st k = None \<Longrightarrow>
      inv (st\<lparr>bus_consumers := (bus_consumers st)(k \<mapsto> EmptyFunction)\<rparr>)"
    and unknown_publisher: "inv st \<Longrightarrow> bus_publishers st k = None \<Longrightarrow> str_contains k ''__vertx.reply'' \<Longrightarrow>
      inv (st\<lparr>bus_publishers := (bus_publishers st)(k \<mapsto> EmptyFunction)\<rparr>)"
    and answered: "inv st \<Longrightarrow> inv (st\<lparr>bus_publishers := erase k (bus_publishers st)\<rparr>)"
    and connecting: "inv st \<Longrightarrow> frame_ok s \<Longrightarrow>
      inv (st\<lparr>bus_connects := bus_connects st @ [Connect (hsh a) a s]\<rparr>)"
    and response_ok: "to_string (ClusteredMessage 0 1 9 True addr rep prt hst 4 (AnyCString [])) = Inr s \<Longrightarrow>
      frame_ok s"
begin

lemma keeps_emit: "(\<And>a s. e = ClientSend a s \<Longrightarrow> frame_ok s) \<Longrightarrow> keeps inv (emit e)"
  by (simp add: keeps_def emitting)

lemma keeps_invoke: "keeps inv (invoke cb f m)"
  by (cases f) (auto simp: keeps_def intro: emitting)

lemma keeps_consumers_index: "keeps inv (consumers_index k)"
proof (rule keepsI)
  fix st
  assume "inv st"
  then show "inv (snd (consumers_index k st))"
    by (cases "bus_consumers st k")
       (simp_all add: consumers_index_None consumers_index_Some unknown_consumer)
qed

lemma keeps_publishers_index: "str_contains k ''__vertx.reply'' \<Longrightarrow> keeps inv (publishers_index k)"
proof (rule keepsI)
  fix st
  assume "inv st" "str_contains k ''__vertx.reply''"
  then show "inv (snd (publishers_index k st))"
    by (cases "bus_publishers st k")
       (simp_all add: publishers_index_None publishers_index_Some unknown_publisher)
qed

lemma keeps_erase: "keeps inv (publishers_erase k)"
  by (simp add: keeps_def answered)

lemma keeps_send:
  assumes "frame_ok s"
  shows "keeps inv (processStringMessage hsh s a)"
proof (rule keepsI)
  fix st
  assume "inv st"
  then show "inv (snd (processStringMessage hsh s a st))"
    using assms by (cases "bus_endpoints st (hsh a)")
       (auto simp: processStringMessage_def Let_def connecting intro: emitting)
qed

lemma keeps_local: "keeps inv (local_request cb m)"
  unfolding local_request_def by (intro keeps_abind keeps_invoke keeps_areturn)

lemma keeps_answer:
  "keeps inv (\<lambda>st. case bus_publishers st a of
      None \<Rightarrow> (Inr (), st)
    | Some callback \<Rightarrow> abind (invoke cb callback m) (\<lambda>_. publishers_erase a) st)"
proof (rule keepsI)
  fix st
  assume st: "inv st"
  have k: "keeps inv (abind (invoke cb f m) (\<lambda>_. publishers_erase a))" for f
    by (intro keeps_abind keeps_erase keeps_invoke)
  show "inv (snd (case bus_publishers st a of
        None \<Rightarrow> (Inr (), st)
      | Some callback \<Rightarrow> abind (invoke cb callback m) (\<lambda>_. publishers_erase a) st))"
    using st keepsD [OF k st] by (simp split: option.split)
qed

lemma keeps_self: "keeps inv (self_request cb m)"
  unfolding self_request_def
  by (intro keeps_abind keeps_consumers_index keeps_invoke keeps_answer)

lemma keeps_encode:
  "(\<And>s. to_string m = Inr s \<Longrightarrow> frame_ok s) \<Longrightarrow>
     keeps inv (abind (alift (to_string m)) (\<lambda>s. processStringMessage hsh s a))"
  by (cases "to_string m") (auto intro!: keepsI dest: keepsD [OF keeps_send])

lemma keeps_call:
  "(\<And>s. to_string m = Inr s \<Longrightarrow> frame_ok s) \<Longrightarrow>
     keeps inv (abind (invoke cb f m') (\<lambda>_.
       abind (alift (to_string m)) (\<lambda>s. processStringMessage hsh s a)))"
  by (intro keeps_abind keeps_invoke keeps_encode)

lemma keeps_forward:
  "(\<And>h p s. to_string (setHost h (setPort p m)) = Inr s \<Longrightarrow> frame_ok s) \<Longrightarrow>
     keeps inv (forward_request hsh a m)"
  by (rule keepsI) (simp add: forward_request_def Let_def keepsD [OF keeps_encode])

lemma keeps_deliver:
  "str_contains (getAddress m) ''__vertx.reply'' \<Longrightarrow> keeps inv (deliver_reply cb m)"
  unfolding deliver_reply_def
  by (intro keeps_abind keeps_publishers_index keeps_erase keeps_invoke)

lemma keeps_serve: "keeps inv (serve_request cb hsh a m)"
  unfolding serve_request_def Let_def
  by (intro keeps_abind keeps_consumers_index, rule keepsI)
     (simp add: keepsD [OF keeps_call [OF response_ok]])

lemma keeps_process:
  assumes "\<And>h p s. isRequest m = Inr True \<Longrightarrow> to_string (setHost h (setPort p m)) = Inr s \<Longrightarrow> frame_ok s"
  shows "keeps inv (processOnTcpMessage cb hsh m)"
proof (rule keepsI)
  fix st
  assume st: "inv st"
  note parts = keepsD [OF keeps_local st] keepsD [OF keeps_self st]
    keepsD [OF keeps_forward [OF assms] st] keepsD [OF keeps_deliver st] keepsD [OF keeps_serve st]
  show "inv (snd (processOnTcpMessage cb hsh m st))"
    by (cases "isRequest m") (simp_all add: processOnTcpMessage_def Let_def parts st)
qed

lemma keeps_message: "keeps inv (run_message cb hsh s)"
proof (cases "to_message s False")
  case (Inl e)
  then show ?thesis by (simp add: run_message_def keeps_def)
next
  case (Inr m)
  then have "isRequest m = Inr False" by (rule to_message_no_request)
  then have "keeps inv (processOnTcpMessage cb hsh m)" by (intro keeps_process) simp
  with Inr show ?thesis by (simp add: run_message_def keeps_def)
qed

end

interpretation routes: dispatch_invariant hsh "routes_ok hsh" "\<lambda>_. True" for hsh
  by unfold_locales (auto simp: routes_ok_def)

lemma keeps_routes_onMessage: "keeps (routes_ok hsh) (onMessage s)"
  by (auto simp: onMessage_def keeps_def)

lemma routes_run_connect:
  assumes "routes_ok hsh st" and "h = hsh a"
  shows "routes_ok hsh (snd (run_connect (Connect h a s) st))"
  using assms by (auto simp: routes_ok_def emplace_apply nth_append less_Suc_eq split: if_splits)

lemma routes_client [intro]:
  "keeps (routes_ok hsh) (client_connected i)" "keeps (routes_ok hsh) (client_disconnected i)"
  by (auto simp: keeps_def client_connected_def client_disconnected_def Let_def routes_ok_def
      nth_list_update split: if_splits)

lemma routes_remove_connect: "routes_ok hsh st \<Longrightarrow> routes_ok hsh (st\<lparr>bus_connects := remove1 c (bus_connects st)\<rparr>)"
  by (simp add: routes_ok_def) (metis notin_set_remove1)

text \<open>A frame handed to the sender goes out on a client of the same hash, or waits for a new one.\<close>

lemma send_outcome:
  assumes "routes_ok hsh st"
  shows "(\<exists>i. bus_endpoints st (hsh a) = Some i \<and> hsh (cl_addr (bus_clients st ! i)) = hsh a \<and>
            (if cl_conn (bus_clients st ! i)
             then processStringMessage hsh s a st =
               (Inr (), st\<lparr>bus_trace := bus_trace st @ [ClientSend (cl_addr (bus_clients st ! i)) s]\<rparr>)
             else processStringMessage hsh s a st = (Inl NullDereference, st))) \<or>
         (bus_endpoints st (hsh a) = None \<and>
            processStringMessage hsh s a st =
              (Inr (), st\<lparr>bus_connects := bus_connects st @ [Connect (hsh a) a s]\<rparr>))"
proof (cases "bus_endpoints st (hsh a)")
  case None
  then show ?thesis by (simp add: processStringMessage_def Let_def)
next
  case (Some i)
  with assms have "i < length (bus_clients st)" "hsh (cl_addr (bus_clients st ! i)) = hsh a"
    by (auto simp: routes_ok_def)
  with Some show ?thesis by (simp add: processStringMessage_def Let_def)
qed

section \<open>Frames that leave\<close>

text \<open>What a bus has sent, what a client holds to send when it is connected, and what waits for a client.\<close>

definition outgoing :: "'z bus_scheme \<Rightarrow> string set" where
  "outgoing st =
     {s. \<exists>h a. Connect h a s \<in> set (bus_connects st)} \<union> cl_message ` set (bus_clients st) \<union>
     {s. \<exists>a. ClientSend a s \<in> set (bus_trace st)}"

text \<open>A frame that no receiver can read.\<close>

definition unreadable :: "string \<Rightarrow> bool" where
  "unreadable s \<longleftrightarrow> (\<forall>req. to_message s req = Inl OutOfBoundsRead)"

lemma bodyless_unreadable:
  assumes "\<forall>b. cm_reply m \<noteq> AnyString b" and "to_string m = Inr s"
  shows "unreadable s"
proof -
  from assms have f: "frame_length m \<le> buffer_size" and s: "s = message_frame m"
    by (auto simp: to_string_eq frame_fits_bodyless [OF assms(1)] split: if_splits)
  then have "27 + length (cm_replay m) + length (cm_address m) + length (cm_host m) < int_max"
    using frame_length_bound [OF f] by (simp add: frame_length_def)
  then show ?thesis by (simp add: unreadable_def s message_frame_head [OF assms(1)] to_message_no_body)
qed

definition silent :: "'z bus_scheme \<Rightarrow> bool" where
  "silent st \<longleftrightarrow> (\<forall>s \<in> outgoing st. unreadable s)"

lemma silent_updates [simp]:
  "silent (st\<lparr>bus_tasks := ts\<rparr>) = silent st" "silent (st\<lparr>bus_consumers := c\<rparr>) = silent st"
  "silent (st\<lparr>bus_consumersLocal := c\<rparr>) = silent st" "silent (st\<lparr>bus_publishers := c\<rparr>) = silent st"
  by (simp_all add: silent_def outgoing_def)

interpretation silence: dispatch_invariant hsh silent unreadable for hsh
proof
  fix addr rep s and hst :: string and prt :: int32
  assume "to_string (ClusteredMessage 0 1 9 True addr rep prt hst 4 (AnyCString [])) = Inr s"
  then show "unreadable s" by (rule bodyless_unreadable [rotated]) (simp add: ClusteredMessage_def)
qed (auto simp: silent_def outgoing_def)

lemma silent_iff:
  "silent st \<longleftrightarrow>
     (\<forall>h a s. Connect h a s \<in> set (bus_connects st) \<longrightarrow> unreadable s) \<and>
     (\<forall>c \<in> set (bus_clients st). unreadable (cl_message c)) \<and>
     (\<forall>a s. ClientSend a s \<in> set (bus_trace st) \<longrightarrow> unreadable s)"
  by (auto simp: silent_def outgoing_def)

lemma silent_run_connect:
  assumes "silent st" and "c \<in> set (bus_connects st)"
  shows "silent (snd (run_connect c (st\<lparr>bus_connects := remove1 c (bus_connects st)\<rparr>)))"
  using assms
  by (cases c) (auto simp: silent_iff dest: subsetD [OF set_remove1_subset, THEN assms(1) [unfolded silent_iff,
      THEN conjunct1, rule_format]])

lemma silent_client:
  assumes "silent st"
  shows "silent (snd (client_connected i st))" and "silent (snd (client_disconnected i st))"
proof -
  have kept: "unreadable (cl_message x)"
    if "i < length (bus_clients st)" "x \<in> set ((bus_clients st)[i := c])"
      "cl_message c = cl_message (bus_clients st ! i)" for c x
    using that assms set_update_subset_insert [of "bus_clients st" i c] nth_mem [OF that(1)]
    by (auto simp: silent_iff)
  show "silent (snd (client_connected i st))" "silent (snd (client_disconnected i st))"
    using assms
    by (auto simp: silent_iff client_connected_def client_disconnected_def Let_def elim: kept)
qed

section \<open>Local requests\<close>

definition local_message :: "event_bus_options \<Rightarrow> string \<Rightarrow> any_val \<Rightarrow> callback \<Rightarrow> callback \<Rightarrow> clustered_message" where
  "local_message opts a v f g =
     setFunc f g (setRequest True (ClusteredMessage 0 1 9 True ''__vertx.reply.local'' a
       (eo_port opts) (eo_host opts) 4 v))"

lemma local_message_fields [simp]:
  "isRequest (local_message opts a v f g) = Inr True"
  "isLocal (local_message opts a v f g)"
  "getFunc (local_message opts a v f g) = f"
  "getCallbackFunc (local_message opts a v f g) = g"
  by (simp_all add: local_message_def message_defs isRequest_def)

lemma process_local_message:
  "processOnTcpMessage cb hsh (local_message opts a v f g) st =
     local_request cb (local_message opts a v f g) st"
  by (simp add: processOnTcpMessage_def Let_def)

text \<open>What a request to a consumer of the process does: two calls, in this order.\<close>

lemma local_request_calls:
  "getFunc m = Callback n \<Longrightarrow> getCallbackFunc (cb n m) = Callback k \<Longrightarrow>
     local_request cb m st =
       (Inr (), st\<lparr>bus_trace := bus_trace st @
          [Invoked n m, Invoked k (set_body (reply (cb n m)) (cb n m))]\<rparr>)"
  by (simp add: local_request_def message_defs)

lemma local_request_frame [frame_simps]:
  "bus_options (snd (local_request cb m st)) = bus_options st"
  "bus_consumers (snd (local_request cb m st)) = bus_consumers st"
  "bus_consumersLocal (snd (local_request cb m st)) = bus_consumersLocal st"
  "bus_publishers (snd (local_request cb m st)) = bus_publishers st"
  "bus_endpoints (snd (local_request cb m st)) = bus_endpoints st"
  "bus_clients (snd (local_request cb m st)) = bus_clients st"
  "bus_tasks (snd (local_request cb m st)) = bus_tasks st"
  "bus_connects (snd (local_request cb m st)) = bus_connects st"
  by (cases "getFunc m"; cases "getCallbackFunc (set_body (reply (cb (case getFunc m of Callback n \<Rightarrow> n | _ \<Rightarrow> 0) m)) (cb (case getFunc m of Callback n \<Rightarrow> n | _ \<Rightarrow> 0) m))";
      simp add: local_request_def)+

section \<open>Properties\<close>

definition idle_bus :: "string \<Rightarrow> int32 \<Rightarrow> bus" where
  "idle_bus h p =
     \<lparr>bus_options = \<lparr>eo_eventBusPoolSize = 1, eo_host = h, eo_port = p\<rparr>,
      bus_consumers = Map.empty, bus_consumersLocal = Map.empty, bus_publishers = Map.empty,
      bus_endpoints = Map.empty, bus_clients = [], bus_tasks = [], bus_connects = [],
      bus_trace = []\<rparr>"

lemma serve_request_served:
  assumes "fits_int addr rep hst bdy" and "\<not> str_contains addr ''__vertx.reply''"
    and "bus_consumers st addr = Some (Callback n)"
    and "27 + length rep + length addr + length hst \<le> buffer_size"
    and "bus_endpoints st (hsh (hst @ '':'' @ format_int prt)) = None"
  shows "run_message cb hsh (request_frame sz addr rep prt hst bdy @ rest) st =
    (Inr (), st\<lparr>bus_trace := bus_trace st @ [Invoked n (wire_message sz addr rep prt hst bdy)],
       bus_connects := bus_connects st @
         [Connect (hsh (hst @ '':'' @ format_int prt)) (hst @ '':'' @ format_int prt)
            (response_frame addr rep (eo_port (bus_options st)) hst)]\<rparr>)"
  using assms
  by (simp add: run_message_frame process_serve serve_request_def consumers_index_Some Let_def
      to_string_response processStringMessage_def)

text \<open>
  C7. A frame from another node for a registered consumer: the consumer is called once,
  with the decoded message, and the response (reply address first, no body whatever the
  consumer answered) is queued for a new connection to the host and port the frame
  names. Nothing else changes.
\<close>

theorem serve_registered_consumer:
  assumes "fits_int addr rep hst bdy" and "\<not> str_contains addr ''__vertx.reply''"
    and "bus_consumers st addr = Some (Callback n)"
    and "27 + length rep + length addr + length hst \<le> buffer_size"
    and "bus_endpoints st (hsh (hst @ '':'' @ format_int prt)) = None"
  shows "run_message cb hsh (request_frame sz addr rep prt hst bdy @ rest) st =
    (Inr (), st\<lparr>bus_trace := bus_trace st @ [Invoked n (wire_message sz addr rep prt hst bdy)],
       bus_connects := bus_connects st @
         [Connect (hsh (hst @ '':'' @ format_int prt)) (hst @ '':'' @ format_int prt)
            (response_frame addr rep (eo_port (bus_options st)) hst)]\<rparr>)"
  using assms by (rule serve_request_served)

theorem serve_registered_consumer_witness:
  "run_message (\<lambda>n m. m) (\<lambda>a. of_nat (length a)) (request_frame 0 ''news'' ''r1'' 80 ''h'' ''hello'' @ [])
     (idle_bus ''me'' 9000\<lparr>bus_consumers := [''news'' \<mapsto> Callback 7]\<rparr>) =
   (Inr (), idle_bus ''me'' 9000\<lparr>bus_consumers := [''news'' \<mapsto> Callback 7],
      bus_trace := [Invoked 7 (wire_message 0 ''news'' ''r1'' 80 ''h'' ''hello'')],
      bus_connects := [Connect (of_nat (length (''h'' @ '':'' @ format_int 80)))
         (''h'' @ '':'' @ format_int 80) (response_frame ''news'' ''r1'' 9000 ''h'')]\<rparr>)"
proof -
  have "\<not> str_contains ''news'' ''__vertx.reply''" by code_simp
  with serve_registered_consumer [of "''news''" "''r1''" "''h''" "''hello''"
      "idle_bus ''me'' 9000\<lparr>bus_consumers := [''news'' \<mapsto> Callback 7]\<rparr>" 7
      "\<lambda>a. of_nat (length a)" 80 "\<lambda>n m. m" 0 "[]"]
  show ?thesis by (simp add: fits_int_def int_max_def buffer_size_def idle_bus_def)
qed

text \<open>
  C8. A reply is delivered to the callback that waits for its address, once: the callback
  is called with the decoded message and its entry is gone. The same reply arriving
  again throws \<open>bad_function_call\<close>.
\<close>

theorem reply_delivered_once:
  assumes "fits_int addr rep hst bdy" and "str_contains addr ''__vertx.reply''"
    and "bus_publishers st addr = Some (Callback n)"
  shows "run_message cb hsh (request_frame sz addr rep prt hst bdy @ rest) st =
      (Inr (), st\<lparr>bus_trace := bus_trace st @ [Invoked n (wire_message sz addr rep prt hst bdy)],
         bus_publishers := erase addr (bus_publishers st)\<rparr>) \<and>
    fst (run_message cb hsh (request_frame sz addr rep prt hst bdy @ rest)
      (snd (run_message cb hsh (request_frame sz addr rep prt hst bdy @ rest) st))) =
      Inl BadFunctionCall"
  using assms
  by (simp add: run_message_frame process_reply deliver_reply_def publishers_index_Some
      publishers_index_None)

theorem reply_delivered_once_witness:
  "run_message (\<lambda>n m. m) (\<lambda>_. 0) (request_frame 0 ''__vertx.reply.1'' [] 80 ''h'' ''yes'' @ [])
     (idle_bus ''me'' 9000\<lparr>bus_publishers := [''__vertx.reply.1'' \<mapsto> Callback 3]\<rparr>) =
   (Inr (), idle_bus ''me'' 9000\<lparr>bus_publishers := Map.empty,
      bus_trace := [Invoked 3 (wire_message 0 ''__vertx.reply.1'' [] 80 ''h'' ''yes'')]\<rparr>)"
proof -
  have "str_contains ''__vertx.reply.1'' ''__vertx.reply''" by code_simp
  with reply_delivered_once [of "''__vertx.reply.1''" "[]" "''h''" "''yes''"
      "idle_bus ''me'' 9000\<lparr>bus_publishers := [''__vertx.reply.1'' \<mapsto> Callback 3]\<rparr>" 3
      "\<lambda>n m. m" "\<lambda>_. 0" 0 80 "[]"]
  show ?thesis by (simp add: fits_int_def int_max_def idle_bus_def erase_def)
qed

text \<open>
  A frame for an address without a consumer throws \<open>bad_function_call\<close>, and leaves an
  empty function registered under the address: no response is sent.
\<close>

theorem unknown_address_poisons:
  assumes "fits_int addr rep hst bdy" and "\<not> str_contains addr ''__vertx.reply''"
    and "bus_consumers st addr = None"
  shows "run_message cb hsh (request_frame sz addr rep prt hst bdy @ rest) st =
    (Inl BadFunctionCall, st\<lparr>bus_consumers := (bus_consumers st)(addr \<mapsto> EmptyFunction)\<rparr>)"
  using assms
  by (simp add: run_message_frame process_serve serve_request_def consumers_index_None Let_def)

theorem unknown_address_poisons_witness:
  "run_message (\<lambda>n m. m) (\<lambda>_. 0) (request_frame 0 ''news'' ''r1'' 80 ''h'' ''hello'' @ [])
     (idle_bus ''me'' 9000) =
   (Inl BadFunctionCall, idle_bus ''me'' 9000\<lparr>bus_consumers := [''news'' \<mapsto> EmptyFunction]\<rparr>)"
proof -
  have "\<not> str_contains ''news'' ''__vertx.reply''" by code_simp
  with unknown_address_poisons [of "''news''" "''r1''" "''h''" "''hello''" "idle_bus ''me'' 9000"
      "\<lambda>n m. m" "\<lambda>_. 0" 0 80 "[]"]
  show ?thesis by (simp add: fits_int_def int_max_def idle_bus_def)
qed

text \<open>
  Input that contains the letters \<open>ping\<close> anywhere, a frame whose address or body
  contains them included, is answered with \<open>pong\<close> and dropped: no task is queued.
\<close>

theorem ping_anywhere_is_swallowed:
  assumes "str_contains addr ''ping'' \<or> str_contains bdy ''ping''"
  shows "onMessage (request_frame sz addr rep prt hst bdy @ rest) st =
    (Inr (), st\<lparr>bus_trace := bus_trace st @ [ConnSend ''pong'', BufferReset]\<rparr>)"
proof -
  have "str_contains (request_frame sz addr rep prt hst bdy @ rest) ''ping''"
    using assms
  proof
    assume "str_contains addr ''ping''"
    then have "str_contains (u @ addr @ v) ''ping''" for u v by (rule str_contains_mono)
    then show ?thesis
      by (simp add: request_frame_def wire_frame_def str_bytes_def flip: append_assoc)
         (metis append.assoc append_Cons)
  next
    assume "str_contains bdy ''ping''"
    then have "str_contains (u @ bdy @ v) ''ping''" for u v by (rule str_contains_mono)
    then show ?thesis
      by (simp add: request_frame_def wire_frame_def str_bytes_def flip: append_assoc)
         (metis append.assoc append_Cons)
  qed
  then show ?thesis by (simp add: onMessage_def)
qed

theorem ping_anywhere_is_swallowed_witness:
  "onMessage (request_frame 0 ''shipping'' ''r1'' 80 ''h'' ''hello'' @ []) (idle_bus ''me'' 9000) =
   (Inr (), idle_bus ''me'' 9000\<lparr>bus_trace := [ConnSend ''pong'', BufferReset]\<rparr>)"
proof -
  have "str_contains ''shipping'' ''ping''" by code_simp
  with ping_anywhere_is_swallowed [of "''shipping''" "''hello''" 0 "''r1''" 80 "''h''" "[]"
      "idle_bus ''me'' 9000"]
  show ?thesis by (simp add: idle_bus_def)
qed

text \<open>
  Two frames that arrive in one buffer are one task, and running it treats the first
  frame only: the second is lost.
\<close>

theorem coalesced_frames_lose_the_second:
  assumes "fits_int addr rep hst bdy"
  shows "run_message cb hsh (request_frame sz addr rep prt hst bdy @ second) =
    run_message cb hsh (request_frame sz addr rep prt hst bdy)"
proof (rule ext)
  fix st
  show "run_message cb hsh (request_frame sz addr rep prt hst bdy @ second) st =
      run_message cb hsh (request_frame sz addr rep prt hst bdy) st"
    by (simp only: run_message_frame [OF assms]
        run_message_frame [OF assms, where rest = "[]", unfolded append_Nil2])
qed

theorem coalesced_frames_lose_the_second_witness:
  "run_message (\<lambda>n m. m) (\<lambda>_. 0)
     (request_frame 0 ''a'' ''r'' 80 ''h'' ''one'' @ request_frame 0 ''b'' ''r'' 80 ''h'' ''two'') =
   (run_message (\<lambda>n m. m) (\<lambda>_. 0) (request_frame 0 ''a'' ''r'' 80 ''h'' ''one'')
      :: (bus, unit) action)"
  by (rule coalesced_frames_lose_the_second) (simp add: fits_int_def int_max_def)

end
