(* ===== verification/Hazelcast_Types.thy ===== *)
theory Hazelcast_Types imports Cxx_String begin

text \<open>
  The data of \<open>hazelcast_cluster.h\<close>: \<open>ServerID\<close> and \<open>ClusterNodeInfo\<close> with their
  serialisation through the Hazelcast client's streams and the JSON reader. The streams
  and the JSON library are not part of the program: they are arguments of the
  definitions, and what serialisation relies on (a reader hands back what a writer was
  given, in order) is the predicate \<open>stream_law\<close>.
\<close>

record server_id =
  sid_port :: int32
  sid_host :: string

record cluster_node_info =
  cni_nodeId :: string
  cni_serverId :: server_id

definition ServerID :: "int32 \<Rightarrow> string \<Rightarrow> server_id" where
  "ServerID p h = \<lparr>sid_port = p, sid_host = h\<rparr>"

definition ClusterNodeInfo :: "string \<Rightarrow> server_id \<Rightarrow> cluster_node_info" where
  "ClusterNodeInfo n s = \<lparr>cni_nodeId = n, cni_serverId = s\<rparr>"

definition ServerID_getPort :: "server_id \<Rightarrow> int32" where
  "ServerID_getPort s = sid_port s"

definition ServerID_getHost :: "server_id \<Rightarrow> string" where
  "ServerID_getHost s = sid_host s"

definition getServerId :: "cluster_node_info \<Rightarrow> server_id" where
  "getServerId n = cni_serverId n"

definition ServerID_getFactoryId :: "server_id \<Rightarrow> int32" where
  "ServerID_getFactoryId s = 1002"

definition ServerID_getClassId :: "server_id \<Rightarrow> int32" where
  "ServerID_getClassId s = 1002"

definition ClusterNodeInfo_getFactoryId :: "cluster_node_info \<Rightarrow> int32" where
  "ClusterNodeInfo_getFactoryId n = 1001"

definition ClusterNodeInfo_getClassId :: "cluster_node_info \<Rightarrow> int32" where
  "ClusterNodeInfo_getClassId n = 1001"

section \<open>Serialisation\<close>

text \<open>The members of \<open>ObjectDataOutput\<close> and \<open>ObjectDataInput\<close> the program calls.\<close>

record ('o, 'i) hz_streams =
  writeInt :: "int32 \<Rightarrow> 'o \<Rightarrow> 'o"
  writeUTF :: "string \<Rightarrow> 'o \<Rightarrow> 'o"
  readInt :: "'i \<Rightarrow> (int32 \<times> 'i) result"
  readUTF :: "'i \<Rightarrow> (string \<times> 'i) result"

definition ServerID_writeData :: "('o, 'i) hz_streams \<Rightarrow> server_id \<Rightarrow> 'o \<Rightarrow> 'o" where
  "ServerID_writeData io s w = writeUTF io (sid_host s) (writeInt io (sid_port s) w)"

definition ServerID_readData :: "('o, 'i) hz_streams \<Rightarrow> 'i \<Rightarrow> (server_id \<times> 'i) result" where
  "ServerID_readData io r =
     rbind (readInt io r) (\<lambda>(p, r). rbind (readUTF io r) (\<lambda>(h, r). Inr (ServerID p h, r)))"

definition ClusterNodeInfo_writeData ::
  "('o, 'i) hz_streams \<Rightarrow> cluster_node_info \<Rightarrow> 'o \<Rightarrow> 'o" where
  "ClusterNodeInfo_writeData io n w =
     writeUTF io (ServerID_getHost (cni_serverId n))
       (writeInt io (ServerID_getPort (cni_serverId n)) (writeUTF io (cni_nodeId n) w))"

definition ClusterNodeInfo_readData ::
  "('o, 'i) hz_streams \<Rightarrow> 'i \<Rightarrow> (cluster_node_info \<times> 'i) result" where
  "ClusterNodeInfo_readData io r =
     rbind (readUTF io r) (\<lambda>(n, r). rbind (readInt io r) (\<lambda>(p, r). rbind (readUTF io r) (\<lambda>(h, r).
       Inr (ClusterNodeInfo n (ServerID p h), r))))"

text \<open>\<open>ClusterNodeInfoFactory::create\<close> ignores the class it is asked for.\<close>

definition ClusterNodeInfoFactory_create :: "(unit \<Rightarrow> cluster_node_info) \<Rightarrow> int32 \<Rightarrow> cluster_node_info" where
  "ClusterNodeInfoFactory_create fresh classId = fresh ()"

text \<open>\<open>toObject\<close>, with the JSON document type and its accessors as arguments.\<close>

record 'v json_ops =
  json_parse :: "string \<Rightarrow> 'v"
  json_member :: "'v \<Rightarrow> string \<Rightarrow> 'v"
  json_string :: "'v \<Rightarrow> string"
  json_int :: "'v \<Rightarrow> int32"

definition toObject :: "'v json_ops \<Rightarrow> string \<Rightarrow> cluster_node_info" where
  "toObject js json =
     (let d = json_parse js json;
          nodeId = json_member js d ''nodeId'';
          serverID = json_member js d ''serverID'';
          port = json_member js serverID ''port'';
          host = json_member js serverID ''host''
      in ClusterNodeInfo (json_string js nodeId) (ServerID (json_int js port) (json_string js host)))"

section \<open>Reading back what was written\<close>

datatype data_item = DataInt int32 | DataUTF string

text \<open>
  \<open>outs\<close> lists what an output stream was given, \<open>ins\<close> what an input stream still holds.
\<close>

definition stream_law ::
  "('o, 'i) hz_streams \<Rightarrow> ('o \<Rightarrow> data_item list) \<Rightarrow> ('i \<Rightarrow> data_item list) \<Rightarrow> bool" where
  "stream_law io outs ins \<longleftrightarrow>
     (\<forall>v w. outs (writeInt io v w) = outs w @ [DataInt v]) \<and>
     (\<forall>s w. outs (writeUTF io s w) = outs w @ [DataUTF s]) \<and>
     (\<forall>r v ds. ins r = DataInt v # ds \<longrightarrow> (\<exists>r'. readInt io r = Inr (v, r') \<and> ins r' = ds)) \<and>
     (\<forall>r s ds. ins r = DataUTF s # ds \<longrightarrow> (\<exists>r'. readUTF io r = Inr (s, r') \<and> ins r' = ds))"

lemma stream_lawD:
  assumes "stream_law io outs ins"
  shows "outs (writeInt io v w) = outs w @ [DataInt v]"
    and "outs (writeUTF io s w) = outs w @ [DataUTF s]"
    and "ins r = DataInt v # ds \<Longrightarrow> \<exists>r'. readInt io r = Inr (v, r') \<and> ins r' = ds"
    and "ins r = DataUTF s # ds \<Longrightarrow> \<exists>r'. readUTF io r = Inr (s, r') \<and> ins r' = ds"
  using assms by (auto simp: stream_law_def)

lemma ClusterNodeInfo_read_written:
  assumes law: "stream_law io outs ins"
    and ins: "ins r = drop (length (outs w)) (outs (ClusterNodeInfo_writeData io n w)) @ ds"
  shows "\<exists>r'. ClusterNodeInfo_readData io r = Inr (n, r') \<and> ins r' = ds"
proof -
  from ins have "ins r = DataUTF (cni_nodeId n) # DataInt (sid_port (cni_serverId n)) #
      DataUTF (sid_host (cni_serverId n)) # ds"
    by (simp add: ClusterNodeInfo_writeData_def stream_lawD(1,2) [OF law] ServerID_getHost_def
        ServerID_getPort_def)
  then obtain r1 where r1: "readUTF io r = Inr (cni_nodeId n, r1)"
    "ins r1 = DataInt (sid_port (cni_serverId n)) # DataUTF (sid_host (cni_serverId n)) # ds"
    using stream_lawD(4) [OF law] by blast
  then obtain r2 where r2: "readInt io r1 = Inr (sid_port (cni_serverId n), r2)"
    "ins r2 = DataUTF (sid_host (cni_serverId n)) # ds"
    using stream_lawD(3) [OF law] by blast
  then obtain r3 where r3: "readUTF io r2 = Inr (sid_host (cni_serverId n), r3)" "ins r3 = ds"
    using stream_lawD(4) [OF law] by blast
  show ?thesis
    by (simp add: ClusterNodeInfo_readData_def ClusterNodeInfo_def ServerID_def r1 r2 r3)
qed

lemma ServerID_read_written:
  assumes law: "stream_law io outs ins"
    and ins: "ins r = drop (length (outs w)) (outs (ServerID_writeData io s w)) @ ds"
  shows "\<exists>r'. ServerID_readData io r = Inr (s, r') \<and> ins r' = ds"
proof -
  from ins have "ins r = DataInt (sid_port s) # DataUTF (sid_host s) # ds"
    by (simp add: ServerID_writeData_def stream_lawD(1,2) [OF law])
  then obtain r1 where r1: "readInt io r = Inr (sid_port s, r1)" "ins r1 = DataUTF (sid_host s) # ds"
    using stream_lawD(3) [OF law] by blast
  then obtain r2 where r2: "readUTF io r1 = Inr (sid_host s, r2)" "ins r2 = ds"
    using stream_lawD(4) [OF law] by blast
  show ?thesis by (simp add: ServerID_readData_def ServerID_def r1 r2)
qed

text \<open>
  A node description that is written to a Hazelcast stream is read back unchanged,
  whatever was written before and after it; so is a \<open>ServerID\<close>. The order of the writes
  is the order of the reads.
\<close>

theorem node_info_roundtrip:
  assumes "stream_law io outs ins"
  shows "(\<forall>r w n ds. ins r = drop (length (outs w)) (outs (ClusterNodeInfo_writeData io n w)) @ ds \<longrightarrow>
            (\<exists>r'. ClusterNodeInfo_readData io r = Inr (n, r') \<and> ins r' = ds)) \<and>
         (\<forall>r w s ds. ins r = drop (length (outs w)) (outs (ServerID_writeData io s w)) @ ds \<longrightarrow>
            (\<exists>r'. ServerID_readData io r = Inr (s, r') \<and> ins r' = ds))"
  using ClusterNodeInfo_read_written [OF assms] ServerID_read_written [OF assms] by blast

definition list_streams :: "(data_item list, data_item list) hz_streams" where
  "list_streams =
     \<lparr>writeInt = (\<lambda>v w. w @ [DataInt v]), writeUTF = (\<lambda>s w. w @ [DataUTF s]),
      readInt = (\<lambda>r. case r of DataInt v # ds \<Rightarrow> Inr (v, ds) | _ \<Rightarrow> Inl SerializationError),
      readUTF = (\<lambda>r. case r of DataUTF s # ds \<Rightarrow> Inr (s, ds) | _ \<Rightarrow> Inl SerializationError)\<rparr>"

lemma list_streams_law: "stream_law list_streams (\<lambda>w. w) (\<lambda>r. r)"
  by (simp add: stream_law_def list_streams_def)

theorem node_info_roundtrip_witness:
  "ClusterNodeInfo_readData list_streams
     (ClusterNodeInfo_writeData list_streams (ClusterNodeInfo ''node'' (ServerID 8080 ''h'')) []) =
   Inr (ClusterNodeInfo ''node'' (ServerID 8080 ''h''), [])"
proof -
  let ?n = "ClusterNodeInfo ''node'' (ServerID 8080 ''h'')"
  have "ClusterNodeInfo_writeData list_streams ?n [] =
      drop (length ([] :: data_item list)) (ClusterNodeInfo_writeData list_streams ?n []) @ []"
    by simp
  with conjunct1 [OF node_info_roundtrip [OF list_streams_law]] show ?thesis by blast
qed

end
