(* ===== verification/Hazelcast_Cluster.thy ===== *)
theory Hazelcast_Cluster imports Hazelcast_Types Cxx_Map begin

text \<open>
  \<open>hazelcast_cluster.cpp\<close>: the node's view of the cluster. Hazelcast's distributed
  structures are not part of the program: their state has an arbitrary type \<open>'d\<close> and
  the calls the code makes on them are the fields of \<open>hz_ops\<close>. What the code owns are
  the local table of endpoints, a queue of servers per address that \<open>next\<close> rotates, and
  the list of subscriptions this node made. Each operation is one step, so the code's
  data races (\<open>entryAdded\<close> changes the table without the mutex that \<open>next\<close> holds) are
  outside the model.
\<close>

section \<open>State and operations\<close>

record 'd hz_ops =
  mm_put :: "string \<Rightarrow> cluster_node_info \<Rightarrow> 'd \<Rightarrow> 'd"
  mm_get :: "string \<Rightarrow> 'd \<Rightarrow> cluster_node_info list"
  mm_entrySet :: "'d \<Rightarrow> (string \<times> cluster_node_info) list"
  ha_put :: "string \<Rightarrow> string \<Rightarrow> 'd \<Rightarrow> 'd"

type_synonym endpoint_table = "string \<rightharpoonup> server_id list"

record 'd hz_cluster =
  hc_nodeID :: string
  hc_shared :: 'd
  hc_local_subs :: "(string \<times> cluster_node_info) list"
  hc_local_endpoints :: endpoint_table

text \<open>
  A queue with the one server is offered with \<open>try_emplace\<close>; when the address has a
  queue already the server is pushed onto that one.
\<close>

definition push_endpoint :: "string \<Rightarrow> server_id \<Rightarrow> endpoint_table \<Rightarrow> endpoint_table" where
  "push_endpoint key s eps =
     (case eps key of None \<Rightarrow> eps(key \<mapsto> [s]) | Some q \<Rightarrow> eps(key \<mapsto> q @ [s]))"

definition quoted :: "string \<Rightarrow> string" where
  "quoted s = CHR 0x22 # s @ [CHR 0x22]"

definition ha_info_json :: "int32 \<Rightarrow> string \<Rightarrow> string" where
  "ha_info_json port host =
     ''{'' @ quoted ''verticles'' @ '':[],'' @ quoted ''group'' @ '':'' @ quoted ''__DISABLED__'' @
     '','' @ quoted ''server_id'' @ '':{'' @ quoted ''host'' @ '':'' @ quoted host @ '','' @
     quoted ''port'' @ '':'' @ format_int port @ ''}}''"

definition join :: "'d hz_ops \<Rightarrow> string \<Rightarrow> int32 \<Rightarrow> string \<Rightarrow> 'd hz_cluster \<Rightarrow> 'd hz_cluster" where
  "join ops uuid port host st =
     (let eps = fold (\<lambda>(key, node). push_endpoint key (getServerId node))
                  (mm_entrySet ops (hc_shared st)) (hc_local_endpoints st)
      in st\<lparr>hc_nodeID := uuid, hc_local_endpoints := eps,
            hc_shared := ha_put ops uuid (ha_info_json port host) (hc_shared st)\<rparr>)"

definition addSub :: "'d hz_ops \<Rightarrow> string \<Rightarrow> int32 \<Rightarrow> string \<Rightarrow> 'd hz_cluster \<Rightarrow> 'd hz_cluster" where
  "addSub ops address port host st =
     (let node = ClusterNodeInfo (hc_nodeID st) (ServerID port host)
      in st\<lparr>hc_shared := mm_put ops address node (hc_shared st),
            hc_local_subs := hc_local_subs st @ [(address, node)]\<rparr>)"

definition entryAdded :: "string \<Rightarrow> cluster_node_info \<Rightarrow> 'd hz_cluster \<Rightarrow> 'd hz_cluster" where
  "entryAdded key node st =
     st\<lparr>hc_local_endpoints := push_endpoint key (getServerId node) (hc_local_endpoints st)\<rparr>"

definition next_server :: "string \<Rightarrow> ('d hz_cluster, server_id) action" where
  "next_server address st =
     (case hc_local_endpoints st address of
        None \<Rightarrow> (Inl StdOutOfRange, st)
      | Some [] \<Rightarrow> (Inl EmptyQueueFront, st)
      | Some (s # q) \<Rightarrow>
          (Inr s, st\<lparr>hc_local_endpoints := (hc_local_endpoints st)(address \<mapsto> q @ [s])\<rparr>))"

definition entryRemoved :: "'d hz_ops \<Rightarrow> string \<Rightarrow> 'd hz_cluster \<Rightarrow> 'd hz_cluster" where
  "entryRemoved ops key st =
     (let eps = erase key (hc_local_endpoints st);
          eps = fold (\<lambda>node. push_endpoint key (getServerId node)) (mm_get ops key (hc_shared st)) eps;
          shared = fold (\<lambda>(k, node). mm_put ops k node) (hc_local_subs st) (hc_shared st)
      in st\<lparr>hc_local_endpoints := eps, hc_shared := shared\<rparr>)"

text \<open>
  The callbacks the cluster client makes. The ones after the first two only log, or do
  nothing at all: \<open>memberAdded\<close>, \<open>memberRemoved\<close>, \<open>memberAttributeChanged\<close>,
  \<open>stateChanged\<close>, and the entry and map events the program ignores.
\<close>

datatype hz_event =
    EntryAdded string cluster_node_info
  | EntryRemoved string
  | EntryUpdated string
  | EntryEvicted string
  | EntryExpired string
  | EntryMerged string
  | MapEvicted
  | MapCleared

fun handle_event :: "'d hz_ops \<Rightarrow> hz_event \<Rightarrow> 'd hz_cluster \<Rightarrow> 'd hz_cluster" where
  "handle_event ops (EntryAdded key node) st = entryAdded key node st"
| "handle_event ops (EntryRemoved key) st = entryRemoved ops key st"
| "handle_event ops (EntryUpdated key) st = st"
| "handle_event ops (EntryEvicted key) st = st"
| "handle_event ops (EntryExpired key) st = st"
| "handle_event ops (EntryMerged key) st = st"
| "handle_event ops MapEvicted st = st"
| "handle_event ops MapCleared st = st"

datatype member_event =
    MemberAdded string
  | MemberRemoved string
  | MemberAttributeChanged
  | StateChanged

fun handle_member_event :: "member_event \<Rightarrow> 'd hz_cluster \<Rightarrow> 'd hz_cluster" where
  "handle_member_event (MemberAdded uuid) st = st"
| "handle_member_event (MemberRemoved uuid) st = st"
| "handle_member_event MemberAttributeChanged st = st"
| "handle_member_event StateChanged st = st"

text \<open>
  \<open>HaEntryListener\<close>, the listener of the map of node descriptions, only logs: the line it
  writes for each event, or nothing.
\<close>

datatype ha_event =
    HaAdded string
  | HaRemoved string
  | HaUpdated string
  | HaEvicted string
  | HaExpired string
  | HaMerged string
  | HaMapEvicted string
  | HaMapCleared

fun ha_entry_listener :: "ha_event \<Rightarrow> string option" where
  "ha_entry_listener (HaAdded key) = Some (''HaEntryListener entryAdded: '' @ key)"
| "ha_entry_listener (HaRemoved key) = Some (''HaEntryListener entryRemoved: '' @ key)"
| "ha_entry_listener (HaUpdated key) = Some (''HaEntryListener entryUpdated: '' @ key)"
| "ha_entry_listener (HaEvicted key) = Some (''HaEntryListener entryEvicted: '' @ key)"
| "ha_entry_listener (HaExpired key) = Some (''HaEntryListener entryExpired: '' @ key)"
| "ha_entry_listener (HaMerged key) = Some (''HaEntryListener entryMerged: '' @ key)"
| "ha_entry_listener (HaMapEvicted typ) = Some (''HaEntryListener mapEvicted: '' @ typ)"
| "ha_entry_listener HaMapCleared = None"

section \<open>The endpoints of an address\<close>

text \<open>The abstract view: for each address the servers in the order they will be used.\<close>

definition endpoints_of :: "'d hz_cluster \<Rightarrow> string \<Rightarrow> server_id list" where
  "endpoints_of st a = (case hc_local_endpoints st a of None \<Rightarrow> [] | Some q \<Rightarrow> q)"

definition table_view :: "endpoint_table \<Rightarrow> string \<Rightarrow> server_id list" where
  "table_view eps a = (case eps a of None \<Rightarrow> [] | Some q \<Rightarrow> q)"

lemma endpoints_of_view: "endpoints_of st = table_view (hc_local_endpoints st)"
  by (rule ext) (simp add: endpoints_of_def table_view_def)

lemma view_push [simp]:
  "table_view (push_endpoint k s eps) a = table_view eps a @ (if a = k then [s] else [])"
  by (auto simp: table_view_def push_endpoint_def split: option.splits)

lemma view_erase [simp]: "table_view (erase k eps) a = (if a = k then [] else table_view eps a)"
  by (simp add: table_view_def)

lemma view_push_all:
  "table_view (fold (\<lambda>node. push_endpoint k (getServerId node)) nodes eps) a =
     table_view eps a @ (if a = k then map getServerId nodes else [])"
  by (induction nodes arbitrary: eps) auto

lemma view_push_entries:
  "table_view (fold (\<lambda>(key, node). push_endpoint key (getServerId node)) es eps) a =
     table_view eps a @ map (getServerId \<circ> snd) (filter (\<lambda>(key, _). key = a) es)"
  by (induction es arbitrary: eps) (auto split: prod.split)

lemma next_server_Nil:
  "hc_local_endpoints st a = None \<Longrightarrow> next_server a st = (Inl StdOutOfRange, st)"
  by (simp add: next_server_def)

lemma next_server_Cons:
  assumes "endpoints_of st a = s # q"
  shows "next_server a st =
    (Inr s, st\<lparr>hc_local_endpoints := (hc_local_endpoints st)(a \<mapsto> q @ [s])\<rparr>)"
  using assms by (auto simp: endpoints_of_def next_server_def split: option.splits list.splits)

lemma endpoints_of_update [simp]:
  "endpoints_of (st\<lparr>hc_local_endpoints := eps\<rparr>) a = table_view eps a"
  "table_view (eps'(b \<mapsto> q)) a = (if a = b then q else table_view eps' a)"
  by (simp_all add: endpoints_of_view table_view_def)

section \<open>Taking turns\<close>

text \<open>
  The contract of a store that hands out its elements in turn: taking one moves it to
  the back. Whoever relies on it only knows what a single turn does.
\<close>

locale rotation =
  fixes take_turn :: "'s \<Rightarrow> 'a result \<times> 's"
    and content :: "'s \<Rightarrow> 'a list"
  assumes turn: "content s = x # xs \<Longrightarrow>
      \<exists>s'. take_turn s = (Inr x, s') \<and> content s' = xs @ [x]"
begin

lemma turn_value: "content s \<noteq> [] \<Longrightarrow> fst (take_turn s) = Inr (hd (content s))"
  using turn by (cases "content s") force+

lemma turn_content: "content s \<noteq> [] \<Longrightarrow> content (snd (take_turn s)) = rotate1 (content s)"
  using turn by (cases "content s") force+

lemma turns_content: "content s \<noteq> [] \<Longrightarrow> content (((\<lambda>s. snd (take_turn s)) ^^ n) s) = rotate n (content s)"
proof (induction n)
  case (Suc n)
  then have "content (((\<lambda>s. snd (take_turn s)) ^^ n) s) \<noteq> []" by simp
  with Suc show ?case by (simp add: turn_content rotate_def)
qed simp

text \<open>The value of the turn after \<open>n\<close> turns.\<close>

lemma nth_turn:
  assumes "content s \<noteq> []"
  shows "fst (take_turn (((\<lambda>s. snd (take_turn s)) ^^ n) s)) = Inr (content s ! (n mod length (content s)))"
proof -
  from assms have "content (((\<lambda>s. snd (take_turn s)) ^^ n) s) \<noteq> []"
    by (simp add: turns_content)
  with assms show ?thesis by (simp add: turn_value turns_content hd_rotate_conv_nth)
qed

lemma full_round: "content s \<noteq> [] \<Longrightarrow> content (((\<lambda>s. snd (take_turn s)) ^^ length (content s)) s) = content s"
  by (simp add: turns_content)

end

interpretation next_rotation: rotation "next_server a" "\<lambda>st. endpoints_of st a" for a
  by unfold_locales (simp add: next_server_Cons)

text \<open>The servers \<open>next\<close> hands out in \<open>n\<close> consecutive calls for one address.\<close>

fun next_servers :: "string \<Rightarrow> nat \<Rightarrow> 'd hz_cluster \<Rightarrow> server_id result list \<times> 'd hz_cluster" where
  "next_servers a 0 st = ([], st)"
| "next_servers a (Suc n) st =
     (let (r, st) = next_server a st; (rs, st) = next_servers a n st in (r # rs, st))"

lemma turns_swap:
  "((\<lambda>s. snd (next_server a s)) ^^ n) (snd (next_server a st)) =
     snd (next_server a (((\<lambda>s. snd (next_server a s)) ^^ n) st))"
  using funpow_swap1 [of "\<lambda>s. snd (next_server a s)" n st] by simp

lemma next_servers_snd: "snd (next_servers a n st) = ((\<lambda>s. snd (next_server a s)) ^^ n) st"
  by (induction n arbitrary: st) (simp_all add: split_def Let_def turns_swap)

lemma next_servers_fst:
  "fst (next_servers a n st) =
     map (\<lambda>i. fst (next_server a (((\<lambda>s. snd (next_server a s)) ^^ i) st))) [0..<n]"
proof (induction n arbitrary: st)
  case (Suc n)
  have "map (\<lambda>i. fst (next_server a (((\<lambda>s. snd (next_server a s)) ^^ i) st))) [0..<Suc n] =
      fst (next_server a st) #
      map (\<lambda>i. fst (next_server a (((\<lambda>s. snd (next_server a s)) ^^ Suc i) st))) [0..<n]"
    by (simp only: map_upt_Suc) simp
  with Suc show ?case by (simp add: split_def Let_def turns_swap)
qed simp

lemma next_servers_nth:
  assumes "endpoints_of st a \<noteq> []"
  shows "fst (next_servers a n st) =
    map (\<lambda>i. Inr (endpoints_of st a ! (i mod length (endpoints_of st a)))) [0..<n]"
  unfolding next_servers_fst using next_rotation.nth_turn [where s = st, OF assms] by simp

section \<open>Queues are never empty\<close>

text \<open>
  The steps of a node: its own calls, the events it receives, and any change the rest of
  the cluster makes to the shared structures.
\<close>

definition queues_filled :: "'d hz_cluster \<Rightarrow> bool" where
  "queues_filled st \<longleftrightarrow> (\<forall>a. hc_local_endpoints st a \<noteq> Some [])"

definition table_filled :: "endpoint_table \<Rightarrow> bool" where
  "table_filled eps \<longleftrightarrow> (\<forall>a. eps a \<noteq> Some [])"

lemma table_filled_push [intro]: "table_filled eps \<Longrightarrow> table_filled (push_endpoint k s eps)"
  by (auto simp: table_filled_def push_endpoint_def split: option.split)

lemma table_filled_fold_entries [intro]:
  "table_filled eps \<Longrightarrow>
     table_filled (fold (\<lambda>(key, node). push_endpoint key (getServerId node)) es eps)"
  by (induction es arbitrary: eps) auto

lemma table_filled_fold_nodes [intro]:
  "table_filled eps \<Longrightarrow>
     table_filled (fold (\<lambda>node. push_endpoint key (getServerId node)) nodes eps)"
  by (induction nodes arbitrary: eps) auto

lemma table_filled_erase [intro]: "table_filled eps \<Longrightarrow> table_filled (erase key eps)"
  by (auto simp: table_filled_def)

lemma queues_filled_table: "queues_filled st \<longleftrightarrow> table_filled (hc_local_endpoints st)"
  by (simp add: queues_filled_def table_filled_def)

inductive hz_step :: "'d hz_ops \<Rightarrow> 'd hz_cluster \<Rightarrow> 'd hz_cluster \<Rightarrow> bool" for ops where
  step_join: "hz_step ops st (join ops uuid port host st)"
| step_addSub: "hz_step ops st (addSub ops a port host st)"
| step_next: "hz_step ops st (snd (next_server a st))"
| step_event: "hz_step ops st (handle_event ops e st)"
| step_member: "hz_step ops st (handle_member_event m st)"
| step_cluster: "hz_step ops st (st\<lparr>hc_shared := d\<rparr>)"

inductive hz_reachable :: "'d hz_ops \<Rightarrow> 'd hz_cluster \<Rightarrow> bool" for ops where
  reach_start: "hc_local_endpoints st = Map.empty \<Longrightarrow> hc_local_subs st = [] \<Longrightarrow> hz_reachable ops st"
| reach_step: "hz_reachable ops st \<Longrightarrow> hz_step ops st st' \<Longrightarrow> hz_reachable ops st'"

inductive_cases hz_stepE: "hz_step ops st st'"

lemma queues_filled_next: "queues_filled st \<Longrightarrow> queues_filled (snd (next_server a st))"
  by (auto simp: queues_filled_def next_server_def split: option.split list.split)

lemma queues_filled_event: "queues_filled st \<Longrightarrow> queues_filled (handle_event ops e st)"
  by (cases e) (auto simp: queues_filled_table entryAdded_def entryRemoved_def Let_def)

lemma queues_filled_step: "hz_step ops st st' \<Longrightarrow> queues_filled st \<Longrightarrow> queues_filled st'"
proof (induction rule: hz_step.induct)
  case (step_member st m)
  then show ?case by (cases m) simp_all
next
  case (step_next st a)
  then show ?case by (rule queues_filled_next)
next
  case (step_event st e)
  then show ?case by (rule queues_filled_event)
qed (auto simp: queues_filled_table join_def addSub_def Let_def)

lemma queues_filled_reachable: "hz_reachable ops st \<Longrightarrow> queues_filled st"
proof (induction rule: hz_reachable.induct)
  case (reach_start st)
  then show ?case by (simp add: queues_filled_def)
next
  case (reach_step st st')
  then show ?case by (blast intro: queues_filled_step)
qed

lemma next_server_filled:
  assumes "queues_filled st"
  shows "fst (next_server a st) =
    (case endpoints_of st a of [] \<Rightarrow> Inl StdOutOfRange | s # _ \<Rightarrow> Inr s)"
  using assms
  by (auto simp: queues_filled_def next_server_def endpoints_of_def split: option.split list.split)

text \<open>A concrete cluster for the examples: the registrations as a list.\<close>

definition list_hz_ops :: "(string \<times> cluster_node_info) list hz_ops" where
  "list_hz_ops =
     \<lparr>mm_put = (\<lambda>k n d. if (k, n) \<in> set d then d else d @ [(k, n)]),
      mm_get = (\<lambda>k d. map snd (filter (\<lambda>(j, _). j = k) d)),
      mm_entrySet = (\<lambda>d. d), ha_put = (\<lambda>k v d. d)\<rparr>"

section \<open>Properties\<close>

text \<open>
  C13. \<open>next\<close> takes turns: the calls for one address return its servers in the order of
  the queue, over and over, and a full round leaves every queue as it was.
\<close>

theorem next_round_robin:
  assumes "endpoints_of st a \<noteq> []"
  shows "fst (next_servers a n st) =
           map (\<lambda>i. Inr (endpoints_of st a ! (i mod length (endpoints_of st a)))) [0..<n] \<and>
         endpoints_of (snd (next_servers a (length (endpoints_of st a)) st)) a = endpoints_of st a"
  using next_servers_nth [OF assms] next_rotation.full_round [where s = st, OF assms]
  by (simp only: next_servers_snd)

definition example_cluster :: "unit hz_cluster" where
  "example_cluster =
     \<lparr>hc_nodeID = ''n'', hc_shared = (), hc_local_subs = [],
      hc_local_endpoints = [''news'' \<mapsto> [ServerID 1 ''a'', ServerID 2 ''b'']]\<rparr>"

theorem next_round_robin_witness:
  "fst (next_servers ''news'' 3 example_cluster) =
     [Inr (ServerID 1 ''a''), Inr (ServerID 2 ''b''), Inr (ServerID 1 ''a'')] \<and>
   endpoints_of (snd (next_servers ''news'' 2 example_cluster)) ''news'' =
     [ServerID 1 ''a'', ServerID 2 ''b'']"
proof -
  have e: "endpoints_of example_cluster ''news'' = [ServerID 1 ''a'', ServerID 2 ''b'']"
    by (simp add: endpoints_of_def example_cluster_def)
  then have "endpoints_of example_cluster ''news'' \<noteq> []" by simp
  from next_round_robin [OF this, of 3] show ?thesis
    by (simp add: e numeral_eq_Suc upt_rec)
qed

text \<open>
  C14. In every state the node can reach, whatever events and calls led there, \<open>next\<close>
  never takes the front of an empty queue: it returns the server at the head of the
  address's queue, or throws \<open>std::out_of_range\<close> exactly when the address has no
  endpoint.
\<close>

theorem next_never_empty_queue:
  assumes "hz_reachable ops st"
  shows "fst (next_server a st) =
    (case endpoints_of st a of [] \<Rightarrow> Inl StdOutOfRange | s # _ \<Rightarrow> Inr s)"
  using queues_filled_reachable [OF assms] by (rule next_server_filled)

theorem next_never_empty_queue_witness:
  "fst (next_server ''news''
     (handle_event list_hz_ops (EntryAdded ''news'' (ClusterNodeInfo ''x'' (ServerID 7 ''h'')))
        \<lparr>hc_nodeID = [], hc_shared = [], hc_local_subs = [], hc_local_endpoints = Map.empty\<rparr>)) =
   Inr (ServerID 7 ''h'')"
proof -
  let ?s = "\<lparr>hc_nodeID = [], hc_shared = [], hc_local_subs = [], hc_local_endpoints = Map.empty\<rparr>"
  let ?t = "handle_event list_hz_ops (EntryAdded ''news'' (ClusterNodeInfo ''x'' (ServerID 7 ''h''))) ?s"
  have "hz_reachable list_hz_ops ?t"
    by (rule reach_step [OF reach_start step_event]) simp_all
  from next_never_empty_queue [OF this, of "''news''"] show ?thesis
    by (simp add: entryAdded_def push_endpoint_def endpoints_of_def getServerId_def
        ClusterNodeInfo_def)
qed

text \<open>
  C15. The endpoint table refines the cluster's registrations, address by address: joining
  appends the registered servers, an added entry appends its server, a removed entry
  replaces the queue of its address by what the cluster still lists and changes no other
  queue, and a turn of \<open>next\<close> rotates one queue.
\<close>

theorem endpoints_refine_registrations:
  "endpoints_of (join ops uuid port host st) a =
     endpoints_of st a @
     map (getServerId \<circ> snd) (filter (\<lambda>(key, _). key = a) (mm_entrySet ops (hc_shared st))) \<and>
   endpoints_of (entryAdded key node st) a =
     endpoints_of st a @ (if a = key then [getServerId node] else []) \<and>
   endpoints_of (entryRemoved ops key st) a =
     (if a = key then map getServerId (mm_get ops key (hc_shared st)) else endpoints_of st a) \<and>
   endpoints_of (snd (next_server b st)) a =
     (if a = b then rotate1 (endpoints_of st a) else endpoints_of st a)"
proof (intro conjI)
  show "endpoints_of (snd (next_server b st)) a =
      (if a = b then rotate1 (endpoints_of st a) else endpoints_of st a)"
    by (auto simp: next_server_def endpoints_of_view table_view_def split: option.split list.split)
qed (simp_all add: join_def entryAdded_def entryRemoved_def Let_def endpoints_of_view
      view_push_entries view_push_all)

lemma fold_mm_put_shared:
  assumes "\<And>k n d. R k n (mm_put ops k n d)"
    and "\<And>k n k' n' d. R k n d \<Longrightarrow> R k n (mm_put ops k' n' d)"
  shows "(k, n) \<in> set subs \<or> R k n d \<Longrightarrow> R k n (fold (\<lambda>(k, n). mm_put ops k n) subs d)"
proof (induction subs arbitrary: d)
  case Nil
  then show ?case by simp
next
  case (Cons x subs)
  obtain k' n' where x: "x = (k', n')" by (cases x)
  have "(k, n) \<in> set subs \<or> R k n (mm_put ops k' n' d)"
    using Cons.prems assms by (auto simp: x)
  then show ?case using Cons.IH by (simp add: x)
qed

text \<open>
  After any removal of an entry, every subscription this node made is registered in
  the cluster again, provided a registration is visible once put and later puts do not
  hide it.
\<close>

theorem removal_reregisters_local_subs:
  assumes put: "\<And>k n d. n \<in> set (mm_get ops k (mm_put ops k n d))"
    and keep: "\<And>k n k' n' d. n \<in> set (mm_get ops k d) \<Longrightarrow> n \<in> set (mm_get ops k (mm_put ops k' n' d))"
    and sub: "(a, node) \<in> set (hc_local_subs st)"
  shows "node \<in> set (mm_get ops a (hc_shared (entryRemoved ops key st)))"
  using fold_mm_put_shared [of "\<lambda>k n d. n \<in> set (mm_get ops k d)", OF put keep, of a node] sub
  by (simp add: entryRemoved_def Let_def)

lemma list_hz_ops_laws:
  "n \<in> set (mm_get list_hz_ops k (mm_put list_hz_ops k n d))"
  "n \<in> set (mm_get list_hz_ops k d) \<Longrightarrow> n \<in> set (mm_get list_hz_ops k (mm_put list_hz_ops k' n' d))"
  by (force simp: list_hz_ops_def image_iff)+

theorem removal_reregisters_local_subs_witness:
  "ClusterNodeInfo ''me'' (ServerID 1 ''h'') \<in>
     set (mm_get list_hz_ops ''news''
       (hc_shared (entryRemoved list_hz_ops ''other''
         (addSub list_hz_ops ''news'' 1 ''h''
           \<lparr>hc_nodeID = ''me'', hc_shared = [], hc_local_subs = [], hc_local_endpoints = Map.empty\<rparr>))))"
  by (rule removal_reregisters_local_subs [where ops = list_hz_ops, OF list_hz_ops_laws])
     (simp_all add: addSub_def Let_def)

end
