(* ===== verification/Uuid.thy ===== *)
theory Uuid imports Cxx_String begin

text \<open>
  \<open>uuid.hpp\<close>: the generator of version 4 identifiers. The pseudo-random source is the
  standard library's and so a parameter: two functions that draw an \<open>int\<close> from a state,
  \<open>dis\<close> for the distribution over 0 to 15 and \<open>dis2\<close> for the one over 8 to 11. The
  stream prints in hexadecimal, without padding.
\<close>

definition hex_digit :: "nat \<Rightarrow> char" where
  "hex_digit n = (if n < 10 then char_of (48 + n) else char_of (87 + n))"

fun show_hex :: "nat \<Rightarrow> string" where
  "show_hex n = (if n < 16 then [hex_digit n] else show_hex (n div 16) @ [hex_digit (n mod 16)])"

declare show_hex.simps [simp del]

text \<open>\<open>for (i = 0; i < n; i++) ss << dis(gen);\<close>\<close>

fun put_draws :: "('g \<Rightarrow> int32 \<times> 'g) \<Rightarrow> nat \<Rightarrow> 'g \<Rightarrow> string \<times> 'g" where
  "put_draws d 0 g = ([], g)"
| "put_draws d (Suc n) g =
     (let (v, g) = d g; (s, g) = put_draws d n g in (show_hex (unat v) @ s, g))"

definition generateUUID ::
  "('g \<Rightarrow> int32 \<times> 'g) \<Rightarrow> ('g \<Rightarrow> int32 \<times> 'g) \<Rightarrow> 'g \<Rightarrow> string \<times> 'g" where
  "generateUUID dis dis2 g =
     (let (s1, g) = put_draws dis 8 g;
          (s2, g) = put_draws dis 4 g;
          (s3, g) = put_draws dis 3 g;
          (v, g) = dis2 g;
          (s4, g) = put_draws dis 3 g;
          (s5, g) = put_draws dis 12 g
      in (s1 @ ''-'' @ s2 @ ''-4'' @ s3 @ ''-'' @ show_hex (unat v) @ s4 @ ''-'' @ s5, g))"

section \<open>The form of an identifier\<close>

fun fits_template :: "char \<Rightarrow> char \<Rightarrow> bool" where
  "fits_template c t =
     (if t = CHR ''x'' then c \<in> set ''0123456789abcdef''
      else if t = CHR ''y'' then c \<in> set ''89ab''
      else c = t)"

definition is_uuid_v4 :: "string \<Rightarrow> bool" where
  "is_uuid_v4 s \<longleftrightarrow> list_all2 fits_template s ''xxxxxxxx-xxxx-4xxx-yxxx-xxxxxxxxxxxx''"

lemma hex_digit_table:
  "list_all (\<lambda>n. hex_digit n \<in> set ''0123456789abcdef'') [0..<16]"
  "list_all (\<lambda>n. hex_digit n \<in> set ''89ab'') [8..<12]"
  by code_simp+

lemma hex_digit_range: "n < 16 \<Longrightarrow> hex_digit n \<in> set ''0123456789abcdef''"
  using hex_digit_table(1) unfolding list_all_iff set_upt by auto

lemma hex_digit_variant: "n \<in> {8, 9, 10, 11} \<Longrightarrow> hex_digit n \<in> set ''89ab''"
  using hex_digit_table(2) unfolding list_all_iff set_upt by auto

lemma show_hex_single: "n < 16 \<Longrightarrow> show_hex n = [hex_digit n]"
  by (simp add: show_hex.simps)

lemma put_draws_template:
  assumes "\<And>g. unat (fst (dis g)) < 16"
  shows "list_all2 fits_template (fst (put_draws dis n g)) (replicate n (CHR ''x''))"
proof (induction n arbitrary: g)
  case (Suc n)
  have "fits_template (hex_digit (unat (fst (dis g)))) (CHR ''x'')"
    using hex_digit_range [OF assms [of g]] by simp
  with Suc [of "snd (dis g)"] show ?case
    by (simp add: split_def Let_def show_hex_single [OF assms] del: fits_template.simps)
qed simp

lemma uuid_template:
  "''xxxxxxxx-xxxx-4xxx-yxxx-xxxxxxxxxxxx'' =
     replicate 8 (CHR ''x'') @ ''-'' @ replicate 4 (CHR ''x'') @ ''-4'' @ replicate 3 (CHR ''x'') @
     ''-'' @ ''y'' @ replicate 3 (CHR ''x'') @ ''-'' @ replicate 12 (CHR ''x'')"
  by (simp add: numeral_eq_Suc)

lemma generateUUID_v4:
  assumes "\<And>g. unat (fst (dis g)) < 16" and "\<And>g. unat (fst (dis2 g)) \<in> {8, 9, 10, 11}"
  shows "is_uuid_v4 (fst (generateUUID dis dis2 g))"
proof -
  note draws = put_draws_template [where dis = dis, OF assms(1)]
  have v: "list_all2 fits_template (show_hex (unat (fst (dis2 h)))) ''y''" for h
  proof -
    have "unat (fst (dis2 h)) < 16" using assms(2) [of h] by auto
    with hex_digit_variant [OF assms(2) [of h]] show ?thesis by (simp add: show_hex_single)
  qed
  have c: "list_all2 fits_template ''-'' ''-''" "list_all2 fits_template ''-4'' ''-4''"
    by simp_all
  show ?thesis
    unfolding is_uuid_v4_def uuid_template generateUUID_def Let_def split_def fst_conv
    by (intro list_all2_appendI draws v c)
qed

lemma is_uuid_v4_length: "is_uuid_v4 s \<Longrightarrow> length s = 36"
  by (auto simp: is_uuid_v4_def dest: list_all2_lengthD)

lemma uuid_is_v4_length:
  assumes "\<And>g. unat (fst (dis g)) < 16" and "\<And>g. unat (fst (dis2 g)) \<in> {8, 9, 10, 11}"
  shows "length (fst (generateUUID dis dis2 g)) = 36"
  using generateUUID_v4 [of dis dis2 g] assms by (blast intro: is_uuid_v4_length)

text \<open>
  C19. Whatever the random source draws within its ranges, the identifier is a version 4
  UUID: 36 characters, lower-case hexadecimal, with the dashes, the version digit 4 and
  the variant digit 8, 9, a or b where they belong.
\<close>

theorem uuid_is_v4:
  assumes "\<And>g. unat (fst (dis g)) < 16" and "\<And>g. unat (fst (dis2 g)) \<in> {8, 9, 10, 11}"
  shows "is_uuid_v4 (fst (generateUUID dis dis2 g)) \<and> length (fst (generateUUID dis dis2 g)) = 36"
  using generateUUID_v4 [of dis dis2 g] assms is_uuid_v4_length by blast

definition counting_draw :: "nat \<Rightarrow> int32 \<times> nat" where
  "counting_draw g = (of_nat (g mod 16), Suc g)"

definition counting_draw2 :: "nat \<Rightarrow> int32 \<times> nat" where
  "counting_draw2 g = (of_nat (8 + g mod 4), Suc g)"

lemma counting_draw_range: "unat (fst (counting_draw g)) < 16"
  by (simp add: counting_draw_def unat_of_nat)

lemma counting_draw2_range: "unat (fst (counting_draw2 g)) \<in> {8, 9, 10, 11}"
proof -
  have "g mod 4 \<in> {0, 1, 2, 3}" by auto
  then show ?thesis by (auto simp: counting_draw2_def)
qed

theorem uuid_is_v4_witness:
  "is_uuid_v4 (fst (generateUUID counting_draw counting_draw2 0)) \<and>
   length (fst (generateUUID counting_draw counting_draw2 0)) = 36"
  by (rule uuid_is_v4 [OF counting_draw_range counting_draw2_range])

end
