(* ===== verification/Event_Bus_Hazelcast.thy ===== *)
theory Event_Bus_Hazelcast imports Event_Bus_Facts Hazelcast_Cluster Uuid begin

text \<open>
  The event bus of a cluster node, \<open>event_bus_hazeclast.hpp\<close>. The file repeats the text
  of \<open>event_bus.hpp\<close> for the dispatcher, the sender and the intake: the copies have
  their own definitions here and are proved equal to the ones of \<open>Event_Bus\<close>. What it
  has of its own is the registration of consumers with the cluster and the requests that
  leave the process.
\<close>

section \<open>State\<close>

text \<open>A bus with the node's view of the cluster and the state of the random source.\<close>

record ('d, 'g) hz_bus = bus +
  hb_hz :: "'d hz_cluster"
  hb_rng :: 'g

definition hz_EventBus :: "'d hz_cluster \<Rightarrow> 'g \<Rightarrow> event_bus_options \<Rightarrow> ('d, 'g) hz_bus" where
  "hz_EventBus hz rng options =
     \<lparr>bus_options = options, bus_consumers = Map.empty, bus_consumersLocal = Map.empty,
      bus_publishers = Map.empty, bus_endpoints = Map.empty, bus_clients = [], bus_tasks = [],
      bus_connects = [], bus_trace = [], hb_hz = hz, hb_rng = rng\<rparr>"

section \<open>Registration\<close>

definition hz_consumer ::
  "'d hz_ops \<Rightarrow> string \<Rightarrow> callback \<Rightarrow> ('d, 'g) hz_bus \<Rightarrow> ('d, 'g) hz_bus" where
  "hz_consumer ops address f st =
     (let st = st\<lparr>bus_consumers := emplace address f (bus_consumers st)\<rparr>
      in st\<lparr>hb_hz := addSub ops address (eo_port (bus_options st)) (eo_host (bus_options st)) (hb_hz st)\<rparr>)"

definition hz_localConsumer :: "string \<Rightarrow> callback \<Rightarrow> ('d, 'g) hz_bus \<Rightarrow> ('d, 'g) hz_bus" where
  "hz_localConsumer address f st =
     st\<lparr>bus_consumersLocal := emplace address f (bus_consumersLocal st)\<rparr>"

definition hz_request ::
  "string \<Rightarrow> any_val \<Rightarrow> callback \<Rightarrow> ('d, 'g) hz_bus \<Rightarrow> ('d, 'g) hz_bus" where
  "hz_request address val func st =
     st\<lparr>bus_tasks := bus_tasks st @ [RequestTask address val func]\<rparr>"

section \<open>Sending and dispatching\<close>

definition hz_processStringMessage ::
  "(string \<Rightarrow> uint64) \<Rightarrow> string \<Rightarrow> string \<Rightarrow> ('z bus_scheme, unit) action" where
  "hz_processStringMessage hsh message_str addr st =
     (let h = hsh addr in
      case bus_endpoints st h of
        None \<Rightarrow> (Inr (), st\<lparr>bus_connects := bus_connects st @ [Connect h addr message_str]\<rparr>)
      | Some i \<Rightarrow>
          (if i < length (bus_clients st) \<and> cl_conn (bus_clients st ! i)
           then emit (ClientSend (cl_addr (bus_clients st ! i)) message_str) st
           else (Inl NullDereference, st)))"

definition hz_processOnTcpMessage ::
  "user_code \<Rightarrow> (string \<Rightarrow> uint64) \<Rightarrow> clustered_message \<Rightarrow> ('z bus_scheme, unit) action" where
  "hz_processOnTcpMessage cb hsh m =
     (let addr = getHost m @ '':'' @ format_int (getPort m) in
      abind (alift (isRequest m)) (\<lambda>req st.
        if req then
          if isLocal m then
            abind (invoke cb (getFunc m) m) (\<lambda>m.
            let m = set_body (reply m) m in
            abind (invoke cb (getCallbackFunc m) m) (\<lambda>_. areturn ())) st
          else if getHost m = options_getHost (bus_options st) \<and>
                  getPort m = options_getPort (bus_options st) then
            abind (consumers_index (getReplay m)) (\<lambda>function_invoke.
            abind (invoke cb function_invoke m) (\<lambda>m st.
              case bus_publishers st (getAddress m) of
                None \<Rightarrow> (Inr (), st)
              | Some it \<Rightarrow>
                  abind (invoke cb it (set_body (reply m) m)) (\<lambda>_.
                    publishers_erase (getAddress m)) st)) st
          else
            (let msg = m;
                 msg = setPort (options_getPort (bus_options st)) msg;
                 msg = setHost (options_getHost (bus_options st)) msg
             in abind (alift (to_string msg)) (\<lambda>message_str.
                  hz_processStringMessage hsh message_str addr) st)
        else
          (let address = getAddress m in
           if str_contains address ''__vertx.reply'' then
             abind (publishers_index address) (\<lambda>reposne_invoke.
             abind (invoke cb reposne_invoke m) (\<lambda>_.
               publishers_erase address)) st
           else
             abind (consumers_index (getAddress m)) (\<lambda>function_invoke st.
               let response_message = ClusteredMessage 0 1 9 True (getAddress m) (getReplay m)
                     (options_getPort (bus_options st)) (getHost m) 4 (AnyCString [])
               in abind (invoke cb function_invoke m) (\<lambda>_.
                  abind (alift (to_string response_message)) (\<lambda>message_str.
                    hz_processStringMessage hsh message_str addr)) st) st)))"

definition hz_onMessage :: "string \<Rightarrow> ('z bus_scheme, unit) action" where
  "hz_onMessage request =
     (if str_contains request ''ping'' then
        abind (emit (ConnSend ''pong'')) (\<lambda>_. emit BufferReset)
      else
        abind (amodify (\<lambda>st. st\<lparr>bus_tasks := bus_tasks st @ [MessageTask request]\<rparr>)) (\<lambda>_.
        abind (emit (ConnSend [])) (\<lambda>_. emit BufferReset)))"

definition hz_run_message ::
  "user_code \<Rightarrow> (string \<Rightarrow> uint64) \<Rightarrow> string \<Rightarrow> ('z bus_scheme, unit) action" where
  "hz_run_message cb hsh request =
     abind (alift (to_message request False)) (\<lambda>m. hz_processOnTcpMessage cb hsh m)"

section \<open>Requests\<close>

text \<open>\<open>hz->next(address)\<close> and \<open>uuid::generateUUID()\<close> on the state of the bus.\<close>

definition hz_next :: "string \<Rightarrow> (('d, 'g) hz_bus, server_id) action" where
  "hz_next address st = (let (r, hz) = next_server address (hb_hz st) in (r, st\<lparr>hb_hz := hz\<rparr>))"

definition hz_uuid ::
  "('g \<Rightarrow> int32 \<times> 'g) \<Rightarrow> ('g \<Rightarrow> int32 \<times> 'g) \<Rightarrow> (('d, 'g) hz_bus, string) action" where
  "hz_uuid dis dis2 st = (let (u, g) = generateUUID dis dis2 (hb_rng st) in (Inr u, st\<lparr>hb_rng := g\<rparr>))"

definition run_hz_request ::
  "('g \<Rightarrow> int32 \<times> 'g) \<Rightarrow> ('g \<Rightarrow> int32 \<times> 'g) \<Rightarrow> user_code \<Rightarrow> (string \<Rightarrow> uint64) \<Rightarrow>
   string \<Rightarrow> any_val \<Rightarrow> callback \<Rightarrow> (('d, 'g) hz_bus, unit) action" where
  "run_hz_request dis dis2 cb hsh address val func st =
     (case bus_consumersLocal st address of
        None \<Rightarrow>
          abind (hz_uuid dis dis2) (\<lambda>u.
          let uuid = ''__vertx.reply.'' @ u in
          abind (hz_next address) (\<lambda>server.
          let request_message = ClusteredMessage 0 1 9 True uuid address (ServerID_getPort server)
                (ServerID_getHost server) 4 val;
              request_message = setRequest True request_message in
          abind (amodify (\<lambda>st. st\<lparr>bus_publishers := emplace uuid func (bus_publishers st)\<rparr>)) (\<lambda>_.
            hz_processOnTcpMessage cb hsh request_message))) st
      | Some f \<Rightarrow>
          (let request_message = ClusteredMessage 0 1 9 True ''__vertx.reply.local'' address
                 (eo_port (bus_options st)) (eo_host (bus_options st)) 4 val;
               request_message = setRequest True request_message;
               request_message = setFunc f func request_message
           in hz_processOnTcpMessage cb hsh request_message st))"

fun run_hz_task ::
  "('g \<Rightarrow> int32 \<times> 'g) \<Rightarrow> ('g \<Rightarrow> int32 \<times> 'g) \<Rightarrow> user_code \<Rightarrow> (string \<Rightarrow> uint64) \<Rightarrow>
   task \<Rightarrow> (('d, 'g) hz_bus, unit) action" where
  "run_hz_task dis dis2 cb hsh (RequestTask a v f) = run_hz_request dis dis2 cb hsh a v f"
| "run_hz_task dis dis2 cb hsh (MessageTask s) = hz_run_message cb hsh s"

section \<open>The two copies of the code\<close>

lemma hz_processStringMessage_eq: "hz_processStringMessage = processStringMessage"
  by (intro ext) (simp add: hz_processStringMessage_def processStringMessage_def)

lemma hz_processOnTcpMessage_eq: "hz_processOnTcpMessage = processOnTcpMessage"
proof (intro ext)
  fix cb hsh m and st :: "'z bus_scheme"
  note copies = hz_processOnTcpMessage_def processOnTcpMessage_def Let_def message_addr_def
    local_request_def self_request_def forward_request_def deliver_reply_def serve_request_def
    hz_processStringMessage_eq options_getHost_def options_getPort_def setHost_def setPort_def
  show "hz_processOnTcpMessage cb hsh m st = processOnTcpMessage cb hsh m st"
  proof (cases "isRequest m")
    case (Inl e)
    then show ?thesis by (simp add: copies)
  next
    case (Inr req)
    then show ?thesis
      by (cases req; cases "isLocal m"; cases "str_contains (getAddress m) ''__vertx.reply''";
          cases "getHost m = eo_host (bus_options st) \<and> getPort m = eo_port (bus_options st)")
         (simp_all add: copies, blast+)
  qed
qed

lemma hz_run_message_eq: "hz_run_message = run_message"
  by (intro ext) (simp add: hz_run_message_def run_message_def hz_processOnTcpMessage_eq)

lemma hz_onMessage_eq: "hz_onMessage = onMessage"
  by (intro ext) (simp add: hz_onMessage_def onMessage_def)

section \<open>What a request becomes\<close>

definition remote_message :: "string \<Rightarrow> string \<Rightarrow> server_id \<Rightarrow> any_val \<Rightarrow> clustered_message" where
  "remote_message uuid a s v =
     setRequest True (ClusteredMessage 0 1 9 True uuid a (sid_port s) (sid_host s) 4 v)"

lemma remote_message_fields [simp]:
  "isRequest (remote_message uuid a s v) = Inr True"
  "\<not> isLocal (remote_message uuid a s v)"
  "getAddress (remote_message uuid a s v) = uuid"
  "getReplay (remote_message uuid a s v) = a"
  "getHost (remote_message uuid a s v) = sid_host s"
  "getPort (remote_message uuid a s v) = sid_port s"
  by (simp_all add: remote_message_def ClusteredMessage_def message_defs isRequest_def)

text \<open>The state a request leaves before its message is dispatched: turn taken, callback filed.\<close>

definition filed ::
  "string \<Rightarrow> callback \<Rightarrow> 'd hz_cluster \<Rightarrow> 'g \<Rightarrow> ('d, 'g) hz_bus \<Rightarrow> ('d, 'g) hz_bus" where
  "filed uuid f hz g st =
     st\<lparr>hb_rng := g, hb_hz := hz, bus_publishers := emplace uuid f (bus_publishers st)\<rparr>"

lemma filed_frame [simp]:
  "bus_options (filed uuid f hz g st) = bus_options st"
  "bus_consumers (filed uuid f hz g st) = bus_consumers st"
  "bus_consumersLocal (filed uuid f hz g st) = bus_consumersLocal st"
  "bus_publishers (filed uuid f hz g st) = emplace uuid f (bus_publishers st)"
  "bus_endpoints (filed uuid f hz g st) = bus_endpoints st"
  "bus_clients (filed uuid f hz g st) = bus_clients st"
  "bus_tasks (filed uuid f hz g st) = bus_tasks st"
  "bus_connects (filed uuid f hz g st) = bus_connects st"
  "bus_trace (filed uuid f hz g st) = bus_trace st"
  "hb_hz (filed uuid f hz g st) = hz"
  by (simp_all add: filed_def)

lemma run_hz_request_None:
  assumes "bus_consumersLocal st a = None" and "generateUUID dis dis2 (hb_rng st) = (u, g)"
    and "next_server a (hb_hz st) = (Inr s, hz)"
  shows "run_hz_request dis dis2 cb hsh a v f st =
    processOnTcpMessage cb hsh (remote_message (''__vertx.reply.'' @ u) a s v)
      (filed (''__vertx.reply.'' @ u) f hz g st)"
  using assms
  by (simp add: run_hz_request_def hz_uuid_def hz_next_def Let_def hz_processOnTcpMessage_eq
      remote_message_def filed_def ServerID_getPort_def ServerID_getHost_def)

lemma run_hz_request_no_server:
  assumes "bus_consumersLocal st a = None" and "generateUUID dis dis2 (hb_rng st) = (u, g)"
    and "next_server a (hb_hz st) = (Inl e, hz)"
  shows "run_hz_request dis dis2 cb hsh a v f st = (Inl e, st\<lparr>hb_rng := g, hb_hz := hz\<rparr>)"
  using assms by (simp add: run_hz_request_def hz_uuid_def hz_next_def Let_def)

lemma run_hz_request_Some:
  "bus_consumersLocal st a = Some f \<Longrightarrow>
     run_hz_request dis dis2 cb hsh a v g st =
       local_request cb (local_message (bus_options st) a v f g) st"
  by (simp add: run_hz_request_def Let_def hz_processOnTcpMessage_eq flip: local_message_def)
     (rule process_local_message)

text \<open>The three ways on for a message that leaves the process.\<close>

definition is_self :: "event_bus_options \<Rightarrow> server_id \<Rightarrow> bool" where
  "is_self opts s \<longleftrightarrow> sid_host s = eo_host opts \<and> sid_port s = eo_port opts"

lemma process_self:
  "is_self (bus_options st) s \<Longrightarrow>
     processOnTcpMessage cb hsh (remote_message uuid a s v) st =
       self_request cb (remote_message uuid a s v) st"
  by (simp add: processOnTcpMessage_def Let_def is_self_def)

definition server_addr :: "server_id \<Rightarrow> string" where
  "server_addr s = sid_host s @ '':'' @ format_int (sid_port s)"

lemma process_forward:
  "\<not> is_self (bus_options st) s \<Longrightarrow>
     processOnTcpMessage cb hsh (remote_message uuid a s v) st =
       forward_request hsh (server_addr s) (remote_message uuid a s v) st"
  by (auto simp: processOnTcpMessage_def Let_def is_self_def message_addr_def server_addr_def)

text \<open>The bytes of a request: target address, reply address, own port and host, no body.\<close>

definition remote_frame :: "event_bus_options \<Rightarrow> string \<Rightarrow> string \<Rightarrow> string" where
  "remote_frame opts uuid a =
     wire_head (of_nat (27 + length a + length uuid + length (eo_host opts)) - 4)
       (int_to_char 1) (int_to_char 9) (int_to_char 0) a uuid (eo_port opts) (eo_host opts) 4"

lemma to_string_remote:
  "to_string (setHost (eo_host opts) (setPort (eo_port opts) (remote_message uuid a s v))) =
     (if 27 + length a + length uuid + length (eo_host opts) \<le> buffer_size
      then Inr (remote_frame opts uuid a) else Inl OutOfBoundsWrite)"
proof -
  let ?m = "setHost (eo_host opts) (setPort (eo_port opts) (remote_message uuid a s v))"
  have n: "\<forall>b. cm_reply ?m \<noteq> AnyString b"
    by (simp add: remote_message_def ClusteredMessage_def message_defs)
  have l: "frame_length ?m = 27 + length a + length uuid + length (eo_host opts)"
    by (simp add: frame_length_def remote_message_def ClusteredMessage_def message_defs)
  show ?thesis
    by (simp add: to_string_eq frame_fits_bodyless [OF n] message_frame_head [OF n] l)
       (simp add: remote_frame_def remote_message_def ClusteredMessage_def message_defs)
qed

lemma remote_frame_unreadable:
  assumes "27 + length a + length uuid + length (eo_host opts) \<le> buffer_size"
  shows "run_message cb hsh (remote_frame opts uuid a) st = (Inl OutOfBoundsRead, st)"
  using assms
  by (simp add: run_message_def remote_frame_def to_message_no_body buffer_size_def int_max_def)

lemma response_frame_unreadable:
  assumes "27 + length rep + length addr + length hst \<le> buffer_size"
  shows "run_message cb hsh (response_frame addr rep prt hst) st = (Inl OutOfBoundsRead, st)"
  using assms
  by (simp add: run_message_def response_frame_def to_message_no_body buffer_size_def int_max_def)

end
