(* ===== verification/Clustered_Bus.thy ===== *)
theory Clustered_Bus imports Event_Bus_Hazelcast begin

text \<open>
  What holds of the bus of a cluster node: the steps it makes, the invariant of the states
  they reach, and the fate of a request on each of its ways (to a consumer of the process,
  to this node through the cluster's table, to another node).
\<close>

section \<open>Steps\<close>

inductive clustered_step ::
  "'d hz_ops \<Rightarrow> ('g \<Rightarrow> int32 \<times> 'g) \<Rightarrow> ('g \<Rightarrow> int32 \<times> 'g) \<Rightarrow> user_code \<Rightarrow> (string \<Rightarrow> uint64) \<Rightarrow>
   ('d, 'g) hz_bus \<Rightarrow> ('d, 'g) hz_bus \<Rightarrow> bool"
  for ops :: "'d hz_ops" and dis dis2 :: "'g \<Rightarrow> int32 \<times> 'g" and cb :: user_code
    and hsh :: "string \<Rightarrow> uint64" where
  cl_consumer: "clustered_step ops dis dis2 cb hsh st (hz_consumer ops a f st)"
| cl_localConsumer: "clustered_step ops dis dis2 cb hsh st (hz_localConsumer a f st)"
| cl_request: "clustered_step ops dis dis2 cb hsh st (hz_request a v f st)"
| cl_message: "clustered_step ops dis dis2 cb hsh st (snd (hz_onMessage s st))"
| cl_task: "t \<in> set (bus_tasks st) \<Longrightarrow>
    clustered_step ops dis dis2 cb hsh st
      (snd (run_hz_task dis dis2 cb hsh t (st\<lparr>bus_tasks := remove1 t (bus_tasks st)\<rparr>)))"
| cl_connect: "c \<in> set (bus_connects st) \<Longrightarrow>
    clustered_step ops dis dis2 cb hsh st
      (snd (run_connect c (st\<lparr>bus_connects := remove1 c (bus_connects st)\<rparr>)))"
| cl_up: "clustered_step ops dis dis2 cb hsh st (snd (client_connected i st))"
| cl_down: "clustered_step ops dis dis2 cb hsh st (snd (client_disconnected i st))"
| cl_cluster: "hz_step ops (hb_hz st) hz \<Longrightarrow> clustered_step ops dis dis2 cb hsh st (st\<lparr>hb_hz := hz\<rparr>)"

inductive clustered_reachable ::
  "'d hz_ops \<Rightarrow> ('g \<Rightarrow> int32 \<times> 'g) \<Rightarrow> ('g \<Rightarrow> int32 \<times> 'g) \<Rightarrow> user_code \<Rightarrow> (string \<Rightarrow> uint64) \<Rightarrow>
   event_bus_options \<Rightarrow> ('d, 'g) hz_bus \<Rightarrow> bool"
  for ops :: "'d hz_ops" and dis dis2 :: "'g \<Rightarrow> int32 \<times> 'g" and cb :: user_code
    and hsh :: "string \<Rightarrow> uint64" and opts :: event_bus_options where
  cl_start: "hz_reachable ops hz \<Longrightarrow> clustered_reachable ops dis dis2 cb hsh opts (hz_EventBus hz g opts)"
| cl_next: "clustered_reachable ops dis dis2 cb hsh opts st \<Longrightarrow>
    clustered_step ops dis dis2 cb hsh st st' \<Longrightarrow> clustered_reachable ops dis dis2 cb hsh opts st'"

inductive_cases clustered_stepE: "clustered_step ops dis dis2 cb hsh st st'"

section \<open>The invariant\<close>

definition announced :: "event_bus_options \<Rightarrow> 'd hz_cluster \<Rightarrow> string \<Rightarrow> bool" where
  "announced opts hz a \<longleftrightarrow>
     (\<exists>nid. (a, ClusterNodeInfo nid (ServerID (eo_port opts) (eo_host opts))) \<in> set (hc_local_subs hz))"

text \<open>
  Connections are filed under the hash of their address; the pending replies are under
  reply addresses; every consumer has been announced to the cluster with the host and the
  port of the bus; the node's view of the cluster is one a node can reach.
\<close>

definition node_ok ::
  "'d hz_ops \<Rightarrow> (string \<Rightarrow> uint64) \<Rightarrow> event_bus_options \<Rightarrow> ('d, 'g) hz_bus \<Rightarrow> bool" where
  "node_ok ops hsh opts st \<longleftrightarrow>
     bus_options st = opts \<and> routes_ok hsh st \<and> hz_reachable ops (hb_hz st) \<and>
     (\<forall>k. bus_publishers st k \<noteq> None \<longrightarrow> str_contains k ''__vertx.reply'') \<and>
     (\<forall>a n. bus_consumers st a = Some (Callback n) \<longrightarrow> announced opts (hb_hz st) a)"

interpretation node: dispatch_invariant hsh "node_ok ops hsh opts" "\<lambda>_. True" for hsh ops opts
  by unfold_locales (auto simp: node_ok_def routes.connecting split: if_splits)

lemma hz_step_subs: "hz_step ops hz hz' \<Longrightarrow> set (hc_local_subs hz) \<subseteq> set (hc_local_subs hz')"
proof (induction rule: hz_step.induct)
  case (step_next st a)
  then show ?case by (auto simp: next_server_def split: option.split list.split)
next
  case (step_event st e)
  then show ?case by (cases e) (auto simp: entryAdded_def entryRemoved_def Let_def)
next
  case (step_member st m)
  then show ?case by (cases m) auto
qed (auto simp: join_def addSub_def Let_def)

lemma announced_step: "hz_step ops hz hz' \<Longrightarrow> announced opts hz a \<Longrightarrow> announced opts hz' a"
  using hz_step_subs unfolding announced_def by blast

lemma node_ok_cluster:
  assumes "node_ok ops hsh opts st" and "hz_step ops (hb_hz st) hz"
  shows "node_ok ops hsh opts (st\<lparr>hb_hz := hz\<rparr>)"
proof -
  from assms have "hz_reachable ops hz" by (auto simp: node_ok_def intro: reach_step)
  moreover from assms have "\<forall>a n. bus_consumers st a = Some (Callback n) \<longrightarrow> announced opts hz a"
    by (auto simp: node_ok_def dest: announced_step [OF assms(2)])
  moreover from assms(1) have "routes_ok hsh (st\<lparr>hb_hz := hz\<rparr>)"
    by (simp add: node_ok_def routes_ok_def)
  ultimately show ?thesis using assms(1) by (simp add: node_ok_def)
qed

lemma announced_addSub:
  "announced opts (addSub ops a (eo_port opts) (eo_host opts) hz) b \<longleftrightarrow> b = a \<or> announced opts hz b"
  by (auto simp: announced_def addSub_def Let_def)

lemma node_ok_consumer:
  assumes "node_ok ops hsh opts st"
  shows "node_ok ops hsh opts (hz_consumer ops a f st)"
proof -
  have "hz_reachable ops (addSub ops a (eo_port opts) (eo_host opts) (hb_hz st))"
    using assms by (auto simp: node_ok_def intro: reach_step step_addSub)
  then show ?thesis using assms
    by (auto simp: node_ok_def hz_consumer_def Let_def routes_ok_def announced_addSub emplace_apply
        split: if_splits)
qed

lemma node_ok_updates [simp]:
  "node_ok ops hsh opts (st\<lparr>bus_tasks := ts\<rparr>) = node_ok ops hsh opts st"
  "node_ok ops hsh opts (st\<lparr>bus_consumersLocal := c\<rparr>) = node_ok ops hsh opts st"
  "node_ok ops hsh opts (st\<lparr>bus_trace := t\<rparr>) = node_ok ops hsh opts st"
  "node_ok ops hsh opts (st\<lparr>hb_rng := g\<rparr>) = node_ok ops hsh opts st"
  by (simp_all add: node_ok_def routes_ok_def)

lemma contains_reply_prefix: "str_contains (''__vertx.reply.'' @ u) ''__vertx.reply''"
proof -
  have "str_contains ''__vertx.reply.'' ''__vertx.reply''" by code_simp
  from str_contains_mono [OF this, of "[]" u] show ?thesis by simp
qed

lemma node_ok_filed:
  assumes "node_ok ops hsh opts st" and "hz_step ops (hb_hz st) hz"
  shows "node_ok ops hsh opts (filed (''__vertx.reply.'' @ u) f hz g st)"
proof -
  have "node_ok ops hsh opts (st\<lparr>hb_hz := hz\<rparr>)" using assms by (rule node_ok_cluster)
  then show ?thesis
    by (auto simp: node_ok_def filed_def routes_ok_def emplace_apply contains_reply_prefix
        split: if_splits simp del: append_Cons)
qed

lemma node_ok_process:
  assumes "node_ok ops hsh opts st"
  shows "node_ok ops hsh opts (snd (processOnTcpMessage cb hsh m st))"
  by (rule keepsD [OF node.keeps_process assms]) simp

lemma node_ok_request:
  assumes ok: "node_ok ops hsh opts st"
  shows "node_ok ops hsh opts (snd (run_hz_request dis dis2 cb hsh a v f st))"
proof (cases "bus_consumersLocal st a")
  case (Some h)
  have "node_ok ops hsh opts (snd (local_request cb m st))" for m
    by (rule keepsD [OF node.keeps_local ok])
  then show ?thesis by (simp only: run_hz_request_Some [OF Some])
next
  case None
  obtain u g where u: "generateUUID dis dis2 (hb_rng st) = (u, g)" by (rule prod.exhaust)
  obtain r hz where r: "next_server a (hb_hz st) = (r, hz)" by (rule prod.exhaust)
  have s: "hz_step ops (hb_hz st) hz" using step_next [of ops "hb_hz st" a] by (simp only: r snd_conv)
  show ?thesis
  proof (cases r)
    case (Inl e)
    have "st\<lparr>hb_rng := g, hb_hz := hz\<rparr> = st\<lparr>hb_hz := hz\<rparr>\<lparr>hb_rng := g\<rparr>" by simp
    with node_ok_cluster [OF ok s] have "node_ok ops hsh opts (st\<lparr>hb_rng := g, hb_hz := hz\<rparr>)"
      by (simp only: node_ok_updates)
    then show ?thesis
      by (simp only: run_hz_request_no_server [OF None u r [unfolded Inl]] snd_conv)
  next
    case (Inr srv)
    have "node_ok ops hsh opts (snd (processOnTcpMessage cb hsh m
        (filed (''__vertx.reply.'' @ u) f hz g st)))" for m
      by (rule node_ok_process [OF node_ok_filed [OF ok s]])
    then show ?thesis by (simp only: run_hz_request_None [OF None u r [unfolded Inr]])
  qed
qed

lemma node_ok_connect:
  assumes "node_ok ops hsh opts st" and "c \<in> set (bus_connects st)"
  shows "node_ok ops hsh opts (snd (run_connect c (st\<lparr>bus_connects := remove1 c (bus_connects st)\<rparr>)))"
proof -
  obtain h a s where c: "c = Connect h a s" by (cases c)
  from assms c have "h = hsh a" unfolding node_ok_def routes_ok_def by blast
  moreover from assms(1) have "routes_ok hsh (st\<lparr>bus_connects := remove1 c (bus_connects st)\<rparr>)"
    by (simp add: node_ok_def routes_remove_connect)
  ultimately have "routes_ok hsh
      (snd (run_connect c (st\<lparr>bus_connects := remove1 c (bus_connects st)\<rparr>)))"
    unfolding c by (intro routes_run_connect)
  with assms(1) show ?thesis by (simp add: node_ok_def c)
qed

lemma node_ok_client:
  assumes "node_ok ops hsh opts st"
  shows "node_ok ops hsh opts (snd (client_connected i st))"
    and "node_ok ops hsh opts (snd (client_disconnected i st))"
  using assms routes_client [THEN keepsD, of hsh st i]
  by (auto simp: node_ok_def client_connected_def client_disconnected_def Let_def)

lemma node_ok_task:
  "node_ok ops hsh opts st \<Longrightarrow> node_ok ops hsh opts (snd (run_hz_task dis dis2 cb hsh t st))"
  by (cases t) (simp_all add: node_ok_request hz_run_message_eq keepsD [OF node.keeps_message])

lemma node_ok_step:
  "clustered_step ops dis dis2 cb hsh st st' \<Longrightarrow> node_ok ops hsh opts st \<Longrightarrow> node_ok ops hsh opts st'"
proof (induction rule: clustered_step.induct)
  case (cl_task t st)
  then show ?case by (simp add: node_ok_task)
qed (simp_all add: node_ok_consumer hz_localConsumer_def hz_request_def hz_onMessage_def
    node_ok_connect node_ok_client node_ok_cluster)

lemma reachable_node_ok:
  "clustered_reachable ops dis dis2 cb hsh opts st \<Longrightarrow> node_ok ops hsh opts st"
proof (induction rule: clustered_reachable.induct)
  case (cl_start hz g)
  then show ?case by (simp add: node_ok_def hz_EventBus_def routes_ok_def)
next
  case (cl_next st st')
  then show ?case by (blast intro: node_ok_step)
qed

text \<open>No frame with a body ever leaves a node.\<close>

lemma silent_request:
  assumes "silent st"
  shows "silent (snd (run_hz_request dis dis2 cb hsh a v f st))"
proof (cases "bus_consumersLocal st a")
  case (Some h)
  show ?thesis
    unfolding run_hz_request_Some [OF Some] by (rule keepsD [OF silence.keeps_local assms])
next
  case None
  obtain u g where u: "generateUUID dis dis2 (hb_rng st) = (u, g)" by (rule prod.exhaust)
  obtain r hz where r: "next_server a (hb_hz st) = (r, hz)" by (rule prod.exhaust)
  show ?thesis
  proof (cases r)
    case (Inl e)
    with assms show ?thesis
      by (simp add: run_hz_request_no_server [OF None u r [unfolded Inl]] silent_def outgoing_def)
  next
    case (Inr srv)
    let ?m = "remote_message (''__vertx.reply.'' @ u) a srv v"
    have "silent (filed (''__vertx.reply.'' @ u) f hz g st)"
      using assms by (simp add: silent_def outgoing_def)
    moreover have "unreadable s" if "to_string (setHost h (setPort p ?m)) = Inr s" for h p s
      using that by (rule bodyless_unreadable [rotated])
        (simp add: remote_message_def ClusteredMessage_def message_defs)
    ultimately show ?thesis
      unfolding run_hz_request_None [OF None u r [unfolded Inr]] by (intro keepsD [OF silence.keeps_process])
  qed
qed

lemma silent_task: "silent st \<Longrightarrow> silent (snd (run_hz_task dis dis2 cb hsh t st))"
  by (cases t) (simp_all add: silent_request hz_run_message_eq keepsD [OF silence.keeps_message])

lemma silent_step: "clustered_step ops dis dis2 cb hsh st st' \<Longrightarrow> silent st \<Longrightarrow> silent st'"
proof (induction rule: clustered_step.induct)
  case (cl_task t st)
  then show ?case by (intro silent_task) (simp del: remove1.simps)
next
  case (cl_message st s)
  then show ?case by (auto simp: hz_onMessage_def silent_def outgoing_def)
qed (simp_all add: silent_run_connect silent_client hz_consumer_def hz_localConsumer_def hz_request_def Let_def,
     simp_all add: silent_def outgoing_def)

lemma reachable_silent: "clustered_reachable ops dis dis2 cb hsh opts st \<Longrightarrow> silent st"
proof (induction rule: clustered_reachable.induct)
  case (cl_start hz g)
  then show ?case by (simp add: silent_def outgoing_def hz_EventBus_def)
qed (blast intro: silent_step)

section \<open>Properties\<close>

text \<open>
  The two event buses handle what arrives alike: the dispatcher, the sender, the
  intake and the task it queues are the same functions in both files, on every message
  and every state.
\<close>

theorem buses_dispatch_alike:
  "hz_processOnTcpMessage cb hsh m st = processOnTcpMessage cb hsh m st \<and>
   hz_processStringMessage hsh s a st = processStringMessage hsh s a st \<and>
   hz_onMessage s st = onMessage s st \<and> hz_run_message cb hsh s st = run_message cb hsh s st"
  by (simp add: hz_processOnTcpMessage_eq hz_processStringMessage_eq hz_onMessage_eq hz_run_message_eq)

lemma self_request_run:
  assumes "bus_consumersLocal st a = None" and "bus_consumers st a = Some (Callback n)"
    and "generateUUID dis dis2 (hb_rng st) = (u, g)"
    and "next_server a (hb_hz st) = (Inr s, hz)" and "is_self (bus_options st) s"
    and "bus_publishers st (''__vertx.reply.'' @ u) = None"
    and "m = remote_message (''__vertx.reply.'' @ u) a s v"
    and "getAddress (cb n m) = ''__vertx.reply.'' @ u"
  shows "run_hz_request dis dis2 cb hsh a v (Callback k) st =
    (Inr (), st\<lparr>bus_trace := bus_trace st @
         [Invoked n m, Invoked k (set_body (reply (cb n m)) (cb n m))],
       hb_hz := hz, hb_rng := g\<rparr>)"
proof -
  let ?u = "''__vertx.reply.'' @ u" and ?st = "filed (''__vertx.reply.'' @ u) (Callback k) hz g st"
  have "run_hz_request dis dis2 cb hsh a v (Callback k) st = self_request cb m ?st"
    using assms(5) by (simp only: run_hz_request_None [OF assms(1,3,4)] assms(7) process_self filed_frame)
  also have "consumers_index (getReplay m) ?st = (Inr (Callback n), ?st)"
    using assms(2) by (simp add: assms(7) consumers_index_Some)
  then have "self_request cb m ?st =
      (Inr (), ?st\<lparr>bus_trace := bus_trace st @
         [Invoked n m, Invoked k (set_body (reply (cb n m)) (cb n m))],
       bus_publishers := erase ?u (emplace ?u (Callback k) (bus_publishers st))\<rparr>)"
    using assms(6,8) by (simp add: self_request_def emplace_new del: append_Cons)
  finally show ?thesis
    using assms(6) by (simp only: erase_emplace_new) (simp add: filed_def)
qed

text \<open>
  C4. A request whose turn falls on this node itself: its consumer is called with the
  message, the request's callback is called with the consumer's reply as the body, and
  the callback's entry is gone again. The turn and the random draws are all that remains.
\<close>

theorem self_request_served:
  assumes "bus_consumersLocal st a = None" and "bus_consumers st a = Some (Callback n)"
    and "generateUUID dis dis2 (hb_rng st) = (u, g)"
    and "next_server a (hb_hz st) = (Inr s, hz)" and "is_self (bus_options st) s"
    and "bus_publishers st (''__vertx.reply.'' @ u) = None"
    and "m = remote_message (''__vertx.reply.'' @ u) a s v"
    and "getAddress (cb n m) = ''__vertx.reply.'' @ u"
  shows "run_hz_request dis dis2 cb hsh a v (Callback k) st =
    (Inr (), st\<lparr>bus_trace := bus_trace st @
         [Invoked n m, Invoked k (set_body (reply (cb n m)) (cb n m))],
       hb_hz := hz, hb_rng := g\<rparr>)"
  using assms by (rule self_request_run)

text \<open>A node at port 9000 of host \<open>me\<close> with one consumer, and two servers for its address.\<close>

definition example_opts :: event_bus_options where
  "example_opts = \<lparr>eo_eventBusPoolSize = 4, eo_host = ''me'', eo_port = 9000\<rparr>"

definition example_view :: "server_id list \<Rightarrow> unit hz_cluster" where
  "example_view q =
     \<lparr>hc_nodeID = ''n'', hc_shared = (), hc_local_subs = [], hc_local_endpoints = [''news'' \<mapsto> q]\<rparr>"

definition example_node :: "server_id list \<Rightarrow> (unit, nat) hz_bus" where
  "example_node q =
     (hz_EventBus (example_view q) 0 example_opts)\<lparr>bus_consumers := [''news'' \<mapsto> Callback 1]\<rparr>"

lemma example_node_simps [simp]:
  "bus_options (example_node q) = example_opts"
  "bus_consumers (example_node q) = [''news'' \<mapsto> Callback 1]"
  "bus_consumersLocal (example_node q) = Map.empty"
  "bus_publishers (example_node q) = Map.empty"
  "bus_endpoints (example_node q) = Map.empty"
  "bus_clients (example_node q) = []"
  "bus_connects (example_node q) = []"
  "bus_trace (example_node q) = []"
  "hb_hz (example_node q) = example_view q"
  "eo_host example_opts = ''me''" "eo_port example_opts = 9000"
  "next_server ''news'' (example_view (s # r)) = (Inr s, example_view (r @ [s]))"
  by (simp_all add: example_node_def hz_EventBus_def example_opts_def example_view_def next_server_def)

text \<open>A node that has just been created, with the registrations of the cluster as a list.\<close>

definition start_view :: "(string \<times> cluster_node_info) list hz_cluster" where
  "start_view =
     \<lparr>hc_nodeID = ''n'', hc_shared = [], hc_local_subs = [], hc_local_endpoints = Map.empty\<rparr>"

definition start_node :: "((string \<times> cluster_node_info) list, nat) hz_bus" where
  "start_node = hz_EventBus start_view 0 example_opts"

lemma start_node_reachable:
  "clustered_reachable list_hz_ops counting_draw counting_draw2 cb hsh example_opts start_node"
  unfolding start_node_def by (intro cl_start reach_start) (simp_all add: start_view_def)

lemma start_node_simps [simp]:
  "bus_consumers start_node = Map.empty" "bus_endpoints start_node = Map.empty"
  "bus_connects start_node = []" "bus_options start_node = example_opts"
  by (simp_all add: start_node_def hz_EventBus_def)

text \<open>A consumer, number 1, that answers; callbacks leave their message alone.\<close>

definition example_code :: user_code where
  "example_code n m = (if n = 1 then set_reply (AnyString ''pong'') m else m)"

lemma example_code_simps [simp]:
  "getAddress (example_code n m) = getAddress m"
  "reply (example_code 1 m) = AnyString ''pong''"
  by (simp_all add: example_code_def message_defs)

theorem self_request_served_witness:
  "\<exists>u g. let m = remote_message (''__vertx.reply.'' @ u) ''news'' (ServerID 9000 ''me'') (AnyString ''hi'') in
     run_hz_request counting_draw counting_draw2 example_code (\<lambda>_. 0) ''news'' (AnyString ''hi'') (Callback 2)
       (example_node [ServerID 9000 ''me'', ServerID 80 ''far'']) =
     (Inr (), (example_node [ServerID 9000 ''me'', ServerID 80 ''far''])
        \<lparr>bus_trace := [Invoked 1 m, Invoked 2 (set_body (AnyString ''pong'') (example_code 1 m))],
         hb_hz := example_view [ServerID 80 ''far'', ServerID 9000 ''me''], hb_rng := g\<rparr>)"
proof -
  let ?st = "example_node [ServerID 9000 ''me'', ServerID 80 ''far'']"
  obtain u g where u: "generateUUID counting_draw counting_draw2 (hb_rng ?st) = (u, g)"
    by (rule prod.exhaust)
  have s: "is_self (bus_options ?st) (ServerID 9000 ''me'')"
    by (simp add: is_self_def ServerID_def)
  let ?m = "remote_message (''__vertx.reply.'' @ u) ''news'' (ServerID 9000 ''me'') (AnyString ''hi'')"
  have "run_hz_request counting_draw counting_draw2 example_code (\<lambda>_. 0) ''news'' (AnyString ''hi'') (Callback 2) ?st =
     (Inr (), ?st\<lparr>bus_trace := bus_trace ?st @
         [Invoked 1 ?m, Invoked 2 (set_body (reply (example_code 1 ?m)) (example_code 1 ?m))],
       hb_hz := example_view [ServerID 80 ''far'', ServerID 9000 ''me''], hb_rng := g\<rparr>)"
    by (rule self_request_served [OF _ _ u _ s]) (simp_all del: append_Cons, simp)
  then show ?thesis unfolding Let_def example_code_simps by (intro exI) simp
qed

text \<open>
  C5. A request whose turn falls on another node that has no connection yet: nothing of
  the user's is called, the callback is filed under the fresh reply address, and a frame
  with the target, the reply address and this node's host and port, but not the value
  the caller passed, waits for a connection to that node.
\<close>

theorem remote_request_queued:
  assumes "bus_consumersLocal st a = None"
    and "generateUUID dis dis2 (hb_rng st) = (u, g)"
    and "next_server a (hb_hz st) = (Inr s, hz)" and "\<not> is_self (bus_options st) s"
    and "27 + length a + length (''__vertx.reply.'' @ u) + length (eo_host (bus_options st)) \<le> buffer_size"
    and "bus_endpoints st (hsh (server_addr s)) = None"
  shows "run_hz_request dis dis2 cb hsh a v f st =
    (Inr (), st\<lparr>hb_hz := hz, hb_rng := g,
       bus_publishers := emplace (''__vertx.reply.'' @ u) f (bus_publishers st),
       bus_connects := bus_connects st @
         [Connect (hsh (server_addr s)) (server_addr s)
            (remote_frame (bus_options st) (''__vertx.reply.'' @ u) a)]\<rparr>)"
proof -
  let ?u = "''__vertx.reply.'' @ u" and ?st = "filed (''__vertx.reply.'' @ u) f hz g st"
  have "run_hz_request dis dis2 cb hsh a v f st =
      forward_request hsh (server_addr s) (remote_message ?u a s v) ?st"
    using assms(4) by (simp add: run_hz_request_None [OF assms(1,2,3)] process_forward del: append_Cons)
  also have "\<dots> = processStringMessage hsh (remote_frame (bus_options st) ?u a) (server_addr s) ?st"
    using assms(5) by (simp add: forward_request_def Let_def to_string_remote del: append_Cons)
  finally show ?thesis using assms(6)
    by (simp add: processStringMessage_def Let_def del: append_Cons) (simp add: filed_def)
qed

theorem remote_request_queued_witness:
  "\<exists>u g. run_hz_request counting_draw counting_draw2 example_code (\<lambda>_. 0) ''news'' (AnyString ''hi'') (Callback 2)
       (example_node [ServerID 80 ''far'']) =
     (Inr (), (example_node [ServerID 80 ''far''])
        \<lparr>hb_hz := example_view [ServerID 80 ''far''], hb_rng := g,
         bus_publishers := [''__vertx.reply.'' @ u \<mapsto> Callback 2],
         bus_connects := [Connect 0 (server_addr (ServerID 80 ''far''))
           (remote_frame example_opts (''__vertx.reply.'' @ u) ''news'')]\<rparr>)"
proof -
  let ?st = "example_node [ServerID 80 ''far'']"
  obtain u g where u: "generateUUID counting_draw counting_draw2 (hb_rng ?st) = (u, g)"
    by (rule prod.exhaust)
  have "length u = 36"
    using uuid_is_v4_length [of counting_draw counting_draw2 "hb_rng ?st", OF counting_draw_range
        counting_draw2_range] u by simp
  with remote_request_queued [OF _ u, of "''news''" "ServerID 80 ''far''" "example_view [ServerID 80 ''far'']"
      "\<lambda>_. 0" example_code "AnyString ''hi''" "Callback 2"]
  show ?thesis
    by (intro exI) (simp add: is_self_def ServerID_def emplace_def buffer_size_def del: append_Cons)
qed

text \<open>
  C3. No body reaches another node of this program: in every state a node can reach, whatever
  requests were made with whatever values and whatever its consumers answered, each frame it
  has sent or is about to send, request or response, makes the decoder of the node that reads
  it, alone in its buffer, read past the input, before any consumer or callback is called, and
  that node's state stays as it was.
\<close>

theorem no_body_crosses_the_wire:
  assumes "clustered_reachable ops dis dis2 cb hsh opts st" and "frame \<in> outgoing st"
  shows "hz_run_message cb' hsh' frame peer = (Inl OutOfBoundsRead, peer)"
  using reachable_silent [OF assms(1)] assms(2)
  by (simp add: silent_def unreadable_def hz_run_message_eq run_message_def)

text \<open>A node with a consumer that answers, when a request of another node has arrived.\<close>

definition chat_frame :: string where
  "chat_frame = request_frame 0 ''chat'' ''r1'' 80 ''h'' ''hello''"

definition chat_node :: "((string \<times> cluster_node_info) list, nat) hz_bus" where
  "chat_node = hz_consumer list_hz_ops ''chat'' (Callback 1) start_node"

lemma chat_node_simps [simp]:
  "bus_tasks chat_node = []" "bus_consumers chat_node = [''chat'' \<mapsto> Callback 1]"
  "bus_endpoints chat_node = Map.empty" "bus_connects chat_node = []"
  "eo_port (bus_options chat_node) = 9000"
  by (simp_all add: chat_node_def hz_consumer_def Let_def emplace_def start_node_def hz_EventBus_def)

theorem no_body_crosses_the_wire_witness:
  "\<exists>st. clustered_reachable list_hz_ops counting_draw counting_draw2 example_code (\<lambda>_. 0) example_opts st \<and>
     response_frame ''chat'' ''r1'' 9000 ''h'' \<in> outgoing st \<and>
     hz_run_message example_code (\<lambda>_. 0) (response_frame ''chat'' ''r1'' 9000 ''h'') start_node =
       (Inl OutOfBoundsRead, start_node)"
proof -
  let ?reach = "clustered_reachable list_hz_ops counting_draw counting_draw2 example_code (\<lambda>_. 0) example_opts"
  let ?queued = "snd (hz_onMessage chat_frame chat_node)"
  let ?idle = "?queued\<lparr>bus_tasks := []\<rparr>"
  let ?served = "snd (hz_run_message example_code (\<lambda>_. 0) chat_frame ?idle)"
  have p: "\<not> str_contains chat_frame ''ping''" unfolding chat_frame_def by code_simp
  have q: "bus_tasks ?queued = [MessageTask chat_frame]" "bus_consumers ?queued = bus_consumers chat_node"
    "bus_endpoints ?queued = bus_endpoints chat_node" "bus_connects ?queued = bus_connects chat_node"
    "bus_options ?queued = bus_options chat_node"
    using p by (simp_all add: hz_onMessage_def)
  have "clustered_step list_hz_ops counting_draw counting_draw2 example_code (\<lambda>_. 0) ?queued ?served"
    using clustered_step.cl_task [of "MessageTask chat_frame" ?queued] q(1) by simp
  then have r: "?reach ?served"
    unfolding chat_node_def by (intro cl_next [OF cl_next [OF cl_next [OF start_node_reachable cl_consumer] cl_message]])
  have "\<not> str_contains ''chat'' ''__vertx.reply''" by code_simp
  moreover have "fits_int ''chat'' ''r1'' ''h'' ''hello''" by (simp add: fits_int_def int_max_def)
  moreover have "bus_consumers ?idle ''chat'' = Some (Callback 1)" using q(2) by simp
  moreover have "bus_endpoints ?idle 0 = None" using q(3) by simp
  ultimately have "bus_connects ?served =
      [Connect 0 (''h'' @ '':'' @ format_int 80) (response_frame ''chat'' ''r1'' 9000 ''h'')]"
    using serve_request_served [of "''chat''" "''r1''" "''h''" "''hello''" ?idle 1 "\<lambda>_. 0" 80 example_code 0 "[]"] q(4,5)
    by (simp add: buffer_size_def hz_run_message_eq chat_frame_def)
  then have o: "response_frame ''chat'' ''r1'' 9000 ''h'' \<in> outgoing ?served"
    by (simp add: outgoing_def)
  from r o no_body_crosses_the_wire [OF r o] show ?thesis by blast
qed

section \<open>Registration after a stray frame\<close>

lemma hz_consumer_frame [frame_simps]:
  "bus_options (hz_consumer ops a f st) = bus_options st"
  "bus_consumersLocal (hz_consumer ops a f st) = bus_consumersLocal st"
  "bus_publishers (hz_consumer ops a f st) = bus_publishers st"
  "bus_trace (hz_consumer ops a f st) = bus_trace st"
  "bus_consumers (hz_consumer ops a f st) = emplace a f (bus_consumers st)"
  "hb_hz (hz_consumer ops a f st) =
     addSub ops a (eo_port (bus_options st)) (eo_host (bus_options st)) (hb_hz st)"
  by (simp_all add: hz_consumer_def Let_def)

interpretation clustered_table: keyed_store bus_consumers "hz_consumer ops" for ops
  by unfold_locales (simp_all add: frame_simps emplace_apply)

interpretation clustered_local_table: keyed_store bus_consumersLocal hz_localConsumer
  by unfold_locales (simp_all add: hz_localConsumer_def emplace_apply)

text \<open>
  C11. One frame for an address that has no consumer yet makes the address useless for
  good: a consumer registered afterwards, and any later ones, are announced to the
  cluster but never stored, and each frame for the address still throws
  \<open>bad_function_call\<close>.
\<close>

theorem stray_frame_blocks_consumer:
  assumes "fits_int addr rep hst bdy" and "\<not> str_contains addr ''__vertx.reply''"
    and "bus_consumers st addr = None"
    and "st1 = snd (hz_run_message cb hsh (request_frame sz addr rep prt hst bdy) st)"
    and "st2 = fold (\<lambda>(a, f). hz_consumer ops a f) regs (hz_consumer ops addr (Callback n) st1)"
  shows "announced (bus_options st) (hb_hz (hz_consumer ops addr (Callback n) st1)) addr \<and>
    bus_consumers st2 addr = Some EmptyFunction \<and>
    hz_run_message cb hsh (request_frame sz addr rep prt hst bdy) st2 = (Inl BadFunctionCall, st2)"
proof -
  note frame = serve_frame [OF assms(1,2)]
  have st1: "st1 = st\<lparr>bus_consumers := (bus_consumers st)(addr \<mapsto> EmptyFunction)\<rparr>"
    using assms(3) by (simp add: assms(4) hz_run_message_eq frame serve_request_def Let_def
        consumers_index_None)
  have "bus_consumers (hz_consumer ops addr (Callback n) st1) addr = Some EmptyFunction"
    by (rule clustered_table.add_old) (simp add: st1)
  then have c: "bus_consumers st2 addr = Some EmptyFunction"
    unfolding assms(5) by (rule clustered_table.first_wins)
  moreover have "announced (bus_options st) (hb_hz (hz_consumer ops addr (Callback n) st1)) addr"
    by (simp add: st1 frame_simps announced_addSub)
  ultimately show ?thesis
    by (simp add: hz_run_message_eq frame serve_request_def Let_def consumers_index_Some)
qed

theorem stray_frame_blocks_consumer_witness:
  "bus_consumers (hz_consumer list_hz_ops ''chat'' (Callback 4)
     (snd (hz_run_message example_code (\<lambda>_. 0) (request_frame 0 ''chat'' ''r1'' 80 ''h'' ''hello'')
       start_node))) ''chat'' = Some EmptyFunction"
proof -
  have "\<not> str_contains ''chat'' ''__vertx.reply''" by code_simp
  from stray_frame_blocks_consumer [OF _ this, of "''r1''" "''h''" "''hello''" start_node _
      example_code "\<lambda>_. 0" 0 80 _ list_hz_ops "[]" 4, OF _ _ refl refl]
  show ?thesis by (simp add: fits_int_def int_max_def)
qed

text \<open>
  C12. Consumers survive the removals the cluster reports: in every state a node can reach,
  after a removed entry of any address, each address this node has a consumer for is
  registered in the cluster with the host and port of the bus.
\<close>

theorem consumers_survive_removal:
  assumes "clustered_reachable ops dis dis2 cb hsh opts st"
    and put: "\<And>k n d. n \<in> set (mm_get ops k (mm_put ops k n d))"
    and keep: "\<And>k n k' n' d. n \<in> set (mm_get ops k d) \<Longrightarrow> n \<in> set (mm_get ops k (mm_put ops k' n' d))"
    and "bus_consumers st a = Some (Callback n)"
  shows "\<exists>nid. ClusterNodeInfo nid (ServerID (eo_port opts) (eo_host opts)) \<in>
    set (mm_get ops a (hc_shared (handle_event ops (EntryRemoved key) (hb_hz st))))"
proof -
  from reachable_node_ok [OF assms(1)] assms(4) have "announced opts (hb_hz st) a"
    by (simp add: node_ok_def)
  then obtain nid where
    "(a, ClusterNodeInfo nid (ServerID (eo_port opts) (eo_host opts))) \<in> set (hc_local_subs (hb_hz st))"
    by (auto simp: announced_def)
  with fold_mm_put_shared [of "\<lambda>k n d. n \<in> set (mm_get ops k d)", OF put keep, of a _
      "hc_local_subs (hb_hz st)"]
  show ?thesis by (auto simp: entryRemoved_def Let_def)
qed

theorem consumers_survive_removal_witness:
  "\<exists>nid. ClusterNodeInfo nid (ServerID 9000 ''me'') \<in>
    set (mm_get list_hz_ops ''chat'' (hc_shared (handle_event list_hz_ops (EntryRemoved ''chat'')
      (hb_hz (hz_consumer list_hz_ops ''chat'' (Callback 4) start_node)))))"
proof -
  have "clustered_reachable list_hz_ops counting_draw counting_draw2 example_code (\<lambda>_. 0) example_opts
      (hz_consumer list_hz_ops ''chat'' (Callback 4) start_node)"
    by (rule cl_next [OF start_node_reachable cl_consumer])
  from consumers_survive_removal [OF this list_hz_ops_laws, of "''chat''" 4 "''chat''"]
  show ?thesis by (simp add: frame_simps emplace_def)
qed

section \<open>How a request can fail\<close>

lemma invoke_error: "fst (invoke cb f m st) = Inl e \<Longrightarrow> e = BadFunctionCall"
  by (cases f) auto

lemma abind_error:
  "fst (abind a f st) = Inl e \<longleftrightarrow>
     fst (a st) = Inl e \<or> (\<exists>x t. a st = (Inr x, t) \<and> fst (f x t) = Inl e)"
  by (cases "a st"; cases "fst (a st)") (auto simp: abind_def)

lemma local_request_error: "fst (local_request cb m st) = Inl e \<Longrightarrow> e = BadFunctionCall"
  by (auto simp: local_request_def abind_error dest: invoke_error)

lemma self_request_error: "fst (self_request cb m st) = Inl e \<Longrightarrow> e = BadFunctionCall"
  by (auto simp: self_request_def abind_error consumers_index_def Let_def dest: invoke_error
      split: prod.splits option.splits)

lemma send_error: "fst (processStringMessage hsh s a st) = Inl e \<Longrightarrow> e = NullDereference"
  by (auto simp: processStringMessage_def Let_def split: option.splits if_splits)

lemma forward_request_error:
  "fst (forward_request hsh a m st) = Inl e \<Longrightarrow> e \<in> {OutOfBoundsWrite, NullDereference}"
  by (auto simp: forward_request_def Let_def abind_error to_string_eq dest: send_error split: if_splits)

lemma process_remote_error:
  "fst (processOnTcpMessage cb hsh (remote_message uuid a s v) st) = Inl e \<Longrightarrow>
     e \<in> {BadFunctionCall, OutOfBoundsWrite, NullDereference}"
  by (cases "is_self (bus_options st) s")
     (auto simp: process_self process_forward dest: self_request_error forward_request_error)

text \<open>
  C6. In every state a node can reach, a request either runs to its end or fails in one of
  four ways: no endpoint is known for the address (\<open>out_of_range\<close>), an empty function is
  called, the frame does not fit the encoder's buffer, or the connection is not up yet.
  It never takes from an empty queue of servers, and never reads an unset field.
\<close>

theorem request_failures:
  assumes "clustered_reachable ops dis dis2 cb hsh opts st"
  shows "fst (run_hz_request dis dis2 cb hsh a v f st) \<in>
    {Inr (), Inl StdOutOfRange, Inl BadFunctionCall, Inl OutOfBoundsWrite, Inl NullDereference}"
proof (cases "fst (run_hz_request dis dis2 cb hsh a v f st)")
  case (Inl e)
  have "e \<in> {StdOutOfRange, BadFunctionCall, OutOfBoundsWrite, NullDereference}"
  proof (cases "bus_consumersLocal st a")
    case (Some h)
    with Inl show ?thesis by (auto simp: run_hz_request_Some dest: local_request_error)
  next
    case None
    obtain u g where u: "generateUUID dis dis2 (hb_rng st) = (u, g)" by (rule prod.exhaust)
    obtain r hz where r: "next_server a (hb_hz st) = (r, hz)" by (rule prod.exhaust)
    show ?thesis
    proof (cases r)
      case (Inr s)
      with Inl show ?thesis
        by (auto simp: run_hz_request_None [OF None u r [unfolded Inr]] dest: process_remote_error
            simp del: append_Cons)
    next
      case (Inl e')
      with \<open>fst (run_hz_request dis dis2 cb hsh a v f st) = Inl e\<close> have "e' = e"
        by (simp add: run_hz_request_no_server [OF None u r [unfolded Inl]])
      moreover from reachable_node_ok [OF assms] have "queues_filled (hb_hz st)"
        using queues_filled_reachable unfolding node_ok_def by blast
      ultimately show ?thesis using next_server_filled [of "hb_hz st" a] r Inl
        by (auto split: list.splits)
    qed
  qed
  with Inl show ?thesis by simp
qed simp

theorem request_failures_witness:
  "fst (run_hz_request counting_draw counting_draw2 example_code (\<lambda>_. 0) ''chat'' AnyNone (Callback 2)
     start_node) \<in>
    {Inr (), Inl StdOutOfRange, Inl BadFunctionCall, Inl OutOfBoundsWrite, Inl NullDereference}"
  by (rule request_failures [OF start_node_reachable])

section \<open>Frames and connections\<close>

text \<open>
  C9. In every state a node can reach, a frame for an address goes out at once on a
  connection whose address has the same hash, if that connection is up (if it is not, the
  code dereferences a null pointer), and otherwise waits for a new connection to exactly
  the address it is for. It never goes to a connection of another hash.
\<close>

theorem frames_follow_hash:
  assumes "clustered_reachable ops dis dis2 cb hsh opts st"
  shows "case bus_endpoints st (hsh a) of
      None \<Rightarrow> hz_processStringMessage hsh s a st =
        (Inr (), st\<lparr>bus_connects := bus_connects st @ [Connect (hsh a) a s]\<rparr>)
    | Some i \<Rightarrow> hsh (cl_addr (bus_clients st ! i)) = hsh a \<and>
        hz_processStringMessage hsh s a st =
          (if cl_conn (bus_clients st ! i)
           then (Inr (), st\<lparr>bus_trace := bus_trace st @ [ClientSend (cl_addr (bus_clients st ! i)) s]\<rparr>)
           else (Inl NullDereference, st))"
proof -
  have "routes_ok hsh st" using reachable_node_ok [OF assms] by (simp only: node_ok_def)
  note outcome = send_outcome [OF this, of a s]
  show ?thesis
  proof (cases "bus_endpoints st (hsh a)")
    case None
    with outcome show ?thesis by (simp add: hz_processStringMessage_eq)
  next
    case (Some i)
    with outcome show ?thesis by (simp add: hz_processStringMessage_eq split: if_splits)
  qed
qed

theorem frames_follow_hash_witness:
  "hz_processStringMessage (\<lambda>_. 7) ''x'' ''far:80'' start_node =
   (Inr (), start_node\<lparr>bus_connects := [Connect 7 ''far:80'' ''x'']\<rparr>)"
  using frames_follow_hash [OF start_node_reachable, of "\<lambda>_. 7" "''x''" "''far:80''"] by simp

text \<open>
  C10. The life of a connection: the first frame for an address opens it; a second frame
  before the connection is up dereferences a null pointer; once it is up the first frame
  goes out on it, then a second one goes out on the same connection.
\<close>

theorem connection_lifecycle:
  assumes "bus_endpoints st (hsh a) = None"
    and "st1 = snd (hz_processStringMessage hsh s1 a st)"
    and "st2 = snd (run_connect (Connect (hsh a) a s1) (st1\<lparr>bus_connects := bus_connects st\<rparr>))"
    and "st3 = snd (client_connected (length (bus_clients st)) st2)"
  shows "bus_connects st1 = bus_connects st @ [Connect (hsh a) a s1] \<and>
    fst (hz_processStringMessage hsh s2 a st2) = Inl NullDereference \<and>
    bus_trace (snd (hz_processStringMessage hsh s2 a st3)) =
      bus_trace st @ [ClientConnect a, ClientSend a s1, ClientSend a s2] \<and>
    length (bus_clients (snd (hz_processStringMessage hsh s2 a st3))) = Suc (length (bus_clients st))"
proof -
  have st1: "st1 = st\<lparr>bus_connects := bus_connects st @ [Connect (hsh a) a s1]\<rparr>"
    using assms(1,2) by (simp add: hz_processStringMessage_def Let_def)
  let ?c = "\<lparr>cl_addr = a, cl_message = s1, cl_conn = False\<rparr>"
  have st2: "st2 = st\<lparr>bus_clients := bus_clients st @ [?c], bus_trace := bus_trace st @ [ClientConnect a],
      bus_endpoints := (bus_endpoints st)(hsh a \<mapsto> length (bus_clients st))\<rparr>"
    using assms(1) by (simp add: assms(3) st1 emplace_new)
  have st3: "st3 = st\<lparr>bus_clients := bus_clients st @ [?c\<lparr>cl_conn := True\<rparr>],
      bus_trace := bus_trace st @ [ClientConnect a, ClientSend a s1],
      bus_endpoints := (bus_endpoints st)(hsh a \<mapsto> length (bus_clients st))\<rparr>"
    by (simp add: assms(4) st2 client_connected_def Let_def)
  show ?thesis by (simp add: st1 st2 st3 hz_processStringMessage_def Let_def)
qed

theorem connection_lifecycle_witness:
  "fst (hz_processStringMessage (\<lambda>_. 7) ''y'' ''far:80'' (snd (run_connect (Connect 7 ''far:80'' ''x'')
     (idle_bus ''me'' 9000)))) = Inl NullDereference"
proof -
  let ?st = "idle_bus ''me'' 9000"
  have e: "bus_endpoints ?st 7 = None" by (simp add: idle_bus_def)
  have s: "snd (hz_processStringMessage (\<lambda>_. 7) ''x'' ''far:80'' ?st)\<lparr>bus_connects := bus_connects ?st\<rparr> = ?st"
    by (simp add: hz_processStringMessage_def idle_bus_def Let_def)
  show ?thesis
    using connection_lifecycle [of ?st "\<lambda>_. 7" "''far:80''" _ "''x''" _ _ "''y''", OF e refl refl refl]
    unfolding s by blast
qed

end
