(* ===== verification/Event_Bus_Standalone.thy ===== *)
theory Event_Bus_Standalone imports Event_Bus_Facts begin

text \<open>
  The event bus of a process without a cluster, \<open>event_bus.hpp\<close>: registration, requests,
  the steps a bus can make, and what holds of every state the steps reach.
\<close>

section \<open>Operations\<close>

text \<open>\<open>consumer\<close> and \<open>localConsumer\<close> fill the same table.\<close>

definition standalone_consumer :: "string \<Rightarrow> callback \<Rightarrow> 'z bus_scheme \<Rightarrow> 'z bus_scheme" where
  "standalone_consumer address f st =
     st\<lparr>bus_consumersLocal := emplace address f (bus_consumersLocal st)\<rparr>"

definition standalone_request ::
  "string \<Rightarrow> any_val \<Rightarrow> callback \<Rightarrow> 'z bus_scheme \<Rightarrow> 'z bus_scheme" where
  "standalone_request address val func st =
     st\<lparr>bus_tasks := bus_tasks st @ [RequestTask address val func]\<rparr>"

text \<open>The lambda a request queues.\<close>

definition run_standalone_request ::
  "user_code \<Rightarrow> (string \<Rightarrow> uint64) \<Rightarrow> string \<Rightarrow> any_val \<Rightarrow> callback \<Rightarrow>
   ('z bus_scheme, unit) action" where
  "run_standalone_request cb hsh address val func st =
     (case bus_consumersLocal st address of
        Some f \<Rightarrow>
          (let request_message = ClusteredMessage 0 1 9 True ''__vertx.reply.local'' address
                 (eo_port (bus_options st)) (eo_host (bus_options st)) 4 val;
               request_message = setRequest True request_message;
               request_message = setFunc f func request_message
           in processOnTcpMessage cb hsh request_message st)
      | None \<Rightarrow> (Inr (), st))"

fun run_standalone_task ::
  "user_code \<Rightarrow> (string \<Rightarrow> uint64) \<Rightarrow> task \<Rightarrow> ('z bus_scheme, unit) action" where
  "run_standalone_task cb hsh (RequestTask a v f) = run_standalone_request cb hsh a v f"
| "run_standalone_task cb hsh (MessageTask s) = run_message cb hsh s"

definition EventBus :: "event_bus_options \<Rightarrow> bus" where
  "EventBus options =
     \<lparr>bus_options = options, bus_consumers = Map.empty, bus_consumersLocal = Map.empty,
      bus_publishers = Map.empty, bus_endpoints = Map.empty, bus_clients = [], bus_tasks = [],
      bus_connects = [], bus_trace = []\<rparr>"

section \<open>Steps\<close>

text \<open>
  The calls of the user, the bytes of the network, and the lambdas and connections that
  are pending, in any order: the loops of the pool are threads. A step that throws leaves
  the state it reached; whether the process survives is the loop's affair.
\<close>

inductive standalone_step :: "user_code \<Rightarrow> (string \<Rightarrow> uint64) \<Rightarrow> bus \<Rightarrow> bus \<Rightarrow> bool"
  for cb :: user_code and hsh :: "string \<Rightarrow> uint64" where
  step_consumer: "standalone_step cb hsh st (standalone_consumer a f st)"
| step_localConsumer: "standalone_step cb hsh st (localConsumer a f st)"
| step_request: "standalone_step cb hsh st (standalone_request a v f st)"
| step_message: "standalone_step cb hsh st (snd (onMessage s st))"
| step_task: "t \<in> set (bus_tasks st) \<Longrightarrow>
    standalone_step cb hsh st
      (snd (run_standalone_task cb hsh t (st\<lparr>bus_tasks := remove1 t (bus_tasks st)\<rparr>)))"
| step_connect: "c \<in> set (bus_connects st) \<Longrightarrow>
    standalone_step cb hsh st (snd (run_connect c (st\<lparr>bus_connects := remove1 c (bus_connects st)\<rparr>)))"
| step_up: "standalone_step cb hsh st (snd (client_connected i st))"
| step_down: "standalone_step cb hsh st (snd (client_disconnected i st))"

inductive standalone_reachable ::
  "user_code \<Rightarrow> (string \<Rightarrow> uint64) \<Rightarrow> event_bus_options \<Rightarrow> bus \<Rightarrow> bool"
  for cb :: user_code and hsh :: "string \<Rightarrow> uint64" and opts :: event_bus_options where
  start: "standalone_reachable cb hsh opts (EventBus opts)"
| step: "standalone_reachable cb hsh opts st \<Longrightarrow> standalone_step cb hsh st st' \<Longrightarrow>
    standalone_reachable cb hsh opts st'"

inductive_cases standalone_stepE: "standalone_step cb hsh st st'"

lemma run_standalone_request_Some:
  "bus_consumersLocal st a = Some f \<Longrightarrow>
     run_standalone_request cb hsh a v g st =
       local_request cb (local_message (bus_options st) a v f g) st"
  by (simp add: run_standalone_request_def Let_def flip: local_message_def)
     (rule process_local_message)

lemma run_standalone_request_None:
  "bus_consumersLocal st a = None \<Longrightarrow> run_standalone_request cb hsh a v g st = (Inr (), st)"
  by (simp add: run_standalone_request_def)

section \<open>What the steps reach\<close>

text \<open>
  The table \<open>_consumers\<close> has no writer: it only ever holds the empty functions that
  looking an address up leaves behind. So nothing is ever sent.
\<close>

definition offline :: "bus \<Rightarrow> bool" where
  "offline st \<longleftrightarrow>
     ran (bus_consumers st) \<subseteq> {EmptyFunction} \<and> ran (bus_publishers st) \<subseteq> {EmptyFunction} \<and>
     bus_endpoints st = Map.empty \<and> bus_clients st = [] \<and> bus_connects st = [] \<and>
     (\<forall>e \<in> set (bus_trace st). case e of ClientConnect _ \<Rightarrow> False | ClientSend _ _ \<Rightarrow> False | _ \<Rightarrow> True)"

lemma offline_trace:
  "offline st \<Longrightarrow> ClientConnect a \<notin> set (bus_trace st) \<and> ClientSend a s \<notin> set (bus_trace st)"
  by (force simp: offline_def)

lemma offline_start: "offline (EventBus opts)"
  by (simp add: offline_def EventBus_def)

lemma offline_updates [simp]:
  "offline (st\<lparr>bus_tasks := ts\<rparr>) = offline st"
  "offline (st\<lparr>bus_consumersLocal := c\<rparr>) = offline st"
  by (simp_all add: offline_def)

lemma keeps_offline_invoke: "keeps offline (invoke cb f m)"
  by (cases f) (auto simp: keeps_def offline_def)

lemma offline_local_request: "offline st \<Longrightarrow> offline (snd (local_request cb m st))"
  unfolding local_request_def
  by (rule keepsD) (intro keeps_abind keeps_offline_invoke keeps_areturn)

lemma ran_index: "ran m \<subseteq> {d} \<Longrightarrow> fst (map_index d k m) = d \<and> ran (snd (map_index d k m)) \<subseteq> {d}"
  by (auto simp: map_index_def ran_def split: option.split if_splits)

lemma to_message_request: "to_message s b = Inr m \<Longrightarrow> isRequest m = Inr b"
  by (auto simp: to_message_def rbind_eq_Inr isRequest_def message_defs)

lemma offline_run_message:
  assumes "offline st"
  shows "offline (snd (run_message cb hsh s st)) \<and> (\<exists>e. fst (run_message cb hsh s st) = Inl e) \<and>
    bus_trace (snd (run_message cb hsh s st)) = bus_trace st"
proof (cases "to_message s False")
  case (Inl e)
  with assms show ?thesis by (simp add: run_message_def)
next
  case (Inr m)
  from assms have c: "fst (map_index EmptyFunction k (bus_consumers st)) = EmptyFunction"
      "ran (snd (map_index EmptyFunction k (bus_consumers st))) \<subseteq> {EmptyFunction}"
      "fst (map_index EmptyFunction k (bus_publishers st)) = EmptyFunction"
      "ran (snd (map_index EmptyFunction k (bus_publishers st))) \<subseteq> {EmptyFunction}" for k
    by (simp_all add: offline_def ran_index)
  from Inr have "isRequest m = Inr False" by (rule to_message_request)
  with Inr assms c show ?thesis
    by (simp add: run_message_def processOnTcpMessage_def Let_def deliver_reply_def serve_request_def
        consumers_index_def publishers_index_def abind_def offline_def case_prod_unfold)
qed

lemma offline_run_task: "offline st \<Longrightarrow> offline (snd (run_standalone_task cb hsh t st))"
proof (cases t)
  case (RequestTask a v f)
  assume "offline st"
  with RequestTask show ?thesis
    by (cases "bus_consumersLocal st a")
       (simp_all add: run_standalone_request_Some run_standalone_request_None offline_local_request)
next
  case (MessageTask s)
  assume "offline st"
  with MessageTask show ?thesis by (simp add: offline_run_message)
qed

lemma offline_step: "standalone_step cb hsh st st' \<Longrightarrow> offline st \<Longrightarrow> offline st'"
proof (induction rule: standalone_step.induct)
  case (step_task t st)
  then show ?case by (simp add: offline_run_task)
qed (auto simp: offline_def standalone_consumer_def localConsumer_def standalone_request_def
    onMessage_def client_connected_def client_disconnected_def)

lemma reachable_offline: "standalone_reachable cb hsh opts st \<Longrightarrow> offline st"
  by (induction rule: standalone_reachable.induct) (auto simp: offline_start intro: offline_step)

section \<open>Registration\<close>

interpretation standalone_table: keyed_store bus_consumersLocal standalone_consumer
  by unfold_locales (simp_all add: standalone_consumer_def emplace_apply)

interpretation local_table: keyed_store bus_consumersLocal localConsumer
  by unfold_locales (simp_all add: localConsumer_def emplace_apply)

lemma standalone_consumer_frame [frame_simps, simp]:
  "bus_options (standalone_consumer a f st) = bus_options st"
  "bus_trace (standalone_consumer a f st) = bus_trace st"
  by (simp_all add: standalone_consumer_def)

lemma standalone_consumers_options [frame_simps]:
  "bus_options (fold (\<lambda>(a, f). standalone_consumer a f) regs st) = bus_options st"
  by (induction regs arbitrary: st) (auto simp: frame_simps)

section \<open>Properties\<close>

text \<open>
  C16. The first consumer registered under an address answers its requests, however many
  are registered later: it is called with the message the request builds, then the
  request's callback is called with the same message, its body replaced by the reply,
  and nothing else of the bus changes.
\<close>

theorem standalone_request_first_consumer:
  assumes "m = local_message (bus_options st) a v (Callback n) (Callback k)"
    and "st' = fold (\<lambda>(a, f). standalone_consumer a f) regs (standalone_consumer a (Callback n) st)"
    and "bus_consumersLocal st a = None" and "getCallbackFunc (cb n m) = Callback k"
  shows "run_standalone_request cb hsh a v (Callback k) st' =
    (Inr (), st'\<lparr>bus_trace := bus_trace st' @
       [Invoked n m, Invoked k (set_body (reply (cb n m)) (cb n m))]\<rparr>)"
proof -
  have "bus_consumersLocal st' a = Some (Callback n)"
    using standalone_table.first_wins [OF standalone_table.add_new [OF assms(3)]]
    by (simp add: assms(2))
  moreover have "bus_options st' = bus_options st" by (simp add: assms(2) frame_simps)
  ultimately show ?thesis using assms(1,4)
    by (simp add: run_standalone_request_Some local_request_calls)
qed

text \<open>A handler that answers \<open>pong\<close>, as the example program's do.\<close>

definition answering :: user_code where
  "answering n m = (if n = 1 then set_reply (AnyString ''pong'') m else m)"

theorem standalone_request_first_consumer_witness:
  "run_standalone_request answering (\<lambda>_. 0) ''news'' (AnyString ''x'') (Callback 2)
     (fold (\<lambda>(a, f). standalone_consumer a f) [(''news'', Callback 5)]
        (standalone_consumer ''news'' (Callback 1) (EventBus (EventBusOptions 4 0)))) =
   (Inr (), (standalone_consumer ''news'' (Callback 1) (EventBus (EventBusOptions 4 0)))
      \<lparr>bus_trace :=
         [Invoked 1 (local_message (EventBusOptions 4 0) ''news'' (AnyString ''x'') (Callback 1) (Callback 2)),
          Invoked 2 (set_body (AnyString ''pong'') (set_reply (AnyString ''pong'')
            (local_message (EventBusOptions 4 0) ''news'' (AnyString ''x'') (Callback 1) (Callback 2))))]\<rparr>)"
proof -
  let ?m = "local_message (EventBusOptions 4 0) ''news'' (AnyString ''x'') (Callback 1) (Callback 2)"
  have "getCallbackFunc (answering 1 ?m) = Callback 2" "reply (answering 1 ?m) = AnyString ''pong''"
    by (simp_all add: answering_def message_defs local_message_def ClusteredMessage_def)
  with standalone_request_first_consumer [of ?m "EventBus (EventBusOptions 4 0)" "''news''"
      "AnyString ''x''" 1 2 _ "[(''news'', Callback 5)]" answering "\<lambda>_. 0", OF _ refl]
  show ?thesis
    by (simp add: EventBus_def standalone_consumer_def emplace_def answering_def)
qed

text \<open>
  A request for an address nobody registered does nothing when it runs: no consumer
  and no callback is called, no error is reported.
\<close>

theorem standalone_request_lost:
  assumes "bus_consumersLocal st a = None"
  shows "run_standalone_task cb hsh (RequestTask a v f) st = (Inr (), st)"
  using assms by (simp add: run_standalone_request_None)

theorem standalone_request_lost_witness:
  "run_standalone_task answering (\<lambda>_. 0) (RequestTask ''news'' AnyNone (Callback 1))
     (EventBus (EventBusOptions 4 0)) = (Inr (), EventBus (EventBusOptions 4 0))"
  by (rule standalone_request_lost) (simp add: EventBus_def)

text \<open>
  C17. The network side of a standalone bus does nothing: in every state it can reach, no
  connection was ever opened and no frame sent, and any frame that arrives, whatever
  consumers were registered, ends in an error without calling one.
\<close>

theorem standalone_network_is_dead:
  assumes "standalone_reachable cb hsh opts st"
  shows "bus_connects st = [] \<and> bus_clients st = [] \<and>
    (\<forall>a s. ClientConnect a \<notin> set (bus_trace st) \<and> ClientSend a s \<notin> set (bus_trace st)) \<and>
    (\<exists>e. fst (run_message cb hsh frame st) = Inl e) \<and>
    bus_trace (snd (run_message cb hsh frame st)) = bus_trace st"
  using offline_run_message [OF reachable_offline [OF assms], of cb hsh frame]
    reachable_offline [OF assms] offline_trace [OF reachable_offline [OF assms]]
  by (simp add: offline_def)

theorem standalone_network_is_dead_witness:
  "\<exists>e. fst (run_message answering (\<lambda>_. 0) (request_frame 0 ''news'' ''r1'' 80 ''h'' ''hello'')
     (standalone_consumer ''news'' (Callback 1) (EventBus (EventBusOptions 4 0)))) = Inl e"
proof -
  have "standalone_reachable answering (\<lambda>_. 0) (EventBusOptions 4 0)
      (standalone_consumer ''news'' (Callback 1) (EventBus (EventBusOptions 4 0)))"
    by (intro standalone_reachable.step [OF standalone_reachable.start] step_consumer)
  from standalone_network_is_dead [OF this] show ?thesis by blast
qed

end
