(* ===== verification/Servers.thy ===== *)
theory Servers imports Cxx_String begin

text \<open>
  \<open>net_server.hpp\<close> and \<open>http_server.hpp\<close>: the options, and what the two servers ask of
  the TCP and HTTP libraries. The libraries are not part of the program: the TCP servers
  a \<open>NetServer\<close> starts are recorded as values with the address and the name they are
  given, the HTTP server is an argument of the definitions.
\<close>

section \<open>The net server\<close>

record net_server_options =
  no_poolSize :: int32

definition NetServerOptions :: net_server_options where
  "NetServerOptions = \<lparr>no_poolSize = 1\<rparr>"

definition net_setPoolSize :: "int32 \<Rightarrow> net_server_options \<Rightarrow> net_server_options" where
  "net_setPoolSize n o' = o'\<lparr>no_poolSize := n\<rparr>"

definition net_getPoolSize :: "net_server_options \<Rightarrow> int32" where
  "net_getPoolSize o' = no_poolSize o'"

record tcp_server =
  ts_addr :: string
  ts_name :: string

text \<open>The message callback of the server is a number, like the user's other callbacks.\<close>

record net_server =
  ns_cb :: "nat option"
  ns_options :: net_server_options
  ns_tcpServers :: "tcp_server list"

definition NetServer :: "net_server_options \<Rightarrow> net_server" where
  "NetServer options = \<lparr>ns_cb = None, ns_options = options, ns_tcpServers = []\<rparr>"

lemma unat_Suc:
  assumes "i < (cnt :: int32)"
  shows "unat (i + 1) = Suc (unat i)"
proof -
  from assms have "unat i < unat cnt" by (simp add: word_less_nat_alt)
  then show ?thesis using unsigned_less [of cnt, where 'a = nat] by (simp add: unat_word_ariths)
qed

text \<open>
  \<open>for (uint32_t i = 0; i < size; i++)\<close>: the signed size is converted for the comparison.
\<close>

function pool_servers :: "string \<Rightarrow> int32 \<Rightarrow> int32 \<Rightarrow> tcp_server list" where
  "pool_servers addr cnt i =
     (if i < cnt
      then \<lparr>ts_addr = addr, ts_name = show_nat (unat i) @ ''#server''\<rparr> # pool_servers addr cnt (i + 1)
      else [])"
  by pat_completeness auto

termination
  by (relation "measure (\<lambda>(_, cnt, i). unat cnt - unat i)")
     (auto simp: unat_Suc word_less_nat_alt)

declare pool_servers.simps [simp del]

definition net_start :: "int32 \<Rightarrow> net_server \<Rightarrow> net_server" where
  "net_start port s =
     (let addr = ''0.0.0.0:'' @ format_int port
      in s\<lparr>ns_tcpServers := ns_tcpServers s @ pool_servers addr (net_getPoolSize (ns_options s)) 0\<rparr>)"

definition net_listen :: "int32 \<Rightarrow> nat \<Rightarrow> net_server \<Rightarrow> net_server" where
  "net_listen port cb s = net_start port (s\<lparr>ns_cb := Some cb\<rparr>)"

text \<open>
  What a message on one of the server's sockets does: the lambda calls \<open>this->_cb\<close>, the
  callback of the moment.
\<close>

definition net_message :: "net_server \<Rightarrow> tcp_server \<Rightarrow> nat result" where
  "net_message s srv = (case ns_cb s of None \<Rightarrow> Inl BadFunctionCall | Some cb \<Rightarrow> Inr cb)"

section \<open>The HTTP server\<close>

record http_server_options =
  ho_poolSize :: int32

definition HttpServerOptions :: http_server_options where
  "HttpServerOptions = \<lparr>ho_poolSize = 1\<rparr>"

definition http_setPoolSize :: "int32 \<Rightarrow> http_server_options \<Rightarrow> http_server_options" where
  "http_setPoolSize n o' = o'\<lparr>ho_poolSize := n\<rparr>"

definition http_getPoolSize :: "http_server_options \<Rightarrow> int32" where
  "http_getPoolSize o' = ho_poolSize o'"

text \<open>The members of \<open>evpp::http::Server\<close> the program calls.\<close>

record 'h http_ops =
  hs_new :: "int32 \<Rightarrow> 'h"
  hs_register :: "string \<Rightarrow> nat \<Rightarrow> 'h \<Rightarrow> 'h"
  hs_register_default :: "nat \<Rightarrow> 'h \<Rightarrow> 'h"
  hs_init :: "int32 \<Rightarrow> 'h \<Rightarrow> 'h"
  hs_start :: "'h \<Rightarrow> 'h"

record 'h http_server =
  hs_options :: http_server_options
  hs_server :: 'h

definition HttpServer :: "'h http_ops \<Rightarrow> http_server_options \<Rightarrow> 'h http_server" where
  "HttpServer ops options =
     \<lparr>hs_options = options, hs_server = hs_new ops (http_getPoolSize options)\<rparr>"

definition addRoute :: "'h http_ops \<Rightarrow> string \<Rightarrow> nat \<Rightarrow> 'h http_server \<Rightarrow> 'h http_server" where
  "addRoute ops path cb s = s\<lparr>hs_server := hs_register ops path cb (hs_server s)\<rparr>"

definition addDefaultRoute :: "'h http_ops \<Rightarrow> nat \<Rightarrow> 'h http_server \<Rightarrow> 'h http_server" where
  "addDefaultRoute ops cb s = s\<lparr>hs_server := hs_register_default ops cb (hs_server s)\<rparr>"

definition http_listen :: "'h http_ops \<Rightarrow> int32 \<Rightarrow> 'h http_server \<Rightarrow> 'h http_server" where
  "http_listen ops port s = s\<lparr>hs_server := hs_start ops (hs_init ops port (hs_server s))\<rparr>"

section \<open>The servers of a pool\<close>

lemma pool_servers_eq:
  "pool_servers addr cnt i =
     map (\<lambda>k. \<lparr>ts_addr = addr, ts_name = show_nat k @ ''#server''\<rparr>) [unat i..<unat cnt]"
proof (induction addr cnt i rule: pool_servers.induct)
  case (1 addr cnt i)
  show ?case
  proof (cases "i < cnt")
    case True
    then have "[unat i..<unat cnt] = unat i # [unat (i + 1)..<unat cnt]"
      by (simp add: unat_Suc upt_conv_Cons word_less_nat_alt)
    with True 1 show ?thesis by (simp add: pool_servers.simps [of addr cnt i])
  next
    case False
    then show ?thesis by (simp add: pool_servers.simps [of addr cnt i] word_less_nat_alt)
  qed
qed

lemma length_pool_servers: "length (pool_servers addr cnt i) = unat cnt - unat i"
  by (simp add: pool_servers_eq)

lemma pool_servers_names: "distinct (map ts_name (pool_servers addr cnt i))"
  by (auto simp: pool_servers_eq distinct_map inj_on_def show_nat_inject)

text \<open>
  Listening starts one TCP server per slot of the pool, all on the same address of the
  port, with names no two of which agree; a negative size is read as an unsigned one.
\<close>

theorem net_listen_servers:
  "map ts_name (ns_tcpServers (net_listen port cb (NetServer options))) =
     map (\<lambda>k. show_nat k @ ''#server'') [0..<unat (no_poolSize options)] \<and>
   distinct (map ts_name (ns_tcpServers (net_listen port cb (NetServer options)))) \<and>
   set (map ts_addr (ns_tcpServers (net_listen port cb (NetServer options)))) \<subseteq>
     {''0.0.0.0:'' @ format_int port}"
proof -
  have eq: "ns_tcpServers (net_listen port cb (NetServer options)) =
      pool_servers (''0.0.0.0:'' @ format_int port) (no_poolSize options) 0"
    by (simp add: net_listen_def net_start_def NetServer_def net_getPoolSize_def)
  show ?thesis unfolding eq
    by (intro conjI pool_servers_names) (auto simp: pool_servers_eq)
qed

text \<open>
  A server that listens twice keeps one callback: messages on the sockets of the first
  port go to the callback that was given with the second.
\<close>

theorem second_listen_takes_over:
  assumes "s = net_listen q cb2 (net_listen p cb1 s0)" and "srv \<in> set (ns_tcpServers s)"
  shows "net_message s srv = Inr cb2 \<and>
    set (ns_tcpServers (net_listen p cb1 s0)) \<subseteq> set (ns_tcpServers s)"
  using assms(1) by (auto simp: net_message_def net_listen_def net_start_def Let_def)

theorem second_listen_takes_over_witness:
  "net_message (net_listen 81 2 (net_listen 80 1 (NetServer NetServerOptions)))
     \<lparr>ts_addr = ''0.0.0.0:80'', ts_name = ''0#server''\<rparr> = Inr 2"
proof -
  let ?srv = "\<lparr>ts_addr = ''0.0.0.0:80'', ts_name = ''0#server''\<rparr>"
  have "pool_servers (''0.0.0.0:'' @ format_int 80) 1 0 = [?srv]"
    by (simp add: pool_servers_eq) code_simp
  then have "?srv \<in> set (ns_tcpServers (net_listen 81 2 (net_listen 80 1 (NetServer NetServerOptions))))"
    by (simp add: net_listen_def net_start_def NetServer_def NetServerOptions_def net_getPoolSize_def)
  from conjunct1 [OF second_listen_takes_over [OF refl this]] show ?thesis .
qed

end
