(* ===== verification/Vertx.thy ===== *)
theory Vertx imports Clustered_Bus Event_Bus_Standalone Servers "HOL-Library.Signed_Division" begin

text \<open>
  \<open>vertx.h\<close>: the options with their search for a host and a port, the construction of a
  node in both configurations of the program, and the servers \<open>run\<close> starts. The operating system and Asio (clock, random numbers, sockets) are the
  record \<open>vertx_env\<close> over a state of any type; Hazelcast's client configuration is a
  value of any type.
\<close>

section \<open>Options\<close>

record 'c vertx_options =
  vo_eventBusOptions :: event_bus_options
  vo_config :: 'c
  vo_workerPoolSize :: int32
  vo_host :: string
  vo_port :: int32

text \<open>
  \<open>ve_rand t\<close> is the first \<open>rand()\<close> after \<open>srand(t)\<close>; \<open>ve_address_ok\<close> whether
  \<open>address::from_string\<close> reads a host; \<open>ve_connect\<close> the local address of a connection to a
  remote host. The sockets are those of Boost's Asio, of any type: \<open>ve_socket\<close> is what the
  constructor \<open>tcp::socket(ios)\<close> makes, \<open>ve_is_open\<close> whether a socket has a descriptor, and
  \<open>ve_bind\<close> whether binding it to a host and port sets the error code.
\<close>

record ('e, 'k) vertx_env =
  ve_time :: "'e \<Rightarrow> nat \<times> 'e"
  ve_rand :: "nat \<Rightarrow> int32"
  ve_address_ok :: "string \<Rightarrow> bool"
  ve_socket :: 'k
  ve_is_open :: "'k \<Rightarrow> bool"
  ve_bind :: "'k \<Rightarrow> string \<Rightarrow> int32 \<Rightarrow> 'e \<Rightarrow> bool \<times> 'e"
  ve_connect :: "string \<Rightarrow> int32 \<Rightarrow> 'e \<Rightarrow> string result \<times> 'e"

text \<open>
  What Asio documents: the constructor with a context alone creates a socket without opening
  it, and binding a socket that is not open fails with \<open>bad_descriptor\<close>.
\<close>

definition asio_sockets :: "('e, 'k) vertx_env \<Rightarrow> bool" where
  "asio_sockets env \<longleftrightarrow>
     \<not> ve_is_open env (ve_socket env) \<and>
     (\<forall>k h p e. \<not> ve_is_open env k \<longrightarrow> fst (ve_bind env k h p e))"

text \<open>\<open>rand() % 20000 + 30000\<close>, with the sign of C's remainder\<close>

definition draw_port :: "int32 \<Rightarrow> int32" where
  "draw_port r = word_of_int (sint r smod 20000 + 30000)"

definition setVertxHost :: "('e, 'k) vertx_env \<Rightarrow> ('e, string) action" where
  "setVertxHost env = ve_connect env ''46.41.151.244'' 443"

partial_function (option) setVertxPort ::
  "('e, 'k) vertx_env \<Rightarrow> string \<Rightarrow> 'e \<Rightarrow> (int32 \<times> 'e) option" where
  "setVertxPort env host e =
     (let (t, e) = ve_time env e;
          port = draw_port (ve_rand env t)
      in if ve_address_ok env host then
           (let (failed, e) = ve_bind env (ve_socket env) host port e
            in if failed then Some (port, e) else setVertxPort env host e)
         else setVertxPort env host e)"

text \<open>The constructor: \<open>None\<close> when the search for a port does not end.\<close>

definition VertxOptions ::
  "('e, 'k) vertx_env \<Rightarrow> int32 \<Rightarrow> int32 \<Rightarrow> 'c \<Rightarrow> 'e \<Rightarrow> ('c vertx_options result \<times> 'e) option" where
  "VertxOptions env hardware_concurrency indeterminate config e =
     (case setVertxHost env e of
        (Inl err, e) \<Rightarrow> Some (Inl err, e)
      | (Inr host, e) \<Rightarrow>
          (case setVertxPort env host e of
             None \<Rightarrow> None
           | Some (port, e) \<Rightarrow>
               Some (Inr \<lparr>vo_eventBusOptions = options_setPort port (options_setHost host
                            (EventBusOptions hardware_concurrency indeterminate)),
                          vo_config = config, vo_workerPoolSize = hardware_concurrency,
                          vo_host = host, vo_port = port\<rparr>, e)))"

record 'c config_ops =
  setExecutorPoolSize :: "int32 \<Rightarrow> 'c \<Rightarrow> 'c"
  addDataSerializableFactory :: "int32 \<Rightarrow> 'c \<Rightarrow> 'c"

definition setConfig :: "'c config_ops \<Rightarrow> 'c \<Rightarrow> 'c vertx_options \<Rightarrow> 'c vertx_options" where
  "setConfig ops config opts =
     opts\<lparr>vo_config := addDataSerializableFactory ops 1001 (setExecutorPoolSize ops 1 config)\<rparr>"

definition getConfig :: "'c vertx_options \<Rightarrow> 'c" where
  "getConfig opts = vo_config opts"

definition setWorkerPoolSize :: "int32 \<Rightarrow> 'c vertx_options \<Rightarrow> 'c vertx_options" where
  "setWorkerPoolSize n opts = opts\<lparr>vo_workerPoolSize := n\<rparr>"

definition vertx_setHost :: "string \<Rightarrow> 'c vertx_options \<Rightarrow> 'c vertx_options" where
  "vertx_setHost h opts = opts\<lparr>vo_host := h\<rparr>"

definition vertx_setPort :: "int32 \<Rightarrow> 'c vertx_options \<Rightarrow> 'c vertx_options" where
  "vertx_setPort p opts = opts\<lparr>vo_port := p\<rparr>"

definition getEventBusOptions :: "'c vertx_options \<Rightarrow> event_bus_options" where
  "getEventBusOptions opts = vo_eventBusOptions opts"

definition getWorkerPoolSize :: "'c vertx_options \<Rightarrow> int32" where
  "getWorkerPoolSize opts = vo_workerPoolSize opts"

definition vertx_getHost :: "'c vertx_options \<Rightarrow> string" where
  "vertx_getHost opts = vo_host opts"

definition vertx_getPort :: "'c vertx_options \<Rightarrow> int32" where
  "vertx_getPort opts = vo_port opts"

section \<open>A node\<close>

text \<open>
  With the cluster: the bus holds the node's view of it. \<open>cluster_of\<close> is the client the
  configuration gives, \<open>uuid\<close> the identifier the cluster gives the node.
\<close>

record ('c, 'd, 'g) vertx =
  vx_options :: "'c vertx_options"
  vx_eventBus :: "('d, 'g) hz_bus"
  vx_tcpServers :: "tcp_server list"

definition clusteredVertx ::
  "'d hz_ops \<Rightarrow> ('c \<Rightarrow> 'd hz_cluster) \<Rightarrow> string \<Rightarrow> 'g \<Rightarrow> 'c vertx_options \<Rightarrow> ('c, 'd, 'g) vertx" where
  "clusteredVertx ops cluster_of uuid rng options =
     (let hz = cluster_of (getConfig options);
          hz = join ops uuid (vertx_getPort options) (vertx_getHost options) hz
      in \<lparr>vx_options = options, vx_eventBus = hz_EventBus hz rng (getEventBusOptions options),
          vx_tcpServers = []\<rparr>)"

text \<open>Without: the bus alone.\<close>

definition standaloneVertx :: "'c vertx_options \<Rightarrow> bus" where
  "standaloneVertx options = EventBus (getEventBusOptions options)"

definition createNetServer :: "net_server_options \<Rightarrow> net_server" where
  "createNetServer options = NetServer options"

definition createHttpServer :: "'h http_ops \<Rightarrow> http_server_options \<Rightarrow> 'h http_server" where
  "createHttpServer ops options = HttpServer ops options"

definition run :: "('c, 'd, 'g) vertx \<Rightarrow> ('c, 'd, 'g) vertx" where
  "run v =
     (let addr = vertx_getHost (vx_options v) @ '':'' @ format_int (vertx_getPort (vx_options v))
      in v\<lparr>vx_tcpServers := vx_tcpServers v @
             pool_servers addr (getWorkerPoolSize (vx_options v)) 0\<rparr>)"

text \<open>The message callback of each of the servers.\<close>

definition vertx_message :: "string \<Rightarrow> ('c, 'd, 'g) vertx \<Rightarrow> unit result \<times> ('c, 'd, 'g) vertx" where
  "vertx_message msg v =
     (let (r, bus) = hz_onMessage msg (vx_eventBus v) in (r, v\<lparr>vx_eventBus := bus\<rparr>))"

section \<open>The search for a port\<close>

lemma setVertxPort_readable:
  assumes "setVertxPort env host e = Some r"
  shows "ve_address_ok env host"
proof (rule setVertxPort.raw_induct [where P = "\<lambda>env host e r. ve_address_ok env host", OF _ assms])
  fix rec :: "('e, 'k) vertx_env \<Rightarrow> string \<Rightarrow> 'e \<Rightarrow> (int32 \<times> 'e) option"
    and env :: "('e, 'k) vertx_env" and host e r
  assume IH: "\<And>env host e r. rec env host e = Some r \<Longrightarrow> ve_address_ok env host"
    and body: "(let (t, e) = ve_time env e;
          port = draw_port (ve_rand env t)
      in if ve_address_ok env host then
           (let (failed, e) = ve_bind env (ve_socket env) host port e
            in if failed then Some (port, e) else rec env host e)
         else rec env host e) = Some r"
  show "ve_address_ok env host"
  proof (rule ccontr)
    assume no: "\<not> ve_address_ok env host"
    with body have "rec env host (snd (ve_time env e)) = Some r" by (simp add: split_def Let_def)
    from no IH [OF this] show False ..
  qed
qed

text \<open>A host that cannot be read keeps the loop going; one that can is left with the first draw.\<close>

lemma setVertxPort_eq:
  assumes "asio_sockets env"
  shows "setVertxPort env host e =
    (if ve_address_ok env host then
       (let (t, e) = ve_time env e; port = draw_port (ve_rand env t)
        in Some (port, snd (ve_bind env (ve_socket env) host port e)))
     else None)"
proof (cases "ve_address_ok env host")
  case True
  moreover have "fst (ve_bind env (ve_socket env) h p x)" for h p x
    using assms by (simp add: asio_sockets_def)
  ultimately show ?thesis by (subst setVertxPort.simps) (simp add: split_def Let_def)
next
  case False
  then show ?thesis by (cases "setVertxPort env host e") (auto dest: setVertxPort_readable)
qed

lemma draw_port_range:
  assumes "0 \<le> sint r"
  shows "30000 \<le> unat (draw_port r) \<and> unat (draw_port r) < 50000"
proof -
  define k where "k = sint r mod 20000 + 30000"
  have k: "30000 \<le> k" "k < 50000" by (simp_all add: k_def)
  have "sint r smod 20000 = sint r mod 20000"
    using assms by (simp add: signed_modulo_int_def sgn_if)
  then have "draw_port r = word_of_int k" by (simp only: draw_port_def k_def)
  moreover have "unat (word_of_int k :: int32) = nat k"
    using k by (simp add: unsigned_of_int nat_take_bit_eq take_bit_int_eq_self)
  ultimately show ?thesis using k by auto
qed

section \<open>Properties\<close>

text \<open>
  C20. The port is never tested. The search binds a socket that was never opened, so every bind
  fails, and it takes a failed bind for the port it was looking for: the options get the first
  port drawn, a number between 30000 and 49999 that only the second of the clock decides, and
  whether the port is free plays no part. A host whose text is no address never gets a port:
  the constructor does not return. An error in looking up the host is passed on.
\<close>

theorem port_never_tested:
  assumes "asio_sockets env" and "\<And>t. 0 \<le> sint (ve_rand env t)"
  shows "case setVertxHost env e of
     (Inl err, e1) \<Rightarrow> VertxOptions env hw ind config e = Some (Inl err, e1)
   | (Inr host, e1) \<Rightarrow>
       (let (t, e2) = ve_time env e1; port = draw_port (ve_rand env t)
        in if ve_address_ok env host then
             30000 \<le> unat port \<and> unat port < 50000 \<and>
             VertxOptions env hw ind config e =
               Some (Inr \<lparr>vo_eventBusOptions = options_setPort port (options_setHost host (EventBusOptions hw ind)),
                 vo_config = config, vo_workerPoolSize = hw, vo_host = host, vo_port = port\<rparr>,
                 snd (ve_bind env (ve_socket env) host port e2))
           else VertxOptions env hw ind config e = None)"
  using draw_port_range [OF assms(2)]
  by (simp add: VertxOptions_def setVertxPort_eq [OF assms(1)] Let_def split: prod.split sum.split)

text \<open>A machine on which the ports of \<open>busy\<close> are taken; a socket is its descriptor, if it has one.\<close>

definition example_env :: "int32 set \<Rightarrow> (nat, nat option) vertx_env" where
  "example_env busy =
     \<lparr>ve_time = (\<lambda>e. (e, Suc e)), ve_rand = (\<lambda>t. of_nat (t mod 1000)), ve_address_ok = (\<lambda>h. h \<noteq> []),
      ve_socket = None, ve_is_open = (\<lambda>k. k \<noteq> None),
      ve_bind = (\<lambda>k h p e. (k = None \<or> p \<in> busy, e)), ve_connect = (\<lambda>h p e. (Inr ''10.0.0.1'', e))\<rparr>"

lemma example_rand: "0 \<le> sint (ve_rand (example_env b) t)"
proof -
  have "t mod 1000 < 2 ^ 31" by (rule order.strict_trans [of _ 1000]) simp_all
  then show ?thesis
    by (simp add: example_env_def signed_of_nat signed_take_bit_int_eq_self)
qed

lemma example_sockets: "asio_sockets (example_env busy)"
  by (simp add: asio_sockets_def example_env_def)

theorem port_never_tested_witness:
  "VertxOptions (example_env {30005}) 4 8 () 5 =
     Some (Inr \<lparr>vo_eventBusOptions = options_setPort 30005 (options_setHost ''10.0.0.1'' (EventBusOptions 4 8)),
       vo_config = (), vo_workerPoolSize = 4, vo_host = ''10.0.0.1'', vo_port = 30005\<rparr>, 6)"
proof -
  have "draw_port 5 = 30005" by code_simp
  with port_never_tested [OF example_sockets [of "{30005}"] example_rand, where e = 5 and hw = 4 and ind = 8 and config = "()"]
  show ?thesis by (simp add: example_env_def setVertxHost_def)
qed

text \<open>A node whose host and port were set on the options.\<close>

definition changed_node ::
  "'d hz_ops \<Rightarrow> ('c \<Rightarrow> 'd hz_cluster) \<Rightarrow> string \<Rightarrow> 'g \<Rightarrow> int32 \<Rightarrow> string \<Rightarrow> 'c vertx_options \<Rightarrow>
   ('c, 'd, 'g) vertx" where
  "changed_node ops cluster_of uuid rng p h opts =
     clusteredVertx ops cluster_of uuid rng (vertx_setPort p (vertx_setHost h opts))"

text \<open>
  \<open>setPort\<close> and \<open>setHost\<close> reach the servers and the announcement of the node, but not
  the event bus: its options still hold the host and the port the constructor found, and
  those are what it registers its consumers with. The servers are one per worker.
\<close>

theorem changed_port_not_announced:
  "map ts_addr (vx_tcpServers (run (changed_node ops cluster_of uuid rng p h opts))) =
     replicate (unat (vo_workerPoolSize opts)) (h @ '':'' @ format_int p) \<and>
   last (hc_local_subs (hb_hz (hz_consumer ops a f (vx_eventBus (changed_node ops cluster_of uuid rng p h opts))))) =
     (a, ClusterNodeInfo uuid
        (ServerID (eo_port (vo_eventBusOptions opts)) (eo_host (vo_eventBusOptions opts))))"
  by (simp add: changed_node_def run_def clusteredVertx_def Let_def vertx_setPort_def vertx_setHost_def
      vertx_getPort_def vertx_getHost_def getWorkerPoolSize_def getEventBusOptions_def pool_servers_eq
      map_replicate_trivial frame_simps addSub_def join_def hz_EventBus_def getConfig_def comp_def)

text \<open>The constructor gives the bus its own host and port.\<close>

lemma VertxOptions_bus:
  "VertxOptions env hw ind config e = Some (Inr opts, e') \<Longrightarrow>
     eo_host (vo_eventBusOptions opts) = vo_host opts \<and> eo_port (vo_eventBusOptions opts) = vo_port opts"
  by (auto simp: VertxOptions_def options_setPort_def options_setHost_def EventBusOptions_def
      split: prod.splits sum.splits option.splits)

end
