(* ===== verification/Example_Program.thy ===== *)
theory Example_Program imports Vertx begin

text \<open>
  \<open>main.cpp\<close>: a node with two consumers, three TCP servers and an HTTP server, each of whose
  clients causes one request on the event bus. The same text is compiled without and with the
  cluster, and run here on both buses. Setting up the log is left out.
\<close>

section \<open>The program\<close>

definition main_options :: "'c vertx_options \<Rightarrow> 'c vertx_options" where
  "main_options op =
     (let op = setWorkerPoolSize 4 op
      in op\<lparr>vo_eventBusOptions := setEventBusPoolSize 12 (getEventBusOptions op)\<rparr>)"

text \<open>
  The two consumers, 1 and 2, with \<open>uuid\<close> for what the second draws. The callbacks of the
  requests, 3 to 5, write to the connection and leave their message alone.
\<close>

definition main_handlers :: "string \<Rightarrow> user_code" where
  "main_handlers uuid n msg =
     (if n = 1 then set_reply (AnyString ''uuid::generateUUID()'') msg
      else if n = 2 then set_reply (AnyString uuid) msg
      else msg)"

definition main_consumers :: "'z bus_scheme \<Rightarrow> 'z bus_scheme" where
  "main_consumers st =
     localConsumer ''local_consumer'' (Callback 2) (standalone_consumer ''consumer'' (Callback 1) st)"

definition main_request_9091 :: "'z bus_scheme \<Rightarrow> 'z bus_scheme" where
  "main_request_9091 = standalone_request ''consumer'' (AnyCString ''uuid::generateUUID()'') (Callback 3)"

definition main_request_9092 :: "'z bus_scheme \<Rightarrow> 'z bus_scheme" where
  "main_request_9092 = standalone_request ''remote_consumer'' (AnyCString ''uuid::generateUUID()'') (Callback 4)"

definition main_request_9094 :: "'z bus_scheme \<Rightarrow> 'z bus_scheme" where
  "main_request_9094 = standalone_request ''local_consumer'' (AnyString ''uuid::generateUUID()'') (Callback 5)"

text \<open>The route of the HTTP server; its callback is number 6.\<close>

definition main_request_9093 :: "'z bus_scheme \<Rightarrow> 'z bus_scheme" where
  "main_request_9093 = standalone_request ''local_consumer'' (AnyString ''uuid::generateUUID()'') (Callback 6)"

text \<open>What the callbacks send: bytes on a connection, or a header and a body to the HTTP library.\<close>

datatype main_output =
    SendBytes string
  | HttpResponse "string \<times> string" string

definition eol :: string where
  "eol = [CHR 0x0A]"

definition json_up :: string where
  "json_up = ''{'' @ quoted ''code'' @ '': '' @ quoted ''UP'' @ ''}''"

definition main_output_of :: "nat \<Rightarrow> main_output option" where
  "main_output_of n =
     (if n = 3 \<or> n = 4 then
        Some (SendBytes (''HTTP/1.1 200 OK'' @ eol @ ''content-length: 0'' @ eol @ eol))
      else if n = 5 then
        Some (SendBytes (''HTTP/1.1 200 OK'' @ eol @ ''content-type: application/json'' @ eol @
          ''Date: Sun, 03 May 2020 07:05:15 GMT'' @ eol @ ''Content-Length: 14'' @ eol @ eol @ json_up))
      else if n = 6 then Some (HttpResponse (''content-type'', ''application/json'') json_up)
      else None)"

text \<open>The servers; the number of a message callback is that of the request it makes.\<close>

definition main_net_options :: net_server_options where
  "main_net_options = net_setPoolSize 8 NetServerOptions"

definition main_net_servers :: "net_server list" where
  "main_net_servers =
     [net_listen 9091 3 (createNetServer main_net_options),
      net_listen 9092 4 (createNetServer main_net_options),
      net_listen 9094 5 (createNetServer main_net_options)]"

definition main_http_server :: "'h http_ops \<Rightarrow> 'h http_server" where
  "main_http_server ops =
     http_listen ops 9093
       (addRoute ops ''/'' 6 (createHttpServer ops (http_setPoolSize 4 HttpServerOptions)))"

text \<open>What a message on a connection or a call of the route does.\<close>

definition main_message :: "nat \<Rightarrow> 'z bus_scheme \<Rightarrow> 'z bus_scheme" where
  "main_message n =
     (if n = 3 then main_request_9091
      else if n = 4 then main_request_9092
      else if n = 5 then main_request_9094
      else if n = 6 then main_request_9093
      else id)"

text \<open>The node of a cluster, up to the call of \<open>run\<close>.\<close>

definition main_node ::
  "'d hz_ops \<Rightarrow> ('c \<Rightarrow> 'd hz_cluster) \<Rightarrow> string \<Rightarrow> 'g \<Rightarrow> 'c vertx_options \<Rightarrow> ('c, 'd, 'g) vertx" where
  "main_node ops cluster_of uuid rng op =
     (let v = clusteredVertx ops cluster_of uuid rng (main_options op);
          bus = hz_consumer ops ''consumer'' (Callback 1) (vx_eventBus v);
          bus = hz_localConsumer ''local_consumer'' (Callback 2) bus
      in run (v\<lparr>vx_eventBus := bus\<rparr>))"

section \<open>Without a cluster\<close>

fun run_tasks :: "user_code \<Rightarrow> (string \<Rightarrow> uint64) \<Rightarrow> task list \<Rightarrow> bus \<Rightarrow> bus" where
  "run_tasks cb hsh [] st = st"
| "run_tasks cb hsh (t # ts) st = run_tasks cb hsh ts (snd (run_standalone_task cb hsh t st))"

definition reply_body :: "bus_effect \<Rightarrow> (nat \<times> string) option" where
  "reply_body e = (case e of Invoked n m \<Rightarrow> Some (n, bodyAsString m) | _ \<Rightarrow> None)"

lemma main_consumers_lookup:
  "bus_consumersLocal (main_consumers (EventBus opts)) =
     [''consumer'' \<mapsto> Callback 1, ''local_consumer'' \<mapsto> Callback 2]"
  by (simp add: main_consumers_def localConsumer_def standalone_consumer_def EventBus_def emplace_def)

definition main_bus :: "event_bus_options \<Rightarrow> bus" where
  "main_bus opts =
     main_request_9094 (main_request_9092 (main_request_9091 (main_consumers (EventBus opts))))"

text \<open>What the callbacks of a trace send.\<close>

definition main_outputs :: "bus_effect list \<Rightarrow> main_output list" where
  "main_outputs trace =
     List.map_filter (\<lambda>e. case e of Invoked n m \<Rightarrow> main_output_of n | _ \<Rightarrow> None) trace"

text \<open>
  The example program without a cluster, one request on each of its ports, run in the
  order they came: the consumers of \<open>consumer\<close> and \<open>local_consumer\<close> each see the request's
  body (a C string reads as empty), their callbacks get the string or the UUID the
  consumer replied, and the request for \<open>remote_consumer\<close> is never answered. The two callbacks
  answer their clients, and the length they announce is that of the body they send.
\<close>

theorem main_requests:
  "let trace = bus_trace (run_tasks (main_handlers uuid) hsh (bus_tasks (main_bus opts)) ((main_bus opts)\<lparr>bus_tasks := []\<rparr>))
   in map reply_body trace =
        [Some (1, []), Some (3, ''uuid::generateUUID()''), Some (2, ''uuid::generateUUID()''), Some (5, uuid)] \<and>
      main_outputs trace =
        [SendBytes (''HTTP/1.1 200 OK'' @ eol @ ''content-length: 0'' @ eol @ eol),
         SendBytes (''HTTP/1.1 200 OK'' @ eol @ ''content-type: application/json'' @ eol @
           ''Date: Sun, 03 May 2020 07:05:15 GMT'' @ eol @ ''Content-Length: '' @ show_nat (length json_up) @ eol @ eol @
           json_up)]"
proof -
  let ?st = "main_bus opts"
  have st: "bus_consumersLocal ?st = [''consumer'' \<mapsto> Callback 1, ''local_consumer'' \<mapsto> Callback 2]"
      "bus_trace ?st = []"
    by (simp_all add: main_bus_def main_request_9091_def main_request_9092_def main_request_9094_def
        standalone_request_def main_consumers_lookup)
       (simp add: main_consumers_def localConsumer_def standalone_consumer_def EventBus_def)
  have tasks: "bus_tasks ?st = [RequestTask ''consumer'' (AnyCString ''uuid::generateUUID()'') (Callback 3),
      RequestTask ''remote_consumer'' (AnyCString ''uuid::generateUUID()'') (Callback 4),
      RequestTask ''local_consumer'' (AnyString ''uuid::generateUUID()'') (Callback 5)]"
    by (simp add: main_bus_def main_request_9091_def main_request_9092_def main_request_9094_def
        standalone_request_def main_consumers_def localConsumer_def standalone_consumer_def EventBus_def)
  have keep: "getCallbackFunc (main_handlers uuid n m) = getCallbackFunc m" for n m
    by (simp add: main_handlers_def message_defs)
  have len: "show_nat (length json_up) = ''14''" by code_simp
  show ?thesis
    by (simp add: tasks st run_standalone_request_Some run_standalone_request_None local_request_calls
        keep reply_body_def main_outputs_def main_output_of_def map_filter_simps len)
       (simp add: main_handlers_def message_defs local_message_def ClusteredMessage_def)
qed

section \<open>In a cluster\<close>

text \<open>The bus of the node once Hazelcast has told it of its own registration.\<close>

definition main_announced ::
  "'d hz_ops \<Rightarrow> ('c \<Rightarrow> 'd hz_cluster) \<Rightarrow> string \<Rightarrow> 'g \<Rightarrow> 'c vertx_options \<Rightarrow> ('d, 'g) hz_bus" where
  "main_announced ops cluster_of uuid rng op =
     (let bus = vx_eventBus (main_node ops cluster_of uuid rng op);
          server = ServerID (eo_port (bus_options bus)) (eo_host (bus_options bus))
      in bus\<lparr>hb_hz := handle_event ops (EntryAdded ''consumer'' (ClusterNodeInfo uuid server)) (hb_hz bus)\<rparr>)"

lemma main_announced_bus:
  "bus_options (main_announced ops cluster_of uuid rng op) = setEventBusPoolSize 12 (vo_eventBusOptions op)"
  "bus_consumers (main_announced ops cluster_of uuid rng op) = [''consumer'' \<mapsto> Callback 1]"
  "bus_consumersLocal (main_announced ops cluster_of uuid rng op) = [''local_consumer'' \<mapsto> Callback 2]"
  "bus_publishers (main_announced ops cluster_of uuid rng op) = Map.empty"
  "bus_tasks (main_announced ops cluster_of uuid rng op) = []"
  "bus_trace (main_announced ops cluster_of uuid rng op) = []"
  "hb_rng (main_announced ops cluster_of uuid rng op) = rng"
  by (simp_all add: main_announced_def main_node_def Let_def run_def clusteredVertx_def hz_EventBus_def
      hz_consumer_def hz_localConsumer_def main_options_def getEventBusOptions_def setWorkerPoolSize_def emplace_def)

text \<open>An address the cluster had nothing for has the node's own registration only.\<close>

lemma push_entries_other:
  "a \<notin> fst ` set es \<Longrightarrow> fold (\<lambda>(key, node). push_endpoint key (getServerId node)) es eps a = eps a"
  by (induction es arbitrary: eps) (auto simp: push_endpoint_def split: option.splits)

lemma server_of_info: "getServerId (ClusterNodeInfo i s) = s"
  by (simp add: getServerId_def ClusterNodeInfo_def)

lemma main_announced_endpoints:
  assumes "hc_local_endpoints (cluster_of (vo_config op)) = Map.empty"
    and "a \<notin> fst ` set (mm_entrySet ops (hc_shared (cluster_of (vo_config op))))"
    and "''consumer'' \<notin> fst ` set (mm_entrySet ops (hc_shared (cluster_of (vo_config op))))"
  shows "hc_local_endpoints (hb_hz (main_announced ops cluster_of uuid rng op)) a =
    (if a = ''consumer'' then Some [ServerID (eo_port (vo_eventBusOptions op)) (eo_host (vo_eventBusOptions op))]
     else None)"
  using assms
  by (simp add: main_announced_def main_node_def Let_def run_def clusteredVertx_def hz_EventBus_def
      hz_consumer_def hz_localConsumer_def main_options_def getEventBusOptions_def setWorkerPoolSize_def
      getConfig_def addSub_def join_def entryAdded_def setEventBusPoolSize_def push_entries_other
      push_endpoint_def server_of_info)

lemma main_callbacks: "getCallbackFunc (main_handlers drawn n m) = getCallbackFunc m"
  "getAddress (main_handlers drawn n m) = getAddress m"
  by (simp_all add: main_handlers_def message_defs)

text \<open>The request that stays in the process.\<close>

lemma main_local_request:
  assumes "bus_consumersLocal st = [''local_consumer'' \<mapsto> Callback 2]" and "bus_trace st = []" and "k \<notin> {1, 2}"
  shows "\<exists>st'. run_hz_request dis dis2 (main_handlers drawn) hsh ''local_consumer''
      (AnyString ''uuid::generateUUID()'') (Callback k) st = (Inr (), st') \<and>
    map reply_body (bus_trace st') = [Some (2, ''uuid::generateUUID()''), Some (k, drawn)]"
  using assms
  by (simp add: run_hz_request_Some local_request_calls main_callbacks reply_body_def)
     (simp add: main_handlers_def message_defs local_message_def ClusteredMessage_def)

text \<open>
  C21. The example program as the only node of a cluster that serves its addresses. A request of
  port 9091 finds the node's own registration and comes back with what the consumer of
  \<open>consumer\<close> replies; the consumer itself sees an empty body. A request of port 9092 ends in
  \<open>out_of_range\<close>. Requests of port 9094 and of the route on 9093 stay in the process.
\<close>

theorem main_in_cluster:
  assumes "hc_local_endpoints (cluster_of (vo_config op)) = Map.empty"
    and "fst ` set (mm_entrySet ops (hc_shared (cluster_of (vo_config op)))) \<inter> {''consumer'', ''remote_consumer''} = {}"
    and "st = main_announced ops cluster_of uuid rng op"
  shows "(\<exists>t st'. bus_tasks (main_message 3 st) = [t] \<and>
        run_hz_task dis dis2 (main_handlers drawn) hsh t st = (Inr (), st') \<and>
        map reply_body (bus_trace st') = [Some (1, []), Some (3, ''uuid::generateUUID()'')]) \<and>
    (\<exists>t. bus_tasks (main_message 4 st) = [t] \<and>
        fst (run_hz_task dis dis2 (main_handlers drawn) hsh t st) = Inl StdOutOfRange) \<and>
    (\<forall>n \<in> {5, 6}. \<exists>t st'. bus_tasks (main_message n st) = [t] \<and>
        run_hz_task dis dis2 (main_handlers drawn) hsh t st = (Inr (), st') \<and>
        map reply_body (bus_trace st') = [Some (2, ''uuid::generateUUID()''), Some (n, drawn)])"
proof -
  obtain u g where u: "generateUUID dis dis2 (hb_rng st) = (u, g)" by (rule prod.exhaust)
  note bus = main_announced_bus [of ops cluster_of uuid rng op, folded assms(3)]
  let ?s = "ServerID (eo_port (vo_eventBusOptions op)) (eo_host (vo_eventBusOptions op))"
  have eps: "hc_local_endpoints (hb_hz st) ''consumer'' = Some [?s]"
    "hc_local_endpoints (hb_hz st) ''remote_consumer'' = None"
    unfolding assms(3) using assms(2) by (simp_all add: main_announced_endpoints assms(1))
  obtain hz where served: "next_server ''consumer'' (hb_hz st) = (Inr ?s, hz)"
    using eps(1) by (simp add: next_server_def)
  have self: "is_self (bus_options st) ?s" by (simp add: bus is_self_def ServerID_def setEventBusPoolSize_def)
  let ?m = "remote_message (''__vertx.reply.'' @ u) ''consumer'' ?s (AnyCString ''uuid::generateUUID()'')"
  have "run_hz_request dis dis2 (main_handlers drawn) hsh ''consumer'' (AnyCString ''uuid::generateUUID()'') (Callback 3) st =
      (Inr (), st\<lparr>bus_trace := bus_trace st @ [Invoked 1 ?m, Invoked 3 (set_body (reply (main_handlers drawn 1 ?m))
         (main_handlers drawn 1 ?m))], hb_hz := hz, hb_rng := g\<rparr>)"
    by (rule self_request_run [OF _ _ u served self _ refl]) (simp_all add: bus main_callbacks)
  moreover have "map reply_body [Invoked 1 ?m, Invoked 3 (set_body (reply (main_handlers drawn 1 ?m)) (main_handlers drawn 1 ?m))] =
      [Some (1, []), Some (3, ''uuid::generateUUID()'')]"
    by (simp add: reply_body_def main_handlers_def message_defs remote_message_def ClusteredMessage_def)
  moreover have "fst (run_hz_request dis dis2 (main_handlers drawn) hsh ''remote_consumer'' val f st) = Inl StdOutOfRange" for val f
    using run_hz_request_no_server [OF _ u next_server_Nil [OF eps(2)]] by (simp add: bus)
  moreover note main_local_request [OF bus(3, 6), of _ dis dis2 drawn hsh]
  ultimately show ?thesis
    by (simp add: main_message_def main_request_9091_def main_request_9092_def main_request_9093_def
        main_request_9094_def standalone_request_def bus)
qed

text \<open>A node at port 9000 of host \<open>me\<close> in an empty cluster.\<close>

definition main_example :: "((string \<times> cluster_node_info) list, nat) hz_bus" where
  "main_example = main_announced list_hz_ops (\<lambda>_. start_view) ''n'' 0
     \<lparr>vo_eventBusOptions = example_opts, vo_config = (), vo_workerPoolSize = 1, vo_host = ''me'', vo_port = 9000\<rparr>"

theorem main_in_cluster_witness:
  "\<exists>t st'. bus_tasks (main_message 3 main_example) = [t] \<and>
     run_hz_task counting_draw counting_draw2 (main_handlers ''drawn'') (\<lambda>_. 0) t main_example = (Inr (), st') \<and>
     map reply_body (bus_trace st') = [Some (1, []), Some (3, ''uuid::generateUUID()'')]"
proof -
  have "hc_local_endpoints start_view = Map.empty" "hc_shared start_view = []" by (simp_all add: start_view_def)
  then show ?thesis
    by (intro conjunct1 [OF main_in_cluster [OF _ _ main_example_def]]) (simp_all add: list_hz_ops_def)
qed

end
