(* ===== verification/Benchmark.thy ===== *)
theory Benchmark imports Cxx_String begin

text \<open>
  The benchmark program (\<open>src/benchmark.cpp\<close>): three ways to append a port to an address.
  The framework that repeats and times the loops is not part of the model; what a pass of each
  loop builds is, and the three build the same address.
\<close>

section \<open>The three loops\<close>

text \<open>
  \<open>str()\<close> copies the digits; \<open>c_str()\<close> ends them with a zero byte in the buffer of the number and
  returns the buffer, of which \<open>operator+\<close> takes what stands before the zero.
\<close>

definition format_int_c_str :: "int32 \<Rightarrow> string" where
  "format_int_c_str w = format_int w @ [CHR 0x00]"

definition plus_c_str :: "string \<Rightarrow> string \<Rightarrow> string" where
  "plus_c_str s p = s @ takeWhile (\<lambda>c. c \<noteq> CHR 0x00) p"

definition to_string_int :: "int32 \<Rightarrow> string" where
  "to_string_int w = show_int (sint w)"

definition bench_format_int :: string where
  "bench_format_int = ''127.0.0.1'' @ '':'' @ format_int 33333"

definition bench_format_int_cstr :: string where
  "bench_format_int_cstr = plus_c_str (''127.0.0.1'' @ '':'') (format_int_c_str 33333)"

definition bench_to_string :: string where
  "bench_to_string = ''127.0.0.1'' @ '':'' @ to_string_int 33333"

section \<open>They agree\<close>

lemma nul_not_show_nat: "CHR 0x00 \<notin> set (show_nat n)"
  by (rule not_digit_show_nat) simp

lemma nul_not_format_int: "CHR 0x00 \<notin> set (format_int w)"
  by (simp add: format_int_def show_int_def nul_not_show_nat)

lemma plus_format_int_c_str: "plus_c_str s (format_int_c_str w) = s @ format_int w"
proof -
  have "\<forall>c \<in> set (format_int w). c \<noteq> CHR 0x00" using nul_not_format_int by metis
  then show ?thesis by (simp add: plus_c_str_def format_int_c_str_def takeWhile_append2)
qed

lemma benchmarks_agree:
  "bench_format_int_cstr = bench_format_int" "bench_to_string = bench_format_int"
  by (simp_all add: bench_format_int_cstr_def bench_format_int_def bench_to_string_def
        plus_format_int_c_str to_string_int_def format_int_def)

lemma benchmark_address: "bench_format_int = ''127.0.0.1:33333''"
  by (simp add: bench_format_int_def format_int_def show_int_def show_nat.simps char_of_def bit_0 signed_take_bit_int_eq_self)

end
