(* ===== verification/Elpp_Str.thy ===== *)
theory Elpp_Str imports Cxx_String Cxx_Map begin

text \<open>
  The string and file-name helpers of the logging library under
  \<open>src/include/easylogging++\<close> (\<open>base::utils::Str\<close>, \<open>File\<close>, \<open>OS\<close>, \<open>CommandLineArgs\<close>). A C
  string is the list of its characters before the terminator; a null pointer is \<open>None\<close>. The
  character classes are those of the C locale.
\<close>

section \<open>Characters\<close>

definition isDigit :: "char \<Rightarrow> bool" where
  "isDigit c \<longleftrightarrow> (of_char c :: nat) \<ge> of_char CHR ''0'' \<and> (of_char c :: nat) \<le> of_char CHR ''9''"

definition is_space :: "char \<Rightarrow> bool" where
  "is_space c \<longleftrightarrow> c \<in> set (map char_of [9 ..< 14]) \<or> c = CHR '' ''"

definition c_toupper :: "char \<Rightarrow> char" where
  "c_toupper c = (let n = of_char c :: nat in if 97 \<le> n \<and> n \<le> 122 then char_of (n - 32) else c)"

text \<open>Converting to upper case clears the sixth bit of a letter, which evaluates faster.\<close>

lemma c_toupper_bits [code]:
  "c_toupper (Char a b c d e f g h) =
     (if g \<and> f \<and> \<not> h \<and> (a \<or> b \<or> c \<or> d \<or> e) \<and> \<not> (e \<and> d \<and> (c \<or> b \<and> a))
      then Char a b c d e False g h else Char a b c d e f g h)"
  unfolding c_toupper_def
  by (cases a; cases b; cases c; cases d; cases e; cases f; cases g; cases h;
      simp add: char_of_def bit_iff_odd)

text \<open>The character a pointer into a C string reads: the terminator at its end.\<close>

definition c_head :: "string \<Rightarrow> char" where
  "c_head s = (case s of [] \<Rightarrow> CHR 0x00 | c # _ \<Rightarrow> c)"

section \<open>\<open>Str\<close>\<close>

text \<open>\<open>*\<close> stands for any characters, \<open>?\<close> for one.\<close>

function wildCardMatch :: "string \<Rightarrow> string \<Rightarrow> bool" where
  "wildCardMatch str [] \<longleftrightarrow> str = []"
| "wildCardMatch str (p # pattern) \<longleftrightarrow>
     (if p = CHR ''?'' then (case str of [] \<Rightarrow> False | _ # str \<Rightarrow> wildCardMatch str pattern)
      else if p = CHR ''*'' then
        wildCardMatch str pattern \<or>
        (case str of [] \<Rightarrow> False | _ # str \<Rightarrow> wildCardMatch str (p # pattern))
      else (case str of [] \<Rightarrow> False | c # str \<Rightarrow> c = p \<and> wildCardMatch str pattern))"
  by pat_completeness auto
termination by (relation "measure (\<lambda>(s, p). length s + length p)") auto

definition ltrim :: "string \<Rightarrow> string" where
  "ltrim str = dropWhile is_space str"

definition rtrim :: "string \<Rightarrow> string" where
  "rtrim str = rev (dropWhile is_space (rev str))"

definition trim :: "string \<Rightarrow> string" where
  "trim str = ltrim (rtrim str)"

definition startsWith :: "string \<Rightarrow> string \<Rightarrow> bool" where
  "startsWith str start \<longleftrightarrow>
     length start \<le> length str \<and> substr str 0 (length start) = start"

definition endsWith :: "string \<Rightarrow> string \<Rightarrow> bool" where
  "endsWith str ending \<longleftrightarrow>
     length ending \<le> length str \<and> substr str (length str - length ending) (length ending) = ending"

definition replaceAll_char :: "string \<Rightarrow> char \<Rightarrow> char \<Rightarrow> string" where
  "replaceAll_char str what w = map (\<lambda>c. if c = what then w else c) str"

text \<open>
  The loop of the string version: the next search starts one past the position of the last
  hit, whatever was put there. It need not end, so it is a partial function.
\<close>

partial_function (option) replace_loop :: "string \<Rightarrow> string \<Rightarrow> nat \<Rightarrow> string \<Rightarrow> string option" where
  "replace_loop what w pos str =
     (case str_find str what pos of
        None \<Rightarrow> Some str
      | Some foundAt \<Rightarrow>
          replace_loop what w (foundAt + 1)
            (take foundAt str @ w @ drop (foundAt + length what) str))"

definition replaceAll :: "string \<Rightarrow> string \<Rightarrow> string \<Rightarrow> string option" where
  "replaceAll str what w = (if what = w then Some str else replace_loop what w 0 str)"

text \<open>An occurrence after a percent sign is an escape: the sign goes and the search goes on.\<close>

function replace_first_loop :: "string \<Rightarrow> string \<Rightarrow> nat \<Rightarrow> string \<Rightarrow> string" where
  "replace_first_loop what w pos str =
     (case str_find str what pos of
        None \<Rightarrow> str
      | Some foundAt \<Rightarrow>
          if 0 < foundAt \<and> str ! (foundAt - 1) = CHR ''%''
          then replace_first_loop what w (foundAt + 2) (take (foundAt - 1) str @ drop foundAt str)
          else take foundAt str @ w @ drop (foundAt + length what) str)"
  by pat_completeness auto
termination
proof (relation "measure (\<lambda>(what, w, pos, str). Suc (length str) - pos)")
  fix what w :: string and pos str i
  assume "str_find str what pos = Some i"
  then have "pos \<le> i" "i \<le> length str"
    using str_find_Some(1) str_find_bound [of str what pos i] by auto
  then show "((what, w, i + 2, take (i - 1) str @ drop i str), what, w, pos, str)
      \<in> measure (\<lambda>(what, w, pos, str). Suc (length str) - pos)"
    by auto
qed simp

declare replace_first_loop.simps [simp del]

definition replaceFirstWithEscape :: "string \<Rightarrow> string \<Rightarrow> string \<Rightarrow> string" where
  "replaceFirstWithEscape str what w = replace_first_loop what w 0 str"

definition toUpper :: "string \<Rightarrow> string" where
  "toUpper str = map c_toupper str"

definition cStringEq :: "string option \<Rightarrow> string option \<Rightarrow> bool" where
  "cStringEq s1 s2 =
     (case (s1, s2) of (None, None) \<Rightarrow> True | (Some a, Some b) \<Rightarrow> a = b | _ \<Rightarrow> False)"

text \<open>The comparison loop: stops at a difference or after the end of the second string.\<close>

fun case_eq_loop :: "string \<Rightarrow> string \<Rightarrow> bool" where
  "case_eq_loop s1 [] \<longleftrightarrow> c_toupper (c_head s1) = CHR 0x00"
| "case_eq_loop s1 (c # s2) \<longleftrightarrow>
     c_toupper (c_head s1) = c_toupper c \<and>
     (c_toupper c = CHR 0x00 \<or> case_eq_loop (tl s1) s2)"

definition cStringCaseEq :: "string option \<Rightarrow> string option \<Rightarrow> bool" where
  "cStringCaseEq s1 s2 =
     (case (s1, s2) of (None, None) \<Rightarrow> True | (Some a, Some b) \<Rightarrow> case_eq_loop a b | _ \<Rightarrow> False)"

fun contains_char :: "string \<Rightarrow> char \<Rightarrow> bool" where
  "contains_char [] c \<longleftrightarrow> False"
| "contains_char (d # str) c \<longleftrightarrow> d = c \<or> contains_char str c"

subsection \<open>Writing into a bounded buffer\<close>

text \<open>
  A cursor between \<open>buf\<close> and \<open>bufLim\<close> is the text written so far and the capacity \<open>lim\<close>.
  \<open>addToBuff\<close> copies until the terminator or the end of the buffer.
\<close>

definition addToBuff :: "string \<Rightarrow> nat \<Rightarrow> string \<Rightarrow> string" where
  "addToBuff str lim buf = buf @ take (lim - length buf) str"

text \<open>The digits, from the last one, into a local buffer with room for eight.\<close>

fun digits_loop :: "nat \<Rightarrow> nat \<Rightarrow> int \<Rightarrow> string \<Rightarrow> string \<times> int \<times> nat" where
  "digits_loop 0 n len p = (p, len, 0)"
| "digits_loop (Suc room) n len p =
     (if 0 < n \<and> 0 < len then digits_loop room (n div 10) (len - 1) (char_of (n mod 10 + 48) # p)
      else (p, len, Suc room))"

definition convertAndAddToBuff :: "nat \<Rightarrow> int \<Rightarrow> nat \<Rightarrow> bool \<Rightarrow> string \<Rightarrow> string" where
  "convertAndAddToBuff n len lim zeroPadded buf =
     (let (p, len, room) = (if 0 < n then digits_loop 8 n len [] else (''0'', len - 1, 7));
          p = (if zeroPadded then replicate (min room (nat len)) CHR ''0'' @ p else p)
      in addToBuff p lim buf)"

definition clearBuff :: "string \<Rightarrow> string" where
  "clearBuff buff = []"

text \<open>\<open>strcat\<close> into an array of \<open>cap\<close> characters, the terminator included.\<close>

definition str_cat :: "nat \<Rightarrow> string \<Rightarrow> string \<Rightarrow> string result" where
  "str_cat cap buff s = (if length buff + length s < cap then Inr (buff @ s) else Inl OutOfBoundsWrite)"

section \<open>\<open>File\<close>\<close>

fun find_last_of :: "string \<Rightarrow> string \<Rightarrow> nat option" where
  "find_last_of [] cs = None"
| "find_last_of (c # s) cs =
     (case find_last_of s cs of Some i \<Rightarrow> Some (Suc i) | None \<Rightarrow> if c \<in> set cs then Some 0 else None)"

definition extractPathFromFilename :: "string \<Rightarrow> string \<Rightarrow> string" where
  "extractPathFromFilename fullPath separator =
     (if fullPath = [] \<or> str_find fullPath separator 0 = None then fullPath
      else case find_last_of fullPath separator of
          None \<Rightarrow> fullPath
        | Some lastSlashAt \<Rightarrow> if lastSlashAt = 0 then separator else substr fullPath 0 (lastSlashAt + 1))"

text \<open>
  The end of a file name that does not fit, with two dots in front of it unless one of its
  first two characters is a dot. The array \<open>buff\<close> has \<open>cap\<close> characters.
\<close>

definition strip_into :: "nat \<Rightarrow> nat \<Rightarrow> string \<Rightarrow> string \<Rightarrow> string result" where
  "strip_into cap limit filename buff =
     (if limit \<le> length filename then
        (let filename = drop (length filename - limit) filename in
         if c_head filename \<noteq> CHR ''.'' \<and> c_head (tl filename) \<noteq> CHR ''.''
         then rbind (str_cat cap buff ''..'') (\<lambda>buff. str_cat cap buff (drop 3 filename))
         else str_cat cap buff filename)
      else str_cat cap buff filename)"

definition buildStrippedFilename :: "nat \<Rightarrow> string \<Rightarrow> string \<Rightarrow> nat \<Rightarrow> string result" where
  "buildStrippedFilename cap filename buff limit = strip_into cap limit filename buff"

text \<open>A separator at position 0 is taken for none.\<close>

definition buildBaseFilename :: "nat \<Rightarrow> string \<Rightarrow> string \<Rightarrow> nat \<Rightarrow> string \<Rightarrow> string result" where
  "buildBaseFilename cap fullPath buff limit separator =
     (let filename = (case find_last_of fullPath separator of
             None \<Rightarrow> fullPath
           | Some lastSlashAt \<Rightarrow> if lastSlashAt = 0 then fullPath else drop (lastSlashAt + 1) fullPath)
      in strip_into cap limit filename buff)"

text \<open>The file system: \<open>stat\<close> and \<open>mkdir\<close> (whether it failed) on a state of its own.\<close>

record 'f file_ops =
  fo_exists :: "'f \<Rightarrow> string \<Rightarrow> bool"
  fo_mkdir :: "string \<Rightarrow> 'f \<Rightarrow> bool \<times> 'f"

definition pathExists :: "'f file_ops \<Rightarrow> 'f \<Rightarrow> string option \<Rightarrow> bool" where
  "pathExists ops fs path = (case path of None \<Rightarrow> False | Some p \<Rightarrow> fo_exists ops fs p)"

text \<open>The tokens of \<open>strtok\<close> with one separator.\<close>

fun str_tokens :: "char \<Rightarrow> string \<Rightarrow> string \<Rightarrow> string list" where
  "str_tokens sep cur [] = (if cur = [] then [] else [cur])"
| "str_tokens sep cur (c # s) =
     (if c = sep then (if cur = [] then [] else [cur]) @ str_tokens sep [] s
      else str_tokens sep (cur @ [c]) s)"

fun mkdir_loop :: "'f file_ops \<Rightarrow> string list \<Rightarrow> string \<Rightarrow> bool \<Rightarrow> 'f \<Rightarrow> bool \<times> 'f" where
  "mkdir_loop ops [] builtPath failed fs = (failed, fs)"
| "mkdir_loop ops (t # toks) builtPath failed fs =
     (let builtPath = builtPath @ t @ ''/'';
          (failed, fs) = fo_mkdir ops builtPath fs
      in mkdir_loop ops toks builtPath failed fs)"

definition createPath :: "'f file_ops \<Rightarrow> string \<Rightarrow> 'f \<Rightarrow> bool \<times> 'f" where
  "createPath ops path fs =
     (if path = [] then (False, fs)
      else if pathExists ops fs (Some path) then (True, fs)
      else
        (let builtPath = (if c_head path = CHR ''/'' then ''/'' else []);
             (failed, fs) = mkdir_loop ops (str_tokens CHR ''/'' [] path) builtPath True fs
         in (\<not> failed, fs)))"

section \<open>\<open>OS\<close>\<close>

text \<open>The environment of the process is an argument.\<close>

definition getEnvironmentVariable ::
  "(string \<Rightarrow> string option) \<Rightarrow> string \<Rightarrow> string \<Rightarrow> string option \<Rightarrow> string" where
  "getEnvironmentVariable getenv variableName defaultVal alternativeBashCommand =
     (case getenv variableName of
        None \<Rightarrow> defaultVal
      | Some val \<Rightarrow> if val = [] then defaultVal else val)"

definition currentUser :: "(string \<Rightarrow> string option) \<Rightarrow> string" where
  "currentUser getenv = getEnvironmentVariable getenv ''USER'' ''user'' (Some ''whoami'')"

definition currentHost :: "(string \<Rightarrow> string option) \<Rightarrow> string" where
  "currentHost getenv = getEnvironmentVariable getenv ''HOSTNAME'' ''unknown-host'' (Some ''hostname'')"

definition termSupportsColor :: "(string \<Rightarrow> string option) \<Rightarrow> bool" where
  "termSupportsColor getenv \<longleftrightarrow>
     (let term = getEnvironmentVariable getenv ''TERM'' [] None
      in term = ''xterm'' \<or> term = ''xterm-color'' \<or> term = ''xterm-256color'' \<or>
         term = ''screen'' \<or> term = ''linux'' \<or> term = ''cygwin'' \<or> term = ''screen-256color'')"

section \<open>\<open>CommandLineArgs\<close>\<close>

text \<open>
  \<open>m_argc\<close> and \<open>m_argv\<close> together are \<open>None\<close> until \<open>setArgs\<close> gives them a value; the hash table
  is an association list in the order of insertion.
\<close>

record command_line_args =
  cla_argv :: "string list option"
  cla_paramsWithValue :: "(string \<times> string) list"
  cla_params :: "string list"

definition hasParamWithValue :: "command_line_args \<Rightarrow> string \<Rightarrow> bool" where
  "hasParamWithValue c paramKey \<longleftrightarrow> map_of (cla_paramsWithValue c) paramKey \<noteq> None"

definition getParamValue :: "command_line_args \<Rightarrow> string \<Rightarrow> string" where
  "getParamValue c paramKey =
     (case map_of (cla_paramsWithValue c) paramKey of Some v \<Rightarrow> v | None \<Rightarrow> [])"

definition hasParam :: "command_line_args \<Rightarrow> string \<Rightarrow> bool" where
  "hasParam c paramKey \<longleftrightarrow> paramKey \<in> set (cla_params c)"

definition add_param :: "string \<Rightarrow> string \<Rightarrow> command_line_args \<Rightarrow> command_line_args" where
  "add_param key v c =
     (if hasParamWithValue c key then c
      else c\<lparr>cla_paramsWithValue := cla_paramsWithValue c @ [(key, v)]\<rparr>)"

definition set_arg :: "string \<Rightarrow> command_line_args \<Rightarrow> command_line_args" where
  "set_arg arg c =
     (case str_find arg ''='' 0 of
        Some i \<Rightarrow> add_param (substr arg 0 i) (drop (i + 1) arg) c
      | None \<Rightarrow> if hasParam c arg then c else c\<lparr>cla_params := cla_params c @ [arg]\<rparr>)"

definition setArgs :: "string list option \<Rightarrow> command_line_args \<Rightarrow> command_line_args" where
  "setArgs argv c =
     (let c = c\<lparr>cla_params := [], cla_paramsWithValue := []\<rparr> in
      case argv of
        None \<Rightarrow> c
      | Some [] \<Rightarrow> c
      | Some (prog # args) \<Rightarrow> fold set_arg args (c\<lparr>cla_argv := Some (prog # args)\<rparr>))"

definition CommandLineArgs :: "string list option \<Rightarrow> command_line_args" where
  "CommandLineArgs argv =
     setArgs argv \<lparr>cla_argv = None, cla_paramsWithValue = [], cla_params = []\<rparr>"

definition cla_empty :: "command_line_args \<Rightarrow> bool" where
  "cla_empty c \<longleftrightarrow> cla_params c = [] \<and> cla_paramsWithValue c = []"

definition cla_size :: "command_line_args \<Rightarrow> nat" where
  "cla_size c = length (cla_params c) + length (cla_paramsWithValue c)"

fun print_args :: "string list \<Rightarrow> string" where
  "print_args [] = []"
| "print_args [a] = ''['' @ a @ '']''"
| "print_args (a # b # as) = ''['' @ a @ '']'' @ '' '' @ print_args (b # as)"

text \<open>Printing arguments that were never set reads an indeterminate \<open>m_argc\<close>.\<close>

definition print_command_line :: "command_line_args \<Rightarrow> string result" where
  "print_command_line c =
     (case cla_argv c of None \<Rightarrow> Inl IndeterminateRead | Some argv \<Rightarrow> Inr (print_args (tl argv)))"

section \<open>Facts\<close>

subsection \<open>Wildcards\<close>

text \<open>What a pattern stands for.\<close>

inductive wild :: "string \<Rightarrow> string \<Rightarrow> bool" where
  wild_Nil: "wild [] []"
| wild_char: "p \<noteq> CHR ''*'' \<Longrightarrow> p = CHR ''?'' \<or> p = c \<Longrightarrow> wild ps s \<Longrightarrow> wild (p # ps) (c # s)"
| wild_star: "wild ps s \<Longrightarrow> wild (CHR ''*'' # ps) (u @ s)"

inductive_cases wild_Nil_case: "wild [] s"
inductive_cases wild_Cons_case: "wild (p # ps) s"

lemma wild_star_more: "wild (CHR ''*'' # ps) s \<Longrightarrow> wild (CHR ''*'' # ps) (c # s)"
  by (erule wild_Cons_case) (auto simp flip: append_Cons intro: wild_star)

lemma wild_star_here: "wild ps s \<Longrightarrow> wild (CHR ''*'' # ps) s"
  using wild_star [of ps s "[]"] by simp

lemma wildCardMatch_sound: "wildCardMatch str pattern \<Longrightarrow> wild pattern str"
proof (induction str pattern rule: wildCardMatch.induct)
  case (1 str)
  then show ?case by (simp add: wild_Nil)
next
  case (2 str p pattern)
  show ?case
  proof (cases "p = CHR ''*''")
    case True
    show ?thesis
    proof (cases "wildCardMatch str pattern")
      case True
      with "2.IH"(2) \<open>p = CHR ''*''\<close> show ?thesis by (simp add: wild_star_here)
    next
      case False
      with "2.prems" \<open>p = CHR ''*''\<close> obtain c s where
        s: "str = c # s" "wildCardMatch s (p # pattern)"
        by (auto split: list.splits)
      with "2.IH"(3) False \<open>p = CHR ''*''\<close> have "wild (p # pattern) s" by simp
      then show ?thesis by (simp add: s \<open>p = CHR ''*''\<close> wild_star_more)
    qed
  next
    case False
    with "2.prems" obtain c s where s: "str = c # s" "p = CHR ''?'' \<or> p = c" "wildCardMatch s pattern"
      by (auto split: list.splits if_splits)
    with "2.IH"(1, 4) False have "wild pattern s" by (cases "p = CHR ''?''") auto
    with False s show ?thesis by (simp add: wild_char)
  qed
qed

lemma wildCardMatch_star: "wildCardMatch s ps \<Longrightarrow> wildCardMatch (u @ s) (CHR ''*'' # ps)"
  by (induction u) auto

lemma wildCardMatch_complete: "wild pattern str \<Longrightarrow> wildCardMatch str pattern"
  by (induction rule: wild.induct) (auto intro: wildCardMatch_star simp del: wildCardMatch.simps(2),
      auto)

subsection \<open>Comparison and trimming\<close>

lemma c_toupper_NUL [simp]: "c_toupper c = CHR 0x00 \<longleftrightarrow> c = CHR 0x00"
proof
  assume u: "c_toupper c = CHR 0x00"
  show "c = CHR 0x00"
  proof (cases "97 \<le> (of_char c :: nat) \<and> of_char c \<le> (122 :: nat)")
    case True
    then have "(of_char c :: nat) - 32 < 256" by linarith
    with True have "(of_char (c_toupper c) :: nat) = of_char c - 32"
      by (simp add: c_toupper_def mod_less)
    with True u show ?thesis by simp
  qed (use u in \<open>auto simp: c_toupper_def Let_def\<close>)
qed (simp add: c_toupper_def)

lemma case_eq_loop_iff:
  "CHR 0x00 \<notin> set s1 \<Longrightarrow> CHR 0x00 \<notin> set s2 \<Longrightarrow>
     case_eq_loop s1 s2 \<longleftrightarrow> map c_toupper s1 = map c_toupper s2"
proof (induction s1 s2 rule: case_eq_loop.induct)
  case (1 s1)
  then show ?case by (cases s1) (auto simp: c_head_def)
next
  case (2 s1 c s2)
  then show ?case by (cases s1) (auto simp: c_head_def eq_commute)
qed

lemma cStringCaseEq_iff:
  "CHR 0x00 \<notin> set a \<Longrightarrow> CHR 0x00 \<notin> set b \<Longrightarrow>
     cStringCaseEq (Some a) (Some b) \<longleftrightarrow> toUpper a = toUpper b"
  by (simp add: cStringCaseEq_def toUpper_def case_eq_loop_iff)

lemma ltrim_parts: "\<exists>u. str = u @ ltrim str \<and> (\<forall>c \<in> set u. is_space c)"
  unfolding ltrim_def by (metis set_takeWhileD takeWhile_dropWhile_id)

lemma rtrim_eq: "rtrim s = rev (ltrim (rev s))"
  by (simp add: rtrim_def ltrim_def)

lemma ltrim_fixed: "s = [] \<or> \<not> is_space (hd s) \<Longrightarrow> ltrim s = s"
  by (cases s) (auto simp: ltrim_def)

lemma trim_ends:
  "trim s = [] \<or> \<not> is_space (hd (trim s)) \<and> \<not> is_space (last (trim s))"
proof (cases "trim s = []")
  case False
  then have h: "\<not> is_space (hd (trim s))"
    unfolding trim_def ltrim_def by (metis hd_dropWhile)
  obtain u where u: "rtrim s = u @ trim s"
    using ltrim_parts [of "rtrim s"] by (auto simp: trim_def)
  with False have "last (trim s) = last (rtrim s)" "rtrim s \<noteq> []" by auto
  moreover from this have "\<not> is_space (last (rtrim s))"
    unfolding rtrim_def last_rev by (metis hd_dropWhile rev_is_Nil_conv)
  ultimately show ?thesis using h by simp
qed simp

lemma trim_trim [simp]: "trim (trim s) = trim s"
proof -
  have "rtrim (trim s) = trim s"
    using trim_ends [of s] by (auto simp: rtrim_eq ltrim_fixed hd_rev)
  with trim_ends [of s] show ?thesis by (auto simp: trim_def [of "trim s"] ltrim_fixed)
qed

subsection \<open>Replacing\<close>

text \<open>Where the replacement contains the text it replaces, the loop never ends.\<close>

lemma matches_at_single: "matches_at str [c] i \<longleftrightarrow> i < length str \<and> str ! i = c"
  by (auto simp: matches_at_def take_Suc hd_drop_conv_nth neq_Nil_conv)

lemma replace_loop_grows:
  assumes "replace_loop what w pos str = Some r"
  shows "what = [c] \<longrightarrow> w = [c, c] \<longrightarrow> (\<forall>i \<ge> pos. i < length str \<longrightarrow> str ! i \<noteq> c)"
proof (rule replace_loop.raw_induct [where P = "\<lambda>what w pos str r. what = [c] \<longrightarrow> w = [c, c] \<longrightarrow>
    (\<forall>i \<ge> pos. i < length str \<longrightarrow> str ! i \<noteq> c)", OF _ assms], intro impI allI)
  fix f :: "string \<Rightarrow> string \<Rightarrow> nat \<Rightarrow> string \<Rightarrow> string option" and what w :: string and pos str r i
  assume IH: "\<And>what w pos str r. f what w pos str = Some r \<Longrightarrow> what = [c] \<longrightarrow> w = [c, c] \<longrightarrow>
      (\<forall>i \<ge> pos. i < length str \<longrightarrow> str ! i \<noteq> c)"
    and body: "(case str_find str what pos of None \<Rightarrow> Some str
      | Some k \<Rightarrow> f what w (k + 1) (take k str @ w @ drop (k + length what) str)) = Some r"
    and i: "what = [c]" "w = [c, c]" "pos \<le> i" "i < length str"
  show "str ! i \<noteq> c"
  proof (cases "str_find str what pos")
    case None
    with i show ?thesis using str_find_None [of str what pos i] by (auto simp: matches_at_single)
  next
    case (Some k)
    then have k: "k < length str" using str_find_Some(2) i(1) by (fastforce simp: matches_at_single)
    from body Some have "f what w (k + 1) (take k str @ w @ drop (k + length what) str) = Some r"
      by simp
    from IH [OF this] i k have False by (auto simp: nth_append dest: spec [of _ "k + 1"])
    then show ?thesis ..
  qed
qed

lemma replaceAll_diverges: "c \<in> set str \<Longrightarrow> replaceAll str [c] [c, c] = None"
proof (cases "replaceAll str [c] [c, c]")
  case (Some r)
  moreover assume "c \<in> set str"
  then obtain i where "i < length str" "str ! i = c" by (auto simp: in_set_conv_nth)
  ultimately show ?thesis
    using replace_loop_grows [of "[c]" "[c, c]" 0 str r c] by (simp add: replaceAll_def)
qed

text \<open>Where hits touch and the replacement is empty, every other one is left.\<close>

lemma replaceAll_skips: "replaceAll ''abab'' ''ab'' [] = Some ''ab''"
  by (simp add: replaceAll_def replace_loop.simps str_find_def)

subsection \<open>Arguments\<close>

text \<open>The first value given for a key is the one that stays.\<close>

interpretation arguments: keyed_store "\<lambda>c. map_of (cla_paramsWithValue c)" add_param
  by unfold_locales (auto simp: add_param_def hasParamWithValue_def map_add_def split: option.split)

lemma getParamValue_first:
  "map_of (cla_paramsWithValue c) k = Some v \<Longrightarrow>
     getParamValue (fold (\<lambda>(k, v). add_param k v) kvs c) k = v"
  by (simp add: getParamValue_def arguments.first_wins)

section \<open>Properties\<close>

text \<open>
  C40. The wildcard matcher, which backtracks over the string, accepts exactly the strings the
  pattern stands for: any character for a question mark, any text for a star, and every other
  character for itself.
\<close>

theorem wildcards_match_exactly: "wildCardMatch str pattern \<longleftrightarrow> wild pattern str"
  using wildCardMatch_sound wildCardMatch_complete by blast

end
