(* ===== verification/Elpp_Registry.thy ===== *)
theory Elpp_Registry imports Elpp_Str begin

text \<open>
  The registries of the logging library, which own the objects their pointers point to:
  \<open>AbstractRegistry\<close>, \<open>Registry\<close> (by key), \<open>RegistryWithPred\<close> (by predicate), and the table of
  callbacks of \<open>Utils\<close>. Objects live in a store of their own, so that deleting one twice, or
  one that is still in use, shows.
\<close>

section \<open>Objects and pointers\<close>

record 'a store =
  st_objs :: "nat \<rightharpoonup> 'a"
  st_next :: nat

type_synonym ptr = "nat option"

definition empty_store :: "'a store" where
  "empty_store = \<lparr>st_objs = (\<lambda>_. None), st_next = 0\<rparr>"

definition new_object :: "'a \<Rightarrow> 'a store \<Rightarrow> ptr \<times> 'a store" where
  "new_object x h =
     (Some (st_next h), h\<lparr>st_objs := (st_objs h)(st_next h \<mapsto> x), st_next := Suc (st_next h)\<rparr>)"

definition deref :: "ptr \<Rightarrow> 'a store \<Rightarrow> 'a result" where
  "deref p h =
     (case p of
        None \<Rightarrow> Inl NullDereference
      | Some a \<Rightarrow> (case st_objs h a of None \<Rightarrow> Inl DanglingPointer | Some x \<Rightarrow> Inr x))"

text \<open>\<open>safeDelete\<close> returns the null pointer the variable holds afterwards.\<close>

definition safeDelete :: "ptr \<Rightarrow> 'a store \<Rightarrow> (ptr \<times> 'a store) result" where
  "safeDelete pointer h =
     (case pointer of
        None \<Rightarrow> Inr (None, h)
      | Some a \<Rightarrow>
          (case st_objs h a of
             None \<Rightarrow> Inl DanglingPointer
           | Some _ \<Rightarrow> Inr (None, h\<lparr>st_objs := (st_objs h)(a := None)\<rparr>)))"

fun delete_all :: "ptr list \<Rightarrow> 'a store \<Rightarrow> 'a store result" where
  "delete_all [] h = Inr h"
| "delete_all (p # ps) h = rbind (safeDelete p h) (\<lambda>(_, h). delete_all ps h)"

section \<open>\<open>AbstractRegistry\<close>\<close>

text \<open>The container of a registry: a vector of pointers, or a table from keys to pointers.\<close>

definition registry_eq :: "'p list \<Rightarrow> 'p list \<Rightarrow> bool" where
  "registry_eq l other \<longleftrightarrow>
     (if length l \<noteq> length other then False else list_all (\<lambda>i. l ! i = other ! i) [0 ..< length l])"

definition registry_neq :: "'p list \<Rightarrow> 'p list \<Rightarrow> bool" where
  "registry_neq l other \<longleftrightarrow>
     (if length l \<noteq> length other then True else list_ex (\<lambda>i. l ! i \<noteq> other ! i) [0 ..< length l])"

definition registry_empty :: "'p list \<Rightarrow> bool" where
  "registry_empty l \<longleftrightarrow> l = []"

definition registry_size :: "'p list \<Rightarrow> nat" where
  "registry_size l = length l"

text \<open>Moving: what was there is deleted, the source is left empty.\<close>

definition registry_move :: "ptr list \<Rightarrow> ptr list \<Rightarrow> 'a store \<Rightarrow> (ptr list \<times> ptr list \<times> 'a store) result" where
  "registry_move this sr h = rbind (delete_all this h) (\<lambda>h. Inr (sr, [], h))"

section \<open>\<open>Registry\<close>\<close>

type_synonym 'k table = "('k \<times> ptr) list"

definition Registry_unregisterAll :: "'k table \<Rightarrow> 'a store \<Rightarrow> ('k table \<times> 'a store) result" where
  "Registry_unregisterAll l h =
     (if l \<noteq> [] then rbind (delete_all (map snd l) h) (\<lambda>h. Inr ([], h)) else Inr (l, h))"

definition Registry_get :: "'k \<Rightarrow> 'k table \<Rightarrow> ptr" where
  "Registry_get uniqKey l = (case map_of l uniqKey of None \<Rightarrow> None | Some p \<Rightarrow> p)"

definition Registry_unregister :: "'k \<Rightarrow> 'k table \<Rightarrow> 'a store \<Rightarrow> ('k table \<times> 'a store) result" where
  "Registry_unregister uniqKey l h =
     (let existing = Registry_get uniqKey l in
      if existing \<noteq> None then
        rbind (safeDelete existing h) (\<lambda>(_, h). Inr (filter (\<lambda>(k, _). k \<noteq> uniqKey) l, h))
      else Inr (l, h))"

definition table_insert :: "'k \<Rightarrow> ptr \<Rightarrow> 'k table \<Rightarrow> 'k table" where
  "table_insert k p l = (if map_of l k = None then l @ [(k, p)] else l)"

definition Registry_registerNew ::
  "'k \<Rightarrow> ptr \<Rightarrow> 'k table \<Rightarrow> 'a store \<Rightarrow> ('k table \<times> 'a store) result" where
  "Registry_registerNew uniqKey p l h =
     rbind (Registry_unregister uniqKey l h) (\<lambda>(l, h). Inr (table_insert uniqKey p l, h))"

fun Registry_deepCopy :: "'k table \<Rightarrow> 'k table \<Rightarrow> 'a store \<Rightarrow> ('k table \<times> 'a store) result" where
  "Registry_deepCopy [] l h = Inr (l, h)"
| "Registry_deepCopy ((k, p) # sr) l h =
     rbind (deref p h) (\<lambda>x.
       let (q, h) = new_object x h in
       rbind (Registry_registerNew k q l h) (\<lambda>(l, h). Registry_deepCopy sr l h))"

definition Registry_assign :: "'k table \<Rightarrow> 'k table \<Rightarrow> 'a store \<Rightarrow> ('k table \<times> 'a store) result" where
  "Registry_assign l sr h =
     rbind (Registry_unregisterAll l h) (\<lambda>(l, h). Registry_deepCopy sr l h)"

section \<open>\<open>RegistryWithPred\<close>\<close>

definition Pred_unregisterAll :: "ptr list \<Rightarrow> 'a store \<Rightarrow> (ptr list \<times> 'a store) result" where
  "Pred_unregisterAll l h =
     (if l \<noteq> [] then rbind (delete_all l h) (\<lambda>h. Inr ([], h)) else Inr (l, h))"

definition Pred_registerNew :: "ptr \<Rightarrow> ptr list \<Rightarrow> ptr list" where
  "Pred_registerNew p l = l @ [p]"

fun index_of :: "'p \<Rightarrow> 'p list \<Rightarrow> nat" where
  "index_of p [] = 0"
| "index_of p (q # l) = (if p = q then 0 else Suc (index_of p l))"

text \<open>
  The iterator is used after \<open>erase\<close>: it then stands on the element that followed, or past
  the end of the vector.
\<close>

definition Pred_unregister :: "ptr \<Rightarrow> ptr list \<Rightarrow> 'a store \<Rightarrow> (ptr list \<times> 'a store) result" where
  "Pred_unregister p l h =
     (if p = None then Inr (l, h)
      else
        (let iter = index_of p l in
         if iter < length l \<and> l ! iter \<noteq> None then
           (let l = take iter l @ drop (Suc iter) l in
            if iter < length l then
              rbind (safeDelete (l ! iter) h) (\<lambda>(q, h). Inr (l[iter := q], h))
            else Inl OutOfBoundsRead)
         else Inr (l, h)))"

text \<open>\<open>find_if\<close> calls the predicate on the pointers; \<open>Pred(arg1, arg2)\<close> is \<open>pred\<close>.\<close>

definition Pred_get :: "(ptr \<Rightarrow> bool) \<Rightarrow> ptr list \<Rightarrow> ptr" where
  "Pred_get pred l = (case find pred l of None \<Rightarrow> None | Some p \<Rightarrow> p)"

fun Pred_deepCopy :: "ptr list \<Rightarrow> ptr list \<Rightarrow> 'a store \<Rightarrow> (ptr list \<times> 'a store) result" where
  "Pred_deepCopy [] l h = Inr (l, h)"
| "Pred_deepCopy (p # sr) l h =
     rbind (deref p h) (\<lambda>x.
       let (q, h) = new_object x h in Pred_deepCopy sr (Pred_registerNew q l) h)"

definition Pred_assign :: "ptr list \<Rightarrow> ptr list \<Rightarrow> 'a store \<Rightarrow> (ptr list \<times> 'a store) result" where
  "Pred_assign l sr h = rbind (Pred_unregisterAll l h) (\<lambda>(l, h). Pred_deepCopy sr l h)"

section \<open>Callbacks by name\<close>

text \<open>Whether \<open>installCallback\<close> did anything, and the table.\<close>

definition installCallback :: "string \<Rightarrow> 'c \<Rightarrow> (string \<rightharpoonup> 'c) \<Rightarrow> bool \<times> (string \<rightharpoonup> 'c)" where
  "installCallback i fresh mapT = (if mapT i = None then (True, emplace i fresh mapT) else (False, mapT))"

definition uninstallCallback :: "string \<Rightarrow> (string \<rightharpoonup> 'c) \<Rightarrow> (string \<rightharpoonup> 'c)" where
  "uninstallCallback i mapT = (if mapT i \<noteq> None then erase i mapT else mapT)"

definition callback_of :: "string \<Rightarrow> (string \<rightharpoonup> 'c) \<Rightarrow> 'c option" where
  "callback_of i mapT = mapT i"

section \<open>Facts\<close>

lemma registry_eq_iff: "registry_eq a b \<longleftrightarrow> a = b"
  by (auto simp: registry_eq_def list_all_iff intro: nth_equalityI)

lemma registry_neq_iff: "registry_neq a b \<longleftrightarrow> \<not> registry_eq a b"
  by (auto simp: registry_eq_def registry_neq_def list_all_iff list_ex_iff)

text \<open>The objects of a well-formed registry are distinct and alive.\<close>

definition owns :: "ptr list \<Rightarrow> 'a store \<Rightarrow> bool" where
  "owns l h \<longleftrightarrow> distinct l \<and> (\<forall>p \<in> set l. \<exists>a. p = Some a \<and> st_objs h a \<noteq> None \<and> a < st_next h)"

lemma owns_Cons:
  "owns (p # l) h \<longleftrightarrow>
     p \<notin> set l \<and> owns l h \<and> (\<exists>a. p = Some a \<and> st_objs h a \<noteq> None \<and> a < st_next h)"
  by (auto simp: owns_def)

text \<open>Deleting everything a registry owns succeeds and leaves every other object alone.\<close>

lemma delete_all_owned:
  "owns l h \<Longrightarrow>
     delete_all l h = Inr (h\<lparr>st_objs := (\<lambda>a. if Some a \<in> set l then None else st_objs h a)\<rparr>)"
proof (induction l arbitrary: h)
  case (Cons p l)
  from Cons.prems obtain a where a: "p = Some a" "st_objs h a \<noteq> None" "p \<notin> set l"
    by (auto simp: owns_Cons)
  let ?h = "h\<lparr>st_objs := (st_objs h)(a := None)\<rparr>"
  have "\<exists>b. q = Some b \<and> st_objs ?h b \<noteq> None \<and> b < st_next ?h" if "q \<in> set l" for q
  proof -
    from that Cons.prems obtain b where "q = Some b" "st_objs h b \<noteq> None" "b < st_next h"
      by (auto simp: owns_def)
    moreover have "b \<noteq> a" using a that \<open>q = Some b\<close> by auto
    ultimately show ?thesis by simp
  qed
  then have "owns l ?h" using Cons.prems by (simp add: owns_def)
  from Cons.IH [OF this] a show ?case
    by (auto simp: safeDelete_def fun_eq_iff)
qed simp

lemma Pred_unregisterAll_owned:
  "owns l h \<Longrightarrow> \<exists>h'. Pred_unregisterAll l h = Inr ([], h') \<and>
     (\<forall>a. st_objs h' a = (if Some a \<in> set l then None else st_objs h a))"
  by (auto simp: Pred_unregisterAll_def delete_all_owned)

lemma owns_register:
  "owns l h \<Longrightarrow> new_object x h = (q, h') \<Longrightarrow> owns (Pred_registerNew q l) h'"
  by (auto simp: owns_def new_object_def Pred_registerNew_def)

lemma index_of_nth: "p \<in> set l \<Longrightarrow> index_of p l < length l \<and> l ! index_of p l = p"
  by (induction l) auto

lemma index_of_middle: "p \<notin> set u \<Longrightarrow> index_of p (u @ p # v) = length u"
  by (induction u) auto

section \<open>Properties\<close>

text \<open>
  Unregistering an object of a predicate registry does not delete it: its pointer leaves the
  vector and the object stays alive without an owner. What is deleted is the object after it,
  which leaves a null pointer in its place; where there is none, memory past the end of the
  vector is read.
\<close>

theorem unregister_deletes_successor:
  assumes "owns (u @ Some a # l) h"
  shows "case l of
      [] \<Rightarrow> Pred_unregister (Some a) (u @ Some a # l) h = Inl OutOfBoundsRead
    | q # v \<Rightarrow> \<exists>h' b. q = Some b \<and>
          Pred_unregister (Some a) (u @ Some a # l) h = Inr (u @ None # v, h') \<and>
          st_objs h' b = None \<and> st_objs h' a = st_objs h a \<and> st_objs h a \<noteq> None"
proof -
  have i: "index_of (Some a) (u @ Some a # l) = length u" and a: "st_objs h a \<noteq> None"
    using assms by (auto simp: owns_def index_of_middle)
  show ?thesis
  proof (cases l)
    case Nil
    with i show ?thesis by (simp add: Pred_unregister_def)
  next
    case (Cons q v)
    with assms obtain b where b: "q = Some b" "st_objs h b \<noteq> None" "b \<noteq> a"
      by (auto simp: owns_def)
    with i a Cons show ?thesis by (auto simp: Pred_unregister_def safeDelete_def list_update_append)
  qed
qed

definition example_store :: "string store" where
  "example_store = \<lparr>st_objs = [0 \<mapsto> ''a'', 1 \<mapsto> ''b''], st_next = 2\<rparr>"

theorem unregister_deletes_successor_witness:
  "(\<exists>h'. Pred_unregister (Some 0) [Some 0, Some 1] example_store = Inr ([None], h') \<and>
     st_objs h' 1 = None \<and> st_objs h' 0 = Some ''a'') \<and>
   Pred_unregister (Some 1) [Some 0, Some 1] example_store = Inl OutOfBoundsRead"
  using unregister_deletes_successor [of "[]" 0 "[Some 1]" example_store]
    unregister_deletes_successor [of "[Some 0]" 1 "[]" example_store]
  by (auto simp: owns_def example_store_def)

end
