(* ===== verification/Elpp_Types.thy ===== *)
theory Elpp_Types imports Elpp_Str begin

text \<open>
  The enumerations, flags and constants of the logging library, with the conversions between
  a level or a configuration type, its number and its name
  (\<open>easylogging++.h\<close> and \<open>.cc\<close>: \<open>Level\<close>, \<open>LevelHelper\<close>, \<open>ConfigurationType\<close>,
  \<open>ConfigurationTypeHelper\<close>, \<open>LoggingFlag\<close>, \<open>consts\<close>, \<open>bitwise\<close>, \<open>SubsecondPrecision\<close>).
\<close>

type_synonym uint32 = "32 word"

section \<open>Levels\<close>

text \<open>
  A C++ enumeration holds any value of its underlying type: the last constructor stands for
  the values that have no name.
\<close>

datatype level =
    Level_Global | Level_Trace | Level_Debug | Level_Fatal | Level_Error | Level_Warning
  | Level_Verbose | Level_Info | Level_Unknown | Level_Other uint32

fun level_castToInt :: "level \<Rightarrow> uint32" where
  "level_castToInt Level_Global = 1"
| "level_castToInt Level_Trace = 2"
| "level_castToInt Level_Debug = 4"
| "level_castToInt Level_Fatal = 8"
| "level_castToInt Level_Error = 16"
| "level_castToInt Level_Warning = 32"
| "level_castToInt Level_Verbose = 64"
| "level_castToInt Level_Info = 128"
| "level_castToInt Level_Unknown = 1010"
| "level_castToInt (Level_Other w) = w"

text \<open>Levels are compared by their numbers. Two values may have the same one, so this is a preorder.\<close>

instantiation level :: preorder
begin

definition less_eq_level :: "level \<Rightarrow> level \<Rightarrow> bool" where
  "less_eq_level l m \<longleftrightarrow> level_castToInt l \<le> level_castToInt m"

definition less_level :: "level \<Rightarrow> level \<Rightarrow> bool" where
  "less_level l m \<longleftrightarrow> level_castToInt l < level_castToInt m"

instance
  by standard (auto simp: less_eq_level_def less_level_def)

end

definition named_levels :: "level list" where
  "named_levels = [Level_Global, Level_Trace, Level_Debug, Level_Fatal, Level_Error,
     Level_Warning, Level_Verbose, Level_Info, Level_Unknown]"

definition level_castFromInt :: "uint32 \<Rightarrow> level" where
  "level_castFromInt w =
     (case find (\<lambda>l. level_castToInt l = w) named_levels of Some l \<Rightarrow> l | None \<Rightarrow> Level_Other w)"

definition level_hash :: "(uint32 \<Rightarrow> uint64) \<Rightarrow> level \<Rightarrow> uint64" where
  "level_hash hsh l = hsh (level_castToInt l)"

definition level_kMinValid :: uint32 where
  "level_kMinValid = level_castToInt Level_Trace"

definition level_kMaxValid :: uint32 where
  "level_kMaxValid = level_castToInt Level_Info"

definition level_convertToString :: "level \<Rightarrow> string" where
  "level_convertToString level =
     (if level = Level_Global then ''GLOBAL''
      else if level = Level_Debug then ''DEBUG''
      else if level = Level_Info then ''INFO''
      else if level = Level_Warning then ''WARNING''
      else if level = Level_Error then ''ERROR''
      else if level = Level_Fatal then ''FATAL''
      else if level = Level_Verbose then ''VERBOSE''
      else if level = Level_Trace then ''TRACE''
      else ''UNKNOWN'')"

definition stringToLevelMap :: "(string \<times> level) list" where
  "stringToLevelMap =
    [(''global'', Level_Global), (''debug'', Level_Debug), (''info'', Level_Info),
     (''warning'', Level_Warning), (''error'', Level_Error), (''fatal'', Level_Fatal),
     (''verbose'', Level_Verbose), (''trace'', Level_Trace)]"

definition level_convertFromString :: "string option \<Rightarrow> level" where
  "level_convertFromString levelStr =
     (case find (\<lambda>(levelString, _). cStringCaseEq levelStr (Some levelString)) stringToLevelMap of
        Some (_, level) \<Rightarrow> level
      | None \<Rightarrow> Level_Unknown)"

text \<open>
  The loop over an enumeration: the function sees the current index and may stop it; the
  index is doubled until it is past the maximum. An index of 0 stays 0, so the loop need
  not end.
\<close>

partial_function (option) for_each_index ::
  "uint32 \<Rightarrow> (uint32 \<Rightarrow> 's \<Rightarrow> bool \<times> 's) \<Rightarrow> uint32 \<Rightarrow> 's \<Rightarrow> (uint32 \<times> 's) option" where
  "for_each_index indexMax fn i st =
     (let (stop, st) = fn i st in
      if stop then Some (i, st)
      else
        (let i = push_bit 1 i
         in if i \<le> indexMax then for_each_index indexMax fn i st else Some (i, st)))"

definition forEachLevel ::
  "uint32 \<Rightarrow> (uint32 \<Rightarrow> 's \<Rightarrow> bool \<times> 's) \<Rightarrow> 's \<Rightarrow> (uint32 \<times> 's) option" where
  "forEachLevel startIndex fn st = for_each_index level_kMaxValid fn startIndex st"

section \<open>Configuration types\<close>

datatype config_type =
    Config_Enabled | Config_ToFile | Config_ToStandardOutput | Config_Format | Config_Filename
  | Config_SubsecondPrecision | Config_PerformanceTracking | Config_MaxLogFileSize
  | Config_LogFlushThreshold | Config_Unknown | Config_Other uint32

fun config_castToInt :: "config_type \<Rightarrow> uint32" where
  "config_castToInt Config_Enabled = 1"
| "config_castToInt Config_ToFile = 2"
| "config_castToInt Config_ToStandardOutput = 4"
| "config_castToInt Config_Format = 8"
| "config_castToInt Config_Filename = 16"
| "config_castToInt Config_SubsecondPrecision = 32"
| "config_castToInt Config_PerformanceTracking = 64"
| "config_castToInt Config_MaxLogFileSize = 128"
| "config_castToInt Config_LogFlushThreshold = 256"
| "config_castToInt Config_Unknown = 1010"
| "config_castToInt (Config_Other w) = w"

abbreviation Config_MillisecondsWidth :: config_type where
  "Config_MillisecondsWidth \<equiv> Config_SubsecondPrecision"

definition named_config_types :: "config_type list" where
  "named_config_types = [Config_Enabled, Config_ToFile, Config_ToStandardOutput, Config_Format,
     Config_Filename, Config_SubsecondPrecision, Config_PerformanceTracking,
     Config_MaxLogFileSize, Config_LogFlushThreshold, Config_Unknown]"

definition config_castFromInt :: "uint32 \<Rightarrow> config_type" where
  "config_castFromInt w =
     (case find (\<lambda>c. config_castToInt c = w) named_config_types of
        Some c \<Rightarrow> c
      | None \<Rightarrow> Config_Other w)"

definition config_kMinValid :: uint32 where
  "config_kMinValid = config_castToInt Config_Enabled"

definition config_kMaxValid :: uint32 where
  "config_kMaxValid = config_castToInt Config_MaxLogFileSize"

definition config_convertToString :: "config_type \<Rightarrow> string" where
  "config_convertToString t =
     (if t = Config_Enabled then ''ENABLED''
      else if t = Config_Filename then ''FILENAME''
      else if t = Config_Format then ''FORMAT''
      else if t = Config_ToFile then ''TO_FILE''
      else if t = Config_ToStandardOutput then ''TO_STANDARD_OUTPUT''
      else if t = Config_SubsecondPrecision then ''SUBSECOND_PRECISION''
      else if t = Config_PerformanceTracking then ''PERFORMANCE_TRACKING''
      else if t = Config_MaxLogFileSize then ''MAX_LOG_FILE_SIZE''
      else if t = Config_LogFlushThreshold then ''LOG_FLUSH_THRESHOLD''
      else ''UNKNOWN'')"

definition configStringToTypeMap :: "(string \<times> config_type) list" where
  "configStringToTypeMap =
    [(''enabled'', Config_Enabled), (''to_file'', Config_ToFile),
     (''to_standard_output'', Config_ToStandardOutput), (''format'', Config_Format),
     (''filename'', Config_Filename), (''subsecond_precision'', Config_SubsecondPrecision),
     (''milliseconds_width'', Config_MillisecondsWidth),
     (''performance_tracking'', Config_PerformanceTracking),
     (''max_log_file_size'', Config_MaxLogFileSize),
     (''log_flush_threshold'', Config_LogFlushThreshold)]"

definition config_convertFromString :: "string option \<Rightarrow> config_type" where
  "config_convertFromString configStr =
     (case find (\<lambda>(configString, _). cStringCaseEq configStr (Some configString))
             configStringToTypeMap of
        Some (_, configType) \<Rightarrow> configType
      | None \<Rightarrow> Config_Unknown)"

definition forEachConfigType ::
  "uint32 \<Rightarrow> (uint32 \<Rightarrow> 's \<Rightarrow> bool \<times> 's) \<Rightarrow> 's \<Rightarrow> (uint32 \<times> 's) option" where
  "forEachConfigType startIndex fn st = for_each_index config_kMaxValid fn startIndex st"

section \<open>Flags\<close>

datatype logging_flag =
    NewLineForContainer | AllowVerboseIfModuleNotSpecified | LogDetailedCrashReason
  | DisableApplicationAbortOnFatalLog | ImmediateFlush | StrictLogFileSizeCheck
  | ColoredTerminalOutput | MultiLoggerSupport | DisablePerformanceTrackingCheckpointComparison
  | DisableVModules | DisableVModulesExtensions | HierarchicalLogging
  | CreateLoggerAutomatically | AutoSpacing | FixedTimeFormat

fun flag_value :: "logging_flag \<Rightarrow> uint32" where
  "flag_value NewLineForContainer = 1"
| "flag_value AllowVerboseIfModuleNotSpecified = 2"
| "flag_value LogDetailedCrashReason = 4"
| "flag_value DisableApplicationAbortOnFatalLog = 8"
| "flag_value ImmediateFlush = 16"
| "flag_value StrictLogFileSizeCheck = 32"
| "flag_value ColoredTerminalOutput = 64"
| "flag_value MultiLoggerSupport = 128"
| "flag_value DisablePerformanceTrackingCheckpointComparison = 256"
| "flag_value DisableVModules = 512"
| "flag_value DisableVModulesExtensions = 1024"
| "flag_value HierarchicalLogging = 2048"
| "flag_value CreateLoggerAutomatically = 4096"
| "flag_value AutoSpacing = 8192"
| "flag_value FixedTimeFormat = 16384"

datatype format_flag =
    FF_DateTime | FF_LoggerId | FF_File | FF_Line | FF_Location | FF_Function | FF_User | FF_Host
  | FF_LogMessage | FF_VerboseLevel | FF_AppName | FF_ThreadId | FF_Level | FF_FileBase
  | FF_LevelShort

fun format_flag_value :: "format_flag \<Rightarrow> uint32" where
  "format_flag_value FF_DateTime = push_bit 1 1"
| "format_flag_value FF_LoggerId = push_bit 2 1"
| "format_flag_value FF_File = push_bit 3 1"
| "format_flag_value FF_Line = push_bit 4 1"
| "format_flag_value FF_Location = push_bit 5 1"
| "format_flag_value FF_Function = push_bit 6 1"
| "format_flag_value FF_User = push_bit 7 1"
| "format_flag_value FF_Host = push_bit 8 1"
| "format_flag_value FF_LogMessage = push_bit 9 1"
| "format_flag_value FF_VerboseLevel = push_bit 10 1"
| "format_flag_value FF_AppName = push_bit 11 1"
| "format_flag_value FF_ThreadId = push_bit 12 1"
| "format_flag_value FF_Level = push_bit 13 1"
| "format_flag_value FF_FileBase = push_bit 14 1"
| "format_flag_value FF_LevelShort = push_bit 15 1"

text \<open>The operations on a set of flags, given the number of the enumerator.\<close>

definition bitwise_And :: "uint32 \<Rightarrow> uint32 \<Rightarrow> uint32" where
  "bitwise_And e flag = flag AND e"

definition bitwise_Not :: "uint32 \<Rightarrow> uint32 \<Rightarrow> uint32" where
  "bitwise_Not e flag = flag AND NOT e"

definition bitwise_Or :: "uint32 \<Rightarrow> uint32 \<Rightarrow> uint32" where
  "bitwise_Or e flag = flag OR e"

definition addFlag :: "uint32 \<Rightarrow> uint32 \<Rightarrow> uint32" where
  "addFlag e flag = bitwise_Or e flag"

definition removeFlag :: "uint32 \<Rightarrow> uint32 \<Rightarrow> uint32" where
  "removeFlag e flag = bitwise_Not e flag"

definition hasFlag :: "uint32 \<Rightarrow> uint32 \<Rightarrow> bool" where
  "hasFlag e flag \<longleftrightarrow> bitwise_And e flag > 0"

section \<open>Constants\<close>

definition kMaxLogPerCounter :: uint32 where "kMaxLogPerCounter = 100000"
definition kMaxLogPerContainer :: nat where "kMaxLogPerContainer = 100"
definition kDefaultSubsecondPrecision :: int where "kDefaultSubsecondPrecision = 3"
definition kDefaultLoggerId :: string where "kDefaultLoggerId = ''default''"
definition kPerformanceLoggerId :: string where "kPerformanceLoggerId = ''performance''"
definition kSysLogLoggerId :: string where "kSysLogLoggerId = ''syslog''"
definition kFilePathSeperator :: string where "kFilePathSeperator = ''/''"
definition kSourceFilenameMaxLength :: nat where "kSourceFilenameMaxLength = 100"
definition kSourceLineMaxLength :: nat where "kSourceLineMaxLength = 10"
definition kPerformanceTrackerDefaultLevel :: level where
  "kPerformanceTrackerDefaultLevel = Level_Info"
definition kMaxVerboseLevel :: nat where "kMaxVerboseLevel = 9"
definition kYearBase :: int where "kYearBase = 1900"

text \<open>The limits are whole numbers in the code too, though their type is \<open>double\<close>.\<close>

definition kTimeFormats :: "(nat \<times> string) list" where
  "kTimeFormats = [(1000, ''us''), (1000, ''ms''), (60, ''seconds''), (60, ''minutes''),
     (24, ''hours''), (7, ''days'')]"

definition kDays :: "string list" where
  "kDays = [''Sunday'', ''Monday'', ''Tuesday'', ''Wednesday'', ''Thursday'', ''Friday'', ''Saturday'']"

definition kDaysAbbrev :: "string list" where
  "kDaysAbbrev = [''Sun'', ''Mon'', ''Tue'', ''Wed'', ''Thu'', ''Fri'', ''Sat'']"

definition kMonths :: "string list" where
  "kMonths = [''January'', ''February'', ''March'', ''Apri'', ''May'', ''June'', ''July'',
     ''August'', ''September'', ''October'', ''November'', ''December'']"

definition kMonthsAbbrev :: "string list" where
  "kMonthsAbbrev = [''Jan'', ''Feb'', ''Mar'', ''Apr'', ''May'', ''Jun'', ''Jul'', ''Aug'',
     ''Sep'', ''Oct'', ''Nov'', ''Dec'']"

definition kDefaultDateTimeFormat :: string where
  "kDefaultDateTimeFormat = ''%Y-%M-%d %H:%m:%s,%g''"
definition kDefaultDateTimeFormatInFilename :: string where
  "kDefaultDateTimeFormatInFilename = ''%Y-%M-%d_%H-%m''"
definition kDefaultLogFile :: string where "kDefaultLogFile = ''myeasylog.log''"
definition kValidLoggerIdSymbols :: string where
  "kValidLoggerIdSymbols =
     ''abcdefghijklmnopqrstuvwxyzABCDEFGHIJKLMNOPQRSTUVWXYZ0123456789-._''"
definition kConfigurationComment :: string where "kConfigurationComment = ''##''"
definition kConfigurationLevel :: string where "kConfigurationLevel = ''*''"
definition kConfigurationLoggerId :: string where "kConfigurationLoggerId = ''--''"

text \<open>The value and the short value of a level in a log line.\<close>

definition level_log_values :: "(level \<times> string \<times> string) list" where
  "level_log_values =
    [(Level_Info, ''INFO'', ''I''), (Level_Debug, ''DEBUG'', ''D''),
     (Level_Warning, ''WARNING'', ''W''), (Level_Error, ''ERROR'', ''E''),
     (Level_Fatal, ''FATAL'', ''F''), (Level_Verbose, ''VERBOSE'', ''V''),
     (Level_Trace, ''TRACE'', ''T'')]"

text \<open>The signals the crash handler knows.\<close>

datatype crash_signal = SIGABRT | SIGFPE | SIGILL | SIGSEGV | SIGINT | OtherSignal int32

definition kCrashSignals :: "(crash_signal \<times> string \<times> string \<times> string) list" where
  "kCrashSignals =
    [(SIGABRT, ''SIGABRT'', ''Abnormal termination'',
       ''Program was abnormally terminated.''),
     (SIGFPE, ''SIGFPE'', ''Erroneous arithmetic operation'',
       ''Arithemetic operation issue such as division by zero or operation resulting in overflow.''),
     (SIGILL, ''SIGILL'', ''Illegal instruction'',
       ''Generally due to a corruption in the code or to an attempt to execute data.''),
     (SIGSEGV, ''SIGSEGV'', ''Invalid access to memory'',
       ''Program is trying to read an invalid (unallocated, deleted or corrupted) or inaccessible memory.''),
     (SIGINT, ''SIGINT'', ''Interactive attention signal'',
       ''Interruption generated (generally) by user or operating system.'')]"

section \<open>Precision of the part below a second\<close>

record subsecond_precision =
  sp_width :: int
  sp_offset :: nat

definition SubsecondPrecision_init :: "int \<Rightarrow> subsecond_precision" where
  "SubsecondPrecision_init width =
     (let width = (if width < 1 \<or> 6 < width then kDefaultSubsecondPrecision else width);
          offset = (if width = 3 then 1000 else if width = 4 then 100 else if width = 5 then 10
                    else if width = 6 then 1 else 1000)
      in \<lparr>sp_width = width, sp_offset = offset\<rparr>)"

definition SubsecondPrecision :: subsecond_precision where
  "SubsecondPrecision = SubsecondPrecision_init kDefaultSubsecondPrecision"

definition SubsecondPrecision_eq :: "subsecond_precision \<Rightarrow> subsecond_precision \<Rightarrow> bool" where
  "SubsecondPrecision_eq a b \<longleftrightarrow> sp_width a = sp_width b \<and> sp_offset a = sp_offset b"

section \<open>Facts\<close>

lemma level_castToInt_castFromInt [simp]: "level_castToInt (level_castFromInt w) = w"
  by (auto simp: level_castFromInt_def find_Some_iff split: option.split)

lemma level_castFromInt_castToInt: "l \<in> set named_levels \<Longrightarrow> level_castFromInt (level_castToInt l) = l"
  by (auto simp: level_castFromInt_def named_levels_def)

lemma config_castToInt_castFromInt [simp]: "config_castToInt (config_castFromInt w) = w"
  by (auto simp: config_castFromInt_def find_Some_iff split: option.split)

lemma config_castFromInt_castToInt:
  "t \<in> set named_config_types \<Longrightarrow> config_castFromInt (config_castToInt t) = t"
  by (auto simp: config_castFromInt_def named_config_types_def)

lemma level_strings:
  "list_all (\<lambda>l. level_convertFromString (Some (level_convertToString l)) = l) named_levels"
  by code_simp

lemma level_string_roundtrip:
  "l \<in> set named_levels \<Longrightarrow> level_convertFromString (Some (level_convertToString l)) = l"
  using level_strings by (simp add: list_all_iff)

lemma config_strings:
  "list_all (\<lambda>t. config_convertFromString (Some (config_convertToString t)) = t) named_config_types"
  by code_simp

lemma config_string_roundtrip:
  "t \<in> set named_config_types \<Longrightarrow> config_convertFromString (Some (config_convertToString t)) = t"
  using config_strings by (simp add: list_all_iff)

text \<open>The loops visit the powers of two up to the maximum.\<close>

lemma forEachLevel_visits:
  "forEachLevel level_kMinValid (\<lambda>i seen. (False, seen @ [i])) [] =
     Some (256, map level_castToInt [Level_Trace, Level_Debug, Level_Fatal, Level_Error,
       Level_Warning, Level_Verbose, Level_Info])"
  by (simp add: forEachLevel_def level_kMinValid_def level_kMaxValid_def for_each_index.simps)

text \<open>The last configuration type is past the maximum: the loop never comes to it.\<close>

lemma forEachConfigType_visits:
  "forEachConfigType config_kMinValid (\<lambda>i seen. (False, seen @ [i])) [] =
     Some (256, map config_castToInt [Config_Enabled, Config_ToFile, Config_ToStandardOutput,
       Config_Format, Config_Filename, Config_SubsecondPrecision, Config_PerformanceTracking,
       Config_MaxLogFileSize])"
  by (simp add: forEachConfigType_def config_kMinValid_def config_kMaxValid_def for_each_index.simps)

lemma hasFlag_add [simp]: "e \<noteq> 0 \<Longrightarrow> hasFlag e (addFlag e flag)"
  by (simp add: hasFlag_def addFlag_def bitwise_And_def bitwise_Or_def word_gt_0 bit.conj_disj_distrib2)

lemma hasFlag_remove [simp]: "\<not> hasFlag e (removeFlag e flag)"
proof -
  have "(flag AND NOT e) AND e = 0" by (rule bit_word_eqI) (simp add: bit_simps)
  then show ?thesis by (simp add: hasFlag_def removeFlag_def bitwise_And_def bitwise_Not_def)
qed

lemma hasFlag_other: "d AND e = 0 \<Longrightarrow> hasFlag e (addFlag d flag) \<longleftrightarrow> hasFlag e flag"
  by (simp add: hasFlag_def addFlag_def bitwise_And_def bitwise_Or_def bit.conj_disj_distrib2)

end
