(* ===== verification/Elpp_Config.thy ===== *)
theory Elpp_Config imports Elpp_Types begin

text \<open>
  Configurations of the logging library (\<open>Configuration\<close>, \<open>Configurations\<close> and its \<open>Parser\<close>):
  values by level and type, the levels a global value reaches, and the text format.
\<close>

section \<open>\<open>Configuration\<close>\<close>

record configuration =
  m_level :: level
  m_configurationType :: config_type
  m_value :: string

definition Configuration :: "level \<Rightarrow> config_type \<Rightarrow> string \<Rightarrow> configuration" where
  "Configuration level configurationType value =
     \<lparr>m_level = level, m_configurationType = configurationType, m_value = value\<rparr>"

definition Configuration_level :: "configuration \<Rightarrow> level" where
  "Configuration_level c = m_level c"

definition Configuration_type :: "configuration \<Rightarrow> config_type" where
  "Configuration_type c = m_configurationType c"

definition Configuration_value :: "configuration \<Rightarrow> string" where
  "Configuration_value c = m_value c"

definition Configuration_setValue :: "string \<Rightarrow> configuration \<Rightarrow> configuration" where
  "Configuration_setValue value c = c\<lparr>m_value := value\<rparr>"

definition Configuration_log :: "configuration \<Rightarrow> string" where
  "Configuration_log c = level_convertToString (m_level c) @ '' '' @
     config_convertToString (m_configurationType c) @ '' = '' @ m_value c"

definition Configuration_Predicate :: "level \<Rightarrow> config_type \<Rightarrow> configuration \<Rightarrow> bool" where
  "Configuration_Predicate level configurationType conf \<longleftrightarrow>
     m_level conf = level \<and> m_configurationType conf = configurationType"

section \<open>\<open>Configurations\<close>\<close>

text \<open>The repository is the list of what its pointers point to; none of them is null.\<close>

record configurations =
  cf_list :: "configuration list"
  cf_configurationFile :: string
  cf_isFromFile :: bool

definition Configurations :: configurations where
  "Configurations = \<lparr>cf_list = [], cf_configurationFile = [], cf_isFromFile = False\<rparr>"

definition cf_get :: "level \<Rightarrow> config_type \<Rightarrow> configurations \<Rightarrow> configuration option" where
  "cf_get level configurationType c = find (Configuration_Predicate level configurationType) (cf_list c)"

definition hasConfiguration :: "level \<Rightarrow> config_type \<Rightarrow> configurations \<Rightarrow> bool" where
  "hasConfiguration level configurationType c \<longleftrightarrow> cf_get level configurationType c \<noteq> None"

text \<open>
  Any level. The loop starts at the first valid level, so it ends and \<open>None\<close> does not occur
  (lemma \<open>forEachLevel_all\<close> below); the same holds of the other uses of \<open>forEachLevel\<close>.
\<close>

definition hasConfiguration_any :: "config_type \<Rightarrow> configurations \<Rightarrow> bool" where
  "hasConfiguration_any configurationType c \<longleftrightarrow>
     (case forEachLevel level_kMinValid
             (\<lambda>lIndex result.
                let result = (if hasConfiguration (level_castFromInt lIndex) configurationType c
                              then True else result)
                in (result, result)) False of
        Some (_, result) \<Rightarrow> result
      | None \<Rightarrow> False)"

fun set_value :: "level \<Rightarrow> config_type \<Rightarrow> string \<Rightarrow> configuration list \<Rightarrow> configuration list" where
  "set_value l t v [] = []"
| "set_value l t v (c # cs) =
     (if Configuration_Predicate l t c then Configuration_setValue v c # cs
      else c # set_value l t v cs)"

text \<open>
  \<open>unsafeSet\<close> on the level itself: the value of the configuration that is there, or a new
  configuration.
\<close>

definition set_one :: "level \<Rightarrow> config_type \<Rightarrow> string \<Rightarrow> configurations \<Rightarrow> configurations" where
  "set_one level configurationType value c =
     (case cf_get level configurationType c of
        None \<Rightarrow> c\<lparr>cf_list := cf_list c @ [Configuration level configurationType value]\<rparr>
      | Some _ \<Rightarrow> c\<lparr>cf_list := set_value level configurationType value (cf_list c)\<rparr>)"

text \<open>
  \<open>unsafeSet\<close> and \<open>unsafeSetGlobally\<close> call each other: the inner call never has the global
  level, so it is the one above.
\<close>

definition set_levels :: "config_type \<Rightarrow> string \<Rightarrow> configurations \<Rightarrow> configurations" where
  "set_levels configurationType value c =
     (case forEachLevel level_kMinValid
             (\<lambda>lIndex c. (False, set_one (level_castFromInt lIndex) configurationType value c)) c of
        Some (_, c) \<Rightarrow> c
      | None \<Rightarrow> c)"

definition unsafeSet :: "level \<Rightarrow> config_type \<Rightarrow> string \<Rightarrow> configurations \<Rightarrow> configurations" where
  "unsafeSet level configurationType value c =
     (let c = set_one level configurationType value c
      in if level = Level_Global then set_levels configurationType value c else c)"

definition unsafeSetGlobally :: "config_type \<Rightarrow> string \<Rightarrow> bool \<Rightarrow> configurations \<Rightarrow> configurations" where
  "unsafeSetGlobally configurationType value includeGlobalLevel c =
     (let c = (if includeGlobalLevel then unsafeSet Level_Global configurationType value c else c)
      in case forEachLevel level_kMinValid
             (\<lambda>lIndex c. (False, unsafeSet (level_castFromInt lIndex) configurationType value c)) c of
           Some (_, c) \<Rightarrow> c
         | None \<Rightarrow> c)"

definition unsafeSetIfNotExist :: "level \<Rightarrow> config_type \<Rightarrow> string \<Rightarrow> configurations \<Rightarrow> configurations" where
  "unsafeSetIfNotExist level configurationType value c =
     (case cf_get level configurationType c of
        None \<Rightarrow> unsafeSet level configurationType value c
      | Some _ \<Rightarrow> c)"

definition cf_set :: "level \<Rightarrow> config_type \<Rightarrow> string \<Rightarrow> configurations \<Rightarrow> configurations" where
  "cf_set level configurationType value c =
     (let c = unsafeSet level configurationType value c
      in if level = Level_Global then unsafeSetGlobally configurationType value False c else c)"

definition cf_set_conf :: "configuration option \<Rightarrow> configurations \<Rightarrow> configurations" where
  "cf_set_conf conf c =
     (case conf of
        None \<Rightarrow> c
      | Some conf \<Rightarrow> cf_set (m_level conf) (m_configurationType conf) (m_value conf) c)"

definition setGlobally :: "config_type \<Rightarrow> string \<Rightarrow> bool \<Rightarrow> configurations \<Rightarrow> configurations" where
  "setGlobally configurationType value includeGlobalLevel c =
     (let c = (if includeGlobalLevel then cf_set Level_Global configurationType value c else c)
      in case forEachLevel level_kMinValid
             (\<lambda>lIndex c. (False, cf_set (level_castFromInt lIndex) configurationType value c)) c of
           Some (_, c) \<Rightarrow> c
         | None \<Rightarrow> c)"

definition setGlobally_public :: "config_type \<Rightarrow> string \<Rightarrow> configurations \<Rightarrow> configurations" where
  "setGlobally_public configurationType value c = setGlobally configurationType value False c"

definition cf_clear :: "configurations \<Rightarrow> configurations" where
  "cf_clear c = c\<lparr>cf_list := []\<rparr>"

text \<open>A base of its own is \<open>None\<close>, like no base at all.\<close>

definition setFromBase :: "configurations option \<Rightarrow> configurations \<Rightarrow> configurations" where
  "setFromBase base c =
     (case base of None \<Rightarrow> c | Some b \<Rightarrow> fold (\<lambda>conf. cf_set_conf (Some conf)) (cf_list b) c)"

definition setToDefault :: "configurations \<Rightarrow> configurations" where
  "setToDefault c =
     (let c = setGlobally Config_Enabled ''true'' True c;
          c = setGlobally Config_Filename kDefaultLogFile True c;
          c = setGlobally Config_ToFile ''true'' True c;
          c = setGlobally Config_ToStandardOutput ''true'' True c;
          c = setGlobally Config_SubsecondPrecision ''3'' True c;
          c = setGlobally Config_PerformanceTracking ''true'' True c;
          c = setGlobally Config_MaxLogFileSize ''0'' True c;
          c = setGlobally Config_LogFlushThreshold ''0'' True c;
          c = setGlobally Config_Format ''%datetime %level [%logger] %msg'' True c;
          c = cf_set Level_Debug Config_Format
                ''%datetime %level [%logger] [%user@%host] [%func] [%loc] %msg'' c;
          c = cf_set Level_Error Config_Format ''%datetime %level [%logger] %msg'' c;
          c = cf_set Level_Fatal Config_Format ''%datetime %level [%logger] %msg'' c;
          c = cf_set Level_Verbose Config_Format ''%datetime %level-%vlevel [%logger] %msg'' c
      in cf_set Level_Trace Config_Format ''%datetime %level [%logger] [%func] [%loc] %msg'' c)"

definition setRemainingToDefault :: "configurations \<Rightarrow> configurations" where
  "setRemainingToDefault c =
     (let c = unsafeSetIfNotExist Level_Global Config_Enabled ''true'' c;
          c = unsafeSetIfNotExist Level_Global Config_Filename kDefaultLogFile c;
          c = unsafeSetIfNotExist Level_Global Config_ToStandardOutput ''true'' c;
          c = unsafeSetIfNotExist Level_Global Config_SubsecondPrecision ''3'' c;
          c = unsafeSetIfNotExist Level_Global Config_PerformanceTracking ''true'' c;
          c = unsafeSetIfNotExist Level_Global Config_MaxLogFileSize ''0'' c;
          c = unsafeSetIfNotExist Level_Global Config_Format ''%datetime %level [%logger] %msg'' c;
          c = unsafeSetIfNotExist Level_Debug Config_Format
                ''%datetime %level [%logger] [%user@%host] [%func] [%loc] %msg'' c;
          c = unsafeSetIfNotExist Level_Error Config_Format ''%datetime %level [%logger] %msg'' c;
          c = unsafeSetIfNotExist Level_Fatal Config_Format ''%datetime %level [%logger] %msg'' c;
          c = unsafeSetIfNotExist Level_Verbose Config_Format ''%datetime %level-%vlevel [%logger] %msg'' c
      in unsafeSetIfNotExist Level_Trace Config_Format
           ''%datetime %level [%logger] [%func] [%loc] %msg'' c)"

section \<open>\<open>Parser\<close>\<close>

text \<open>
  The end of a quoted part: a quote after a backslash does not count. A position is \<open>None\<close>
  where the code has \<open>npos\<close>, and \<open>npos + 1\<close> is 0.
\<close>

function quotes_end :: "string \<Rightarrow> nat option \<Rightarrow> nat option" where
  "quotes_end line None = None"
| "quotes_end line (Some q) =
     (if 0 < q \<and> q \<le> length line \<and> line ! (q - 1) = CHR 0x5C
      then quotes_end line (str_find line [CHR 0x22] (q + 2))
      else Some q)"
  by pat_completeness auto
termination
  by (relation "measure (\<lambda>(line, q). case q of None \<Rightarrow> 0 | Some i \<Rightarrow> Suc (Suc (length line)) - i)")
     (auto split: option.split dest: str_find_Some(1) str_find_bound)

definition after_npos :: "nat option \<Rightarrow> nat" where
  "after_npos q = (case q of None \<Rightarrow> 0 | Some i \<Rightarrow> i + 1)"

definition ignoreComments :: "string \<Rightarrow> string" where
  "ignoreComments line =
     (let quotesEnd = (case str_find line [CHR 0x22] 0 of
             None \<Rightarrow> None
           | Some quotesStart \<Rightarrow> quotes_end line (str_find line [CHR 0x22] (quotesStart + 1)))
      in case str_find line kConfigurationComment 0 of
           None \<Rightarrow> line
         | Some foundAt \<Rightarrow>
             (let foundAt = (if (case quotesEnd of None \<Rightarrow> True | Some q \<Rightarrow> foundAt < q)
                             then str_find line kConfigurationComment (after_npos quotesEnd)
                             else Some foundAt)
              in case foundAt of None \<Rightarrow> line | Some i \<Rightarrow> substr line 0 i))"

definition isLevel :: "string \<Rightarrow> bool" where
  "isLevel line \<longleftrightarrow> startsWith line kConfigurationLevel"

definition isComment :: "string \<Rightarrow> bool" where
  "isComment line \<longleftrightarrow> startsWith line kConfigurationComment"

definition is_letter :: "char \<Rightarrow> bool" where
  "is_letter c \<longleftrightarrow> (let n = of_char c :: nat in 65 \<le> n \<and> n \<le> 90 \<or> 97 \<le> n \<and> n \<le> 122)"

definition isConfig :: "string \<Rightarrow> bool" where
  "isConfig line \<longleftrightarrow>
     (case line of
        [] \<Rightarrow> False
      | c # _ \<Rightarrow> is_letter c \<and>
          (case str_find line ''='' 0 of None \<Rightarrow> False | Some assignment \<Rightarrow> assignment < length line))"

text \<open>The loop that takes backslashes before quotes out of a value.\<close>

function unescape :: "string \<Rightarrow> nat option \<Rightarrow> string \<times> nat option" where
  "unescape v None = (v, None)"
| "unescape v (Some q) =
     (if 0 < q \<and> q \<le> length v \<and> v ! (q - 1) = CHR 0x5C then
        (let v' = take (q - 1) v @ drop q v in unescape v' (str_find v' [CHR 0x22] (q + 2)))
      else (v, Some q))"
  by pat_completeness auto
termination
proof (relation "measure (\<lambda>(v, q). length v)")
  fix v :: string and q v'
  assume "0 < q \<and> q \<le> length v \<and> v ! (q - 1) = CHR 0x5C" "v' = take (q - 1) v @ drop q v"
  then show "((v', str_find v' [CHR 0x22] (q + 2)), v, Some q) \<in> measure (\<lambda>(v, q). length v)" by auto
qed simp

text \<open>The value behind an equals sign, without its quotes.\<close>

definition config_value :: "string \<Rightarrow> string" where
  "config_value currValue =
     (case str_find currValue [CHR 0x22] 0 of
        None \<Rightarrow> currValue
      | Some quotesStart \<Rightarrow>
          (case unescape currValue (str_find currValue [CHR 0x22] (quotesStart + 1)) of
             (currValue, None) \<Rightarrow> currValue
           | (currValue, Some quotesEnd) \<Rightarrow>
               if quotesStart \<noteq> quotesEnd \<and> quotesStart + 1 \<noteq> quotesEnd
               then substr currValue (quotesStart + 1) (quotesEnd - 1)
               else currValue))"

text \<open>What the parser remembers from line to line; \<open>ps_config\<close> and \<open>ps_levelStr\<close> are for messages.\<close>

record parser_state =
  ps_configStr :: string
  ps_levelStr :: string
  ps_level :: level
  ps_conf :: configurations

definition parseLine :: "string \<Rightarrow> parser_state \<Rightarrow> bool \<times> parser_state" where
  "parseLine line s =
     (let line = trim line in
      if isComment line then (True, s)
      else
        (let line = trim (ignoreComments line) in
         if line = [] then (True, s)
         else if isLevel line then
           (if length line \<le> 2 then (True, s)
            else
              (let currLevelStr = trim (toUpper (substr line 1 (length line - 2)))
               in (True, s\<lparr>ps_levelStr := currLevelStr,
                            ps_level := level_convertFromString (Some currLevelStr)\<rparr>)))
         else
           (let (s, currConfig, currValue) =
              (if isConfig line then
                 (case str_find line ''='' 0 of
                    None \<Rightarrow> (s, Config_Unknown, [])
                  | Some assignment \<Rightarrow>
                      (let currConfigStr = trim (toUpper (substr line 0 assignment))
                       in (s\<lparr>ps_configStr := currConfigStr\<rparr>,
                           config_convertFromString (Some currConfigStr),
                           config_value (trim (drop (assignment + 1) line)))))
               else (s, Config_Unknown, []))
            in if ps_level s = Level_Unknown \<or> currConfig = Config_Unknown then (False, s)
               else (True, s\<lparr>ps_conf := cf_set (ps_level s) currConfig currValue (ps_conf s)\<rparr>))))"

fun parse_lines :: "string list \<Rightarrow> bool \<Rightarrow> parser_state \<Rightarrow> bool \<times> parser_state" where
  "parse_lines [] parsedSuccessfully s = (parsedSuccessfully, s)"
| "parse_lines (line # lines) parsedSuccessfully s =
     (let (parsedSuccessfully, s) = parseLine line s in parse_lines lines parsedSuccessfully s)"

text \<open>
  The pieces between newlines. Reading while the stream is good yields every piece, the empty
  one after a last newline too; reading while \<open>getline\<close> succeeds does not yield that one.
\<close>

fun pieces :: "string \<Rightarrow> string list" where
  "pieces [] = [[]]"
| "pieces (c # s) =
     (if c = CHR 0x0A then [] # pieces s
      else (case pieces s of [] \<Rightarrow> [[c]] | p # ps \<Rightarrow> (c # p) # ps))"

definition getlines :: "string \<Rightarrow> string list" where
  "getlines s = (let ps = pieces s in if last ps = [] then butlast ps else ps)"

definition parser_start :: "configurations \<Rightarrow> parser_state" where
  "parser_start c = \<lparr>ps_configStr = [], ps_levelStr = [], ps_level = Level_Unknown, ps_conf = c\<rparr>"

text \<open>The contents of the file are an argument: \<open>None\<close> if it cannot be opened.\<close>

definition Parser_parseFromFile ::
  "string option \<Rightarrow> configurations option \<Rightarrow> configurations \<Rightarrow> bool \<times> configurations" where
  "Parser_parseFromFile contents base sender =
     (let sender = setFromBase base sender;
          (ok, s) = parse_lines (case contents of None \<Rightarrow> [] | Some text \<Rightarrow> pieces text) False
                      (parser_start sender)
      in (ok, ps_conf s))"

definition Parser_parseFromText ::
  "string \<Rightarrow> configurations option \<Rightarrow> configurations \<Rightarrow> bool \<times> configurations" where
  "Parser_parseFromText configurationsString base sender =
     (let sender = setFromBase base sender;
          (ok, s) = parse_lines (getlines configurationsString) False (parser_start sender)
      in (ok, ps_conf s))"

text \<open>\<open>files\<close> gives the contents of the files that exist.\<close>

definition cf_parseFromFile ::
  "(string \<Rightarrow> string option) \<Rightarrow> string \<Rightarrow> configurations option \<Rightarrow> configurations \<Rightarrow>
   bool \<times> configurations" where
  "cf_parseFromFile files configurationFile base c =
     (if files configurationFile = None then (False, c)
      else
        (let (success, c) = Parser_parseFromFile (files configurationFile) base c
         in (success, c\<lparr>cf_isFromFile := success\<rparr>)))"

definition cf_parseFromText ::
  "string \<Rightarrow> configurations option \<Rightarrow> configurations \<Rightarrow> bool \<times> configurations" where
  "cf_parseFromText configurationsString base c =
     (let (success, c) = Parser_parseFromText configurationsString base c
      in (success, if success then c\<lparr>cf_isFromFile := False\<rparr> else c))"

definition Configurations_file ::
  "(string \<Rightarrow> string option) \<Rightarrow> string \<Rightarrow> bool \<Rightarrow> configurations option \<Rightarrow> configurations" where
  "Configurations_file files configurationFile useDefaultsForRemaining base =
     (let c = \<lparr>cf_list = [], cf_configurationFile = configurationFile, cf_isFromFile = False\<rparr>;
          (_, c) = cf_parseFromFile files configurationFile base c
      in if useDefaultsForRemaining then setRemainingToDefault c else c)"

section \<open>Facts\<close>

subsection \<open>The levels a global value reaches\<close>

definition proper_levels :: "level list" where
  "proper_levels = [Level_Trace, Level_Debug, Level_Fatal, Level_Error, Level_Warning,
     Level_Verbose, Level_Info]"

lemma forEachLevel_all:
  "forEachLevel level_kMinValid (\<lambda>i c. (False, f (level_castFromInt i) c)) c =
     Some (256, fold f proper_levels c)"
  by (simp add: forEachLevel_def level_kMinValid_def level_kMaxValid_def for_each_index.simps
      proper_levels_def level_castFromInt_def named_levels_def)

text \<open>The value of a configuration, if there is one.\<close>

definition cf_value :: "level \<Rightarrow> config_type \<Rightarrow> configurations \<Rightarrow> string option" where
  "cf_value l t c = map_option m_value (cf_get l t c)"

lemma cf_get_None: "cf_get l t c = None \<longleftrightarrow> cf_value l t c = None"
  by (simp add: cf_value_def)

lemma Predicate_setValue [simp]:
  "Configuration_Predicate l t (Configuration_setValue v c) = Configuration_Predicate l t c"
  by (simp add: Configuration_Predicate_def Configuration_setValue_def)

lemma value_setValue [simp]: "m_value (Configuration_setValue v c) = v"
  by (simp add: Configuration_setValue_def)

lemma Predicate_unique:
  "Configuration_Predicate l t a \<Longrightarrow> Configuration_Predicate l' t' a \<longleftrightarrow> l' = l \<and> t' = t"
  by (auto simp: Configuration_Predicate_def)

lemma find_set_value:
  "map_option m_value (find (Configuration_Predicate l' t') (set_value l t v cs)) =
     (if l' = l \<and> t' = t \<and> find (Configuration_Predicate l t) cs \<noteq> None then Some v
      else map_option m_value (find (Configuration_Predicate l' t') cs))"
proof (induction cs)
  case (Cons a cs)
  then show ?case
    by (cases "Configuration_Predicate l t a"; cases "l' = l \<and> t' = t") (auto simp: Predicate_unique)
qed simp

lemma find_append: "find P (xs @ ys) = (case find P xs of None \<Rightarrow> find P ys | Some x \<Rightarrow> Some x)"
  by (induction xs) auto

lemma Predicate_Configuration [simp]:
  "Configuration_Predicate l' t' (Configuration l t v) \<longleftrightarrow> l' = l \<and> t' = t"
  "m_value (Configuration l t v) = v"
  by (auto simp: Configuration_Predicate_def Configuration_def)

lemma cf_value_set_one [simp]:
  "cf_value l' t' (set_one l t v c) = (if l' = l \<and> t' = t then Some v else cf_value l' t' c)"
proof (cases "cf_get l t c")
  case None
  then show ?thesis
    by (cases "cf_get l' t' c") (auto simp: set_one_def cf_value_def cf_get_def find_append)
next
  case (Some x)
  then show ?thesis by (auto simp: set_one_def cf_value_def cf_get_def find_set_value)
qed

lemma cf_value_fold_set_one:
  "cf_value l' t' (fold (\<lambda>l. set_one l t v) ls c) =
     (if l' \<in> set ls \<and> t' = t then Some v else cf_value l' t' c)"
  by (induction ls arbitrary: c) auto

lemma set_levels_fold: "set_levels t v c = fold (\<lambda>l. set_one l t v) proper_levels c"
  using forEachLevel_all [of "\<lambda>l. set_one l t v"] by (simp add: set_levels_def)

lemma fold_unsafeSet: "Level_Global \<notin> set ls \<Longrightarrow>
    fold (\<lambda>l. unsafeSet l t v) ls c = fold (\<lambda>l. set_one l t v) ls c"
  by (induction ls arbitrary: c) (auto simp: unsafeSet_def)

lemma Global_not_proper [simp]: "Level_Global \<notin> set proper_levels"
  by (simp add: proper_levels_def)

text \<open>The two forms of the mutual recursion agree.\<close>

lemma unsafeSetGlobally_False: "unsafeSetGlobally t v False = set_levels t v"
proof
  fix c
  show "unsafeSetGlobally t v False c = set_levels t v c"
    using forEachLevel_all [of "\<lambda>l. unsafeSet l t v" c]
    by (simp add: unsafeSetGlobally_def set_levels_fold fold_unsafeSet)
qed

lemma cf_set_fold:
  "cf_set l t v c =
     (if l = Level_Global
      then fold (\<lambda>l. set_one l t v) proper_levels
             (fold (\<lambda>l. set_one l t v) proper_levels (set_one l t v c))
      else set_one l t v c)"
  by (simp add: cf_set_def unsafeSet_def Let_def unsafeSetGlobally_False set_levels_fold)

lemma cf_value_unsafeSet:
  "cf_value l' t' (unsafeSet l t v c) =
     (if t' = t \<and> (l' = l \<or> l = Level_Global \<and> l' \<in> set proper_levels) then Some v
      else cf_value l' t' c)"
  by (cases "l = Level_Global") (simp_all add: unsafeSet_def set_levels_fold cf_value_fold_set_one Let_def)

lemma cf_value_cf_set:
  "cf_value l' t' (cf_set l t v c) =
     (if t' = t \<and> (l' = l \<or> l = Level_Global \<and> l' \<in> set proper_levels) then Some v
      else cf_value l' t' c)"
  by (cases "l = Level_Global")
     (auto simp: cf_set_def Let_def unsafeSetGlobally_False set_levels_fold cf_value_fold_set_one
       cf_value_unsafeSet)

lemma cf_value_fold_cf_set:
  "Level_Global \<notin> set ls \<Longrightarrow> cf_value l' t' (fold (\<lambda>l. cf_set l t v) ls c) =
     (if l' \<in> set ls \<and> t' = t then Some v else cf_value l' t' c)"
  by (induction ls arbitrary: c) (auto simp: cf_value_cf_set)

lemma cf_value_setGlobally:
  "cf_value l' t' (setGlobally t v b c) =
     (if t' = t \<and> (l' \<in> set proper_levels \<or> b \<and> l' = Level_Global) then Some v
      else cf_value l' t' c)"
  using forEachLevel_all [of "\<lambda>l. cf_set l t v"]
  by (auto simp: setGlobally_def Let_def cf_value_fold_cf_set cf_value_cf_set)

lemma cf_value_unsafeSetIfNotExist:
  "cf_value l' t' (unsafeSetIfNotExist l t v c) =
     (if cf_value l t c = None \<and> t' = t \<and> (l' = l \<or> l = Level_Global \<and> l' \<in> set proper_levels)
      then Some v else cf_value l' t' c)"
proof (cases "cf_get l t c")
  case None
  then have "cf_value l t c = None" by (simp add: cf_value_def)
  with None show ?thesis by (simp add: unsafeSetIfNotExist_def cf_value_unsafeSet)
next
  case (Some x)
  then have "cf_value l t c = Some (m_value x)" by (simp add: cf_value_def)
  with Some show ?thesis by (simp add: unsafeSetIfNotExist_def)
qed

text \<open>A configuration of a level and a type is there at most once.\<close>

definition unique_keys :: "configurations \<Rightarrow> bool" where
  "unique_keys c \<longleftrightarrow> distinct (map (\<lambda>x. (m_level x, m_configurationType x)) (cf_list c))"

lemma keys_set_value:
  "map (\<lambda>x. (m_level x, m_configurationType x)) (set_value l t v cs) =
     map (\<lambda>x. (m_level x, m_configurationType x)) cs"
  by (induction cs) (auto simp: Configuration_setValue_def)

lemma unique_set_one: "unique_keys c \<Longrightarrow> unique_keys (set_one l t v c)"
  by (auto simp: unique_keys_def set_one_def keys_set_value cf_get_def find_None_iff
      Configuration_def Configuration_Predicate_def split: option.split)

lemma unique_fold_set_one: "unique_keys c \<Longrightarrow> unique_keys (fold (\<lambda>l. set_one l t v) ls c)"
  by (induction ls arbitrary: c) (auto simp: unique_set_one)

lemma unique_cf_set: "unique_keys c \<Longrightarrow> unique_keys (cf_set l t v c)"
  by (simp add: cf_set_def unsafeSet_def Let_def unsafeSetGlobally_False set_levels_fold
      unique_set_one unique_fold_set_one)

subsection \<open>The parser\<close>

lemma unique_parseLine: "unique_keys (ps_conf s) \<Longrightarrow> unique_keys (ps_conf (snd (parseLine line s)))"
  unfolding parseLine_def Let_def by (auto simp: unique_cf_set split: option.split)

lemma unique_parse_lines:
  "unique_keys (ps_conf s) \<Longrightarrow> unique_keys (ps_conf (snd (parse_lines ls ok s)))"
proof (induction ls ok s rule: parse_lines.induct)
  case (2 line ls ok s)
  obtain ok' s' where p: "parseLine line s = (ok', s')" by (rule prod.exhaust)
  with unique_parseLine [OF "2.prems", of line] 2 show ?case by simp
qed simp

text \<open>Only the last line decides whether parsing was a success.\<close>

lemma parse_lines_snoc:
  "parse_lines (ls @ [l]) ok s = parseLine l (snd (parse_lines ls ok s))"
proof (induction ls arbitrary: ok s)
  case (Cons a ls)
  obtain ok' s' where "parseLine a s = (ok', s')" by (rule prod.exhaust)
  with Cons show ?case by simp
qed (simp split: prod.split)

lemma pieces_Nil_iff [simp]: "pieces s \<noteq> []"
  by (induction s) (auto split: list.split)

lemma pieces_newline: "pieces (u @ CHR 0x0A # v) = pieces u @ pieces v"
  by (induction u) (auto split: list.split simp: Cons_eq_append_conv)

lemma pieces_single: "CHR 0x0A \<notin> set v \<Longrightarrow> pieces v = [v]"
  by (induction v) auto

lemma parseLine_blank: "fst (parseLine [] s)"
  by (simp add: parseLine_def trim_def ltrim_def rtrim_def isComment_def startsWith_def
      kConfigurationComment_def ignoreComments_def str_find_def)

lemma parseLine_comment: "isComment line \<Longrightarrow> trim line = line \<Longrightarrow> fst (parseLine line s)"
  by (simp add: parseLine_def)

text \<open>
  A comment that holds quotes is not taken away, and a value with text before its first quote
  is cut by its old length: what is left of the line below is not a value anybody wrote.
\<close>

lemma comment_with_quotes_kept:
  "ignoreComments (''ENABLED = true ## not '' @ [CHR 0x22] @ ''false'' @ [CHR 0x22]) =
     ''ENABLED = true ## not '' @ [CHR 0x22] @ ''false'' @ [CHR 0x22]"
  "config_value (''true ## not '' @ [CHR 0x22] @ ''false'' @ [CHR 0x22]) = ''false'' @ [CHR 0x22]"
  by code_simp+

section \<open>Properties\<close>

text \<open>
  Parsing reports success according to the last line only: any file that ends with a newline
  is reported as parsed, and so is any text whose last line is a comment, whatever the lines
  before them hold.
\<close>

theorem parse_success_last_line:
  "fst (Parser_parseFromFile (Some (contents @ [CHR 0x0A])) base c) \<and>
   fst (Parser_parseFromText (contents @ [CHR 0x0A] @ ''## end'') base c)"
proof
  have e: "parse_lines (pieces contents @ [x]) ok s = parseLine x (snd (parse_lines (pieces contents) ok s))"
    for x ok s by (rule parse_lines_snoc)
  show "fst (Parser_parseFromFile (Some (contents @ [CHR 0x0A])) base c)"
    using pieces_newline [of contents "[]"]
    by (simp add: Parser_parseFromFile_def Let_def e parseLine_blank split: prod.split)
       (metis fst_conv parseLine_blank)
  have "isComment ''## end''" "trim ''## end'' = ''## end''" by code_simp+
  then have c: "fst (parseLine ''## end'' s)" for s by (rule parseLine_comment)
  show "fst (Parser_parseFromText (contents @ [CHR 0x0A] @ ''## end'') base c)"
    using pieces_newline [of contents "''## end''"] pieces_single [of "''## end''"]
    by (simp add: Parser_parseFromText_def getlines_def Let_def e split: prod.split)
       (metis fst_conv c)
qed

text \<open>
  The defaults for what is missing overwrite what is there: where the global level has no
  format, every level ends up with the general format, its own one lost; only where the global
  level has one are the formats of the levels kept, and missing ones given the default of
  their level.
\<close>

theorem remaining_defaults_overwrite:
  assumes "l \<in> set proper_levels"
  shows "cf_value l Config_Format (setRemainingToDefault c) =
    (case cf_value Level_Global Config_Format c of
       None \<Rightarrow> Some ''%datetime %level [%logger] %msg''
     | Some _ \<Rightarrow>
         (case cf_value l Config_Format c of
            Some v \<Rightarrow> Some v
          | None \<Rightarrow>
              if l = Level_Debug then Some ''%datetime %level [%logger] [%user@%host] [%func] [%loc] %msg''
              else if l = Level_Error \<or> l = Level_Fatal then Some ''%datetime %level [%logger] %msg''
              else if l = Level_Verbose then Some ''%datetime %level-%vlevel [%logger] %msg''
              else if l = Level_Trace then Some ''%datetime %level [%logger] [%func] [%loc] %msg''
              else None))"
proof -
  have other: "t \<noteq> Config_Format \<Longrightarrow>
      cf_value m Config_Format (unsafeSetIfNotExist m' t v c) = cf_value m Config_Format c" for m m' t v c
    by (simp add: cf_value_unsafeSetIfNotExist)
  have format: "cf_value m Config_Format (unsafeSetIfNotExist m' Config_Format v c) =
      (if cf_value m' Config_Format c = None \<and> (m = m' \<or> m' = Level_Global \<and> m \<in> set proper_levels)
       then Some v else cf_value m Config_Format c)" for m m' v c
    by (simp add: cf_value_unsafeSetIfNotExist)
  note steps = setRemainingToDefault_def Let_def other format
  consider "l = Level_Trace" | "l = Level_Debug" | "l = Level_Fatal" | "l = Level_Error"
    | "l = Level_Warning" | "l = Level_Verbose" | "l = Level_Info"
    using assms by (auto simp: proper_levels_def)
  then show ?thesis
    by cases (cases "cf_value Level_Global Config_Format c"; cases "cf_value l Config_Format c";
      simp add: steps; simp add: proper_levels_def)+
qed

theorem remaining_defaults_overwrite_witness:
  "cf_value Level_Info Config_Format
     (setRemainingToDefault (cf_set Level_Info Config_Format ''mine'' Configurations)) =
     Some ''%datetime %level [%logger] %msg''"
  using remaining_defaults_overwrite [of Level_Info "cf_set Level_Info Config_Format ''mine'' Configurations"]
  by (simp add: proper_levels_def cf_value_cf_set) (simp add: cf_value_def cf_get_def Configurations_def)

end
