(* ===== verification/Elpp_Format.thy ===== *)
theory Elpp_Format imports Elpp_Types begin

text \<open>
  Log formats of the logging library: \<open>LogFormat\<close> finds the specifiers in a format once, when
  the format is set, and \<open>CustomFormatSpecifier\<close> pairs a specifier of the user's with a
  function. The environment, from which the user and the host come, is an argument.
\<close>

section \<open>\<open>LogFormat\<close>\<close>

record log_format =
  lf_level :: level
  lf_userFormat :: string
  lf_format :: string
  lf_dateTimeFormat :: string
  lf_flags :: uint32
  lf_currentUser :: string
  lf_currentHost :: string

definition lf_hasFlag :: "format_flag \<Rightarrow> log_format \<Rightarrow> bool" where
  "lf_hasFlag flag f \<longleftrightarrow> hasFlag (format_flag_value flag) (lf_flags f)"

definition lf_addFlag :: "format_flag \<Rightarrow> log_format \<Rightarrow> log_format" where
  "lf_addFlag flag f = f\<lparr>lf_flags := addFlag (format_flag_value flag) (lf_flags f)\<rparr>"

definition lf_log :: "log_format \<Rightarrow> string" where
  "lf_log f = lf_format f"

lemma str_find_within: "str_find s p pos = Some i \<Longrightarrow> pos \<le> i \<and> i \<le> length s"
  using str_find_Some(1) str_find_bound by fastforce

text \<open>
  The loop of \<open>conditionalAddFlag\<close> over the copy of the format: an escaped specifier loses its
  escape once the flag is set, any other one sets it.
\<close>

function flag_loop :: "string \<Rightarrow> uint32 \<Rightarrow> nat \<Rightarrow> string \<times> uint32 \<Rightarrow> string \<times> uint32" where
  "flag_loop specifier flag pos (formatCopy, flags) =
     (case str_find formatCopy specifier pos of
        None \<Rightarrow> (formatCopy, flags)
      | Some foundAt \<Rightarrow>
          if 0 < foundAt \<and> formatCopy ! (foundAt - 1) = CHR ''%'' then
            (if hasFlag flag flags
             then flag_loop specifier flag (foundAt + 2)
                    (take (foundAt - 1) formatCopy @ drop foundAt formatCopy, flags)
             else flag_loop specifier flag (foundAt + 1) (formatCopy, flags))
          else flag_loop specifier flag (foundAt + 1)
                 (formatCopy, if hasFlag flag flags then flags else addFlag flag flags))"
  by pat_completeness auto
termination
  by (relation "measure (\<lambda>(specifier, flag, pos, (f, flags)). Suc (length f) - pos)")
     (auto dest!: str_find_within)

declare flag_loop.simps [simp del]

definition format_specifiers :: "(string \<times> format_flag) list" where
  "format_specifiers =
    [(''%app'', FF_AppName), (''%level'', FF_Level), (''%levshort'', FF_LevelShort),
     (''%logger'', FF_LoggerId), (''%thread'', FF_ThreadId), (''%file'', FF_File),
     (''%fbase'', FF_FileBase), (''%line'', FF_Line), (''%loc'', FF_Location),
     (''%func'', FF_Function), (''%user'', FF_User), (''%host'', FF_Host),
     (''%msg'', FF_LogMessage), (''%vlevel'', FF_VerboseLevel)]"

definition kDateTimeFormatSpecifier :: string where
  "kDateTimeFormatSpecifier = ''%datetime''"

text \<open>
  The search for a date specifier that is not escaped. The condition of the loop reads the
  character before the position also when nothing was found and the position is \<open>npos\<close>.
\<close>

function date_index :: "string \<Rightarrow> nat \<Rightarrow> nat result" where
  "date_index s i =
     (if 0 < i \<and> i \<le> length s \<and> s ! (i - 1) = CHR ''%'' then
        (case str_find s kDateTimeFormatSpecifier (i + 1) of
           None \<Rightarrow> Inl OutOfBoundsRead
         | Some j \<Rightarrow> date_index s j)
      else Inr i)"
  by pat_completeness auto
termination
proof (relation "measure (\<lambda>(s, i). Suc (length s) - i)")
  fix s i j
  assume "0 < i \<and> i \<le> length s \<and> s ! (i - 1) = CHR ''%''"
    "str_find s kDateTimeFormatSpecifier (i + 1) = Some j"
  then show "((s, j), s, i) \<in> measure (\<lambda>(s, i). Suc (length s) - i)"
    using str_find_Some(1) [of s kDateTimeFormatSpecifier "i + 1" j] by auto
qed simp

declare date_index.simps [simp del]

text \<open>The braces after a date specifier: what they hold, and the characters they take.\<close>

fun braces :: "string \<Rightarrow> nat \<Rightarrow> string \<times> nat" where
  "braces [] count = ([], count)"
| "braces (c # s) count =
     (if c = CHR ''}'' then ([], count + 1)
      else (let (ss, n) = braces s (count + 1) in (c # ss, n)))"

definition str_erase :: "nat \<Rightarrow> nat \<Rightarrow> string \<Rightarrow> string" where
  "str_erase pos n s = take pos s @ drop (pos + n) s"

definition updateDateFormat :: "nat \<Rightarrow> string \<Rightarrow> log_format \<Rightarrow> string \<times> log_format" where
  "updateDateFormat index currFormat f =
     (let index = (if lf_hasFlag FF_DateTime f then index + length kDateTimeFormatSpecifier else index);
          ptr = drop index currFormat
      in if index < length currFormat \<and> c_head ptr = CHR ''{'' then
           (let (ss, count) = braces (tl ptr) 1
            in (str_erase index count currFormat, f\<lparr>lf_dateTimeFormat := ss\<rparr>))
         else (currFormat,
               if lf_hasFlag FF_DateTime f then f\<lparr>lf_dateTimeFormat := kDefaultDateTimeFormat\<rparr>
               else f))"

definition replace_format :: "string \<Rightarrow> string \<Rightarrow> log_format \<Rightarrow> log_format" where
  "replace_format what w f = f\<lparr>lf_format := replaceFirstWithEscape (lf_format f) what w\<rparr>"

text \<open>A level without a log value (the global and the unknown one) is left alone.\<close>

definition updateFormatSpec :: "log_format \<Rightarrow> log_format" where
  "updateFormatSpec f =
     (let f = (case map_of level_log_values (lf_level f) of
             None \<Rightarrow> f
           | Some (value, short) \<Rightarrow>
               replace_format ''%levshort'' short (replace_format ''%level'' value f));
          f = (if lf_hasFlag FF_User f then replace_format ''%user'' (lf_currentUser f) f else f)
      in if lf_hasFlag FF_Host f then replace_format ''%host'' (lf_currentHost f) f else f)"

definition parseFromFormat :: "string \<Rightarrow> log_format \<Rightarrow> log_format result" where
  "parseFromFormat userFormat f =
     (let (formatCopy, flags) =
            fold (\<lambda>(specifier, flag). flag_loop specifier (format_flag_value flag) 0)
              format_specifiers (userFormat, 0);
          f = f\<lparr>lf_flags := flags\<rparr>
      in case str_find formatCopy kDateTimeFormatSpecifier 0 of
           None \<Rightarrow> Inr (updateFormatSpec (f\<lparr>lf_format := formatCopy\<rparr>))
         | Some dateIndex \<Rightarrow>
             rbind (date_index formatCopy dateIndex) (\<lambda>dateIndex.
               let (formatCopy, f) = updateDateFormat dateIndex formatCopy (lf_addFlag FF_DateTime f)
               in Inr (updateFormatSpec (f\<lparr>lf_format := formatCopy\<rparr>))))"

definition LogFormat_default :: "(string \<Rightarrow> string option) \<Rightarrow> log_format" where
  "LogFormat_default getenv =
     \<lparr>lf_level = Level_Unknown, lf_userFormat = [], lf_format = [], lf_dateTimeFormat = [],
      lf_flags = 0, lf_currentUser = currentUser getenv, lf_currentHost = currentHost getenv\<rparr>"

definition LogFormat :: "(string \<Rightarrow> string option) \<Rightarrow> level \<Rightarrow> string \<Rightarrow> log_format result" where
  "LogFormat getenv level format =
     parseFromFormat format
       \<lparr>lf_level = level, lf_userFormat = format, lf_format = [], lf_dateTimeFormat = [],
        lf_flags = 0, lf_currentUser = currentUser getenv, lf_currentHost = currentHost getenv\<rparr>"

definition LogFormat_copy :: "log_format \<Rightarrow> log_format" where
  "LogFormat_copy logFormat =
     \<lparr>lf_level = lf_level logFormat, lf_userFormat = lf_userFormat logFormat,
      lf_format = lf_format logFormat, lf_dateTimeFormat = lf_dateTimeFormat logFormat,
      lf_flags = lf_flags logFormat, lf_currentUser = lf_currentUser logFormat,
      lf_currentHost = lf_currentHost logFormat\<rparr>"

text \<open>Assignment copies every field but \<open>m_format\<close>.\<close>

definition LogFormat_assign :: "log_format \<Rightarrow> log_format \<Rightarrow> log_format" where
  "LogFormat_assign this logFormat =
     this\<lparr>lf_level := lf_level logFormat, lf_userFormat := lf_userFormat logFormat,
       lf_dateTimeFormat := lf_dateTimeFormat logFormat, lf_flags := lf_flags logFormat,
       lf_currentUser := lf_currentUser logFormat, lf_currentHost := lf_currentHost logFormat\<rparr>"

definition LogFormat_eq :: "log_format \<Rightarrow> log_format \<Rightarrow> bool" where
  "LogFormat_eq a b \<longleftrightarrow> lf_level a = lf_level b \<and> lf_userFormat a = lf_userFormat b \<and>
     lf_format a = lf_format b \<and> lf_dateTimeFormat a = lf_dateTimeFormat b \<and>
     lf_flags a = lf_flags b"

section \<open>\<open>CustomFormatSpecifier\<close>\<close>

record 'm custom_format_specifier =
  cs_formatSpecifier :: string
  cs_resolver :: "'m \<Rightarrow> string"

definition CustomFormatSpecifier :: "string \<Rightarrow> ('m \<Rightarrow> string) \<Rightarrow> 'm custom_format_specifier" where
  "CustomFormatSpecifier formatSpecifier resolver =
     \<lparr>cs_formatSpecifier = formatSpecifier, cs_resolver = resolver\<rparr>"

definition CustomFormatSpecifier_eq :: "'m custom_format_specifier \<Rightarrow> string \<Rightarrow> bool" where
  "CustomFormatSpecifier_eq c formatSpecifier \<longleftrightarrow> cs_formatSpecifier c = formatSpecifier"

definition hasCustomFormatSpecifier :: "string \<Rightarrow> 'm custom_format_specifier list \<Rightarrow> bool" where
  "hasCustomFormatSpecifier formatSpecifier l \<longleftrightarrow>
     find (\<lambda>c. CustomFormatSpecifier_eq c formatSpecifier) l \<noteq> None"

definition installCustomFormatSpecifier ::
  "'m custom_format_specifier \<Rightarrow> 'm custom_format_specifier list \<Rightarrow> 'm custom_format_specifier list" where
  "installCustomFormatSpecifier c l =
     (if hasCustomFormatSpecifier (cs_formatSpecifier c) l then l else l @ [c])"

fun erase_specifier :: "string \<Rightarrow> 'm custom_format_specifier list \<Rightarrow> 'm custom_format_specifier list" where
  "erase_specifier formatSpecifier [] = []"
| "erase_specifier formatSpecifier (c # l) =
     (if CustomFormatSpecifier_eq c formatSpecifier then l else c # erase_specifier formatSpecifier l)"

definition uninstallCustomFormatSpecifier ::
  "string \<Rightarrow> 'm custom_format_specifier list \<Rightarrow> bool \<times> 'm custom_format_specifier list" where
  "uninstallCustomFormatSpecifier formatSpecifier l =
     (case find (\<lambda>c. CustomFormatSpecifier_eq c formatSpecifier) l of
        Some c \<Rightarrow>
          if CustomFormatSpecifier_eq c formatSpecifier
          then (True, erase_specifier formatSpecifier l) else (False, l)
      | None \<Rightarrow> (False, l))"

section \<open>Facts\<close>

definition escaped_at :: "string \<Rightarrow> nat \<Rightarrow> bool" where
  "escaped_at s i \<longleftrightarrow> 0 < i \<and> s ! (i - 1) = CHR ''%''"

text \<open>The search ends at the first date specifier that is not escaped, or past the end.\<close>

lemma date_index_outcome:
  "matches_at s kDateTimeFormatSpecifier i \<Longrightarrow>
     case date_index s i of
       Inr j \<Rightarrow> i \<le> j \<and> matches_at s kDateTimeFormatSpecifier j \<and> \<not> escaped_at s j
     | Inl e \<Rightarrow> e = OutOfBoundsRead \<and>
         (\<forall>j \<ge> i. matches_at s kDateTimeFormatSpecifier j \<longrightarrow> escaped_at s j)"
proof (induction s i rule: date_index.induct)
  case (1 s i)
  have i: "i \<le> length s" using "1.prems" by (simp add: matches_at_def)
  show ?case
  proof (cases "escaped_at s i")
    case False
    with "1.prems" i show ?thesis
      by (subst date_index.simps) (auto simp: escaped_at_def)
  next
    case True
    then have e: "0 < i \<and> i \<le> length s \<and> s ! (i - 1) = CHR ''%''" using i by (simp add: escaped_at_def)
    show ?thesis
    proof (cases "str_find s kDateTimeFormatSpecifier (i + 1)")
      case None
      have "escaped_at s j" if "i \<le> j" "matches_at s kDateTimeFormatSpecifier j" for j
        using that True str_find_None [OF None, of j] by (cases "j = i") auto
      with None e show ?thesis by (subst date_index.simps) auto
    next
      case (Some j)
      note j = str_find_Some [OF Some]
      have r: "date_index s i = date_index s j" using e Some by (subst date_index.simps) simp
      have "escaped_at s k" if "i \<le> k" "k < j" "matches_at s kDateTimeFormatSpecifier k" for k
        using that True j(3) [of k] by (cases "k = i") auto
      with "1.IH" [OF e Some j(2)] j(1) show ?thesis
        by (auto simp: r split: sum.splits) (meson linorder_not_le)
    qed
  qed
qed

text \<open>The format after the other specifiers have been looked for.\<close>

definition scanned :: "string \<Rightarrow> string" where
  "scanned userFormat =
     fst (fold (\<lambda>(specifier, flag). flag_loop specifier (format_flag_value flag) 0)
            format_specifiers (userFormat, 0))"

lemma parseFromFormat_outcome:
  assumes "str_find (scanned format) kDateTimeFormatSpecifier 0 = Some i"
  shows "case date_index (scanned format) i of
      Inl e \<Rightarrow> parseFromFormat format f = Inl e
    | Inr _ \<Rightarrow> \<exists>g. parseFromFormat format f = Inr g"
  using assms
  by (auto simp: parseFromFormat_def scanned_def Let_def split: sum.splits prod.splits)

lemma parseFromFormat_no_date:
  "str_find (scanned format) kDateTimeFormatSpecifier 0 = None \<Longrightarrow>
     \<exists>g. parseFromFormat format f = Inr g"
  by (auto simp: parseFromFormat_def scanned_def Let_def split: prod.splits)

text \<open>Assigning a format keeps the text that is written, and copies what it is made from.\<close>

lemma assign_keeps_text:
  "lf_format (LogFormat_assign a b) = lf_format a \<and> lf_userFormat (LogFormat_assign a b) = lf_userFormat b"
  by (simp add: LogFormat_assign_def)

lemma assign_equal_iff: "LogFormat_eq (LogFormat_assign a b) b \<longleftrightarrow> lf_format a = lf_format b"
  by (auto simp: LogFormat_eq_def LogFormat_assign_def)

lemma copy_equal: "LogFormat_eq (LogFormat_copy a) a"
  by (simp add: LogFormat_eq_def LogFormat_copy_def)

text \<open>A custom specifier is installed at most once.\<close>

lemma install_distinct:
  "distinct (map cs_formatSpecifier l) \<Longrightarrow>
     distinct (map cs_formatSpecifier (installCustomFormatSpecifier c l))"
  by (auto simp: installCustomFormatSpecifier_def hasCustomFormatSpecifier_def
      CustomFormatSpecifier_eq_def find_None_iff)

lemma uninstall_install:
  "\<not> hasCustomFormatSpecifier (cs_formatSpecifier c) l \<Longrightarrow>
     uninstallCustomFormatSpecifier (cs_formatSpecifier c) (installCustomFormatSpecifier c l) = (True, l)"
proof -
  assume n: "\<not> hasCustomFormatSpecifier (cs_formatSpecifier c) l"
  then have "find (\<lambda>d. CustomFormatSpecifier_eq d (cs_formatSpecifier c)) (l @ [c]) = Some c \<and>
      erase_specifier (cs_formatSpecifier c) (l @ [c]) = l"
    by (induction l) (auto simp: hasCustomFormatSpecifier_def CustomFormatSpecifier_eq_def)
  with n show ?thesis
    by (simp add: uninstallCustomFormatSpecifier_def installCustomFormatSpecifier_def
        CustomFormatSpecifier_eq_def [of c])
qed

section \<open>Properties\<close>

text \<open>
  A log format can be built from a text exactly if the text has no date specifier, or one
  that is not escaped: where every date specifier is escaped, the search for one that is not
  goes on at \<open>npos\<close> and reads outside the string.
\<close>

theorem escaped_date_out_of_bounds:
  "(LogFormat getenv level format = Inl OutOfBoundsRead \<longleftrightarrow>
      (\<exists>i. matches_at (scanned format) kDateTimeFormatSpecifier i) \<and>
      (\<forall>i. \<not> (matches_at (scanned format) kDateTimeFormatSpecifier i \<and> \<not> escaped_at (scanned format) i))) \<and>
   (LogFormat getenv level format = Inl OutOfBoundsRead \<or>
      (\<exists>f. LogFormat getenv level format = Inr f)) \<and>
   LogFormat getenv level ''%%datetime %msg'' = Inl OutOfBoundsRead"
proof -
  have bad: "scanned ''%%datetime %msg'' = ''%%datetime %msg''"
    "str_find ''%%datetime %msg'' kDateTimeFormatSpecifier 0 = Some (Suc 0)"
    "date_index ''%%datetime %msg'' (Suc 0) = Inl OutOfBoundsRead"
    by code_simp+
  let ?c = "scanned format"
  have outcome: "LogFormat getenv level ''%%datetime %msg'' = Inl OutOfBoundsRead"
    using parseFromFormat_outcome [of "''%%datetime %msg''" 1] by (simp add: bad LogFormat_def)
  show ?thesis
  proof (cases "str_find ?c kDateTimeFormatSpecifier 0")
    case None
    then have "\<not> matches_at ?c kDateTimeFormatSpecifier i" for i using str_find_None by blast
    moreover obtain f where "LogFormat getenv level format = Inr f"
      using parseFromFormat_no_date [OF None] by (auto simp: LogFormat_def)
    ultimately show ?thesis using outcome by simp
  next
    case (Some i)
    note i = str_find_Some(2, 3) [OF Some]
    note d = date_index_outcome [OF i(1)] and p = parseFromFormat_outcome [OF Some]
    show ?thesis
    proof (cases "date_index ?c i")
      case (Inl e)
      with d i(2) have "\<forall>j. matches_at ?c kDateTimeFormatSpecifier j \<longrightarrow> escaped_at ?c j"
        by (metis (lifting) le0 linorder_not_le old.sum.simps(5))
      moreover from Inl d p have "LogFormat getenv level format = Inl OutOfBoundsRead"
        by (auto simp: LogFormat_def)
      ultimately show ?thesis using outcome i(1) by auto
    next
      case (Inr j)
      with d have "matches_at ?c kDateTimeFormatSpecifier j \<and> \<not> escaped_at ?c j" by simp
      moreover from Inr p obtain f where "LogFormat getenv level format = Inr f"
        by (auto simp: LogFormat_def)
      ultimately show ?thesis using outcome by auto
    qed
  qed
qed

end
