(* ===== verification/Elpp_Time.thy ===== *)
theory Elpp_Time imports Elpp_Types "HOL-Library.Signed_Division" begin

text \<open>
  Dates and durations of the logging library (\<open>base::utils::DateTime\<close>): the formatter of a
  broken-down time into a bounded buffer, and what happens when the text fills it.
\<close>

section \<open>Times\<close>

datatype timestamp_unit = Microsecond | Millisecond | Second | Minute | Hour | Day

fun unit_index :: "timestamp_unit \<Rightarrow> nat" where
  "unit_index Microsecond = 0"
| "unit_index Millisecond = 1"
| "unit_index Second = 2"
| "unit_index Minute = 3"
| "unit_index Hour = 4"
| "unit_index Day = 5"

record timeval =
  tv_sec :: int
  tv_usec :: int

record tm =
  tm_sec :: int
  tm_min :: int
  tm_hour :: int
  tm_mday :: int
  tm_mon :: int
  tm_year :: int
  tm_wday :: int

text \<open>An \<open>int\<close> where a \<open>std::size_t\<close> is expected.\<close>

definition to_size :: "int \<Rightarrow> nat" where
  "to_size i = nat (i mod 2 ^ 64)"

text \<open>An entry of one of the tables of names.\<close>

definition table_at :: "string list \<Rightarrow> int \<Rightarrow> string result" where
  "table_at xs i = (if 0 \<le> i \<and> nat i < length xs then Inr (xs ! nat i) else Inl OutOfBoundsRead)"

section \<open>Formatting a date\<close>

text \<open>One specifier. An unknown one writes nothing.\<close>

definition format_spec ::
  "tm \<Rightarrow> nat \<Rightarrow> subsecond_precision \<Rightarrow> nat \<Rightarrow> char \<Rightarrow> string \<Rightarrow> string result" where
  "format_spec tInfo msec ssPrec lim c buf =
     (if c = CHR ''d'' then Inr (convertAndAddToBuff (to_size (tm_mday tInfo)) 2 lim True buf)
      else if c = CHR ''a'' then
        rbind (table_at kDaysAbbrev (tm_wday tInfo)) (\<lambda>s. Inr (addToBuff s lim buf))
      else if c = CHR ''A'' then
        rbind (table_at kDays (tm_wday tInfo)) (\<lambda>s. Inr (addToBuff s lim buf))
      else if c = CHR ''M'' then
        Inr (convertAndAddToBuff (to_size (tm_mon tInfo + 1)) 2 lim True buf)
      else if c = CHR ''b'' then
        rbind (table_at kMonthsAbbrev (tm_mon tInfo)) (\<lambda>s. Inr (addToBuff s lim buf))
      else if c = CHR ''B'' then
        rbind (table_at kMonths (tm_mon tInfo)) (\<lambda>s. Inr (addToBuff s lim buf))
      else if c = CHR ''y'' then
        Inr (convertAndAddToBuff (to_size (tm_year tInfo + kYearBase)) 2 lim True buf)
      else if c = CHR ''Y'' then
        Inr (convertAndAddToBuff (to_size (tm_year tInfo + kYearBase)) 4 lim True buf)
      else if c = CHR ''h'' then
        Inr (convertAndAddToBuff (to_size (tm_hour tInfo smod 12)) 2 lim True buf)
      else if c = CHR ''H'' then
        Inr (convertAndAddToBuff (to_size (tm_hour tInfo)) 2 lim True buf)
      else if c = CHR ''m'' then
        Inr (convertAndAddToBuff (to_size (tm_min tInfo)) 2 lim True buf)
      else if c = CHR ''s'' then
        Inr (convertAndAddToBuff (to_size (tm_sec tInfo)) 2 lim True buf)
      else if c = CHR ''z'' \<or> c = CHR ''g'' then
        Inr (convertAndAddToBuff msec (sp_width ssPrec) lim True buf)
      else if c = CHR ''F'' then
        Inr (addToBuff (if 12 \<le> tm_hour tInfo then ''PM'' else ''AM'') lim buf)
      else Inr buf)"

text \<open>
  The loop over the format: a percent sign at the end, or one that is doubled, is copied; a
  character that does not fit ends the loop. The result is the text before the final
  position of the cursor; no terminator is written.
\<close>

fun parseFormat ::
  "nat \<Rightarrow> tm \<Rightarrow> nat \<Rightarrow> subsecond_precision \<Rightarrow> string \<Rightarrow> string \<Rightarrow> string result" where
  "parseFormat lim tInfo msec ssPrec [] buf = Inr buf"
| "parseFormat lim tInfo msec ssPrec [c] buf =
     Inr (if length buf = lim then buf else buf @ [c])"
| "parseFormat lim tInfo msec ssPrec (c # d # format) buf =
     (if c = CHR ''%'' then
        if d = CHR ''%'' then
          (if length buf = lim then Inr buf
           else parseFormat lim tInfo msec ssPrec format (buf @ [d]))
        else rbind (format_spec tInfo msec ssPrec lim d buf)
               (parseFormat lim tInfo msec ssPrec format)
      else if length buf = lim then Inr buf
      else parseFormat lim tInfo msec ssPrec (d # format) (buf @ [c]))"

text \<open>
  The text is put into an array of 30 characters, all zero at first, and read back as a C
  string: where the array is full there is no terminator to stop at.
\<close>

definition kBuffSize :: nat where "kBuffSize = 30"

definition c_array_string :: "nat \<Rightarrow> string \<Rightarrow> string result" where
  "c_array_string cap buf =
     (if length buf < cap \<or> CHR 0x00 \<in> set buf then Inr (takeWhile (\<lambda>c. c \<noteq> CHR 0x00) buf)
      else Inl OutOfBoundsRead)"

text \<open>\<open>localtime_r\<close> is an argument.\<close>

definition timevalToString ::
  "(int \<Rightarrow> tm) \<Rightarrow> timeval \<Rightarrow> string \<Rightarrow> subsecond_precision \<Rightarrow> string result" where
  "timevalToString localtime tval format ssPrec =
     (let timeInfo = localtime (tv_sec tval) in
      rbind (parseFormat kBuffSize timeInfo (to_size (tv_usec tval sdiv int (sp_offset ssPrec)))
               ssPrec format [])
        (c_array_string kBuffSize))"

definition getDateTime ::
  "(int \<Rightarrow> tm) \<Rightarrow> timeval \<Rightarrow> string \<Rightarrow> subsecond_precision \<Rightarrow> string result" where
  "getDateTime localtime currTime format ssPrec = timevalToString localtime currTime format ssPrec"

section \<open>Durations\<close>

text \<open>
  The conversion to larger units. The comparison of \<open>time / 1000.0f\<close> with \<open>1.9f\<close> is the one
  of \<open>time\<close> with 1900: division and rounding are monotone, and 1900 divided by 1000 is
  rounded to the same number as 1.9.
\<close>

fun format_time_loop :: "(nat \<times> string) list \<Rightarrow> nat \<Rightarrow> string \<Rightarrow> nat \<times> string" where
  "format_time_loop ((limit, u) # (limit', next_unit) # formats) time unit =
     (if time \<le> limit then (time, unit)
      else if limit = 1000 \<and> time < 1900 then (time, unit)
      else format_time_loop ((limit', next_unit) # formats) (time div limit) next_unit)"
| "format_time_loop _ time unit = (time, unit)"

definition formatTime :: "nat \<Rightarrow> timestamp_unit \<Rightarrow> string" where
  "formatTime time timestampUnit =
     (let start = unit_index timestampUnit;
          (time, unit) = format_time_loop (drop start kTimeFormats) time (snd (kTimeFormats ! start))
      in show_nat time @ '' '' @ unit)"

text \<open>Only microseconds are kept apart: every other unit gives milliseconds.\<close>

definition getTimeDifference :: "timeval \<Rightarrow> timeval \<Rightarrow> timestamp_unit \<Rightarrow> uint64" where
  "getTimeDifference endTime startTime timestampUnit =
     (if timestampUnit = Microsecond then
        word_of_int (1000000 * tv_sec endTime + tv_usec endTime) -
        word_of_int (1000000 * tv_sec startTime + tv_usec startTime)
      else
        (let conv = (\<lambda>tim. word_of_int (tv_sec tim * 1000 + tv_usec tim sdiv 1000))
         in conv endTime - conv startTime))"

section \<open>Facts\<close>

lemma length_addToBuff [simp]: "length buf \<le> lim \<Longrightarrow> length (addToBuff s lim buf) = min lim (length buf + length s)"
  by (simp add: addToBuff_def)

lemma addToBuff_extends: "\<exists>t. addToBuff s lim buf = buf @ t"
  by (simp add: addToBuff_def)

text \<open>What a specifier appends, whichever it is, goes through \<open>addToBuff\<close>.\<close>

definition appends :: "nat \<Rightarrow> string \<Rightarrow> string result \<Rightarrow> bool" where
  "appends lim buf r \<longleftrightarrow> (case r of Inl _ \<Rightarrow> True | Inr b \<Rightarrow> \<exists>s. b = addToBuff s lim buf)"

lemma appends_intros:
  "appends lim buf a \<Longrightarrow> appends lim buf b \<Longrightarrow> appends lim buf (if c then a else b)"
  "appends lim buf (Inr (addToBuff s lim buf))"
  "appends lim buf (Inr (convertAndAddToBuff n len lim True buf))"
  "appends lim buf (rbind (table_at xs i) (\<lambda>s. Inr (addToBuff s lim buf)))"
  "appends lim buf (Inr buf)"
proof -
  show "appends lim buf (Inr buf)"
    unfolding appends_def by (auto intro: exI [of _ "[]"] simp: addToBuff_def)
  show "appends lim buf (Inr (convertAndAddToBuff n len lim True buf))"
    by (auto simp: appends_def convertAndAddToBuff_def split: prod.split)
qed (auto simp: appends_def table_at_def)

lemma format_spec_appends: "appends lim buf (format_spec tInfo msec ssPrec lim c buf)"
  unfolding format_spec_def by (intro appends_intros)

lemma format_spec_within:
  "format_spec tInfo msec ssPrec lim c buf = Inr r \<Longrightarrow> length buf \<le> lim \<Longrightarrow>
     length buf \<le> length r \<and> length r \<le> lim"
  using format_spec_appends [of lim buf tInfo msec ssPrec c] by (auto simp: appends_def)

text \<open>The formatter never writes past the buffer.\<close>

lemma parseFormat_within:
  "parseFormat lim tInfo msec ssPrec format buf = Inr r \<Longrightarrow> length buf \<le> lim \<Longrightarrow>
     length buf \<le> length r \<and> length r \<le> lim"
proof (induction lim tInfo msec ssPrec format buf arbitrary: r rule: parseFormat.induct)
  case (3 lim tInfo msec ssPrec c d format buf)
  show ?case
  proof (cases "c = CHR ''%'' \<and> d \<noteq> CHR ''%''")
    case True
    with "3.prems"(1) obtain b where
      b: "format_spec tInfo msec ssPrec lim d buf = Inr b"
        "parseFormat lim tInfo msec ssPrec format b = Inr r"
      by (auto simp: rbind_eq_Inr)
    with format_spec_within [OF b(1) "3.prems"(2)] "3.IH"(2) [of b r] True show ?thesis
      by fastforce
  next
    case False
    with 3 show ?thesis by (fastforce split: if_splits)
  qed
qed (auto split: if_splits)

text \<open>With the fields \<open>localtime_r\<close> fills in, the formatter succeeds and writes no NUL.\<close>

definition valid_tm :: "tm \<Rightarrow> bool" where
  "valid_tm t \<longleftrightarrow> 0 \<le> tm_wday t \<and> tm_wday t < 7 \<and> 0 \<le> tm_mon t \<and> tm_mon t < 12"

definition writes :: "nat \<Rightarrow> string \<Rightarrow> string result \<Rightarrow> bool" where
  "writes lim buf r \<longleftrightarrow> (\<exists>s. r = Inr (addToBuff s lim buf) \<and> CHR 0x00 \<notin> set s)"

lemma digits_loop_plain:
  "digits_loop room n len p = (q, l, k) \<Longrightarrow> CHR 0x00 \<notin> set p \<Longrightarrow> CHR 0x00 \<notin> set q"
proof (induction room n len p rule: digits_loop.induct)
  case (2 room n len p)
  have "(char_of (n mod 10 + 48) :: char) \<noteq> CHR 0x00"
  proof
    assume "(char_of (n mod 10 + 48) :: char) = CHR 0x00"
    then have "(of_char (char_of (n mod 10 + 48) :: char) :: nat) = of_char CHR 0x00" by simp
    then show False by simp
  qed
  with 2 show ?case by (auto split: if_splits)
qed simp

lemma writes_intros:
  "writes lim buf a \<Longrightarrow> writes lim buf b \<Longrightarrow> writes lim buf (if c then a else b)"
  "CHR 0x00 \<notin> set s \<Longrightarrow> writes lim buf (Inr (addToBuff s lim buf))"
  "writes lim buf (Inr (convertAndAddToBuff n len lim True buf))"
  "0 \<le> i \<Longrightarrow> i < int (length xs) \<Longrightarrow> list_all (\<lambda>s. CHR 0x00 \<notin> set s) xs \<Longrightarrow>
     writes lim buf (rbind (table_at xs i) (\<lambda>s. Inr (addToBuff s lim buf)))"
  "writes lim buf (Inr buf)"
proof -
  show "writes lim buf (Inr buf)"
    unfolding writes_def by (auto intro: exI [of _ "[]"] simp: addToBuff_def)
  show "writes lim buf (Inr (convertAndAddToBuff n len lim True buf))"
    unfolding writes_def convertAndAddToBuff_def
    by (auto dest: digits_loop_plain split: prod.split intro!: exI)
  show "0 \<le> i \<Longrightarrow> i < int (length xs) \<Longrightarrow> list_all (\<lambda>s. CHR 0x00 \<notin> set s) xs \<Longrightarrow>
     writes lim buf (rbind (table_at xs i) (\<lambda>s. Inr (addToBuff s lim buf)))"
    by (auto simp: writes_def table_at_def list_all_length)
qed (auto simp: writes_def)

lemma tables_plain:
  "list_all (\<lambda>s. CHR 0x00 \<notin> set s) kDaysAbbrev" "list_all (\<lambda>s. CHR 0x00 \<notin> set s) kDays"
  "list_all (\<lambda>s. CHR 0x00 \<notin> set s) kMonthsAbbrev" "list_all (\<lambda>s. CHR 0x00 \<notin> set s) kMonths"
  by code_simp+

lemma tables_length:
  "length kDaysAbbrev = 7" "length kDays = 7" "length kMonthsAbbrev = 12" "length kMonths = 12"
  by (simp_all add: kDaysAbbrev_def kDays_def kMonthsAbbrev_def kMonths_def)

lemma format_spec_writes: "valid_tm tInfo \<Longrightarrow> writes lim buf (format_spec tInfo msec ssPrec lim c buf)"
  unfolding format_spec_def
  by (intro writes_intros) (simp_all add: tables_plain tables_length valid_tm_def)

lemma parseFormat_plain:
  "valid_tm tInfo \<Longrightarrow> CHR 0x00 \<notin> set format \<Longrightarrow> CHR 0x00 \<notin> set buf \<Longrightarrow>
     \<exists>r. parseFormat lim tInfo msec ssPrec format buf = Inr r \<and> CHR 0x00 \<notin> set r"
proof (induction lim tInfo msec ssPrec format buf rule: parseFormat.induct)
  case (3 lim tInfo msec ssPrec c d format buf)
  obtain t where t: "format_spec tInfo msec ssPrec lim d buf = Inr (addToBuff t lim buf)"
    "CHR 0x00 \<notin> set t"
    using format_spec_writes [OF "3.prems"(1), of lim buf msec ssPrec d] unfolding writes_def by blast
  then have plain: "CHR 0x00 \<notin> set (addToBuff t lim buf)"
    using "3.prems" by (auto simp: addToBuff_def dest: in_set_takeD)
  show ?case
  proof (cases "c = CHR ''%'' \<and> d \<noteq> CHR ''%''")
    case True
    with "3.IH"(2) [of "addToBuff t lim buf"] "3.prems" t plain show ?thesis by simp
  next
    case False
    with "3.IH"(1, 3) "3.prems" show ?thesis by (cases "c = CHR ''%''"; cases "length buf = lim") auto
  qed
qed auto

section \<open>Properties\<close>

text \<open>
  A date is formatted into an array of 30 characters without a terminator being written:
  whatever the format, the formatter stays inside the array, but as soon as the text has 30
  characters the array is read past its end, and only a shorter text is returned as it is.
\<close>

theorem date_text_fills_buffer:
  assumes "valid_tm (localtime (tv_sec tval))" and "CHR 0x00 \<notin> set format"
  shows "\<exists>text. parseFormat kBuffSize (localtime (tv_sec tval))
             (to_size (tv_usec tval sdiv int (sp_offset ssPrec))) ssPrec format [] = Inr text \<and>
           length text \<le> 30 \<and>
           timevalToString localtime tval format ssPrec =
             (if length text < 30 then Inr text else Inl OutOfBoundsRead)"
proof -
  obtain r where r: "parseFormat kBuffSize (localtime (tv_sec tval))
      (to_size (tv_usec tval sdiv int (sp_offset ssPrec))) ssPrec format [] = Inr r" "CHR 0x00 \<notin> set r"
    using parseFormat_plain [OF assms] by (metis empty_iff empty_set)
  then have "length r \<le> 30" "takeWhile (\<lambda>c. c \<noteq> CHR 0x00) r = r"
    using parseFormat_within [OF r(1)] by (auto simp: kBuffSize_def takeWhile_eq_all_conv)
  with r show ?thesis
    by (auto simp: timevalToString_def c_array_string_def kBuffSize_def)
qed

definition example_tm :: tm where
  "example_tm = \<lparr>tm_sec = 9, tm_min = 5, tm_hour = 17, tm_mday = 3, tm_mon = 8, tm_year = 124,
     tm_wday = 2\<rparr>"

theorem date_text_fills_buffer_witness:
  "timevalToString (\<lambda>_. example_tm) \<lparr>tv_sec = 0, tv_usec = 678000\<rparr> kDefaultDateTimeFormat
       SubsecondPrecision = Inr ''2024-09-03 17:05:09,678'' \<and>
   timevalToString (\<lambda>_. example_tm) \<lparr>tv_sec = 0, tv_usec = 678000\<rparr> ''%A, %d %B %Y %H:%m:%s,%g''
       SubsecondPrecision = Inl OutOfBoundsRead"
proof -
  let ?t = "\<lparr>tv_sec = 0, tv_usec = 678000\<rparr>" and ?f = "''%A, %d %B %Y %H:%m:%s,%g''"
  have long: "parseFormat kBuffSize example_tm
      (to_size (678000 sdiv int (sp_offset SubsecondPrecision))) SubsecondPrecision ?f [] =
      Inr ''Tuesday, 03 September 2024 17:''"
    by code_simp
  have short: "parseFormat kBuffSize example_tm
      (to_size (678000 sdiv int (sp_offset SubsecondPrecision))) SubsecondPrecision
      kDefaultDateTimeFormat [] = Inr ''2024-09-03 17:05:09,678''"
    by code_simp
  have valid: "valid_tm example_tm" by (simp add: valid_tm_def example_tm_def)
  have plain: "CHR 0x00 \<notin> set kDefaultDateTimeFormat" by (simp add: kDefaultDateTimeFormat_def)
  show ?thesis
    using date_text_fills_buffer [of "\<lambda>_. example_tm" ?t kDefaultDateTimeFormat SubsecondPrecision]
      date_text_fills_buffer [of "\<lambda>_. example_tm" ?t ?f SubsecondPrecision] valid plain
    by (simp add: short long del: parseFormat.simps)
qed

end
