(* ===== verification/Elpp_Typed.thy ===== *)
theory Elpp_Typed imports Elpp_Config Elpp_Format Elpp_Time begin

text \<open>
  \<open>TypedConfigurations\<close> of the logging library: the configurations with their values parsed,
  one table per type, in which a level without an entry has the value of the global level;
  the files they name. Streams are shared by file name.
\<close>

section \<open>Computations that may not return\<close>

text \<open>\<open>None\<close> is a computation that does not return, \<open>Some (Inl e)\<close> one that goes wrong.\<close>

type_synonym 'a outcome = "'a result option"

definition obind :: "'a outcome \<Rightarrow> ('a \<Rightarrow> 'b outcome) \<Rightarrow> 'b outcome" where
  "obind r f = (case r of None \<Rightarrow> None | Some (Inl e) \<Rightarrow> Some (Inl e) | Some (Inr x) \<Rightarrow> f x)"

lemma obind_simps [simp]:
  "obind None f = None" "obind (Some (Inl e)) f = Some (Inl e)" "obind (Some (Inr x)) f = f x"
  by (simp_all add: obind_def)

section \<open>Tables by level\<close>

type_synonym 'v conf_map = "(level \<times> 'v) list"

text \<open>\<open>def_val\<close> is the value the default constructor of the type gives.\<close>

definition unsafeGetConfigByVal :: "'v \<Rightarrow> level \<Rightarrow> 'v conf_map \<Rightarrow> 'v" where
  "unsafeGetConfigByVal def_val level confMap =
     (case map_of confMap level of
        None \<Rightarrow> (case map_of confMap Level_Global of Some v \<Rightarrow> v | None \<Rightarrow> def_val)
      | Some v \<Rightarrow> v)"

text \<open>Without a value for the level or the global level, the end of the table is dereferenced.\<close>

definition unsafeGetConfigByRef :: "level \<Rightarrow> 'v conf_map \<Rightarrow> 'v result" where
  "unsafeGetConfigByRef level confMap =
     (case map_of confMap level of
        None \<Rightarrow> (case map_of confMap Level_Global of Some v \<Rightarrow> Inr v | None \<Rightarrow> Inl OutOfBoundsRead)
      | Some v \<Rightarrow> Inr v)"

definition getConfigByVal :: "'v \<Rightarrow> level \<Rightarrow> 'v conf_map \<Rightarrow> 'v" where
  "getConfigByVal def_val level confMap = unsafeGetConfigByVal def_val level confMap"

definition getConfigByRef :: "level \<Rightarrow> 'v conf_map \<Rightarrow> 'v result" where
  "getConfigByRef level confMap = unsafeGetConfigByRef level confMap"

fun map_assign :: "('v \<Rightarrow> 'v \<Rightarrow> 'v) \<Rightarrow> level \<Rightarrow> 'v \<Rightarrow> 'v conf_map \<Rightarrow> 'v conf_map" where
  "map_assign assign l v [] = []"
| "map_assign assign l v ((k, w) # m) =
     (if k = l then (k, assign w v) # m else (k, w) # map_assign assign l v m)"

text \<open>
  \<open>eq\<close> and \<open>assign\<close> are the operators of the type. The first value goes to the global level,
  whatever its own level is.
\<close>

definition setValue ::
  "('v \<Rightarrow> 'v \<Rightarrow> bool) \<Rightarrow> ('v \<Rightarrow> 'v \<Rightarrow> 'v) \<Rightarrow> level \<Rightarrow> 'v \<Rightarrow> bool \<Rightarrow> 'v conf_map \<Rightarrow> 'v conf_map" where
  "setValue eq assign level value includeGlobalLevel confMap =
     (if confMap = [] \<and> includeGlobalLevel then [(Level_Global, value)]
      else if (case map_of confMap Level_Global of Some v \<Rightarrow> eq v value | None \<Rightarrow> False) then confMap
      else if map_of confMap level = None then confMap @ [(level, value)]
      else map_assign assign level value confMap)"

abbreviation set_plain :: "level \<Rightarrow> 'v \<Rightarrow> 'v conf_map \<Rightarrow> 'v conf_map" where
  "set_plain level value \<equiv> setValue (=) (\<lambda>_ v. v) level value True"

section \<open>Values\<close>

definition getBool :: "string \<Rightarrow> bool" where
  "getBool boolStr =
     (let boolStr = trim boolStr in boolStr = ''TRUE'' \<or> boolStr = ''true'' \<or> boolStr = ''1'')"

text \<open>A number too large for \<open>long\<close> is undefined behaviour of \<open>atol\<close>.\<close>

definition getULong :: "string \<Rightarrow> nat result" where
  "getULong confVal =
     (let confVal = trim confVal;
          valid = (confVal \<noteq> [] \<and> find (\<lambda>c. \<not> isDigit c) confVal = None)
      in if \<not> valid then Inr 0
         else if read_nat confVal < 2 ^ 63 then Inr (read_nat confVal) else Inl SignedOverflow)"

section \<open>State\<close>

text \<open>A stream is the name of the file it is open on; a null stream is \<open>None\<close>.\<close>

type_synonym stream = "string option"

record typed_configurations =
  tc_enabledMap :: "bool conf_map"
  tc_toFileMap :: "bool conf_map"
  tc_filenameMap :: "string conf_map"
  tc_toStandardOutputMap :: "bool conf_map"
  tc_logFormatMap :: "log_format conf_map"
  tc_subsecondPrecisionMap :: "subsecond_precision conf_map"
  tc_performanceTrackingMap :: "bool conf_map"
  tc_fileStreamMap :: "stream conf_map"
  tc_maxLogFileSizeMap :: "nat conf_map"
  tc_logFlushThresholdMap :: "nat conf_map"

definition no_typed :: typed_configurations where
  "no_typed = \<lparr>tc_enabledMap = [], tc_toFileMap = [], tc_filenameMap = [],
     tc_toStandardOutputMap = [], tc_logFormatMap = [], tc_subsecondPrecisionMap = [],
     tc_performanceTrackingMap = [], tc_fileStreamMap = [], tc_maxLogFileSizeMap = [],
     tc_logFlushThresholdMap = []\<rparr>"

text \<open>
  The system the library runs on: environment, local time, files. Opening a file says whether
  it worked; truncating one makes its size 0. The streams the loggers share are part of the
  world, by file name.
\<close>

record 'f world =
  w_files :: 'f
  w_streams :: "(string \<times> stream) list"

record 'f system =
  sy_getenv :: "string \<Rightarrow> string option"
  sy_localtime :: "int \<Rightarrow> tm"
  sy_now :: "'f \<Rightarrow> timeval"
  sy_ops :: "'f file_ops"
  sy_open :: "string \<Rightarrow> 'f \<Rightarrow> bool \<times> 'f"
  sy_size :: "string \<Rightarrow> 'f \<Rightarrow> nat"
  sy_truncate :: "string \<Rightarrow> 'f \<Rightarrow> 'f"

section \<open>Reading\<close>

definition tc_enabled :: "level \<Rightarrow> typed_configurations \<Rightarrow> bool" where
  "tc_enabled level t = getConfigByVal False level (tc_enabledMap t)"

definition tc_toFile :: "level \<Rightarrow> typed_configurations \<Rightarrow> bool" where
  "tc_toFile level t = getConfigByVal False level (tc_toFileMap t)"

definition tc_filename :: "level \<Rightarrow> typed_configurations \<Rightarrow> string result" where
  "tc_filename level t = getConfigByRef level (tc_filenameMap t)"

definition tc_toStandardOutput :: "level \<Rightarrow> typed_configurations \<Rightarrow> bool" where
  "tc_toStandardOutput level t = getConfigByVal False level (tc_toStandardOutputMap t)"

definition tc_logFormat :: "level \<Rightarrow> typed_configurations \<Rightarrow> log_format result" where
  "tc_logFormat level t = getConfigByRef level (tc_logFormatMap t)"

definition tc_subsecondPrecision :: "level \<Rightarrow> typed_configurations \<Rightarrow> subsecond_precision result" where
  "tc_subsecondPrecision level t = getConfigByRef level (tc_subsecondPrecisionMap t)"

definition tc_millisecondsWidth :: "level \<Rightarrow> typed_configurations \<Rightarrow> subsecond_precision result" where
  "tc_millisecondsWidth level t = getConfigByRef level (tc_subsecondPrecisionMap t)"

definition tc_performanceTracking :: "level \<Rightarrow> typed_configurations \<Rightarrow> bool" where
  "tc_performanceTracking level t = getConfigByVal False level (tc_performanceTrackingMap t)"

definition tc_fileStream :: "level \<Rightarrow> typed_configurations \<Rightarrow> stream result" where
  "tc_fileStream level t = getConfigByRef level (tc_fileStreamMap t)"

definition tc_maxLogFileSize :: "level \<Rightarrow> typed_configurations \<Rightarrow> nat" where
  "tc_maxLogFileSize level t = getConfigByVal 0 level (tc_maxLogFileSizeMap t)"

definition tc_logFlushThreshold :: "level \<Rightarrow> typed_configurations \<Rightarrow> nat" where
  "tc_logFlushThreshold level t = getConfigByVal 0 level (tc_logFlushThresholdMap t)"

section \<open>Files\<close>

definition newFileStream :: "'f system \<Rightarrow> string \<Rightarrow> 'f \<Rightarrow> stream \<times> 'f" where
  "newFileStream sys filename fs =
     (let (is_open, fs) = sy_open sys filename fs in (if is_open then Some filename else None, fs))"

definition getSizeOfFile :: "'f system \<Rightarrow> stream \<Rightarrow> 'f \<Rightarrow> nat" where
  "getSizeOfFile sys s fs = (case s of None \<Rightarrow> 0 | Some n \<Rightarrow> sy_size sys n fs)"

text \<open>
  A date specifier in a file name is replaced by the current date, all occurrences by the same
  text. Replacing need not end if the date holds the specifier.
\<close>

definition resolveFilename :: "'f system \<Rightarrow> string \<Rightarrow> 'f \<Rightarrow> string outcome" where
  "resolveFilename sys filename fs =
     (case str_find filename kDateTimeFormatSpecifier 0 of
        None \<Rightarrow> Some (Inr filename)
      | Some dateIndex \<Rightarrow>
          obind (Some (date_index filename dateIndex)) (\<lambda>dateIndex.
            let start = dateIndex + length kDateTimeFormatSpecifier;
                ptr = drop start filename;
                (resultingFilename, fmt) =
                  (if c_head ptr = CHR ''{'' then
                     (let (ss, count) = braces (tl ptr) 1 in (str_erase start count filename, ss))
                   else (filename, kDefaultDateTimeFormatInFilename))
            in obind (Some (getDateTime (sy_localtime sys) (sy_now sys fs) fmt
                              (SubsecondPrecision_init 3))) (\<lambda>now.
                 map_option Inr
                   (replaceAll resultingFilename kDateTimeFormatSpecifier
                      (replaceAll_char now CHR ''/'' CHR ''-'')))))"

text \<open>\<open>create\<close> of \<open>insertFile\<close>: a stream for a level, a shared one if the name is in use.\<close>

definition map_insert :: "'k \<Rightarrow> 'v \<Rightarrow> ('k \<times> 'v) list \<Rightarrow> ('k \<times> 'v) list" where
  "map_insert k v m = (if map_of m k = None then m @ [(k, v)] else m)"

definition create_file ::
  "'f system \<Rightarrow> string \<Rightarrow> level \<Rightarrow> typed_configurations \<Rightarrow> 'f world \<Rightarrow> typed_configurations \<times> 'f world" where
  "create_file sys resolvedFilename level t w =
     (let (fs, t, w) =
        (case map_of (w_streams w) resolvedFilename of
           None \<Rightarrow>
             (let (fs, files) = newFileStream sys resolvedFilename (w_files w);
                  t = t\<lparr>tc_filenameMap := map_insert level resolvedFilename (tc_filenameMap t),
                        tc_fileStreamMap := map_insert level fs (tc_fileStreamMap t)\<rparr>;
                  shared = (case map_of (tc_fileStreamMap t) level of Some s \<Rightarrow> s | None \<Rightarrow> None)
              in (fs, t, w\<lparr>w_files := files,
                           w_streams := map_insert resolvedFilename shared (w_streams w)\<rparr>))
         | Some s \<Rightarrow>
             (s, t\<lparr>tc_filenameMap := map_insert level resolvedFilename (tc_filenameMap t),
                   tc_fileStreamMap := map_insert level s (tc_fileStreamMap t)\<rparr>, w))
      in (if fs = None then t\<lparr>tc_toFileMap := set_plain level False (tc_toFileMap t)\<rparr> else t, w))"

definition insertFile ::
  "'f system \<Rightarrow> level \<Rightarrow> string \<Rightarrow> typed_configurations \<Rightarrow> 'f world \<Rightarrow>
   (typed_configurations \<times> 'f world) outcome" where
  "insertFile sys level fullFilename t w =
     obind (resolveFilename sys fullFilename (w_files w)) (\<lambda>resolvedFilename.
       let filePath = extractPathFromFilename resolvedFilename kFilePathSeperator;
           w = (if length filePath < length resolvedFilename
                then w\<lparr>w_files := snd (createPath (sy_ops sys) filePath (w_files w))\<rparr> else w);
           level = (if tc_filenameMap t = [] \<and> tc_fileStreamMap t = [] then Level_Global else level)
       in Some (Inr (create_file sys resolvedFilename level t w)))"

text \<open>Whether there was nothing to do or the file was truncated; the callback is a function on the world.\<close>

definition unsafeValidateFileRolling ::
  "'f system \<Rightarrow> level \<Rightarrow> (string \<Rightarrow> nat \<Rightarrow> 'f \<Rightarrow> 'f) \<Rightarrow> typed_configurations \<Rightarrow> 'f world \<Rightarrow>
   (bool \<times> 'f world) result" where
  "unsafeValidateFileRolling sys level preRollOutCallback t w =
     rbind (unsafeGetConfigByRef level (tc_fileStreamMap t)) (\<lambda>fs.
       if fs = None then Inr (True, w)
       else
         (let maxLogFileSize = unsafeGetConfigByVal 0 level (tc_maxLogFileSizeMap t);
              currFileSize = getSizeOfFile sys fs (w_files w)
          in if maxLogFileSize \<noteq> 0 \<and> maxLogFileSize \<le> currFileSize then
               rbind (unsafeGetConfigByRef level (tc_filenameMap t)) (\<lambda>fname.
                 Inr (True, w\<lparr>w_files :=
                   sy_truncate sys fname (preRollOutCallback fname currFileSize (w_files w))\<rparr>))
             else Inr (False, w)))"

definition validateFileRolling ::
  "'f system \<Rightarrow> level \<Rightarrow> (string \<Rightarrow> nat \<Rightarrow> 'f \<Rightarrow> 'f) \<Rightarrow> typed_configurations \<Rightarrow> 'f world \<Rightarrow>
   (bool \<times> 'f world) result" where
  "validateFileRolling sys level cb t w = unsafeValidateFileRolling sys level cb t w"

section \<open>Building\<close>

text \<open>One configuration; the second component collects the levels with a limit on the file size.\<close>

definition build_one ::
  "'f system \<Rightarrow> configuration \<Rightarrow> typed_configurations \<times> level list \<Rightarrow>
   (typed_configurations \<times> level list) result" where
  "build_one sys conf = (\<lambda>(t, withFileSizeLimit).
     (let l = m_level conf; ty = m_configurationType conf; v = m_value conf in
      if ty = Config_Enabled then
        Inr (t\<lparr>tc_enabledMap := set_plain l (getBool v) (tc_enabledMap t)\<rparr>, withFileSizeLimit)
      else if ty = Config_ToFile then
        Inr (t\<lparr>tc_toFileMap := set_plain l (getBool v) (tc_toFileMap t)\<rparr>, withFileSizeLimit)
      else if ty = Config_ToStandardOutput then
        Inr (t\<lparr>tc_toStandardOutputMap := set_plain l (getBool v) (tc_toStandardOutputMap t)\<rparr>,
             withFileSizeLimit)
      else if ty = Config_Filename then Inr (t, withFileSizeLimit)
      else if ty = Config_Format then
        rbind (LogFormat (sy_getenv sys) l v) (\<lambda>f.
          Inr (t\<lparr>tc_logFormatMap := setValue LogFormat_eq LogFormat_assign l f True (tc_logFormatMap t)\<rparr>,
               withFileSizeLimit))
      else if ty = Config_SubsecondPrecision then
        rbind (getULong v) (\<lambda>n.
          Inr (t\<lparr>tc_subsecondPrecisionMap :=
                   setValue SubsecondPrecision_eq (\<lambda>_ p. p) Level_Global
                     (SubsecondPrecision_init (sint (of_nat n :: int32))) True (tc_subsecondPrecisionMap t)\<rparr>,
               withFileSizeLimit))
      else if ty = Config_PerformanceTracking then
        Inr (t\<lparr>tc_performanceTrackingMap :=
                 set_plain Level_Global (getBool v) (tc_performanceTrackingMap t)\<rparr>, withFileSizeLimit)
      else if ty = Config_MaxLogFileSize then
        rbind (getULong v) (\<lambda>n.
          Inr (t\<lparr>tc_maxLogFileSizeMap := set_plain l n (tc_maxLogFileSizeMap t)\<rparr>,
               if n \<noteq> 0 then withFileSizeLimit @ [l] else withFileSizeLimit))
      else if ty = Config_LogFlushThreshold then
        rbind (getULong v) (\<lambda>n.
          Inr (t\<lparr>tc_logFlushThresholdMap := set_plain l n (tc_logFlushThresholdMap t)\<rparr>,
               withFileSizeLimit))
      else Inr (t, withFileSizeLimit)))"

fun build_values ::
  "'f system \<Rightarrow> configuration list \<Rightarrow> typed_configurations \<times> level list \<Rightarrow>
   (typed_configurations \<times> level list) result" where
  "build_values sys [] s = Inr s"
| "build_values sys (conf # cs) s = rbind (build_one sys conf s) (build_values sys cs)"

fun build_files ::
  "'f system \<Rightarrow> configuration list \<Rightarrow> typed_configurations \<Rightarrow> 'f world \<Rightarrow>
   (typed_configurations \<times> 'f world) outcome" where
  "build_files sys [] t w = Some (Inr (t, w))"
| "build_files sys (conf # cs) t w =
     (if m_configurationType conf = Config_Filename then
        obind (insertFile sys (m_level conf) (m_value conf) t w) (\<lambda>(t, w). build_files sys cs t w)
      else build_files sys cs t w)"

fun build_rolling ::
  "'f system \<Rightarrow> level list \<Rightarrow> typed_configurations \<Rightarrow> 'f world \<Rightarrow> 'f world result" where
  "build_rolling sys [] t w = Inr w"
| "build_rolling sys (l # ls) t w =
     rbind (unsafeValidateFileRolling sys l (\<lambda>_ _ fs. fs) t w) (\<lambda>(_, w). build_rolling sys ls t w)"

definition tc_build ::
  "'f system \<Rightarrow> configurations \<Rightarrow> 'f world \<Rightarrow> (typed_configurations \<times> 'f world) outcome" where
  "tc_build sys configurations w =
     obind (Some (build_values sys (cf_list configurations) (no_typed, []))) (\<lambda>(t, withFileSizeLimit).
     obind (build_files sys (cf_list configurations) t w) (\<lambda>(t, w).
     obind (Some (build_rolling sys withFileSizeLimit t w)) (\<lambda>w. Some (Inr (t, w)))))"

definition TypedConfigurations ::
  "'f system \<Rightarrow> configurations \<Rightarrow> 'f world \<Rightarrow> (typed_configurations \<times> 'f world) outcome" where
  "TypedConfigurations sys configurations w = tc_build sys configurations w"

section \<open>Facts\<close>

subsection \<open>Tables\<close>

lemma map_of_assign:
  "map_of (map_assign (\<lambda>_ v. v) l v m) k = (if k = l \<and> map_of m l \<noteq> None then Some v else map_of m k)"
  by (induction m) auto

text \<open>What \<open>setValue\<close> does to a table that has a global value.\<close>

lemma map_of_set_plain:
  assumes "map_of m Level_Global = Some g"
  shows "map_of (set_plain l v m) k =
    (if g = v then map_of m k else if k = l then Some v else map_of m k)"
proof -
  have "m \<noteq> []" using assms by auto
  with assms show ?thesis
    by (cases "map_of m l") (auto simp: setValue_def map_of_assign map_add_def split: option.split)
qed

lemma getConfigByVal_global:
  "map_of m Level_Global = Some g \<Longrightarrow>
     unsafeGetConfigByVal d l m = (case map_of m l of Some v \<Rightarrow> v | None \<Rightarrow> g)"
  by (simp add: unsafeGetConfigByVal_def split: option.split)

lemma set_plain_global:
  "map_of m Level_Global = Some g \<Longrightarrow> l \<noteq> Level_Global \<Longrightarrow>
     map_of (set_plain l v m) Level_Global = Some g"
  by (simp add: map_of_set_plain)

text \<open>Values for other levels than the global one, each at most once, on top of a global value.\<close>

lemma fold_set_plain:
  "map_of m Level_Global = Some g \<Longrightarrow> Level_Global \<notin> fst ` set xs \<Longrightarrow> distinct (map fst xs) \<Longrightarrow>
     \<forall>l \<in> fst ` set xs. map_of m l = None \<Longrightarrow>
     unsafeGetConfigByVal d l (fold (\<lambda>(l, v). set_plain l v) xs m) =
       (case map_of xs l of Some v \<Rightarrow> v | None \<Rightarrow> unsafeGetConfigByVal d l m)"
proof (induction xs arbitrary: m)
  case (Cons x xs)
  obtain k v where x: "x = (k, v)" by (cases x)
  let ?m = "set_plain k v m"
  have m: "map_of ?m Level_Global = Some g" "\<forall>l \<in> fst ` set xs. map_of ?m l = None"
    using Cons.prems by (auto simp: x map_of_set_plain set_plain_global)
  have "map_of xs k = None" using Cons.prems(3) by (simp add: x map_of_eq_None_iff)
  with Cons.IH [OF m(1) _ _ m(2)] Cons.prems show ?case
    by (auto simp: x getConfigByVal_global [OF m(1)] getConfigByVal_global [OF Cons.prems(1)]
        map_of_set_plain split: option.splits)
qed simp

text \<open>A level without an entry follows the global value, whenever that is set.\<close>

lemma fold_set_plain_follow:
  "map_of m Level_Global = Some g \<Longrightarrow> map_of m k = None \<Longrightarrow> k \<notin> fst ` set xs \<Longrightarrow>
     distinct (map fst xs) \<Longrightarrow>
     unsafeGetConfigByVal d k (fold (\<lambda>(l, v). set_plain l v) xs m) =
       (case map_of xs Level_Global of Some v \<Rightarrow> v | None \<Rightarrow> g)"
proof (induction xs arbitrary: m g)
  case Nil
  then show ?case by (simp add: getConfigByVal_global)
next
  case (Cons x xs)
  obtain l v where x: "x = (l, v)" by (cases x)
  have k: "map_of (set_plain l v m) k = None" using Cons.prems by (auto simp: x map_of_set_plain)
  show ?case
  proof (cases "l = Level_Global")
    case True
    then have "map_of (set_plain l v m) Level_Global = Some v" "map_of xs Level_Global = None"
      using Cons.prems by (auto simp: x map_of_set_plain map_of_eq_None_iff)
    with Cons.IH [OF _ k] Cons.prems True show ?thesis by (simp add: x)
  next
    case False
    with Cons.IH [OF set_plain_global [OF Cons.prems(1) False] k] Cons.prems show ?thesis
      by (simp add: x)
  qed
qed

text \<open>All values of a type: the first one becomes the global one.\<close>

lemma first_becomes_global: "set_plain l v [] = [(Level_Global, v)]"
  by (simp add: setValue_def)

lemma fold_set_plain_all:
  assumes "distinct (map fst ((l0, v0) # xs))"
  shows "l0 = Level_Global \<Longrightarrow>
      unsafeGetConfigByVal d l (fold (\<lambda>(l, v). set_plain l v) ((l0, v0) # xs) []) =
        (case map_of ((l0, v0) # xs) l of Some v \<Rightarrow> v | None \<Rightarrow> v0)"
    and "l0 \<noteq> Level_Global \<Longrightarrow>
      unsafeGetConfigByVal d l0 (fold (\<lambda>(l, v). set_plain l v) ((l0, v0) # xs) []) =
        (case map_of ((l0, v0) # xs) Level_Global of Some g \<Rightarrow> g | None \<Rightarrow> v0)"
proof -
  let ?m = "[(Level_Global, v0)]"
  show "unsafeGetConfigByVal d l (fold (\<lambda>(l, v). set_plain l v) ((l0, v0) # xs) []) =
        (case map_of ((l0, v0) # xs) l of Some v \<Rightarrow> v | None \<Rightarrow> v0)" if "l0 = Level_Global"
  proof -
    have g: "Level_Global \<notin> fst ` set xs" "distinct (map fst xs)" using assms that by simp_all
    have "map_of ?m k = None" if "k \<in> fst ` set xs" for k
      using that g(1) by (cases "k = Level_Global") simp_all
    then have r: "unsafeGetConfigByVal d l (fold (\<lambda>(l, v). set_plain l v) xs ?m) =
        (case map_of xs l of Some v \<Rightarrow> v | None \<Rightarrow> unsafeGetConfigByVal d l ?m)"
      using g by (intro fold_set_plain [of ?m v0]) simp_all
    have "map_of xs Level_Global = None" using g(1) by (simp only: map_of_eq_None_iff not_False_eq_True)
    with r that show ?thesis
      by (cases "l = Level_Global"; cases "map_of xs l")
         (simp_all add: first_becomes_global unsafeGetConfigByVal_def)
  qed
  show "unsafeGetConfigByVal d l0 (fold (\<lambda>(l, v). set_plain l v) ((l0, v0) # xs) []) =
        (case map_of ((l0, v0) # xs) Level_Global of Some g \<Rightarrow> g | None \<Rightarrow> v0)" if "l0 \<noteq> Level_Global"
  proof -
    have "map_of ?m l0 = None" "l0 \<notin> fst ` set xs" "distinct (map fst xs)" using assms that by auto
    with fold_set_plain_follow [of ?m v0 l0 xs d] that show ?thesis
      by (auto simp: first_becomes_global split: option.splits)
  qed
qed

subsection \<open>Building\<close>

definition enabled_values :: "configuration list \<Rightarrow> (level \<times> bool) list" where
  "enabled_values cs =
     map (\<lambda>c. (m_level c, getBool (m_value c))) (filter (\<lambda>c. m_configurationType c = Config_Enabled) cs)"

lemma build_one_enabled:
  "build_one sys c (t, ls) = Inr (t', ls') \<Longrightarrow>
     tc_enabledMap t' = (if m_configurationType c = Config_Enabled
       then set_plain (m_level c) (getBool (m_value c)) (tc_enabledMap t) else tc_enabledMap t)"
  by (auto simp: build_one_def Let_def rbind_eq_Inr split: if_splits)

lemma build_values_enabled:
  "build_values sys cs (t, ls) = Inr (t', ls') \<Longrightarrow>
     tc_enabledMap t' = fold (\<lambda>(l, v). set_plain l v) (enabled_values cs) (tc_enabledMap t)"
proof (induction cs arbitrary: t ls)
  case (Cons c cs)
  then obtain u us where "build_one sys c (t, ls) = Inr (u, us)" "build_values sys cs (u, us) = Inr (t', ls')"
    by (auto simp: rbind_eq_Inr)
  with Cons.IH [of u us] build_one_enabled [of sys c t ls u us] show ?case
    by (simp add: enabled_values_def)
qed (simp add: enabled_values_def)

lemma create_file_enabled: "create_file sys n l t w = (t', w') \<Longrightarrow> tc_enabledMap t' = tc_enabledMap t"
  by (auto simp: create_file_def Let_def split: option.splits prod.splits if_splits)

lemma insertFile_enabled:
  "insertFile sys l n t w = Some (Inr (t', w')) \<Longrightarrow> tc_enabledMap t' = tc_enabledMap t"
  by (auto simp: insertFile_def Let_def obind_def split: option.splits sum.splits
      dest: create_file_enabled)

lemma build_files_enabled:
  "build_files sys cs t w = Some (Inr (t', w')) \<Longrightarrow> tc_enabledMap t' = tc_enabledMap t"
proof (induction cs arbitrary: t w)
  case (Cons c cs)
  then show ?case
    by (auto simp: obind_def split: if_splits option.splits sum.splits dest: insertFile_enabled)
qed simp

lemma build_enabled:
  "tc_build sys c w = Some (Inr (t, w')) \<Longrightarrow>
     tc_enabledMap t = fold (\<lambda>(l, v). set_plain l v) (enabled_values (cf_list c)) []"
  by (auto simp: tc_build_def obind_def no_typed_def split: option.splits sum.splits prod.splits
      dest!: build_values_enabled build_files_enabled)

lemma map_of_enabled_values:
  "map_of (enabled_values cs) l =
     map_option getBool (map_option m_value (find (Configuration_Predicate l Config_Enabled) cs))"
  by (induction cs) (auto simp: enabled_values_def Configuration_Predicate_def)

lemma distinct_enabled_values: "unique_keys c \<Longrightarrow> distinct (map fst (enabled_values (cf_list c)))"
  unfolding enabled_values_def unique_keys_def
  by (induction "cf_list c" arbitrary: c) (auto simp: inj_on_def distinct_map)

section \<open>Properties\<close>

text \<open>
  Whether a level is enabled is what its configuration says, and what the global one says
  where it has none, provided that the first configuration of that type is the global one.
  Where another level comes first, its own value is lost: it is put in the place of the global
  value, and overwritten when that is reached.
\<close>

theorem first_level_loses_value:
  assumes "tc_build sys c w = Some (Inr (t, w'))" and "unique_keys c"
    and "filter (\<lambda>x. m_configurationType x = Config_Enabled) (cf_list c) = c0 # cs"
  shows "if m_level c0 = Level_Global
    then tc_enabled l t = getBool (case cf_value l Config_Enabled c of Some v \<Rightarrow> v | None \<Rightarrow> m_value c0)
    else tc_enabled (m_level c0) t =
      getBool (case cf_value Level_Global Config_Enabled c of Some g \<Rightarrow> g | None \<Rightarrow> m_value c0)"
proof -
  obtain xs where xs: "enabled_values (cf_list c) = (m_level c0, getBool (m_value c0)) # xs"
    using assms(3) by (simp add: enabled_values_def)
  have d: "distinct (map fst ((m_level c0, getBool (m_value c0)) # xs))"
    using distinct_enabled_values [OF assms(2)] xs by simp
  have v: "map_of ((m_level c0, getBool (m_value c0)) # xs) k = map_option getBool (cf_value k Config_Enabled c)"
    for k
    using map_of_enabled_values [of "cf_list c" k] by (simp add: xs cf_value_def cf_get_def)
  show ?thesis
    using fold_set_plain_all(1) [OF d, of False l] fold_set_plain_all(2) [OF d, of False]
    unfolding tc_enabled_def getConfigByVal_def build_enabled [OF assms(1)] xs v
    by (auto split: option.split)
qed

definition example_system :: "unit system" where
  "example_system = \<lparr>sy_getenv = (\<lambda>_. None), sy_localtime = (\<lambda>_. example_tm),
     sy_now = (\<lambda>_. \<lparr>tv_sec = 0, tv_usec = 0\<rparr>),
     sy_ops = \<lparr>fo_exists = (\<lambda>_ _. True), fo_mkdir = (\<lambda>_ fs. (False, fs))\<rparr>,
     sy_open = (\<lambda>_ fs. (True, fs)), sy_size = (\<lambda>_ _. 0), sy_truncate = (\<lambda>_ fs. fs)\<rparr>"

definition example_configurations :: configurations where
  "example_configurations =
     cf_set Level_Info Config_Enabled ''false''
       (cf_set Level_Global Config_Enabled ''true''
         (cf_set Level_Info Config_Enabled ''true'' Configurations))"

theorem first_level_loses_value_witness:
  "\<exists>t w'. tc_build example_system example_configurations \<lparr>w_files = (), w_streams = []\<rparr> = Some (Inr (t, w')) \<and>
     cf_value Level_Info Config_Enabled example_configurations = Some ''false'' \<and>
     tc_enabled Level_Info t"
proof -
  have cs: "cf_list example_configurations =
      map (\<lambda>(l, v). Configuration l Config_Enabled v)
        [(Level_Info, ''false''), (Level_Global, ''true''), (Level_Trace, ''true''),
         (Level_Debug, ''true''), (Level_Fatal, ''true''), (Level_Error, ''true''),
         (Level_Warning, ''true''), (Level_Verbose, ''true'')]"
    unfolding example_configurations_def cf_set_fold by code_simp
  have "\<exists>t. tc_build example_system example_configurations \<lparr>w_files = (), w_streams = []\<rparr> =
      Some (Inr (t, \<lparr>w_files = (), w_streams = []\<rparr>))"
    by (simp add: tc_build_def cs build_one_def Configuration_def Let_def)
  then obtain t where t: "tc_build example_system example_configurations \<lparr>w_files = (), w_streams = []\<rparr> =
      Some (Inr (t, \<lparr>w_files = (), w_streams = []\<rparr>))" by blast
  have v: "cf_value Level_Info Config_Enabled example_configurations = Some ''false''"
    "cf_value Level_Global Config_Enabled example_configurations = Some ''true''"
    by (simp_all add: example_configurations_def cf_value_cf_set proper_levels_def)
  have u: "unique_keys example_configurations"
    unfolding example_configurations_def
    by (intro unique_cf_set) (simp add: unique_keys_def Configurations_def)
  have "getBool ''true''" by code_simp
  with first_level_loses_value [OF t u, of "Configuration Level_Info Config_Enabled ''false''"] v
  have "tc_enabled Level_Info t" by (simp add: cs) (simp add: Configuration_def)
  with t v(1) show ?thesis by blast
qed

end
