(* ===== verification/Elpp_Hits.thy ===== *)
theory Elpp_Hits imports Elpp_Types begin

text \<open>
  Hit counters of the logging library (\<open>HitCounter\<close>, \<open>RegisteredHitCounters\<close>): one counter per
  place in the source, and the three tests of occasional logging. The counts are words of 64
  bits (\<open>std::size_t\<close>), so that a counter nobody resets starts over after \<open>2 ^ 64\<close> hits.
\<close>

section \<open>\<open>HitCounter\<close>\<close>

record hit_counter =
  hc_filename :: string
  hc_lineNumber :: nat
  hc_hitCounts :: uint64

definition HitCounter_default :: hit_counter where
  "HitCounter_default = \<lparr>hc_filename = [], hc_lineNumber = 0, hc_hitCounts = 0\<rparr>"

definition HitCounter :: "string \<Rightarrow> nat \<Rightarrow> hit_counter" where
  "HitCounter filename lineNumber =
     \<lparr>hc_filename = filename, hc_lineNumber = lineNumber, hc_hitCounts = 0\<rparr>"

definition HitCounter_copy :: "hit_counter \<Rightarrow> hit_counter" where
  "HitCounter_copy hitCounter =
     \<lparr>hc_filename = hc_filename hitCounter, hc_lineNumber = hc_lineNumber hitCounter,
      hc_hitCounts = hc_hitCounts hitCounter\<rparr>"

definition HitCounter_assign :: "hit_counter \<Rightarrow> hit_counter \<Rightarrow> hit_counter" where
  "HitCounter_assign this hitCounter =
     this\<lparr>hc_filename := hc_filename hitCounter, hc_lineNumber := hc_lineNumber hitCounter,
          hc_hitCounts := hc_hitCounts hitCounter\<rparr>"

definition resetLocation :: "string \<Rightarrow> nat \<Rightarrow> hit_counter \<Rightarrow> hit_counter" where
  "resetLocation filename lineNumber c = c\<lparr>hc_filename := filename, hc_lineNumber := lineNumber\<rparr>"

text \<open>The counter is kept below a bound; past it, it goes on from the remainder.\<close>

definition validateHitCounts :: "uint64 \<Rightarrow> hit_counter \<Rightarrow> hit_counter" where
  "validateHitCounts n c =
     (let c = (if ucast kMaxLogPerCounter \<le> hc_hitCounts c
               then c\<lparr>hc_hitCounts := if 1 \<le> n then ucast kMaxLogPerCounter mod n else 0\<rparr> else c)
      in c\<lparr>hc_hitCounts := hc_hitCounts c + 1\<rparr>)"

definition increment :: "hit_counter \<Rightarrow> hit_counter" where
  "increment c = c\<lparr>hc_hitCounts := hc_hitCounts c + 1\<rparr>"

definition HitCounter_Predicate :: "string \<Rightarrow> nat \<Rightarrow> hit_counter \<Rightarrow> bool" where
  "HitCounter_Predicate filename lineNumber counter \<longleftrightarrow>
     hc_filename counter = filename \<and> hc_lineNumber counter = lineNumber"

section \<open>\<open>RegisteredHitCounters\<close>\<close>

text \<open>The counters in the order they were registered; none of the pointers is null.\<close>

definition getCounter :: "string \<Rightarrow> nat \<Rightarrow> hit_counter list \<Rightarrow> hit_counter option" where
  "getCounter filename lineNumber cs = find (HitCounter_Predicate filename lineNumber) cs"

text \<open>The counter of a place, registered if it is new, is changed by \<open>f\<close>.\<close>

fun update_counter :: "string \<Rightarrow> nat \<Rightarrow> (hit_counter \<Rightarrow> hit_counter) \<Rightarrow> hit_counter list \<Rightarrow> hit_counter list" where
  "update_counter filename lineNumber f [] = []"
| "update_counter filename lineNumber f (c # cs) =
     (if HitCounter_Predicate filename lineNumber c then f c # cs
      else c # update_counter filename lineNumber f cs)"

definition counter_of :: "string \<Rightarrow> nat \<Rightarrow> hit_counter list \<Rightarrow> hit_counter \<times> hit_counter list" where
  "counter_of filename lineNumber cs =
     (case getCounter filename lineNumber cs of
        None \<Rightarrow> (HitCounter filename lineNumber, cs @ [HitCounter filename lineNumber])
      | Some counter \<Rightarrow> (counter, cs))"

definition validateEveryN :: "string \<Rightarrow> nat \<Rightarrow> uint64 \<Rightarrow> hit_counter list \<Rightarrow> bool \<times> hit_counter list" where
  "validateEveryN filename lineNumber n cs =
     (let (counter, cs) = counter_of filename lineNumber cs;
          counter = validateHitCounts n counter;
          cs = update_counter filename lineNumber (validateHitCounts n) cs
      in (1 \<le> n \<and> hc_hitCounts counter \<noteq> 0 \<and> hc_hitCounts counter mod n = 0, cs))"

definition validateAfterN :: "string \<Rightarrow> nat \<Rightarrow> uint64 \<Rightarrow> hit_counter list \<Rightarrow> bool \<times> hit_counter list" where
  "validateAfterN filename lineNumber n cs =
     (let (counter, cs) = counter_of filename lineNumber cs
      in if n \<le> hc_hitCounts counter then (True, cs)
         else (False, update_counter filename lineNumber increment cs))"

definition validateNTimes :: "string \<Rightarrow> nat \<Rightarrow> uint64 \<Rightarrow> hit_counter list \<Rightarrow> bool \<times> hit_counter list" where
  "validateNTimes filename lineNumber n cs =
     (let (counter, cs) = counter_of filename lineNumber cs;
          counter = increment counter;
          cs = update_counter filename lineNumber increment cs
      in (hc_hitCounts counter \<le> n, cs))"

section \<open>Facts\<close>

lemma Predicate_unique_place:
  "HitCounter_Predicate f l c \<Longrightarrow> HitCounter_Predicate f' l' c \<longleftrightarrow> f' = f \<and> l' = l"
  by (auto simp: HitCounter_Predicate_def)

lemma Predicate_changes [simp]:
  "HitCounter_Predicate f l (validateHitCounts n c) = HitCounter_Predicate f l c"
  "HitCounter_Predicate f l (increment c) = HitCounter_Predicate f l c"
  "HitCounter_Predicate f l (HitCounter f' l') \<longleftrightarrow> f = f' \<and> l = l'"
  by (auto simp: HitCounter_Predicate_def validateHitCounts_def increment_def HitCounter_def Let_def)

text \<open>The number of hits of a place, 0 if it has no counter.\<close>

definition hits :: "string \<Rightarrow> nat \<Rightarrow> hit_counter list \<Rightarrow> uint64" where
  "hits f l cs = (case getCounter f l cs of None \<Rightarrow> 0 | Some c \<Rightarrow> hc_hitCounts c)"

lemma counter_of_hits: "hc_hitCounts (fst (counter_of f l cs)) = hits f l cs"
  by (simp add: counter_of_def hits_def HitCounter_def split: option.split)

lemma find_update:
  assumes "\<And>c. HitCounter_Predicate f l (g c) = HitCounter_Predicate f l c"
    and "\<And>c f' l'. HitCounter_Predicate f l c \<Longrightarrow> HitCounter_Predicate f' l' (g c) \<longleftrightarrow> f' = f \<and> l' = l"
  shows "find (HitCounter_Predicate f' l') (update_counter f l g cs) =
    (if f' = f \<and> l' = l then map_option g (find (HitCounter_Predicate f l) cs)
     else find (HitCounter_Predicate f' l') cs)"
proof (induction cs)
  case (Cons c cs)
  then show ?case
    by (cases "HitCounter_Predicate f l c"; cases "f' = f \<and> l' = l")
       (auto simp: assms(2) Predicate_unique_place)
qed simp

lemma counter_of_found:
  "getCounter f l (snd (counter_of f l cs)) = Some (fst (counter_of f l cs))"
proof -
  have "find (HitCounter_Predicate f l) (cs @ [HitCounter f l]) = Some (HitCounter f l)"
    if "find (HitCounter_Predicate f l) cs = None"
    using that by (induction cs) (auto split: if_splits)
  then show ?thesis by (auto simp: counter_of_def getCounter_def split: option.split)
qed

lemma counter_of_other:
  "f' \<noteq> f \<or> l' \<noteq> l \<Longrightarrow> getCounter f' l' (snd (counter_of f l cs)) = getCounter f' l' cs"
proof -
  assume o: "f' \<noteq> f \<or> l' \<noteq> l"
  have "find (HitCounter_Predicate f' l') (cs @ [HitCounter f l]) = find (HitCounter_Predicate f' l') cs"
    using o by (induction cs) auto
  then show ?thesis by (auto simp: counter_of_def getCounter_def split: option.split)
qed

lemma hits_update:
  assumes "g = validateHitCounts n \<or> g = increment"
  shows "hits f' l' (update_counter f l g (snd (counter_of f l cs))) =
    (if f' = f \<and> l' = l then hc_hitCounts (g (fst (counter_of f l cs))) else hits f' l' cs)"
proof -
  have g: "HitCounter_Predicate f'' l'' (g c) = HitCounter_Predicate f'' l'' c" for f'' l'' c
    using assms by auto
  have "find (HitCounter_Predicate f' l') (update_counter f l g (snd (counter_of f l cs))) =
      (if f' = f \<and> l' = l then map_option g (getCounter f l (snd (counter_of f l cs)))
       else getCounter f' l' (snd (counter_of f l cs)))"
    unfolding getCounter_def
    by (rule find_update) (simp_all add: g Predicate_unique_place)
  then show ?thesis
    by (auto simp: hits_def counter_of_found counter_of_other getCounter_def [of f' l' "update_counter f l g _"])
qed

lemmas hits_updates = hits_update [OF disjI1 [OF refl]] hits_update [OF disjI2 [OF refl]]

text \<open>The hits of a place after a test: below the bound one more, at the bound a fresh start.\<close>

definition next_hits :: "uint64 \<Rightarrow> uint64 \<Rightarrow> uint64" where
  "next_hits n k =
     (if ucast kMaxLogPerCounter \<le> k then (if 1 \<le> n then ucast kMaxLogPerCounter mod n else 0) else k) + 1"

lemma unat_kMax: "unat (ucast kMaxLogPerCounter :: uint64) = unat kMaxLogPerCounter"
  "unat kMaxLogPerCounter = 100000"
  by (simp_all add: kMaxLogPerCounter_def)

lemma unat_one_le: "1 \<le> (n :: uint64) \<longleftrightarrow> 1 \<le> unat n"
  by (simp add: word_le_nat_alt)

lemma unat_next: "unat (k :: uint64) < 2 ^ 64 - 1 \<Longrightarrow> unat (k + 1) = Suc (unat k)"
  by (subst unat_add_lem [THEN iffD1]) simp_all

text \<open>No counter of the tests for every n-th time wraps: it starts afresh long before.\<close>

lemma unat_next_hits:
  "unat (next_hits n k) =
     Suc (if unat kMaxLogPerCounter \<le> unat k
          then (if 1 \<le> unat n then unat kMaxLogPerCounter mod unat n else 0) else unat k)"
proof -
  let ?k = "if ucast kMaxLogPerCounter \<le> k then (if 1 \<le> n then ucast kMaxLogPerCounter mod n else 0) else k"
  have eq: "unat ?k = (if unat kMaxLogPerCounter \<le> unat k
      then (if 1 \<le> unat n then unat kMaxLogPerCounter mod unat n else 0) else unat k)"
    by (simp add: word_le_nat_alt unat_mod unat_kMax(1))
  have "unat kMaxLogPerCounter mod unat n \<le> unat kMaxLogPerCounter" by (rule mod_less_eq_dividend)
  then have "unat ?k \<le> 100000" unfolding eq by (simp add: unat_kMax(2))
  then have "unat ?k < 2 ^ 64 - 1" by (rule le_less_trans) simp
  from unat_next [OF this] show ?thesis by (simp only: next_hits_def eq)
qed

lemma mod_0_unat: "(k :: uint64) mod n = 0 \<longleftrightarrow> unat k mod unat n = 0"
  by (metis unat_eq_zero unat_mod)

lemma validateHitCounts_hits: "hc_hitCounts (validateHitCounts n c) = next_hits n (hc_hitCounts c)"
  by (simp add: validateHitCounts_def next_hits_def Let_def)

lemma next_hits_neq_0: "next_hits n k \<noteq> 0"
proof
  assume "next_hits n k = 0"
  then have "unat (next_hits n k) = 0" by simp
  then show False by (simp add: unat_next_hits)
qed

lemma validateEveryN_eq:
  "fst (validateEveryN f l n cs) \<longleftrightarrow>
     1 \<le> n \<and> next_hits n (hits f l cs) mod n = 0"
  "hits f' l' (snd (validateEveryN f l n cs)) =
     (if f' = f \<and> l' = l then next_hits n (hits f l cs) else hits f' l' cs)"
  by (auto simp: validateEveryN_def Let_def case_prod_beta hits_updates validateHitCounts_hits
      counter_of_hits next_hits_neq_0)

lemma validateAfterN_eq:
  "fst (validateAfterN f l n cs) \<longleftrightarrow> n \<le> hits f l cs"
  "hits f' l' (snd (validateAfterN f l n cs)) =
     (if f' = f \<and> l' = l \<and> hits f l cs < n then hits f l cs + 1 else hits f' l' cs)"
proof -
  show "fst (validateAfterN f l n cs) \<longleftrightarrow> n \<le> hits f l cs"
    by (simp add: validateAfterN_def case_prod_beta counter_of_hits)
  have same: "hits f' l' (snd (counter_of f l cs)) = hits f' l' cs"
    using counter_of_found [of f l cs] counter_of_other [of f' f l' l cs] counter_of_hits [of f l cs]
    by (cases "f' = f \<and> l' = l") (auto simp: hits_def [of f' l' "snd _"] hits_def [of f' l' cs] hits_def [of f l])
  show "hits f' l' (snd (validateAfterN f l n cs)) =
     (if f' = f \<and> l' = l \<and> hits f l cs < n then hits f l cs + 1 else hits f' l' cs)"
    by (auto simp: validateAfterN_def case_prod_beta hits_updates counter_of_hits increment_def same)
qed

lemma validateNTimes_eq:
  "fst (validateNTimes f l n cs) \<longleftrightarrow> hits f l cs + 1 \<le> n"
  "hits f' l' (snd (validateNTimes f l n cs)) =
     (if f' = f \<and> l' = l then hits f l cs + 1 else hits f' l' cs)"
  by (auto simp: validateNTimes_def Let_def case_prod_beta hits_updates counter_of_hits increment_def)

text \<open>
  A counter is bounded, and it counts the calls modulo \<open>n\<close>: the fresh start at the bound keeps
  the remainder.
\<close>

fun run_every :: "string \<Rightarrow> nat \<Rightarrow> uint64 \<Rightarrow> nat \<Rightarrow> hit_counter list \<Rightarrow> bool list \<times> hit_counter list" where
  "run_every f l n 0 cs = ([], cs)"
| "run_every f l n (Suc k) cs =
     (let (bs, cs) = run_every f l n k cs; (b, cs) = validateEveryN f l n cs in (bs @ [b], cs))"

lemma next_hits_mod:
  "1 \<le> n \<Longrightarrow> unat k \<le> unat kMaxLogPerCounter \<Longrightarrow> unat (next_hits n k) mod unat n = Suc (unat k) mod unat n"
  by (auto simp: unat_next_hits unat_one_le) (metis le_antisym mod_Suc_eq)

lemma run_every_hits:
  "1 \<le> n \<Longrightarrow> hits f l cs = 0 \<Longrightarrow> n \<le> ucast kMaxLogPerCounter \<Longrightarrow>
     unat (hits f l (snd (run_every f l n k cs))) mod unat n = k mod unat n \<and>
     unat (hits f l (snd (run_every f l n k cs))) \<le> unat kMaxLogPerCounter"
proof (induction k)
  case (Suc k)
  let ?h = "hits f l (snd (run_every f l n k cs))"
  from Suc have IH: "unat ?h mod unat n = k mod unat n" "unat ?h \<le> unat kMaxLogPerCounter" by auto
  have n: "1 \<le> unat n" "unat n \<le> unat kMaxLogPerCounter"
    using Suc.prems(1,3) by (simp_all add: unat_one_le word_le_nat_alt unat_kMax(1))
  then have "unat kMaxLogPerCounter mod unat n < unat n" by simp
  with n(2) have "Suc (unat kMaxLogPerCounter mod unat n) \<le> unat kMaxLogPerCounter" by linarith
  then have "unat (next_hits n ?h) \<le> unat kMaxLogPerCounter"
    unfolding unat_next_hits using IH(2) n(1) by (simp split: if_split) arith
  moreover have "unat (next_hits n ?h) mod unat n = Suc k mod unat n"
    using next_hits_mod [OF Suc.prems(1) IH(2)] IH(1) by (metis mod_Suc_eq)
  ultimately show ?case by (simp add: case_prod_beta Let_def validateEveryN_eq)
qed simp

lemma fst_run_every:
  "1 \<le> n \<Longrightarrow> hits f l cs = 0 \<Longrightarrow> n \<le> ucast kMaxLogPerCounter \<Longrightarrow>
     fst (run_every f l n k cs) = map (\<lambda>i. Suc i mod unat n = 0) [0 ..< k]"
proof (induction k)
  case (Suc k)
  note h = run_every_hits [OF Suc.prems, of k]
  then have "unat (next_hits n (hits f l (snd (run_every f l n k cs)))) mod unat n = Suc k mod unat n"
    using next_hits_mod [OF Suc.prems(1)] by (metis mod_Suc_eq)
  with Suc show ?case by (simp add: case_prod_beta Let_def validateEveryN_eq mod_0_unat)
qed simp

section \<open>Properties\<close>

text \<open>
  Logging every n-th time logs exactly the n-th, 2n-th, 3n-th ... call at a place, over any
  number of calls: the start over at the bound of the counter does not disturb the rhythm, the
  counter stays within its bound, and the counters of other places are not touched.
\<close>

theorem every_nth_call_fires:
  assumes "1 \<le> n" and "n \<le> ucast kMaxLogPerCounter" and "hits f l cs = 0"
  shows "fst (run_every f l n k cs) = map (\<lambda>i. Suc i mod unat n = 0) [0 ..< k] \<and>
    hits f l (snd (run_every f l n k cs)) \<le> ucast kMaxLogPerCounter \<and>
    (\<forall>f' l'. \<not> (f' = f \<and> l' = l) \<longrightarrow> hits f' l' (snd (run_every f l n k cs)) = hits f' l' cs)"
proof (intro conjI allI impI)
  fix f' l' assume "\<not> (f' = f \<and> l' = l)"
  then show "hits f' l' (snd (run_every f l n k cs)) = hits f' l' cs"
    by (induction k) (auto simp: case_prod_beta Let_def validateEveryN_eq)
qed (use assms fst_run_every run_every_hits in \<open>auto simp: word_le_nat_alt unat_kMax(1)\<close>)

theorem every_nth_call_fires_witness:
  "fst (run_every ''main.cpp'' 7 3 7 []) = [False, False, True, False, False, True, False]"
  using every_nth_call_fires [of 3 "''main.cpp''" 7 "[]" 7]
  by (simp add: kMaxLogPerCounter_def hits_def getCounter_def upt_rec)

end
