(* ===== verification/Elpp_Verbose.thy ===== *)
theory Elpp_Verbose imports Elpp_Types begin

text \<open>
  Verbose logging (\<open>VRegistry\<close>): the verbose level, the levels of single modules, given as a
  text like \<open>main=3,parser*=9\<close>, and the test whether a file may log at a level. The table of
  modules is a list of its entries; in which order an unordered map is gone through is an
  argument of the test, a rearrangement of that list.
\<close>

section \<open>State\<close>

text \<open>The flags belong to the storage and are an argument.\<close>

record v_registry =
  vr_level :: nat
  vr_modules :: "(string \<times> nat) list"

definition VRegistry :: "nat \<Rightarrow> v_registry" where
  "VRegistry level = \<lparr>vr_level = level, vr_modules = []\<rparr>"

definition vr_setLevel :: "nat \<Rightarrow> v_registry \<Rightarrow> v_registry" where
  "vr_setLevel level v = v\<lparr>vr_level := if 9 < level then kMaxVerboseLevel else level\<rparr>"

definition vr_clearModules :: "v_registry \<Rightarrow> v_registry" where
  "vr_clearModules v = v\<lparr>vr_modules := []\<rparr>"

definition vModulesEnabled :: "uint32 \<Rightarrow> bool" where
  "vModulesEnabled flags \<longleftrightarrow> \<not> hasFlag (flag_value DisableVModules) flags"

section \<open>Modules\<close>

text \<open>A suffix in place of the one before it, and never twice.\<close>

definition drop_suffix :: "string \<Rightarrow> string \<Rightarrow> string" where
  "drop_suffix s sfx = (if endsWith s sfx then substr s 0 (length s - length sfx) else s)"

definition addSuffix :: "string \<Rightarrow> string option \<Rightarrow> string \<Rightarrow> string" where
  "addSuffix sfx prev ss =
     (let ss = (case prev of None \<Rightarrow> ss | Some p \<Rightarrow> drop_suffix ss p)
      in drop_suffix ss sfx @ sfx)"

definition module_insert :: "string \<Rightarrow> nat \<Rightarrow> (string \<times> nat) list \<Rightarrow> (string \<times> nat) list" where
  "module_insert k level m = (if map_of m k = None then m @ [(k, level)] else m)"

definition module_suffixes :: "(string \<times> string option) list" where
  "module_suffixes = [(''.h'', None), (''.c'', Some ''.h''), (''.cpp'', Some ''.c''),
     (''.cc'', Some ''.cpp''), (''.cxx'', Some ''.cc''), (''.-inl.h'', Some ''.cxx''),
     (''.hxx'', Some ''.-inl.h''), (''.hpp'', Some ''.hxx'')]"

text \<open>The lambda \<open>insert\<close>: the name with each suffix, or the bare name.\<close>

definition insert_module :: "uint32 \<Rightarrow> string \<Rightarrow> nat \<Rightarrow> (string \<times> nat) list \<Rightarrow> (string \<times> nat) list" where
  "insert_module flags ss level m =
     (if \<not> hasFlag (flag_value DisableVModulesExtensions) flags then
        (let (ss, m) = fold (\<lambda>(sfx, prev) (ss, m).
               let ss = addSuffix sfx prev ss in (ss, module_insert ss level m)) module_suffixes (ss, m);
             ss = addSuffix ''.hh'' (Some ''.hpp'') ss
         in module_insert ss level m)
      else module_insert ss level m)"

text \<open>The loop over the text: what it is in, the name so far, the level (\<open>None\<close> for -1).\<close>

fun modules_loop ::
  "uint32 \<Rightarrow> string \<Rightarrow> bool \<Rightarrow> bool \<Rightarrow> string \<Rightarrow> nat option \<Rightarrow> (string \<times> nat) list \<Rightarrow>
   (string \<times> nat) list" where
  "modules_loop flags [] isMod isLevel ss level m =
     (case level of
        Some l \<Rightarrow> if ss \<noteq> [] then insert_module flags ss l m else m
      | None \<Rightarrow> m)"
| "modules_loop flags (c # modules) isMod isLevel ss level m =
     (if c = CHR ''='' then modules_loop flags modules False True ss level m
      else if c = CHR '','' then
        (case level of
           Some l \<Rightarrow>
             if ss \<noteq> [] then modules_loop flags modules True False [] None (insert_module flags ss l m)
             else modules_loop flags modules True False ss level m
         | None \<Rightarrow> modules_loop flags modules True False ss level m)
      else if isMod then modules_loop flags modules isMod isLevel (ss @ [c]) level m
      else if isLevel then
        modules_loop flags modules isMod isLevel ss
          (if isDigit c then Some (of_char c - 48) else level) m
      else modules_loop flags modules isMod isLevel ss level m)"

definition setModules :: "uint32 \<Rightarrow> string \<Rightarrow> v_registry \<Rightarrow> v_registry" where
  "setModules flags modules v =
     v\<lparr>vr_modules := modules_loop flags modules True False [] None (vr_modules v)\<rparr>"

section \<open>The test\<close>

text \<open>
  The array for the base name has as many characters as the limit for it. The first module whose
  pattern matches decides.
\<close>

type_synonym module_order = "(string \<times> nat) list \<Rightarrow> (string \<times> nat) list"

definition vr_allowed ::
  "module_order \<Rightarrow> uint32 \<Rightarrow> nat \<Rightarrow> string option \<Rightarrow> v_registry \<Rightarrow> bool result" where
  "vr_allowed order flags vlevel file v =
     (case file of
        None \<Rightarrow> Inr (vlevel \<le> vr_level v)
      | Some f \<Rightarrow>
          if vr_modules v = [] then Inr (vlevel \<le> vr_level v)
          else
            rbind (buildBaseFilename kSourceFilenameMaxLength f [] kSourceFilenameMaxLength kFilePathSeperator)
              (\<lambda>baseFilename.
                case find (\<lambda>(k, _). wildCardMatch baseFilename k) (order (vr_modules v)) of
                  Some (_, level) \<Rightarrow> Inr (vlevel \<le> level)
                | None \<Rightarrow> Inr (hasFlag (flag_value AllowVerboseIfModuleNotSpecified) flags)))"

section \<open>From the command line\<close>

text \<open>\<open>atoi\<close>: blanks, a sign, digits. The result is converted to an unsigned 16-bit number.\<close>

definition c_atoi :: "string \<Rightarrow> int" where
  "c_atoi s =
     (let s = dropWhile is_space s;
          (neg, s) = (case s of
              c # t \<Rightarrow> if c = CHR ''-'' then (True, t) else if c = CHR ''+'' then (False, t) else (False, s)
            | [] \<Rightarrow> (False, s));
          n = int (read_nat (takeWhile isDigit s))
      in if neg then - n else n)"

definition to_verbose_level :: "int \<Rightarrow> nat" where
  "to_verbose_level i = nat (i mod 2 ^ 16)"

definition setFromArgs :: "uint32 \<Rightarrow> command_line_args \<Rightarrow> v_registry \<Rightarrow> v_registry" where
  "setFromArgs flags args v =
     (if hasParam args ''-v'' \<or> hasParam args ''--verbose'' \<or> hasParam args ''-V'' \<or>
         hasParam args ''--VERBOSE'' then vr_setLevel kMaxVerboseLevel v
      else if hasParamWithValue args ''--v'' then
        vr_setLevel (to_verbose_level (c_atoi (getParamValue args ''--v''))) v
      else if hasParamWithValue args ''--V'' then
        vr_setLevel (to_verbose_level (c_atoi (getParamValue args ''--V''))) v
      else if hasParamWithValue args ''-vmodule'' \<and> vModulesEnabled flags then
        setModules flags (getParamValue args ''-vmodule'') v
      else if hasParamWithValue args ''-VMODULE'' \<and> vModulesEnabled flags then
        setModules flags (getParamValue args ''-VMODULE'') v
      else v)"

section \<open>Facts\<close>

text \<open>The verbose level never exceeds the maximum.\<close>

definition level_bounded :: "v_registry \<Rightarrow> bool" where
  "level_bounded v \<longleftrightarrow> vr_level v \<le> kMaxVerboseLevel"

lemma setLevel_bounded: "level_bounded (vr_setLevel l v)"
  by (simp add: level_bounded_def vr_setLevel_def kMaxVerboseLevel_def)

lemma setModules_level: "vr_level (setModules flags t v) = vr_level v"
  by (simp add: setModules_def)

lemma setFromArgs_bounded: "level_bounded v \<Longrightarrow> level_bounded (setFromArgs flags args v)"
  unfolding setFromArgs_def by (simp add: setLevel_bounded) (simp add: level_bounded_def setModules_level)

text \<open>A module keeps the level it was given first.\<close>

interpretation modules: keyed_store map_of module_insert
  by unfold_locales (auto simp: module_insert_def map_add_def split: option.split)

lemma addSuffix_ends: "\<exists>u. addSuffix sfx prev ss = u @ sfx"
  by (simp add: addSuffix_def Let_def)

lemma drop_suffix_append [simp]: "drop_suffix (u @ sfx) sfx = u"
  by (simp add: drop_suffix_def endsWith_def substr_def)

text \<open>The last digit of a level counts.\<close>

lemma two_digit_level:
  "vr_modules (setModules (flag_value DisableVModulesExtensions) ''main=12'' (VRegistry 0)) = [(''main'', 2)]"
  by code_simp

subsection \<open>Names that do not fit\<close>

definition base_name :: "string \<Rightarrow> string" where
  "base_name f = (case find_last_of f kFilePathSeperator of
      None \<Rightarrow> f | Some i \<Rightarrow> if i = 0 then f else drop (i + 1) f)"

lemma buildBaseFilename_eq:
  "buildBaseFilename cap f buff limit kFilePathSeperator = strip_into cap limit (base_name f) buff"
  by (simp add: buildBaseFilename_def base_name_def)

definition dotted_tail :: "nat \<Rightarrow> string \<Rightarrow> bool" where
  "dotted_tail n s \<longleftrightarrow>
     n \<le> length s \<and> CHR ''.'' \<in> set (take 2 (drop (length s - n) s))"

lemma dotted_tail_iff:
  assumes "2 \<le> n" and "n \<le> length s"
  shows "dotted_tail n s \<longleftrightarrow>
    c_head (drop (length s - n) s) = CHR ''.'' \<or> c_head (tl (drop (length s - n) s)) = CHR ''.''"
proof -
  obtain a b t where "drop (length s - n) s = a # b # t"
    using assms length_drop [of "length s - n" s]
    by (cases "drop (length s - n) s"; cases "tl (drop (length s - n) s)") auto
  then show ?thesis using assms(2) by (auto simp: dotted_tail_def c_head_def)
qed

text \<open>With an array of exactly the size of the limit, a name that ends up unshortened does not fit.\<close>

lemma strip_into_full:
  assumes "3 \<le> n"
  shows "strip_into n n s [] =
    (if length s < n then Inr s
     else if dotted_tail n s then Inl OutOfBoundsWrite
     else Inr (''..'' @ drop (length s - n + 3) s))"
  using assms by (auto simp: strip_into_def str_cat_def Let_def dotted_tail_iff add.commute)

text \<open>What the modules say of a base name.\<close>

definition module_verdict :: "module_order \<Rightarrow> uint32 \<Rightarrow> nat \<Rightarrow> string \<Rightarrow> v_registry \<Rightarrow> bool" where
  "module_verdict order flags vlevel b v =
     (case find (\<lambda>(k, _). wildCardMatch b k) (order (vr_modules v)) of
        Some (_, level) \<Rightarrow> vlevel \<le> level
      | None \<Rightarrow> hasFlag (flag_value AllowVerboseIfModuleNotSpecified) flags)"

section \<open>Properties\<close>

text \<open>
  When module levels are set, the test whether a file may log verbosely asks the modules
  about its base name if that has less than 100 characters, and about two dots and the last 97
  characters of it if it is longer; but if one of the first two of its last 100 characters is a
  dot, the test writes past the end of its array.
\<close>

theorem verbose_name_overflow:
  assumes "vr_modules v \<noteq> []"
  shows "vr_allowed order flags vlevel (Some f) v =
    (if length (base_name f) < 100 then Inr (module_verdict order flags vlevel (base_name f) v)
     else if dotted_tail 100 (base_name f) then Inl OutOfBoundsWrite
     else Inr (module_verdict order flags vlevel
            (''..'' @ drop (length (base_name f) - 97) (base_name f)) v))"
proof -
  have arith: "\<not> m < 100 \<Longrightarrow> m - 100 + 3 = m - (97 :: nat)" for m by arith
  show ?thesis
    using assms strip_into_full [of 100 "base_name f"]
    by (auto simp: vr_allowed_def buildBaseFilename_eq kSourceFilenameMaxLength_def module_verdict_def arith
        split: option.split)
qed

theorem verbose_name_overflow_witness:
  "vr_allowed rev 0 3 (Some (''/src/'' @ ''.'' @ replicate 99 CHR ''x'')) \<lparr>vr_level = 0, vr_modules = [(''*'', 9)]\<rparr>
     = Inl OutOfBoundsWrite \<and>
   vr_allowed rev 0 3 (Some ''/src/main.cpp'') \<lparr>vr_level = 0, vr_modules = [(''main*'', 2), (''parse*'', 9)]\<rparr>
     = Inr False"
proof
  let ?f = "''/src/'' @ ''.'' @ replicate 99 CHR ''x''"
  have "base_name ?f = ''.'' @ replicate 99 CHR ''x''" by code_simp
  moreover have "dotted_tail 100 (''.'' @ replicate 99 CHR ''x'')" by code_simp
  ultimately show "vr_allowed rev 0 3 (Some ?f) \<lparr>vr_level = 0, vr_modules = [(''*'', 9)]\<rparr> = Inl OutOfBoundsWrite"
    using verbose_name_overflow [of "\<lparr>vr_level = 0, vr_modules = [(''*'', 9)]\<rparr>" rev 0 3 ?f] by simp
  show "vr_allowed rev 0 3 (Some ''/src/main.cpp'') \<lparr>vr_level = 0, vr_modules = [(''main*'', 2), (''parse*'', 9)]\<rparr>
     = Inr False"
    by code_simp
qed

end
