(* ===== verification/Elpp_Logger.thy ===== *)
theory Elpp_Logger imports Elpp_Typed Elpp_Registry Elpp_Hits Elpp_Verbose begin

text \<open>
  The state of the logging library (\<open>base::Storage\<close>) and its loggers: \<open>Logger\<close> with the typed
  configurations it owns, the flushing of its files, and \<open>RegisteredLoggers\<close>. Loggers and typed
  configurations are objects with addresses, since the code shares, copies and deletes them
  through pointers.
\<close>

section \<open>Programs on a state\<close>

text \<open>A program does not return, goes wrong, or returns a value and the next state.\<close>

type_synonym ('s, 'a) prog = "'s \<Rightarrow> ('a \<times> 's) outcome"

definition pbind :: "('s, 'a) prog \<Rightarrow> ('a \<Rightarrow> ('s, 'b) prog) \<Rightarrow> ('s, 'b) prog" where
  "pbind m f s = obind (m s) (\<lambda>(x, s). f x s)"

definition preturn :: "'a \<Rightarrow> ('s, 'a) prog" where
  "preturn x s = Some (Inr (x, s))"

definition plift :: "'a result \<Rightarrow> ('s, 'a) prog" where
  "plift r s = (case r of Inl e \<Rightarrow> Some (Inl e) | Inr x \<Rightarrow> Some (Inr (x, s)))"

definition pget :: "('s \<Rightarrow> 'a) \<Rightarrow> ('s, 'a) prog" where
  "pget f s = Some (Inr (f s, s))"

definition pmodify :: "('s \<Rightarrow> 's) \<Rightarrow> ('s, unit) prog" where
  "pmodify f s = Some (Inr ((), f s))"

fun pfor :: "'x list \<Rightarrow> ('x \<Rightarrow> ('s, unit) prog) \<Rightarrow> ('s, unit) prog" where
  "pfor [] f = preturn ()"
| "pfor (x # xs) f = pbind (f x) (\<lambda>_. pfor xs f)"

lemma pbind_simps [simp]:
  "pbind (preturn x) f = f x"
  "pbind (plift (Inr x)) f = f x"
  "pbind (plift (Inl e)) f = plift (Inl e)"
  "pbind (pget g) f s = f (g s) s"
  "pbind (pmodify h) f' s = f' () (h s)"
  by (auto simp: pbind_def preturn_def plift_def pget_def pmodify_def fun_eq_iff)

lemma pbind_Inr: "m s = Some (Inr (x, t)) \<Longrightarrow> pbind m f s = f x t"
  by (simp add: pbind_def)

lemma pbind_assoc: "pbind (pbind m f) g = pbind m (\<lambda>x. pbind (f x) g)"
proof
  fix s show "pbind (pbind m f) g s = pbind m (\<lambda>x. pbind (f x) g) s"
    by (cases "m s") (auto simp: pbind_def obind_def split: option.split sum.split)
qed

lemma pbind_right [simp]: "pbind m preturn = m"
proof
  fix s show "pbind m preturn s = m s"
    by (cases "m s") (auto simp: pbind_def obind_def preturn_def split: sum.split)
qed

lemma pbind_unit [simp]: "pbind m (\<lambda>_. preturn ()) = (m :: ('s, unit) prog)"
proof -
  have "(\<lambda>_ :: unit. preturn () :: ('s, unit) prog) = preturn" by (rule ext) simp
  then show ?thesis by (simp only: pbind_right)
qed

lemma pbind_pget_unused [simp]: "pbind (pget f) (\<lambda>_. m) = m"
  by (rule ext) simp

lemma prog_apply [simp]:
  "preturn x s = Some (Inr (x, s))"
  "plift (Inr x) s = Some (Inr (x, s))"
  "plift (Inl e) s = Some (Inl e)"
  "pget f s = Some (Inr (f s, s))"
  "pmodify h s = Some (Inr ((), h s))"
  by (simp_all add: preturn_def plift_def pget_def pmodify_def)

text \<open>A property of states that a program keeps, whenever it returns.\<close>

definition prog_keeps :: "('s \<Rightarrow> bool) \<Rightarrow> ('s, 'a) prog \<Rightarrow> bool" where
  "prog_keeps P m \<longleftrightarrow> (\<forall>s x t. P s \<longrightarrow> m s = Some (Inr (x, t)) \<longrightarrow> P t)"

lemma prog_keepsI: "(\<And>s x t. P s \<Longrightarrow> m s = Some (Inr (x, t)) \<Longrightarrow> P t) \<Longrightarrow> prog_keeps P m"
  by (auto simp: prog_keeps_def)

lemma prog_keepsD: "prog_keeps P m \<Longrightarrow> P s \<Longrightarrow> m s = Some (Inr (x, t)) \<Longrightarrow> P t"
  by (auto simp: prog_keeps_def)

lemma pbind_eq_Inr:
  "pbind m f s = Some (Inr (y, t)) \<longleftrightarrow> (\<exists>x u. m s = Some (Inr (x, u)) \<and> f x u = Some (Inr (y, t)))"
  by (auto simp: pbind_def obind_def split: option.splits sum.splits)

lemma prog_keeps_pbind [intro]:
  "prog_keeps P m \<Longrightarrow> (\<And>x. prog_keeps P (f x)) \<Longrightarrow> prog_keeps P (pbind m f)"
  unfolding prog_keeps_def pbind_eq_Inr by blast

lemma prog_keeps_simple [simp, intro]:
  "prog_keeps P (preturn x)" "prog_keeps P (plift r)" "prog_keeps P (pget f)"
  "prog_keeps P (\<lambda>s. Some (Inr (x, s)))" "prog_keeps P (\<lambda>s. Some (Inl e))"
  by (auto simp: prog_keeps_def plift_def split: sum.splits)

lemma prog_keeps_pfor [intro]: "(\<And>x. prog_keeps P (f x)) \<Longrightarrow> prog_keeps P (pfor xs f)"
  by (induction xs) auto

section \<open>State\<close>

text \<open>
  The builder of log lines: the library's or one of the user's. Both remember whether the
  terminal has colours.
\<close>

datatype builder_kind = DefaultLogBuilder | UserLogBuilder nat

record log_builder =
  bl_kind :: builder_kind
  bl_termSupportsColor :: bool

text \<open>A logger; its stream is the text in it, a null builder is \<open>None\<close>.\<close>

record logger =
  lg_id :: string
  lg_typedConfigurations :: ptr
  lg_stream :: string
  lg_parentApplicationName :: string
  lg_isConfigured :: bool
  lg_configurations :: configurations
  lg_unflushedCount :: "(level \<times> nat) list"
  lg_logBuilder :: "log_builder option"

text \<open>
  Typed configurations point to the configurations they were made from, which are a member of a
  logger: \<open>to_owner\<close> is its address.
\<close>

record typed_object =
  to_tables :: typed_configurations
  to_owner :: nat

datatype dispatch_action = NoAction | NormalLog | SysLog

record log_message =
  lm_level :: level
  lm_file :: string
  lm_line :: nat
  lm_func :: string
  lm_verboseLevel :: nat
  lm_logger :: nat
  lm_message :: string

record 'k callback =
  cb_enabled :: bool
  cb_kind :: 'k

datatype dispatch_kind = DefaultLogDispatchCallback | UserLogDispatchCallback nat

datatype performance_kind = DefaultPerformanceTrackingCallback | UserPerformanceTrackingCallback nat

text \<open>
  The storage. Tables are lists of their entries, in the order in which they are gone through;
  an unordered map leaves open where a new entry goes, here it goes to the end.
\<close>

record 'f storage =
  sg_world :: "'f world"
  sg_stdout :: string
  sg_aborted :: bool
  sg_typed :: "typed_object store"
  sg_heap :: "logger store"
  sg_registeredHitCounters :: "hit_counter list"
  sg_registeredLoggers :: "string table"
  sg_defaultLogBuilder :: "log_builder option"
  sg_defaultConfigurations :: configurations
  sg_loggerRegistrationCallbacks :: "(string \<times> nat callback) list"
  sg_flags :: uint32
  sg_vRegistry :: v_registry
  sg_commandLineArgs :: command_line_args
  sg_preRollOutCallback :: "string \<Rightarrow> nat \<Rightarrow> 'f \<Rightarrow> 'f"
  sg_logDispatchCallbacks :: "(string \<times> dispatch_kind callback) list"
  sg_performanceTrackingCallbacks :: "(string \<times> performance_kind callback) list"
  sg_threadNames :: "(string \<times> string) list"
  sg_customFormatSpecifiers :: "log_message custom_format_specifier list"
  sg_loggingLevel :: level

text \<open>
  What the library runs on besides the system: writing to and flushing an open file (whether it
  failed), the thread, and the functions of the user's callbacks and builders.
\<close>

record 'f environment =
  en_sys :: "'f system"
  en_write :: "string \<Rightarrow> string \<Rightarrow> 'f \<Rightarrow> bool \<times> 'f"
  en_flush :: "string \<Rightarrow> 'f \<Rightarrow> 'f"
  en_order :: module_order
  en_registered :: "nat \<Rightarrow> nat \<Rightarrow> ('f storage, unit) prog"
  en_dispatched :: "nat \<Rightarrow> log_message \<Rightarrow> dispatch_action \<Rightarrow> ('f storage, unit) prog"
  en_build :: "nat \<Rightarrow> log_message \<Rightarrow> bool \<Rightarrow> ('f storage, string) prog"

section \<open>Objects\<close>

definition logger_at :: "nat \<Rightarrow> ('f storage, logger) prog" where
  "logger_at a s = plift (deref (Some a) (sg_heap s)) s"

definition update_logger :: "nat \<Rightarrow> (logger \<Rightarrow> logger) \<Rightarrow> ('f storage, unit) prog" where
  "update_logger a f = pbind (logger_at a) (\<lambda>l.
     pmodify (\<lambda>s. s\<lparr>sg_heap := (sg_heap s)\<lparr>st_objs := (st_objs (sg_heap s))(a \<mapsto> f l)\<rparr>\<rparr>))"

definition new_logger :: "logger \<Rightarrow> ('f storage, nat) prog" where
  "new_logger l s =
     (let (p, h) = new_object l (sg_heap s) in Some (Inr (the p, s\<lparr>sg_heap := h\<rparr>)))"

definition typed_at :: "nat \<Rightarrow> ('f storage, typed_object) prog" where
  "typed_at a = pbind (logger_at a) (\<lambda>l s. plift (deref (lg_typedConfigurations l) (sg_typed s)) s)"

definition tables_at :: "nat \<Rightarrow> ('f storage, typed_configurations) prog" where
  "tables_at a = pbind (typed_at a) (\<lambda>t. preturn (to_tables t))"

definition delete_typed :: "ptr \<Rightarrow> ('f storage, unit) prog" where
  "delete_typed p s =
     (case safeDelete p (sg_typed s) of
        Inl e \<Rightarrow> Some (Inl e)
      | Inr (_, h) \<Rightarrow> Some (Inr ((), s\<lparr>sg_typed := h\<rparr>)))"

definition new_typed :: "typed_object \<Rightarrow> ('f storage, ptr) prog" where
  "new_typed t s = (let (p, h) = new_object t (sg_typed s) in Some (Inr (p, s\<lparr>sg_typed := h\<rparr>)))"

definition on_world :: "('f world \<Rightarrow> ('a \<times> 'f world) outcome) \<Rightarrow> ('f storage, 'a) prog" where
  "on_world f s = obind (f (sg_world s)) (\<lambda>(x, w). Some (Inr (x, s\<lparr>sg_world := w\<rparr>)))"

section \<open>\<open>Logger\<close>\<close>

text \<open>
  The loop over the levels visits \<open>proper_levels\<close> in their order (lemma \<open>forEachLevel_all\<close>).
\<close>

definition initUnflushedCount :: "logger \<Rightarrow> logger" where
  "initUnflushedCount l = l\<lparr>lg_unflushedCount := fold (\<lambda>level. map_insert level 0) proper_levels []\<rparr>"

definition Logger :: "string \<Rightarrow> logger" where
  "Logger i = initUnflushedCount
     \<lparr>lg_id = i, lg_typedConfigurations = None, lg_stream = [], lg_parentApplicationName = [],
      lg_isConfigured = False, lg_configurations = Configurations, lg_unflushedCount = [],
      lg_logBuilder = None\<rparr>"

definition isValidId :: "string \<Rightarrow> bool" where
  "isValidId i = list_all (contains_char kValidLoggerIdSymbols) i"

definition validateFileRolling_at :: "'f environment \<Rightarrow> nat \<Rightarrow> level \<Rightarrow> ('f storage, unit) prog" where
  "validateFileRolling_at env a level =
     pbind (tables_at a) (\<lambda>t.
     pbind (pget sg_preRollOutCallback) (\<lambda>cb.
     pbind (on_world (\<lambda>w. Some (validateFileRolling (en_sys env) level cb t w))) (\<lambda>_. preturn ())))"

definition flush_file :: "'f environment \<Rightarrow> string \<Rightarrow> ('f storage, unit) prog" where
  "flush_file env f = pmodify (\<lambda>s. s\<lparr>sg_world := (sg_world s)\<lparr>w_files := en_flush env f (w_files (sg_world s))\<rparr>\<rparr>)"

definition set_unflushed :: "level \<Rightarrow> nat \<Rightarrow> logger \<Rightarrow> logger" where
  "set_unflushed level n l =
     l\<lparr>lg_unflushedCount := map_assign (\<lambda>_ k. k) level n (lg_unflushedCount l)\<rparr>"

text \<open>The stream is the one given, or the one of the level if it logs to a file.\<close>

definition flush_level :: "'f environment \<Rightarrow> nat \<Rightarrow> level \<Rightarrow> stream \<Rightarrow> ('f storage, unit) prog" where
  "flush_level env a level fs =
     pbind (if fs = None then
              pbind (tables_at a) (\<lambda>t. if tc_toFile level t then plift (tc_fileStream level t) else preturn None)
            else preturn fs) (\<lambda>fs.
     case fs of
       None \<Rightarrow> preturn ()
     | Some f \<Rightarrow>
         pbind (flush_file env f) (\<lambda>_.
         pbind (update_logger a (set_unflushed level 0)) (\<lambda>_.
         validateFileRolling_at env a level)))"

definition logger_flush :: "'f environment \<Rightarrow> nat \<Rightarrow> ('f storage, unit) prog" where
  "logger_flush env a = pfor proper_levels (\<lambda>level. flush_level env a level None)"

text \<open>
  The counter is an \<open>unsigned int\<close>; a level without one (the global level and numbers that are
  no level) makes \<open>find\<close> return the end of the table, which is then written to.
\<close>

definition isFlushNeeded :: "nat \<Rightarrow> level \<Rightarrow> ('f storage, bool) prog" where
  "isFlushNeeded a level =
     pbind (logger_at a) (\<lambda>l.
       case map_of (lg_unflushedCount l) level of
         None \<Rightarrow> plift (Inl OutOfBoundsWrite)
       | Some n \<Rightarrow>
           (let n = Suc n mod 2 ^ 32 in
            pbind (update_logger a (set_unflushed level n)) (\<lambda>_.
            pbind (tables_at a) (\<lambda>t. preturn (tc_logFlushThreshold level t \<le> n)))))"

text \<open>
  The identity goes into the format of each level, or of the global level for a level without
  a format of its own.
\<close>

definition kLoggerIdFormatSpecifier :: string where
  "kLoggerIdFormatSpecifier = ''%logger''"

definition resolve_format :: "string \<Rightarrow> level \<Rightarrow> log_format conf_map \<Rightarrow> log_format conf_map result" where
  "resolve_format i level m =
     (let put = (\<lambda>l f. map_assign (\<lambda>_ g. g) l
                    (f\<lparr>lf_format := replaceFirstWithEscape (lf_format f) kLoggerIdFormatSpecifier i\<rparr>) m)
      in case map_of m level of
           Some f \<Rightarrow> Inr (put level f)
         | None \<Rightarrow> (case map_of m Level_Global of
                      Some f \<Rightarrow> Inr (put Level_Global f)
                    | None \<Rightarrow> Inl OutOfBoundsRead))"

fun resolve_formats :: "string \<Rightarrow> level list \<Rightarrow> log_format conf_map \<Rightarrow> log_format conf_map result" where
  "resolve_formats i [] m = Inr m"
| "resolve_formats i (l # ls) m = rbind (resolve_format i l m) (resolve_formats i ls)"

definition resolveLoggerFormatSpec :: "string \<Rightarrow> typed_configurations \<Rightarrow> typed_configurations result" where
  "resolveLoggerFormatSpec i t =
     rbind (resolve_formats i proper_levels (tc_logFormatMap t)) (\<lambda>m. Inr (t\<lparr>tc_logFormatMap := m\<rparr>))"

text \<open>
  Whether to flush is asked of the configurations the old typed configurations point to.
  Configurations of the logger itself are \<open>None\<close>: they are not equal to any others, since the
  comparison is one of pointers, unless both are empty.
\<close>

definition configure :: "'f environment \<Rightarrow> nat \<Rightarrow> configurations option \<Rightarrow> ('f storage, unit) prog" where
  "configure env a configurations =
     pbind (update_logger a (\<lambda>l. initUnflushedCount (l\<lparr>lg_isConfigured := False\<rparr>))) (\<lambda>_.
     pbind (logger_at a) (\<lambda>l.
     pbind (if lg_typedConfigurations l = None then preturn ()
            else pbind (typed_at a) (\<lambda>t. pbind (logger_at (to_owner t)) (\<lambda>c.
                   if hasConfiguration Level_Global Config_Filename (lg_configurations c)
                   then logger_flush env a else preturn ()))) (\<lambda>_.
     pbind (update_logger a (\<lambda>l. l\<lparr>lg_configurations := setFromBase configurations (lg_configurations l)\<rparr>)) (\<lambda>_.
     pbind (delete_typed (lg_typedConfigurations l)) (\<lambda>_.
     pbind (logger_at a) (\<lambda>l.
     pbind (on_world (TypedConfigurations (en_sys env) (lg_configurations l))) (\<lambda>t.
     pbind (plift (resolveLoggerFormatSpec (lg_id l) t)) (\<lambda>t.
     pbind (new_typed \<lparr>to_tables = t, to_owner = a\<rparr>) (\<lambda>p.
     update_logger a (\<lambda>l. l\<lparr>lg_typedConfigurations := p, lg_isConfigured := True\<rparr>))))))))))"

definition reconfigure :: "'f environment \<Rightarrow> nat \<Rightarrow> ('f storage, unit) prog" where
  "reconfigure env a = configure env a None"

definition Logger_configured ::
  "'f environment \<Rightarrow> string \<Rightarrow> configurations \<Rightarrow> ('f storage, nat) prog" where
  "Logger_configured env i configurations =
     pbind (new_logger (Logger i)) (\<lambda>a.
     pbind (configure env a (Some configurations)) (\<lambda>_. preturn a))"

text \<open>The destructor and the release of the object.\<close>

definition delete_logger :: "nat \<Rightarrow> ('f storage, unit) prog" where
  "delete_logger a =
     pbind (logger_at a) (\<lambda>l.
     pbind (delete_typed (lg_typedConfigurations l)) (\<lambda>_.
     pmodify (\<lambda>s. s\<lparr>sg_heap := (sg_heap s)\<lparr>st_objs := (st_objs (sg_heap s))(a := None)\<rparr>\<rparr>)))"

text \<open>
  Copying shares the typed configurations. The copy constructor deletes what its own pointer
  happens to hold, which is not initialised: that value is the argument \<open>garbage\<close>.
\<close>

definition copy_fields :: "logger \<Rightarrow> logger \<Rightarrow> logger" where
  "copy_fields logger this =
     this\<lparr>lg_id := lg_id logger, lg_typedConfigurations := lg_typedConfigurations logger,
       lg_parentApplicationName := lg_parentApplicationName logger,
       lg_isConfigured := lg_isConfigured logger, lg_configurations := lg_configurations logger,
       lg_unflushedCount := lg_unflushedCount logger\<rparr>"

definition Logger_copy :: "ptr \<Rightarrow> nat \<Rightarrow> ('f storage, nat) prog" where
  "Logger_copy garbage a =
     pbind (logger_at a) (\<lambda>logger.
     pbind (delete_typed garbage) (\<lambda>_.
     new_logger (copy_fields logger
       \<lparr>lg_id = [], lg_typedConfigurations = None, lg_stream = [], lg_parentApplicationName = [],
        lg_isConfigured = False, lg_configurations = Configurations, lg_unflushedCount = [],
        lg_logBuilder = None\<rparr>)))"

definition Logger_assign :: "nat \<Rightarrow> nat \<Rightarrow> ('f storage, unit) prog" where
  "Logger_assign this a =
     (if a = this then preturn ()
      else
        pbind (logger_at this) (\<lambda>l.
        pbind (delete_typed (lg_typedConfigurations l)) (\<lambda>_.
        pbind (logger_at a) (\<lambda>logger. update_logger this (copy_fields logger)))))"

end
