(* ===== verification/Elpp_Loggers.thy ===== *)
theory Elpp_Loggers imports Elpp_Logger "HOL-Library.AList" begin

text \<open>
  The loggers of the library by name (\<open>RegisteredLoggers\<close>), its storage, and the functions with
  which a program configures it (\<open>Loggers\<close>, \<open>Helpers\<close>).
\<close>

section \<open>\<open>RegisteredLoggers\<close>\<close>

definition RL_unregister :: "string \<Rightarrow> ('f storage, unit) prog" where
  "RL_unregister i =
     pbind (pget sg_registeredLoggers) (\<lambda>l.
       case Registry_get i l of
         None \<Rightarrow> preturn ()
       | Some a \<Rightarrow>
           pbind (delete_logger a) (\<lambda>_.
           pmodify (\<lambda>s. s\<lparr>sg_registeredLoggers := filter (\<lambda>(k, _). k \<noteq> i) (sg_registeredLoggers s)\<rparr>)))"

definition RL_registerNew :: "string \<Rightarrow> nat \<Rightarrow> ('f storage, unit) prog" where
  "RL_registerNew i a =
     pbind (RL_unregister i) (\<lambda>_.
     pmodify (\<lambda>s. s\<lparr>sg_registeredLoggers := table_insert i (Some a) (sg_registeredLoggers s)\<rparr>))"

definition run_registration_callbacks :: "'f environment \<Rightarrow> nat \<Rightarrow> ('f storage, unit) prog" where
  "run_registration_callbacks env a =
     pbind (pget sg_loggerRegistrationCallbacks) (\<lambda>cbs.
     pfor cbs (\<lambda>(_, cb). if cb_enabled cb then en_registered env (cb_kind cb) a else preturn ()))"

text \<open>An identity with an unusual character is not registered: the null pointer comes back.\<close>

definition RL_get :: "'f environment \<Rightarrow> string \<Rightarrow> bool \<Rightarrow> ('f storage, ptr) prog" where
  "RL_get env i forceCreation =
     pbind (pget sg_registeredLoggers) (\<lambda>table.
       let logger = Registry_get i table in
       if logger = None \<and> forceCreation then
         if \<not> isValidId i then preturn None
         else
           pbind (pget sg_defaultConfigurations) (\<lambda>c.
           pbind (Logger_configured env i c) (\<lambda>a.
           pbind (pget sg_defaultLogBuilder) (\<lambda>b.
           pbind (update_logger a (\<lambda>l. l\<lparr>lg_logBuilder := b\<rparr>)) (\<lambda>_.
           pbind (RL_registerNew i a) (\<lambda>_.
           pbind (run_registration_callbacks env a) (\<lambda>_. preturn (Some a)))))))
       else preturn logger)"

definition RL_remove :: "string \<Rightarrow> ('f storage, bool) prog" where
  "RL_remove i =
     (if i = kDefaultLoggerId then preturn False
      else
        pbind (pget sg_registeredLoggers) (\<lambda>table.
          case Registry_get i table of
            None \<Rightarrow> preturn True
          | Some a \<Rightarrow>
              pbind (logger_at a) (\<lambda>l. pbind (RL_unregister (lg_id l)) (\<lambda>_. preturn True))))"

definition RL_has :: "'f environment \<Rightarrow> string \<Rightarrow> ('f storage, bool) prog" where
  "RL_has env i = pbind (RL_get env i False) (\<lambda>p. preturn (p \<noteq> None))"

definition RL_unsafeFlushAll :: "'f environment \<Rightarrow> ('f storage, unit) prog" where
  "RL_unsafeFlushAll env =
     pbind (pget (\<lambda>s. w_streams (sg_world s))) (\<lambda>streams.
     pfor streams (\<lambda>(_, stream). case stream of None \<Rightarrow> preturn () | Some f \<Rightarrow> flush_file env f))"

definition RL_flushAll :: "'f environment \<Rightarrow> ('f storage, unit) prog" where
  "RL_flushAll env = RL_unsafeFlushAll env"

definition RL_setDefaultConfigurations :: "configurations \<Rightarrow> ('f storage, unit) prog" where
  "RL_setDefaultConfigurations c =
     pmodify (\<lambda>s. s\<lparr>sg_defaultConfigurations := setFromBase (Some c) (sg_defaultConfigurations s)\<rparr>)"

definition RL_setDefaultLogBuilder :: "log_builder option \<Rightarrow> ('f storage, unit) prog" where
  "RL_setDefaultLogBuilder b = pmodify (\<lambda>s. s\<lparr>sg_defaultLogBuilder := b\<rparr>)"

section \<open>\<open>Storage\<close>\<close>

text \<open>Callbacks by name, in a list.\<close>

definition install_named :: "string \<Rightarrow> 'c \<Rightarrow> (string \<times> 'c) list \<Rightarrow> bool \<times> (string \<times> 'c) list" where
  "install_named i c l = (if map_of l i = None then (True, l @ [(i, c)]) else (False, l))"

definition uninstall_named :: "string \<Rightarrow> (string \<times> 'c) list \<Rightarrow> (string \<times> 'c) list" where
  "uninstall_named i l = filter (\<lambda>(k, _). k \<noteq> i) l"

definition installLogDispatchCallback :: "string \<Rightarrow> dispatch_kind \<Rightarrow> ('f storage, bool) prog" where
  "installLogDispatchCallback i k =
     pbind (pget sg_logDispatchCallbacks) (\<lambda>l.
     let (done, l) = install_named i \<lparr>cb_enabled = True, cb_kind = k\<rparr> l in
     pbind (pmodify (\<lambda>s. s\<lparr>sg_logDispatchCallbacks := l\<rparr>)) (\<lambda>_. preturn done))"

definition uninstallLogDispatchCallback :: "string \<Rightarrow> ('f storage, unit) prog" where
  "uninstallLogDispatchCallback i =
     pmodify (\<lambda>s. s\<lparr>sg_logDispatchCallbacks := uninstall_named i (sg_logDispatchCallbacks s)\<rparr>)"

definition installLoggerRegistrationCallback :: "string \<Rightarrow> nat \<Rightarrow> ('f storage, bool) prog" where
  "installLoggerRegistrationCallback i k =
     pbind (pget sg_loggerRegistrationCallbacks) (\<lambda>l.
     let (done, l) = install_named i \<lparr>cb_enabled = True, cb_kind = k\<rparr> l in
     pbind (pmodify (\<lambda>s. s\<lparr>sg_loggerRegistrationCallbacks := l\<rparr>)) (\<lambda>_. preturn done))"

definition uninstallLoggerRegistrationCallback :: "string \<Rightarrow> ('f storage, unit) prog" where
  "uninstallLoggerRegistrationCallback i =
     pmodify (\<lambda>s. s\<lparr>sg_loggerRegistrationCallbacks := uninstall_named i (sg_loggerRegistrationCallbacks s)\<rparr>)"

definition setEnabled :: "bool \<Rightarrow> 'k callback \<Rightarrow> 'k callback" where
  "setEnabled enabled cb = cb\<lparr>cb_enabled := enabled\<rparr>"

definition sg_addFlag :: "logging_flag \<Rightarrow> ('f storage, unit) prog" where
  "sg_addFlag flag = pmodify (\<lambda>s. s\<lparr>sg_flags := addFlag (flag_value flag) (sg_flags s)\<rparr>)"

definition sg_removeFlag :: "logging_flag \<Rightarrow> ('f storage, unit) prog" where
  "sg_removeFlag flag = pmodify (\<lambda>s. s\<lparr>sg_flags := removeFlag (flag_value flag) (sg_flags s)\<rparr>)"

definition sg_hasFlag :: "logging_flag \<Rightarrow> 'f storage \<Rightarrow> bool" where
  "sg_hasFlag flag s \<longleftrightarrow> hasFlag (flag_value flag) (sg_flags s)"

definition sg_setFlags :: "uint32 \<Rightarrow> ('f storage, unit) prog" where
  "sg_setFlags flags = pmodify (\<lambda>s. s\<lparr>sg_flags := flags\<rparr>)"

definition setPreRollOutCallback :: "(string \<Rightarrow> nat \<Rightarrow> 'f \<Rightarrow> 'f) \<Rightarrow> ('f storage, unit) prog" where
  "setPreRollOutCallback cb = pmodify (\<lambda>s. s\<lparr>sg_preRollOutCallback := cb\<rparr>)"

definition defaultPreRollOutCallback :: "string \<Rightarrow> nat \<Rightarrow> 'f \<Rightarrow> 'f" where
  "defaultPreRollOutCallback fname fsize fs = fs"

definition unsetPreRollOutCallback :: "('f storage, unit) prog" where
  "unsetPreRollOutCallback = pmodify (\<lambda>s. s\<lparr>sg_preRollOutCallback := defaultPreRollOutCallback\<rparr>)"

definition sg_setLoggingLevel :: "level \<Rightarrow> ('f storage, unit) prog" where
  "sg_setLoggingLevel level = pmodify (\<lambda>s. s\<lparr>sg_loggingLevel := level\<rparr>)"

text \<open>Without support for threads every thread has the empty identity.\<close>

definition getCurrentThreadId :: string where
  "getCurrentThreadId = []"

definition sg_setThreadName :: "string \<Rightarrow> ('f storage, unit) prog" where
  "sg_setThreadName name =
     (if name = [] then preturn ()
      else pmodify (\<lambda>s. s\<lparr>sg_threadNames := AList.update getCurrentThreadId name (sg_threadNames s)\<rparr>))"

definition sg_getThreadName :: "string \<Rightarrow> 'f storage \<Rightarrow> string" where
  "sg_getThreadName threadId s =
     (case map_of (sg_threadNames s) threadId of None \<Rightarrow> threadId | Some name \<Rightarrow> name)"

text \<open>The members before the body of the constructor; \<open>m_loggingLevel\<close> is not initialised.\<close>

definition empty_storage :: "'f world \<Rightarrow> level \<Rightarrow> log_builder \<Rightarrow> 'f storage" where
  "empty_storage w garbage defaultLogBuilder =
     \<lparr>sg_world = w, sg_stdout = [], sg_aborted = False, sg_typed = empty_store, sg_heap = empty_store,
      sg_registeredHitCounters = [], sg_registeredLoggers = [],
      sg_defaultLogBuilder = Some defaultLogBuilder,
      sg_defaultConfigurations = setToDefault Configurations,
      sg_loggerRegistrationCallbacks = [], sg_flags = 0, sg_vRegistry = VRegistry 0,
      sg_commandLineArgs = CommandLineArgs None, sg_preRollOutCallback = defaultPreRollOutCallback,
      sg_logDispatchCallbacks = [], sg_performanceTrackingCallbacks = [], sg_threadNames = [],
      sg_customFormatSpecifiers = [],
      sg_loggingLevel = garbage\<rparr>"

definition Storage :: "'f environment \<Rightarrow> ('f storage, unit) prog" where
  "Storage env =
     pbind (RL_get env kDefaultLoggerId True) (\<lambda>_.
     pbind (RL_get env ''default'' True) (\<lambda>_.
     pbind (RL_get env kPerformanceLoggerId True) (\<lambda>performanceLogger.
     pbind (RL_get env ''performance'' True) (\<lambda>_.
       case performanceLogger of
         None \<Rightarrow> plift (Inl NullDereference)
       | Some a \<Rightarrow>
           pbind (update_logger a (\<lambda>l. l\<lparr>lg_configurations :=
               setGlobally_public Config_Format ''%datetime %level %msg'' (lg_configurations l)\<rparr>)) (\<lambda>_.
           pbind (reconfigure env a) (\<lambda>_.
           pbind (sg_addFlag AllowVerboseIfModuleNotSpecified) (\<lambda>_.
           pbind (installLogDispatchCallback ''DefaultLogDispatchCallback'' DefaultLogDispatchCallback) (\<lambda>_.
           preturn ()))))))))"

text \<open>The arguments of the program; the loggers are configured with the file alone.\<close>

definition kDefaultLogFileParam :: string where
  "kDefaultLogFileParam = ''--default-log-file''"

fun configure_all :: "'f environment \<Rightarrow> configurations \<Rightarrow> string table \<Rightarrow> ('f storage, unit) prog" where
  "configure_all env c [] = preturn ()"
| "configure_all env c ((_, p) # table) =
     (case p of
        None \<Rightarrow> plift (Inl NullDereference)
      | Some a \<Rightarrow> pbind (configure env a (Some c)) (\<lambda>_. configure_all env c table))"

definition setApplicationArguments ::
  "'f environment \<Rightarrow> string list option \<Rightarrow> ('f storage, unit) prog" where
  "setApplicationArguments env argv =
     pbind (pmodify (\<lambda>s. s\<lparr>sg_commandLineArgs := setArgs argv (sg_commandLineArgs s)\<rparr>)) (\<lambda>_.
     pbind (pmodify (\<lambda>s. s\<lparr>sg_vRegistry := setFromArgs (sg_flags s) (sg_commandLineArgs s) (sg_vRegistry s)\<rparr>)) (\<lambda>_.
     pbind (pget sg_commandLineArgs) (\<lambda>args.
     if hasParamWithValue args kDefaultLogFileParam then
       (let c = setGlobally_public Config_Filename (getParamValue args kDefaultLogFileParam) Configurations in
        pbind (RL_setDefaultConfigurations c) (\<lambda>_.
        pbind (pget sg_registeredLoggers) (\<lambda>table. configure_all env c table)))
     else preturn ())))"

section \<open>\<open>Loggers\<close>\<close>

definition getLogger :: "'f environment \<Rightarrow> string \<Rightarrow> bool \<Rightarrow> ('f storage, ptr) prog" where
  "getLogger env identity registerIfNotAvailable = RL_get env identity registerIfNotAvailable"

definition unregisterLogger :: "string \<Rightarrow> ('f storage, bool) prog" where
  "unregisterLogger identity = RL_remove identity"

definition hasLogger :: "'f environment \<Rightarrow> string \<Rightarrow> ('f storage, bool) prog" where
  "hasLogger env identity = RL_has env identity"

text \<open>The three functions of the name \<open>reconfigureLogger\<close>.\<close>

definition reconfigureLogger_ptr ::
  "'f environment \<Rightarrow> ptr \<Rightarrow> configurations \<Rightarrow> ('f storage, ptr) prog" where
  "reconfigureLogger_ptr env logger configurations =
     (case logger of
        None \<Rightarrow> preturn None
      | Some a \<Rightarrow> pbind (configure env a (Some configurations)) (\<lambda>_. preturn logger))"

definition reconfigureLogger ::
  "'f environment \<Rightarrow> string \<Rightarrow> configurations \<Rightarrow> ('f storage, ptr) prog" where
  "reconfigureLogger env identity configurations =
     pbind (getLogger env identity True) (\<lambda>logger. reconfigureLogger_ptr env logger configurations)"

definition reconfigureLogger_one ::
  "'f environment \<Rightarrow> string \<Rightarrow> config_type \<Rightarrow> string \<Rightarrow> ('f storage, ptr) prog" where
  "reconfigureLogger_one env identity configurationType value =
     pbind (getLogger env identity True) (\<lambda>logger.
       case logger of
         None \<Rightarrow> preturn None
       | Some a \<Rightarrow>
           pbind (update_logger a (\<lambda>l. l\<lparr>lg_configurations :=
               cf_set Level_Global configurationType value (lg_configurations l)\<rparr>)) (\<lambda>_.
           pbind (reconfigure env a) (\<lambda>_. preturn logger)))"

text \<open>The three functions of the name \<open>reconfigureAllLoggers\<close>.\<close>

fun reconfigure_each :: "'f environment \<Rightarrow> configurations \<Rightarrow> string table \<Rightarrow> ('f storage, unit) prog" where
  "reconfigure_each env c [] = preturn ()"
| "reconfigure_each env c ((_, p) # table) =
     pbind (reconfigureLogger_ptr env p c) (\<lambda>_. reconfigure_each env c table)"

definition reconfigureAllLoggers :: "'f environment \<Rightarrow> configurations \<Rightarrow> ('f storage, unit) prog" where
  "reconfigureAllLoggers env c = pbind (pget sg_registeredLoggers) (reconfigure_each env c)"

fun set_each ::
  "'f environment \<Rightarrow> level \<Rightarrow> config_type \<Rightarrow> string \<Rightarrow> string table \<Rightarrow> ('f storage, unit) prog" where
  "set_each env level t v [] = preturn ()"
| "set_each env level t v ((_, p) # table) =
     (case p of
        None \<Rightarrow> plift (Inl NullDereference)
      | Some a \<Rightarrow>
          pbind (update_logger a (\<lambda>l. l\<lparr>lg_configurations := cf_set level t v (lg_configurations l)\<rparr>)) (\<lambda>_.
          pbind (reconfigure env a) (\<lambda>_. set_each env level t v table)))"

definition reconfigureAllLoggers_level ::
  "'f environment \<Rightarrow> level \<Rightarrow> config_type \<Rightarrow> string \<Rightarrow> ('f storage, unit) prog" where
  "reconfigureAllLoggers_level env level configurationType value =
     pbind (pget sg_registeredLoggers) (set_each env level configurationType value)"

definition reconfigureAllLoggers_one ::
  "'f environment \<Rightarrow> config_type \<Rightarrow> string \<Rightarrow> ('f storage, unit) prog" where
  "reconfigureAllLoggers_one env configurationType value =
     reconfigureAllLoggers_level env Level_Global configurationType value"

definition setDefaultConfigurations ::
  "'f environment \<Rightarrow> configurations \<Rightarrow> bool \<Rightarrow> ('f storage, unit) prog" where
  "setDefaultConfigurations env configurations reconfigureExistingLoggers =
     pbind (RL_setDefaultConfigurations configurations) (\<lambda>_.
     if reconfigureExistingLoggers then reconfigureAllLoggers env configurations else preturn ())"

definition defaultTypedConfigurations :: "'f environment \<Rightarrow> ('f storage, typed_configurations) prog" where
  "defaultTypedConfigurations env =
     pbind (pget sg_defaultConfigurations) (\<lambda>c. on_world (TypedConfigurations (en_sys env) c))"

definition populateAllLoggerIds :: "'f storage \<Rightarrow> string list" where
  "populateAllLoggerIds s = map fst (sg_registeredLoggers s)"

text \<open>
  A configuration file for several loggers: a line with two dashes and a name starts the text
  for that logger. The state of the loop is the logger, which may be null, and the text.
\<close>

definition configure_text :: "'f environment \<Rightarrow> ptr \<Rightarrow> string \<Rightarrow> ('f storage, unit) prog" where
  "configure_text env logger ss =
     (case logger of
        Some a \<Rightarrow>
          if ss \<noteq> [] then configure env a (Some (snd (cf_parseFromText ss None Configurations)))
          else preturn ()
      | None \<Rightarrow> preturn ())"

fun global_lines ::
  "'f environment \<Rightarrow> string list \<Rightarrow> ptr \<Rightarrow> string \<Rightarrow> ('f storage, unit) prog" where
  "global_lines env [] logger ss = configure_text env logger ss"
| "global_lines env (line # lines) logger ss =
     (let line = trim line in
      if isComment line then global_lines env lines logger ss
      else
        (let line = trim (ignoreComments line) in
         if 2 < length line \<and> startsWith line kConfigurationLoggerId then
           pbind (configure_text env logger ss) (\<lambda>_.
           let line = trim (drop 2 line) in
           if 1 < length line then
             pbind (getLogger env line True) (\<lambda>logger. global_lines env lines logger [])
           else global_lines env lines logger [])
         else global_lines env lines logger (ss @ line @ [CHR 0x0A])))"

definition configureFromGlobal ::
  "'f environment \<Rightarrow> (string \<Rightarrow> string option) \<Rightarrow> string \<Rightarrow> ('f storage, unit) prog" where
  "configureFromGlobal env files globalConfigurationFilePath =
     global_lines env
       (case files globalConfigurationFilePath of None \<Rightarrow> [] | Some contents \<Rightarrow> pieces contents) None []"

definition configureFromArg ::
  "'f environment \<Rightarrow> (string \<Rightarrow> string option) \<Rightarrow> string \<Rightarrow> ('f storage, bool) prog" where
  "configureFromArg env files argKey =
     pbind (pget sg_commandLineArgs) (\<lambda>args.
     if \<not> hasParamWithValue args argKey then preturn False
     else pbind (configureFromGlobal env files (getParamValue args argKey)) (\<lambda>_. preturn True))"

definition Loggers_flushAll :: "'f environment \<Rightarrow> ('f storage, unit) prog" where
  "Loggers_flushAll env = RL_flushAll env"

definition setVerboseLevel :: "nat \<Rightarrow> ('f storage, unit) prog" where
  "setVerboseLevel level = pmodify (\<lambda>s. s\<lparr>sg_vRegistry := vr_setLevel level (sg_vRegistry s)\<rparr>)"

definition verboseLevel :: "'f storage \<Rightarrow> nat" where
  "verboseLevel s = vr_level (sg_vRegistry s)"

definition setVModules :: "string \<Rightarrow> ('f storage, unit) prog" where
  "setVModules modules =
     pmodify (\<lambda>s. if vModulesEnabled (sg_flags s)
                   then s\<lparr>sg_vRegistry := setModules (sg_flags s) modules (sg_vRegistry s)\<rparr> else s)"

definition clearVModules :: "('f storage, unit) prog" where
  "clearVModules = pmodify (\<lambda>s. s\<lparr>sg_vRegistry := vr_clearModules (sg_vRegistry s)\<rparr>)"

text \<open>A flag for the length of a scope, and what is left of it afterwards.\<close>

definition ScopedAddFlag :: "logging_flag \<Rightarrow> ('f storage, 'a) prog \<Rightarrow> ('f storage, 'a) prog" where
  "ScopedAddFlag flag body =
     pbind (sg_addFlag flag) (\<lambda>_. pbind body (\<lambda>x. pbind (sg_removeFlag flag) (\<lambda>_. preturn x)))"

definition ScopedRemoveFlag :: "logging_flag \<Rightarrow> ('f storage, 'a) prog \<Rightarrow> ('f storage, 'a) prog" where
  "ScopedRemoveFlag flag body =
     pbind (sg_removeFlag flag) (\<lambda>_. pbind body (\<lambda>x. pbind (sg_addFlag flag) (\<lambda>_. preturn x)))"

section \<open>Facts\<close>

subsection \<open>An environment that keeps a trace\<close>

text \<open>The files are the list of what was done to them.\<close>

definition trace_env :: "string list environment" where
  "trace_env = \<lparr>
     en_sys = \<lparr>sy_getenv = (\<lambda>_. None), sy_localtime = (\<lambda>_. example_tm),
       sy_now = (\<lambda>_. \<lparr>tv_sec = 0, tv_usec = 0\<rparr>),
       sy_ops = \<lparr>fo_exists = (\<lambda>_ _. True), fo_mkdir = (\<lambda>_ fs. (False, fs))\<rparr>,
       sy_open = (\<lambda>f fs. (True, fs @ [''open''])), sy_size = (\<lambda>_ fs. length fs),
       sy_truncate = (\<lambda>f fs. fs @ [''truncate''])\<rparr>,
     en_write = (\<lambda>f line fs. (False, fs @ [line])), en_flush = (\<lambda>f fs. fs @ [''flush'']),
     en_order = (\<lambda>m. m), en_registered = (\<lambda>_ _. preturn ()), en_dispatched = (\<lambda>_ _ _. preturn ()),
     en_build = (\<lambda>_ _ _. preturn [])\<rparr>"

text \<open>A storage with one logger, named default, at address 0.\<close>

definition trace_storage :: "typed_configurations \<Rightarrow> string list storage" where
  "trace_storage t =
     (empty_storage \<lparr>w_files = [], w_streams = []\<rparr> Level_Global
        \<lparr>bl_kind = DefaultLogBuilder, bl_termSupportsColor = True\<rparr>)
      \<lparr>sg_typed := \<lparr>st_objs = [0 \<mapsto> \<lparr>to_tables = t, to_owner = 0\<rparr>], st_next = 1\<rparr>,
       sg_heap := \<lparr>st_objs = [0 \<mapsto> (Logger kDefaultLoggerId)\<lparr>lg_typedConfigurations := Some 0,
           lg_logBuilder := Some \<lparr>bl_kind = DefaultLogBuilder, bl_termSupportsColor = True\<rparr>\<rparr>], st_next = 1\<rparr>,
       sg_registeredLoggers := [(kDefaultLoggerId, Some 0)],
       sg_logDispatchCallbacks :=
         [(''DefaultLogDispatchCallback'', \<lparr>cb_enabled = True, cb_kind = DefaultLogDispatchCallback\<rparr>)]\<rparr>"

subsection \<open>Reading and changing loggers\<close>

lemma logger_at_Some: "st_objs (sg_heap s) a = Some l \<Longrightarrow> logger_at a s = Some (Inr (l, s))"
  by (simp add: logger_at_def deref_def)

lemma update_logger_Some:
  "st_objs (sg_heap s) a = Some l \<Longrightarrow>
     update_logger a g s =
       Some (Inr ((), s\<lparr>sg_heap := (sg_heap s)\<lparr>st_objs := (st_objs (sg_heap s))(a \<mapsto> g l)\<rparr>\<rparr>))"
  by (simp add: update_logger_def pbind_def logger_at_Some)

lemma tables_at_Some:
  "st_objs (sg_heap s) a = Some l \<Longrightarrow> lg_typedConfigurations l = Some p \<Longrightarrow>
     st_objs (sg_typed s) p = Some ty \<Longrightarrow> tables_at a s = Some (Inr (to_tables ty, s))"
  by (simp add: tables_at_def typed_at_def pbind_def logger_at_Some deref_def)

lemma pbind_logger_at:
  "st_objs (sg_heap s) a = Some l \<Longrightarrow> pbind (logger_at a) f s = f l s"
  by (rule pbind_Inr [where m = "logger_at a"]) (rule logger_at_Some)

lemma pbind_update_logger:
  "st_objs (sg_heap s) a = Some l \<Longrightarrow>
     pbind (update_logger a g) f s =
       f () (s\<lparr>sg_heap := (sg_heap s)\<lparr>st_objs := (st_objs (sg_heap s))(a \<mapsto> g l)\<rparr>\<rparr>)"
  by (rule pbind_Inr [where m = "update_logger a g"]) (rule update_logger_Some)

lemma pbind_tables_at:
  "st_objs (sg_heap s) a = Some l \<Longrightarrow> lg_typedConfigurations l = Some p \<Longrightarrow>
     st_objs (sg_typed s) p = Some ty \<Longrightarrow> pbind (tables_at a) f s = f (to_tables ty) s"
  by (rule pbind_Inr [where m = "tables_at a"]) (rule tables_at_Some)

subsection \<open>Which objects belong to which\<close>

text \<open>What the ownership of objects depends on.\<close>

definition skeleton :: "'f storage \<Rightarrow>
    (nat \<Rightarrow> (string \<times> ptr) option) \<times> nat \<times> typed_object store \<times> string table" where
  "skeleton s =
     (\<lambda>a. map_option (\<lambda>l. (lg_id l, lg_typedConfigurations l)) (st_objs (sg_heap s) a),
      st_next (sg_heap s), sg_typed s, sg_registeredLoggers s)"

text \<open>
  Every name is registered once, for a live logger of that name; the typed configurations of a
  logger are alive and its own.
\<close>

definition owned :: "'f storage \<Rightarrow> bool" where
  "owned s \<longleftrightarrow>
     distinct (map fst (sg_registeredLoggers s)) \<and>
     (\<forall>k p. (k, p) \<in> set (sg_registeredLoggers s) \<longrightarrow>
        (\<exists>a l. p = Some a \<and> st_objs (sg_heap s) a = Some l \<and> lg_id l = k)) \<and>
     (\<forall>a l. st_objs (sg_heap s) a = Some l \<longrightarrow> a < st_next (sg_heap s) \<and>
        (\<forall>p. lg_typedConfigurations l = Some p \<longrightarrow> p < st_next (sg_typed s) \<and>
           (\<exists>t. st_objs (sg_typed s) p = Some t \<and> to_owner t = a)))"

lemma skeletonD:
  assumes "skeleton s = skeleton t"
  shows "sg_registeredLoggers t = sg_registeredLoggers s" "sg_typed t = sg_typed s"
    "st_next (sg_heap t) = st_next (sg_heap s)"
    "st_objs (sg_heap t) a = Some l \<Longrightarrow> \<exists>l'. st_objs (sg_heap s) a = Some l' \<and> lg_id l' = lg_id l \<and>
       lg_typedConfigurations l' = lg_typedConfigurations l"
proof -
  have "map_option (\<lambda>l. (lg_id l, lg_typedConfigurations l)) (st_objs (sg_heap s) a) =
      map_option (\<lambda>l. (lg_id l, lg_typedConfigurations l)) (st_objs (sg_heap t) a)"
    using assms by (simp add: skeleton_def fun_eq_iff)
  then show "st_objs (sg_heap t) a = Some l \<Longrightarrow> \<exists>l'. st_objs (sg_heap s) a = Some l' \<and> lg_id l' = lg_id l \<and>
       lg_typedConfigurations l' = lg_typedConfigurations l"
    by (cases "st_objs (sg_heap s) a") auto
qed (use assms in \<open>simp_all add: skeleton_def\<close>)

lemma owned_skeleton_imp: 
  assumes e: "skeleton s = skeleton t" and o: "owned s"
  shows "owned t"
  unfolding owned_def
proof (intro conjI allI impI)
  show "distinct (map fst (sg_registeredLoggers t))"
    using o by (simp add: owned_def skeletonD(1) [OF e])
next
  fix k p assume "(k, p) \<in> set (sg_registeredLoggers t)"
  then obtain a l where "p = Some a" "st_objs (sg_heap s) a = Some l" "lg_id l = k"
    using o unfolding owned_def skeletonD(1) [OF e] by blast
  with skeletonD(4) [OF e [symmetric], of a l]
  show "\<exists>a l. p = Some a \<and> st_objs (sg_heap t) a = Some l \<and> lg_id l = k" by auto
next
  fix a l assume "st_objs (sg_heap t) a = Some l"
  from skeletonD(4) [OF e this] o show "a < st_next (sg_heap t)"
    by (auto simp: owned_def skeletonD(3) [OF e])
next
  fix a l p assume "st_objs (sg_heap t) a = Some l" and p: "lg_typedConfigurations l = Some p"
  from skeletonD(4) [OF e this(1)] o p
  show "p < st_next (sg_typed t)" "\<exists>ty. st_objs (sg_typed t) p = Some ty \<and> to_owner ty = a"
    by (auto simp: owned_def skeletonD(2) [OF e])
qed

lemma owned_skeleton: "skeleton s = skeleton t \<Longrightarrow> owned s = owned t"
  by (metis owned_skeleton_imp)

definition same_skeleton :: "('f storage, 'a) prog \<Rightarrow> bool" where
  "same_skeleton m \<longleftrightarrow> (\<forall>k. prog_keeps (\<lambda>s. skeleton s = k) m)"

lemma same_skeleton_apply: "same_skeleton m \<Longrightarrow> m s = Some (Inr (x, t)) \<Longrightarrow> skeleton t = skeleton s"
  unfolding same_skeleton_def prog_keeps_def by blast

lemma same_skeleton_owned: "same_skeleton m \<Longrightarrow> prog_keeps owned m"
  by (rule prog_keepsI) (metis owned_skeleton same_skeleton_apply)

lemma same_skeleton_pbind [intro]:
  "same_skeleton m \<Longrightarrow> (\<And>x. same_skeleton (f x)) \<Longrightarrow> same_skeleton (pbind m f)"
  by (simp add: same_skeleton_def prog_keeps_pbind)

lemma same_skeleton_simple [simp, intro]:
  "same_skeleton (preturn x)" "same_skeleton (plift r)" "same_skeleton (pget f)"
  by (simp_all add: same_skeleton_def)

lemma same_skeleton_if [intro]: "same_skeleton m \<Longrightarrow> same_skeleton n \<Longrightarrow> same_skeleton (if b then m else n)"
  by simp

lemma same_skeleton_pfor [intro]: "(\<And>x. same_skeleton (f x)) \<Longrightarrow> same_skeleton (pfor xs f)"
  by (simp add: same_skeleton_def prog_keeps_pfor)

lemma same_skeleton_modify: "(\<And>s. skeleton (f s) = skeleton s) \<Longrightarrow> same_skeleton (pmodify f)"
  by (auto simp: same_skeleton_def prog_keeps_def)

lemma same_skeleton_read: "(\<And>s. same_skeleton (f s)) \<Longrightarrow> same_skeleton (\<lambda>s. f s s)"
  unfolding same_skeleton_def prog_keeps_def by blast

lemma same_skeleton_reads [simp, intro]:
  "same_skeleton (logger_at a)" "same_skeleton (typed_at a)" "same_skeleton (tables_at a)"
proof -
  show l: "same_skeleton (logger_at a)" for a
    unfolding logger_at_def by (rule same_skeleton_read) simp
  show t: "same_skeleton (typed_at a)" for a
    unfolding typed_at_def by (rule same_skeleton_pbind [OF l]) (rule same_skeleton_read, simp)
  show "same_skeleton (tables_at a)" unfolding tables_at_def by (rule same_skeleton_pbind [OF t]) simp
qed

lemma same_skeleton_update:
  assumes "\<And>l. lg_id (g l) = lg_id l" "\<And>l. lg_typedConfigurations (g l) = lg_typedConfigurations l"
  shows "same_skeleton (update_logger a g)"
  unfolding same_skeleton_def
proof (intro allI prog_keepsI)
  fix k s x t
  assume k: "skeleton s = k" and r: "update_logger a g s = Some (Inr (x, t))"
  show "skeleton t = k"
  proof (cases "st_objs (sg_heap s) a")
    case None
    with r show ?thesis by (simp add: update_logger_def pbind_def logger_at_def deref_def)
  next
    case (Some l)
    with r have "t = s\<lparr>sg_heap := (sg_heap s)\<lparr>st_objs := (st_objs (sg_heap s))(a \<mapsto> g l)\<rparr>\<rparr>"
      by (simp add: update_logger_def pbind_def logger_at_def deref_def)
    with k Some show ?thesis by (auto simp: skeleton_def assms fun_eq_iff)
  qed
qed

lemma same_skeleton_world [simp, intro]: "same_skeleton (on_world f)"
  by (auto simp: same_skeleton_def prog_keeps_def on_world_def obind_def skeleton_def split: option.splits sum.splits)

lemma same_skeleton_files [simp, intro]:
  "same_skeleton (flush_file env f)"
  "same_skeleton (update_logger a (set_unflushed level n))"
  "same_skeleton (update_logger a (\<lambda>l. initUnflushedCount (l\<lparr>lg_isConfigured := b\<rparr>)))"
  "same_skeleton (update_logger a (\<lambda>l. l\<lparr>lg_configurations := g (lg_configurations l)\<rparr>))"
  "same_skeleton (update_logger a (\<lambda>l. l\<lparr>lg_logBuilder := lb\<rparr>))"
  "same_skeleton (validateFileRolling_at env a level)"
proof -
  show "same_skeleton (flush_file env f)"
    unfolding flush_file_def by (rule same_skeleton_modify) (simp add: skeleton_def)
  show "same_skeleton (validateFileRolling_at env a level)"
    unfolding validateFileRolling_at_def by (intro same_skeleton_pbind) simp_all
qed (rule same_skeleton_update; simp add: set_unflushed_def initUnflushedCount_def)+

lemma same_skeleton_flush [simp, intro]:
  "same_skeleton (flush_level env a level fs)" "same_skeleton (logger_flush env a)"
proof -
  show f: "same_skeleton (flush_level env a level fs)" for level fs
    unfolding flush_level_def by (intro same_skeleton_pbind) (auto split: option.split)
  show "same_skeleton (logger_flush env a)" unfolding logger_flush_def by (rule same_skeleton_pfor) (rule f)
qed

lemma update_logger_eq:
  "update_logger a g s = Some (Inr (x, t)) \<longleftrightarrow>
     (\<exists>l. st_objs (sg_heap s) a = Some l \<and>
        t = s\<lparr>sg_heap := (sg_heap s)\<lparr>st_objs := (st_objs (sg_heap s))(a \<mapsto> g l)\<rparr>\<rparr>)"
  by (cases "st_objs (sg_heap s) a") (auto simp: update_logger_def pbind_def logger_at_def deref_def)

lemma logger_at_eq: "logger_at a s = Some (Inr (l, t)) \<longleftrightarrow> st_objs (sg_heap s) a = Some l \<and> t = s"
  by (auto simp: logger_at_def deref_def plift_def split: option.splits)

lemma delete_typed_eq:
  "delete_typed p s = Some (Inr (x, t)) \<longleftrightarrow>
     (case p of None \<Rightarrow> t = s
      | Some q \<Rightarrow> st_objs (sg_typed s) q \<noteq> None \<and>
          t = s\<lparr>sg_typed := (sg_typed s)\<lparr>st_objs := (st_objs (sg_typed s))(q := None)\<rparr>\<rparr>)"
  by (auto simp: delete_typed_def safeDelete_def split: option.splits)

lemma on_world_eq:
  "on_world f s = Some (Inr (x, t)) \<longleftrightarrow> (\<exists>w. f (sg_world s) = Some (Inr (x, w)) \<and> t = s\<lparr>sg_world := w\<rparr>)"
  by (auto simp: on_world_def obind_def split: option.splits sum.splits)

lemma new_typed_eq:
  "new_typed ty s = Some (Inr (p, t)) \<longleftrightarrow>
     p = Some (st_next (sg_typed s)) \<and>
     t = s\<lparr>sg_typed := (sg_typed s)\<lparr>st_objs := (st_objs (sg_typed s))(st_next (sg_typed s) \<mapsto> ty),
             st_next := Suc (st_next (sg_typed s))\<rparr>\<rparr>"
  by (auto simp: new_typed_def new_object_def)

lemma plift_eq: "plift r s = Some (Inr (x, t)) \<longleftrightarrow> r = Inr x \<and> t = s"
  by (auto simp: plift_def split: sum.splits)

lemmas prog_eqs = update_logger_eq logger_at_eq delete_typed_eq on_world_eq new_typed_eq plift_eq pbind_eq_Inr

text \<open>New typed configurations in place of the old ones of a logger.\<close>

lemma owned_replace:
  assumes o: "owned s" and l: "st_objs (sg_heap s) a = Some l"
    and l': "lg_id l' = lg_id l" "lg_typedConfigurations l' = Some (st_next (sg_typed s))"
    and ty: "to_owner ty = a"
  shows "owned (s\<lparr>sg_world := w,
    sg_typed := (sg_typed s)\<lparr>st_objs := (\<lambda>q. if Some q = lg_typedConfigurations l then None
        else st_objs (sg_typed s) q)(st_next (sg_typed s) \<mapsto> ty), st_next := Suc (st_next (sg_typed s))\<rparr>,
    sg_heap := (sg_heap s)\<lparr>st_objs := (st_objs (sg_heap s))(a \<mapsto> l')\<rparr>\<rparr>)"
proof -
  have 1: "\<exists>b m. p = Some b \<and> (if b = a then Some l' else st_objs (sg_heap s) b) = Some m \<and> lg_id m = k"
    if kp: "(k, p) \<in> set (sg_registeredLoggers s)" for k p
  proof -
    from o kp obtain b m where "p = Some b" "st_objs (sg_heap s) b = Some m" "lg_id m = k"
      unfolding owned_def by blast
    with l l' show ?thesis by (cases "b = a") auto
  qed
  have 2: "b < st_next (sg_heap s)" "p < st_next (sg_typed s) \<and> (\<exists>t. st_objs (sg_typed s) p = Some t \<and> to_owner t = b)"
    if "st_objs (sg_heap s) b = Some m" "lg_typedConfigurations m = Some p" for b m p
    using o that unfolding owned_def by blast+
  have 3: "lg_typedConfigurations l \<noteq> Some p" if "st_objs (sg_heap s) b = Some m" "lg_typedConfigurations m = Some p"
    "b \<noteq> a" for b m p
    using 2(2) [OF that(1, 2)] 2(2) [OF l, of p] that(3) by auto
  have 4: "b < st_next (sg_heap s)" if "st_objs (sg_heap s) b = Some m" for b m
    using o that unfolding owned_def by blast
  show ?thesis
    unfolding owned_def
  proof (intro conjI allI impI, goal_cases)
    case 1
    show ?case using o by (simp add: owned_def)
  next
    case (2 k p)
    with 1 show ?case by (auto simp: fun_upd_def)
  next
    case (3 b m)
    then show ?case using 4 l by (auto split: if_splits)
  next
    case (4 b m p)
    then show ?case using 2(2) l'(2) by (auto split: if_splits simp: less_Suc_eq)
  next
    case (5 b m p)
    show ?case
    proof (cases "b = a")
      case True
      with 5 l' ty show ?thesis by simp
    next
      case False
      with 5 have m: "st_objs (sg_heap s) b = Some m" "lg_typedConfigurations m = Some p" by simp_all
      with 2(2) [OF m] 3 [OF m False] show ?thesis by auto
    qed
  qed
qed

text \<open>The two halves of \<open>configure\<close>: before and after the old typed configurations are deleted.\<close>

definition configure_prepare :: "'f environment \<Rightarrow> nat \<Rightarrow> configurations option \<Rightarrow> ('f storage, ptr) prog" where
  "configure_prepare env a c =
     pbind (update_logger a (\<lambda>l. initUnflushedCount (l\<lparr>lg_isConfigured := False\<rparr>))) (\<lambda>_.
     pbind (logger_at a) (\<lambda>l.
     pbind (if lg_typedConfigurations l = None then preturn ()
            else pbind (typed_at a) (\<lambda>t. pbind (logger_at (to_owner t)) (\<lambda>c.
                   if hasConfiguration Level_Global Config_Filename (lg_configurations c)
                   then logger_flush env a else preturn ()))) (\<lambda>_.
     pbind (update_logger a (\<lambda>l. l\<lparr>lg_configurations := setFromBase c (lg_configurations l)\<rparr>)) (\<lambda>_.
     preturn (lg_typedConfigurations l)))))"

definition configure_install :: "'f environment \<Rightarrow> nat \<Rightarrow> ptr \<Rightarrow> ('f storage, unit) prog" where
  "configure_install env a p =
     pbind (delete_typed p) (\<lambda>_.
     pbind (logger_at a) (\<lambda>l.
     pbind (on_world (TypedConfigurations (en_sys env) (lg_configurations l))) (\<lambda>t.
     pbind (plift (resolveLoggerFormatSpec (lg_id l) t)) (\<lambda>t.
     pbind (new_typed \<lparr>to_tables = t, to_owner = a\<rparr>) (\<lambda>p.
     update_logger a (\<lambda>l. l\<lparr>lg_typedConfigurations := p, lg_isConfigured := True\<rparr>))))))"

lemma configure_halves: "configure env a c = pbind (configure_prepare env a c) (configure_install env a)"
  by (simp add: configure_def configure_prepare_def configure_install_def pbind_assoc)

lemma prepare_skeleton: "same_skeleton (configure_prepare env a c)"
  unfolding configure_prepare_def by (intro same_skeleton_pbind same_skeleton_if) auto

lemma prepare_result:
  assumes "configure_prepare env a c s = Some (Inr (p, t))"
  shows "\<exists>l. st_objs (sg_heap s) a = Some l \<and> p = lg_typedConfigurations l"
  using assms by (auto simp: configure_prepare_def pbind_eq_Inr update_logger_eq logger_at_eq initUnflushedCount_def)

lemma install_owned:
  assumes o: "owned s" and l: "st_objs (sg_heap s) a = Some l" "p = lg_typedConfigurations l"
    and r: "configure_install env a p s = Some (Inr (x, t))"
  shows "owned t"
proof -
  define s0 where "s0 = s\<lparr>sg_typed := (sg_typed s)\<lparr>st_objs :=
      (\<lambda>q. if Some q = lg_typedConfigurations l then None else st_objs (sg_typed s) q)\<rparr>\<rparr>"
  have d: "delete_typed p s = Some (Inr (y, u)) \<Longrightarrow> u = s0" for y u
    using l(2) by (auto simp: delete_typed_eq s0_def fun_upd_def split: option.splits)
  from r obtain w ty where "t = s0\<lparr>sg_world := w,
    sg_typed := (sg_typed s0)\<lparr>st_objs := (st_objs (sg_typed s0))
      (st_next (sg_typed s0) \<mapsto> \<lparr>to_tables = ty, to_owner = a\<rparr>), st_next := Suc (st_next (sg_typed s0))\<rparr>,
    sg_heap := (sg_heap s0)\<lparr>st_objs := (st_objs (sg_heap s0))
      (a \<mapsto> l\<lparr>lg_typedConfigurations := Some (st_next (sg_typed s0)), lg_isConfigured := True\<rparr>)\<rparr>\<rparr>"
    unfolding configure_install_def
    by (auto simp: pbind_eq_Inr dest!: d)
       (use l(1) in \<open>auto simp: s0_def update_logger_eq logger_at_eq on_world_eq new_typed_eq plift_eq\<close>)
  then show ?thesis
    using owned_replace [OF o l(1), of "l\<lparr>lg_typedConfigurations := Some (st_next (sg_typed s)), lg_isConfigured := True\<rparr>"
        "\<lparr>to_tables = ty, to_owner = a\<rparr>" w]
    by (simp add: s0_def)
qed

lemma configure_owned: "prog_keeps owned (configure env a c)"
proof (rule prog_keepsI)
  fix s x t
  assume o: "owned s" and r: "configure env a c s = Some (Inr (x, t))"
  from r obtain p u where p: "configure_prepare env a c s = Some (Inr (p, u))"
    and i: "configure_install env a p u = Some (Inr (x, t))"
    by (auto simp: configure_halves pbind_eq_Inr)
  from same_skeleton_apply [OF prepare_skeleton p] have e: "skeleton u = skeleton s" .
  from prepare_result [OF p] obtain l where l: "st_objs (sg_heap s) a = Some l" "p = lg_typedConfigurations l"
    by blast
  from skeletonD(4) [OF e l(1)] l(2)
  obtain l' where "st_objs (sg_heap u) a = Some l'" "p = lg_typedConfigurations l'" by auto
  then show "owned t" using install_owned [OF _ _ _ i] o owned_skeleton [OF e] by blast
qed

lemma configure_keeps_name:
  assumes "configure env a c s = Some (Inr (x, t))" and "st_objs (sg_heap s) a = Some l"
  shows "sg_registeredLoggers t = sg_registeredLoggers s \<and> (\<exists>l'. st_objs (sg_heap t) a = Some l' \<and> lg_id l' = lg_id l)"
proof -
  from assms(1) obtain p u where p: "configure_prepare env a c s = Some (Inr (p, u))"
    and i: "configure_install env a p u = Some (Inr (x, t))"
    by (auto simp: configure_halves pbind_eq_Inr)
  from same_skeleton_apply [OF prepare_skeleton p] have e: "skeleton u = skeleton s" .
  from skeletonD(4) [OF e assms(2)] obtain l' where l': "st_objs (sg_heap u) a = Some l'" "lg_id l' = lg_id l" by blast
  have d: "st_objs (sg_heap u') = st_objs (sg_heap u) \<and> sg_registeredLoggers u' = sg_registeredLoggers u"
    if "delete_typed p u = Some (Inr (y, u'))" for y u'
    using that by (auto simp: delete_typed_eq split: option.splits)
  from i l' have "sg_registeredLoggers t = sg_registeredLoggers u \<and> (\<exists>l'. st_objs (sg_heap t) a = Some l' \<and> lg_id l' = lg_id l)"
    unfolding configure_install_def
    by (auto simp: pbind_eq_Inr dest!: d)
       (auto simp: update_logger_eq logger_at_eq on_world_eq new_typed_eq plift_eq)
  then show ?thesis by (simp add: skeletonD(1) [OF e])
qed

subsection \<open>Registering and unregistering\<close>

lemma Registry_get_Some: "Registry_get i table = Some a \<Longrightarrow> (i, Some a) \<in> set table"
  by (auto simp: Registry_get_def dest: map_of_SomeD split: option.splits)

lemma Registry_get_None: "owned s \<Longrightarrow> Registry_get i (sg_registeredLoggers s) = None \<Longrightarrow> map_of (sg_registeredLoggers s) i = None"
  by (auto simp: Registry_get_def owned_def dest!: map_of_SomeD split: option.splits)

text \<open>Unregistering deletes the logger with all it owns, and nothing else.\<close>

definition without :: "string \<Rightarrow> nat \<Rightarrow> logger \<Rightarrow> 'f storage \<Rightarrow> 'f storage" where
  "without i a l s = s\<lparr>
     sg_typed := (sg_typed s)\<lparr>st_objs := (\<lambda>q. if Some q = lg_typedConfigurations l then None else st_objs (sg_typed s) q)\<rparr>,
     sg_heap := (sg_heap s)\<lparr>st_objs := (st_objs (sg_heap s))(a := None)\<rparr>,
     sg_registeredLoggers := filter (\<lambda>(k, _). k \<noteq> i) (sg_registeredLoggers s)\<rparr>"

lemma RL_unregister_owned:
  assumes o: "owned s" and g: "Registry_get i (sg_registeredLoggers s) = Some a"
    and l: "st_objs (sg_heap s) a = Some l"
  shows "RL_unregister i s = Some (Inr ((), without i a l s))"
proof -
  have t: "st_objs (sg_typed s) q \<noteq> None" if "lg_typedConfigurations l = Some q" for q
    using o l that unfolding owned_def by fastforce
  then show ?thesis
    using g l by (cases "lg_typedConfigurations l")
      (auto simp: RL_unregister_def delete_logger_def logger_at_Some pbind_def delete_typed_def
        safeDelete_def without_def fun_upd_def split: option.split cong: if_cong)
qed

lemma owned_without:
  assumes o: "owned s" and g: "Registry_get i (sg_registeredLoggers s) = Some a"
    and l: "st_objs (sg_heap s) a = Some l"
  shows "owned (without i a l s)"
proof -
  have i: "lg_id l = i"
    using o Registry_get_Some [OF g] l unfolding owned_def by fastforce
  have own: "b < st_next (sg_heap s)" "\<And>p. lg_typedConfigurations m = Some p \<Longrightarrow>
      p < st_next (sg_typed s) \<and> (\<exists>t. st_objs (sg_typed s) p = Some t \<and> to_owner t = b)"
    if "st_objs (sg_heap s) b = Some m" for b m
    using o that unfolding owned_def by blast+
  show ?thesis
    unfolding owned_def
  proof (intro conjI allI impI, goal_cases)
    case 1
    then show ?case using o by (simp add: without_def owned_def distinct_map_filter)
  next
    case (2 k p)
    then have "(k, p) \<in> set (sg_registeredLoggers s)" and k: "k \<noteq> i" by (auto simp: without_def)
    with o obtain b m where "p = Some b" "st_objs (sg_heap s) b = Some m" "lg_id m = k"
      unfolding owned_def by blast
    with k i l show ?case by (auto simp: without_def)
  next
    case (3 b m)
    then show ?case using own(1) by (auto simp: without_def split: if_splits)
  next
    case (4 b m p)
    then show ?case using own(2) by (auto simp: without_def split: if_splits)
  next
    case (5 b m p)
    then have m: "st_objs (sg_heap s) b = Some m" "b \<noteq> a" "lg_typedConfigurations m = Some p"
      by (auto simp: without_def split: if_splits)
    with own(2) [OF m(1) m(3)] own(2) [OF l, of p] have "lg_typedConfigurations l \<noteq> Some p" by auto
    with own(2) [OF m(1) m(3)] show ?case by (auto simp: without_def)
  qed
qed

lemma new_logger_owned:
  assumes "owned s" and "new_logger (Logger i) s = Some (Inr (a, t))"
  shows "owned t \<and> sg_registeredLoggers t = sg_registeredLoggers s \<and>
    (\<exists>l. st_objs (sg_heap t) a = Some l \<and> lg_id l = i)"
proof -
  let ?t = "s\<lparr>sg_heap := (sg_heap s)\<lparr>st_objs := (st_objs (sg_heap s))(st_next (sg_heap s) \<mapsto> Logger i),
      st_next := Suc (st_next (sg_heap s))\<rparr>\<rparr>"
  have t: "t = ?t" "a = st_next (sg_heap s)" using assms(2) by (auto simp: new_logger_def new_object_def)
  have n: "lg_typedConfigurations (Logger i) = None" "lg_id (Logger i) = i"
    by (simp_all add: Logger_def initUnflushedCount_def)
  have o: "b < st_next (sg_heap s)" "\<And>p. lg_typedConfigurations m = Some p \<Longrightarrow>
      p < st_next (sg_typed s) \<and> (\<exists>t. st_objs (sg_typed s) p = Some t \<and> to_owner t = b)"
    if "st_objs (sg_heap s) b = Some m" for b m
    using assms(1) that unfolding owned_def by blast+
  have "owned ?t"
    unfolding owned_def
  proof (intro conjI allI impI, goal_cases)
    case 1
    then show ?case using assms(1) by (simp add: owned_def)
  next
    case (2 k p)
    with assms(1) obtain b m where bm: "p = Some b" "st_objs (sg_heap s) b = Some m" "lg_id m = k"
      unfolding owned_def by fastforce
    with o(1) [OF bm(2)] show ?case by auto
  next
    case (3 b m)
    then show ?case using o(1) by (auto split: if_splits simp: less_Suc_eq)
  next
    case (4 b m p)
    then show ?case using o(2) n by (auto split: if_splits)
  next
    case (5 b m p)
    then show ?case using o(2) n by (auto split: if_splits)
  qed
  then show ?thesis by (auto simp: t n)
qed

lemma owned_insert:
  assumes "owned s" and "map_of (sg_registeredLoggers s) i = None"
    and "st_objs (sg_heap s) a = Some l" and "lg_id l = i"
  shows "owned (s\<lparr>sg_registeredLoggers := table_insert i (Some a) (sg_registeredLoggers s)\<rparr>)"
  using assms unfolding owned_def table_insert_def by (auto simp: map_of_eq_None_iff)

text \<open>The callbacks of the user may do anything that keeps the ownership.\<close>

definition good_callbacks :: "'f environment \<Rightarrow> bool" where
  "good_callbacks env \<longleftrightarrow> (\<forall>k a. prog_keeps owned (en_registered env k a))"

lemma callbacks_owned: "good_callbacks env \<Longrightarrow> prog_keeps owned (run_registration_callbacks env a)"
  unfolding run_registration_callbacks_def good_callbacks_def
  by (intro prog_keeps_pbind prog_keeps_pfor) (auto split: prod.split)

lemma RL_get_owned: "good_callbacks env \<Longrightarrow> prog_keeps owned (RL_get env i force)"
proof (rule prog_keepsI)
  fix s x t
  assume g: "good_callbacks env" and o: "owned s" and r: "RL_get env i force s = Some (Inr (x, t))"
  show "owned t"
  proof (cases "Registry_get i (sg_registeredLoggers s) = None \<and> force \<and> isValidId i")
    case False
    with r o show ?thesis by (auto simp: RL_get_def Let_def split: if_splits)
  next
    case True
    with r obtain a s1 b s2 s3 where
      1: "Logger_configured env i (sg_defaultConfigurations s) s = Some (Inr (a, s1))"
      and 2: "update_logger a (\<lambda>l. l\<lparr>lg_logBuilder := b\<rparr>) s1 = Some (Inr ((), s2))"
      and 3: "RL_registerNew i a s2 = Some (Inr ((), s3))"
      and 4: "run_registration_callbacks env a s3 = Some (Inr ((), t))"
      by (auto simp: RL_get_def Let_def pbind_eq_Inr)
    from 1 obtain s0 where n: "new_logger (Logger i) s = Some (Inr (a, s0))"
      and c: "configure env a (Some (sg_defaultConfigurations s)) s0 = Some (Inr ((), s1))"
      by (auto simp: Logger_configured_def pbind_eq_Inr)
    from new_logger_owned [OF o n] obtain l where
      s0: "owned s0" "sg_registeredLoggers s0 = sg_registeredLoggers s" "st_objs (sg_heap s0) a = Some l" "lg_id l = i"
      by blast
    from configure_keeps_name [OF c s0(3)] s0 prog_keepsD [OF configure_owned s0(1) c] obtain l1 where
      s1: "owned s1" "sg_registeredLoggers s1 = sg_registeredLoggers s" "st_objs (sg_heap s1) a = Some l1" "lg_id l1 = i"
      by auto
    from same_skeleton_apply [OF same_skeleton_files(5) 2] have e: "skeleton s2 = skeleton s1" .
    with s1 2 have s2: "owned s2" "sg_registeredLoggers s2 = sg_registeredLoggers s"
      "\<exists>l. st_objs (sg_heap s2) a = Some l \<and> lg_id l = i"
      using owned_skeleton [OF e] by (auto simp: update_logger_eq)
    have nr: "Registry_get i (sg_registeredLoggers s2) = None" using True s2(2) by simp
    with 3 have s3: "s3 = s2\<lparr>sg_registeredLoggers := table_insert i (Some a) (sg_registeredLoggers s2)\<rparr>"
      by (auto simp: RL_registerNew_def RL_unregister_def pbind_eq_Inr)
    have "owned s3"
      using s2(3) owned_insert [OF s2(1) Registry_get_None [OF s2(1) nr]] s3 by blast
    with 4 callbacks_owned [OF g] show ?thesis by (meson prog_keepsD)
  qed
qed

lemma RL_remove_result:
  assumes o: "owned s" and i: "i \<noteq> kDefaultLoggerId"
  shows "\<exists>t. RL_remove i s = Some (Inr (True, t)) \<and> owned t \<and> Registry_get i (sg_registeredLoggers t) = None"
proof (cases "Registry_get i (sg_registeredLoggers s)")
  case None
  with assms show ?thesis by (auto simp: RL_remove_def)
next
  case (Some a)
  from o Registry_get_Some [OF this] obtain l where l: "st_objs (sg_heap s) a = Some l" "lg_id l = i"
    unfolding owned_def by blast
  have "map_of (filter (\<lambda>(k, _). k \<noteq> i) (sg_registeredLoggers s)) i = None"
    by (auto simp: map_of_eq_None_iff)
  then have "Registry_get i (sg_registeredLoggers (without i a l s)) = None"
    by (simp add: Registry_get_def without_def)
  with owned_without [OF o Some l(1)] show ?thesis
    using i Some l RL_unregister_owned [OF o Some l(1)]
    by (simp add: RL_remove_def pbind_logger_at [OF l(1)] pbind_Inr [where m = "RL_unregister i"])
qed

lemma RL_remove_owned: "prog_keeps owned (RL_remove i)"
proof (rule prog_keepsI)
  fix s x t assume "owned s" "RL_remove i s = Some (Inr (x, t))"
  then show "owned t"
    using RL_remove_result [of s i] by (cases "i = kDefaultLoggerId") (auto simp: RL_remove_def)
qed

lemma configure_all_owned: "prog_keeps owned (configure_all env c table)"
  by (induction env c table rule: configure_all.induct) (auto intro: configure_owned split: option.split)

lemma reconfigure_ptr_owned: "prog_keeps owned (reconfigureLogger_ptr env p c)"
  by (auto simp: reconfigureLogger_ptr_def intro: configure_owned split: option.split)

lemma reconfigure_each_owned: "prog_keeps owned (reconfigure_each env c table)"
  by (induction env c table rule: reconfigure_each.induct) (auto intro: reconfigure_ptr_owned)

lemma set_configuration_owned:
  "prog_keeps owned (update_logger a (\<lambda>l. l\<lparr>lg_configurations := g (lg_configurations l)\<rparr>))"
  by (rule same_skeleton_owned) simp

lemma set_each_owned: "prog_keeps owned (set_each env level ty v table)"
proof (induction env level ty v table rule: set_each.induct)
  case (2 env level t v k p table)
  then show ?case
    by (cases p) (auto intro!: prog_keeps_pbind set_configuration_owned configure_owned simp: reconfigure_def)
qed auto

lemma modify_owned: "(\<And>s. skeleton (f s) = skeleton s) \<Longrightarrow> prog_keeps owned (pmodify f)"
  by (rule same_skeleton_owned) (rule same_skeleton_modify)

lemma flushAll_owned: "prog_keeps owned (RL_unsafeFlushAll env)"
  unfolding RL_unsafeFlushAll_def
  by (intro prog_keeps_pbind prog_keeps_pfor) (auto intro: same_skeleton_owned split: option.split prod.split)

lemma configure_text_owned: "prog_keeps owned (configure_text env p ss)"
  by (auto simp: configure_text_def intro: configure_owned split: option.split)

lemma global_lines_owned: "good_callbacks env \<Longrightarrow> prog_keeps owned (global_lines env lines p ss)"
proof (induction env lines p ss rule: global_lines.induct)
  case (2 env line lines logger ss)
  then show ?case
    by (auto simp: Let_def getLogger_def intro!: prog_keeps_pbind configure_text_owned RL_get_owned)
qed (simp add: configure_text_owned)

lemma Storage_owned: "good_callbacks env \<Longrightarrow> prog_keeps owned (Storage env)"
  unfolding Storage_def
  by (intro prog_keeps_pbind RL_get_owned)
     (auto split: option.split intro!: prog_keeps_pbind RL_get_owned set_configuration_owned configure_owned
        modify_owned simp: reconfigure_def sg_addFlag_def installLogDispatchCallback_def skeleton_def
        case_prod_beta Let_def)

section \<open>Steps\<close>

text \<open>What a program does to the loggers, in any order and number.\<close>

inductive api_step :: "'f environment \<Rightarrow> 'f storage \<Rightarrow> 'f storage \<Rightarrow> bool" for env where
  initialize: "Storage env s = Some (Inr ((), t)) \<Longrightarrow> api_step env s t"
| get: "getLogger env i force s = Some (Inr (p, t)) \<Longrightarrow> api_step env s t"
| unregister: "unregisterLogger i s = Some (Inr (b, t)) \<Longrightarrow> api_step env s t"
| reconfigure: "reconfigureLogger env i c s = Some (Inr (p, t)) \<Longrightarrow> api_step env s t"
| reconfigure_one: "reconfigureLogger_one env i ty v s = Some (Inr (p, t)) \<Longrightarrow> api_step env s t"
| reconfigure_all: "reconfigureAllLoggers env c s = Some (Inr ((), t)) \<Longrightarrow> api_step env s t"
| reconfigure_all_level: "reconfigureAllLoggers_level env level ty v s = Some (Inr ((), t)) \<Longrightarrow> api_step env s t"
| defaults: "setDefaultConfigurations env c existing s = Some (Inr ((), t)) \<Longrightarrow> api_step env s t"
| global: "configureFromGlobal env files path s = Some (Inr ((), t)) \<Longrightarrow> api_step env s t"
| args: "setApplicationArguments env argv s = Some (Inr ((), t)) \<Longrightarrow> api_step env s t"
| flush_all: "Loggers_flushAll env s = Some (Inr ((), t)) \<Longrightarrow> api_step env s t"

text \<open>From a storage without loggers, whatever its configurations and flags are.\<close>

definition no_loggers :: "'f storage \<Rightarrow> bool" where
  "no_loggers s \<longleftrightarrow> sg_registeredLoggers s = [] \<and> sg_heap s = empty_store \<and> sg_typed s = empty_store"

inductive api_reaches :: "'f environment \<Rightarrow> 'f storage \<Rightarrow> bool" for env where
  start: "no_loggers s \<Longrightarrow> api_reaches env s"
| step: "api_reaches env s \<Longrightarrow> api_step env s t \<Longrightarrow> api_reaches env t"

lemma api_step_owned: "good_callbacks env \<Longrightarrow> api_step env s t \<Longrightarrow> owned s \<Longrightarrow> owned t"
proof (erule api_step.cases, goal_cases)
  case (1 s t)
  then show ?case using prog_keepsD [OF Storage_owned] by auto
next
  case (2 i force s p t)
  then show ?case using prog_keepsD [OF RL_get_owned] by (auto simp: getLogger_def)
next
  case (3 i s b t)
  then show ?case using prog_keepsD [OF RL_remove_owned] by (auto simp: unregisterLogger_def)
next
  case (4 i c s p t)
  have "prog_keeps owned (reconfigureLogger env i c)"
    unfolding reconfigureLogger_def getLogger_def by (intro prog_keeps_pbind RL_get_owned reconfigure_ptr_owned 4)
  with 4 show ?case by (auto dest: prog_keepsD)
next
  case (5 i ty v s p t)
  have "prog_keeps owned (reconfigureLogger_one env i ty v)"
    unfolding reconfigureLogger_one_def getLogger_def
    by (intro prog_keeps_pbind RL_get_owned 5)
       (auto split: option.split intro!: prog_keeps_pbind set_configuration_owned configure_owned simp: reconfigure_def)
  with 5 show ?case by (auto dest: prog_keepsD)
next
  case (6 c s t)
  have "prog_keeps owned (reconfigureAllLoggers env c)"
    unfolding reconfigureAllLoggers_def by (intro prog_keeps_pbind reconfigure_each_owned) simp
  with 6 show ?case by (auto dest: prog_keepsD)
next
  case (7 level ty v s t)
  have "prog_keeps owned (reconfigureAllLoggers_level env level ty v)"
    unfolding reconfigureAllLoggers_level_def by (intro prog_keeps_pbind set_each_owned) simp
  with 7 show ?case by (auto dest: prog_keepsD)
next
  case (8 c existing s t)
  have "prog_keeps owned (setDefaultConfigurations env c existing)"
    unfolding setDefaultConfigurations_def reconfigureAllLoggers_def RL_setDefaultConfigurations_def
    by (intro prog_keeps_pbind modify_owned) (auto simp: skeleton_def intro!: prog_keeps_pbind reconfigure_each_owned)
  with 8 show ?case by (auto dest: prog_keepsD)
next
  case (9 files path s t)
  then show ?case using prog_keepsD [OF global_lines_owned] by (auto simp: configureFromGlobal_def)
next
  case (10 argv s t)
  have "prog_keeps owned (setApplicationArguments env argv)"
    unfolding setApplicationArguments_def RL_setDefaultConfigurations_def
    by (intro prog_keeps_pbind modify_owned)
       (auto simp: skeleton_def Let_def intro!: prog_keeps_pbind modify_owned configure_all_owned)
  with 10 show ?case by (auto dest: prog_keepsD)
next
  case (11 s t)
  then show ?case using prog_keepsD [OF flushAll_owned] by (auto simp: Loggers_flushAll_def RL_flushAll_def)
qed

lemma no_loggers_owned: "no_loggers s \<Longrightarrow> owned s"
  by (simp add: owned_def no_loggers_def empty_store_def)

lemma empty_storage_fresh: "no_loggers (empty_storage w g b)"
  by (simp add: no_loggers_def empty_storage_def)

lemma reaches_owned: "good_callbacks env \<Longrightarrow> api_reaches env s \<Longrightarrow> owned s"
  by (rotate_tac, induction rule: api_reaches.induct) (auto intro: no_loggers_owned api_step_owned)

text \<open>
  C34. However a program gets, configures, reconfigures, flushes and unregisters loggers, each
  name stays registered once, for a live logger of that name, and the typed configurations of
  every logger are alive and its own. So unregistering a logger always succeeds: nothing is
  deleted twice, and only the default logger cannot be unregistered.
\<close>

theorem loggers_own_configurations:
  assumes "good_callbacks env" and "api_reaches env s"
  shows "owned s \<and> (\<exists>t. unregisterLogger i s = Some (Inr (i \<noteq> kDefaultLoggerId, t)) \<and>
    owned t \<and> (i = kDefaultLoggerId \<or> Registry_get i (sg_registeredLoggers t) = None))"
proof -
  have o: "owned s" using assms by (rule reaches_owned)
  then show ?thesis
    using RL_remove_result [OF o, of i] by (cases "i = kDefaultLoggerId") (auto simp: unregisterLogger_def RL_remove_def)
qed

text \<open>A storage whose default is a format for one level, and the logger a program gets from it.\<close>

definition small_storage :: "string list storage" where
  "small_storage = (empty_storage \<lparr>w_files = [], w_streams = []\<rparr> Level_Global
       \<lparr>bl_kind = DefaultLogBuilder, bl_termSupportsColor = True\<rparr>)
     \<lparr>sg_defaultConfigurations := Configurations\<lparr>cf_list := [Configuration Level_Info Config_Format ''m'']\<rparr>\<rparr>"

definition first_logger :: "(ptr \<times> string list storage) option" where
  "first_logger =
     (case getLogger trace_env ''a'' True small_storage of Some (Inr x) \<Rightarrow> Some x | _ \<Rightarrow> None)"

lemma small_storage_code [code]:
  "small_storage = \<lparr>sg_world = \<lparr>w_files = [], w_streams = []\<rparr>, sg_stdout = [], sg_aborted = False,
     sg_typed = empty_store, sg_heap = empty_store, sg_registeredHitCounters = [], sg_registeredLoggers = [],
     sg_defaultLogBuilder = Some \<lparr>bl_kind = DefaultLogBuilder, bl_termSupportsColor = True\<rparr>,
     sg_defaultConfigurations = Configurations\<lparr>cf_list := [Configuration Level_Info Config_Format ''m'']\<rparr>,
     sg_loggerRegistrationCallbacks = [], sg_flags = 0, sg_vRegistry = VRegistry 0,
     sg_commandLineArgs = CommandLineArgs None, sg_preRollOutCallback = defaultPreRollOutCallback,
     sg_logDispatchCallbacks = [], sg_performanceTrackingCallbacks = [], sg_threadNames = [],
      sg_customFormatSpecifiers = [],
     sg_loggingLevel = Level_Global\<rparr>"
  by (simp add: small_storage_def empty_storage_def)

lemmas [code] = cf_set_fold

lemma first_logger_result:
  "case first_logger of
     Some (p, t) \<Rightarrow> p = Some 0 \<and> populateAllLoggerIds t = [''a''] \<and> st_next (sg_typed t) = 1
   | None \<Rightarrow> False"
  by code_simp

lemma trace_callbacks: "good_callbacks trace_env"
  by (simp add: good_callbacks_def trace_env_def)

lemma first_logger_reached:
  "\<exists>t. getLogger trace_env ''a'' True small_storage = Some (Inr (Some 0, t)) \<and>
     populateAllLoggerIds t = [''a''] \<and> st_next (sg_typed t) = 1 \<and> api_reaches trace_env t"
proof -
  obtain t where t: "first_logger = Some (Some 0, t)" "populateAllLoggerIds t = [''a'']" "st_next (sg_typed t) = 1"
    using first_logger_result by (auto split: option.splits)
  then have g: "getLogger trace_env ''a'' True small_storage = Some (Inr (Some 0, t))"
    by (auto simp: first_logger_def split: option.splits sum.splits)
  have "no_loggers small_storage" by (simp add: no_loggers_def small_storage_def empty_storage_def)
  with g t show ?thesis by (blast intro: api_reaches.intros api_step.get)
qed

theorem loggers_own_configurations_witness:
  "\<exists>t u. getLogger trace_env ''a'' True small_storage = Some (Inr (Some 0, t)) \<and>
     populateAllLoggerIds t = [''a''] \<and> unregisterLogger ''a'' t = Some (Inr (True, u)) \<and>
     Registry_get ''a'' (sg_registeredLoggers u) = None"
proof -
  from first_logger_reached obtain t where t: "getLogger trace_env ''a'' True small_storage = Some (Inr (Some 0, t))"
    "populateAllLoggerIds t = [''a'']" "api_reaches trace_env t" by blast
  from loggers_own_configurations [OF trace_callbacks t(3), of "''a''"] t show ?thesis
    by (auto simp: kDefaultLoggerId_def)
qed

text \<open>
  Assigning one logger to another makes them share their typed configurations: destroying
  both, in either order, deletes these twice.
\<close>

theorem assigned_loggers_deleted_twice:
  assumes "owned s" and "a \<noteq> b" and "st_objs (sg_heap s) a = Some l" and "st_objs (sg_heap s) b = Some m"
    and "lg_typedConfigurations l = Some p" and "(x, y) \<in> {(a, b), (b, a)}"
  shows "pbind (Logger_assign b a) (\<lambda>_. pbind (delete_logger x) (\<lambda>_. delete_logger y)) s =
    Some (Inl DanglingPointer)"
proof -
  let ?m = "copy_fields l m"
  from assms(1, 3, 5) obtain ty where ty: "st_objs (sg_typed s) p = Some ty" "to_owner ty = a"
    unfolding owned_def by blast
  have q: "st_objs (sg_typed s) q \<noteq> None \<and> q \<noteq> p" if "lg_typedConfigurations m = Some q" for q
    using assms(1, 2, 4) ty that unfolding owned_def by fastforce
  obtain typed where d: "delete_typed (lg_typedConfigurations m) s = Some (Inr ((), s\<lparr>sg_typed := typed\<rparr>))"
    and p: "st_objs typed p = Some ty"
  proof (cases "lg_typedConfigurations m")
    case None
    with that [of "sg_typed s"] ty show thesis by (simp add: delete_typed_def safeDelete_def)
  next
    case (Some r)
    with q [OF Some] ty that [of "(sg_typed s)\<lparr>st_objs := (st_objs (sg_typed s))(r := None)\<rparr>"] show thesis
      by (auto simp: delete_typed_def safeDelete_def)
  qed
  let ?s = "s\<lparr>sg_typed := typed, sg_heap := (sg_heap s)\<lparr>st_objs := (st_objs (sg_heap s))(b \<mapsto> ?m)\<rparr>\<rparr>"
  have "Logger_assign b a s = Some (Inr ((), ?s))"
    using assms(2-4) by (simp add: Logger_assign_def pbind_logger_at [OF assms(4)] d
        pbind_Inr [where m = "delete_typed (lg_typedConfigurations m)", OF d]
        pbind_logger_at [where s = "s\<lparr>sg_typed := typed\<rparr>" and l = l] update_logger_Some [where l = m])
  moreover have "lg_typedConfigurations ?m = Some p" using assms(5) by (simp add: copy_fields_def)
  ultimately show ?thesis
    using assms(2, 3, 5, 6) p
    by (auto simp: pbind_Inr [where m = "Logger_assign b a"] delete_logger_def logger_at_def deref_def
        pbind_def delete_typed_def safeDelete_def)
qed

theorem assigned_loggers_deleted_twice_witness:
  "pbind (Logger_assign 1 0) (\<lambda>_. pbind (delete_logger 0) (\<lambda>_. delete_logger 1))
     (small_storage\<lparr>sg_typed := \<lparr>st_objs = [0 \<mapsto> \<lparr>to_tables = no_typed, to_owner = 0\<rparr>], st_next = 1\<rparr>,
        sg_heap := \<lparr>st_objs = [0 \<mapsto> (Logger ''a'')\<lparr>lg_typedConfigurations := Some 0\<rparr>, 1 \<mapsto> Logger ''b''],
          st_next = 2\<rparr>\<rparr>) = Some (Inl DanglingPointer)"
  by (rule assigned_loggers_deleted_twice [where l = "(Logger ''a'')\<lparr>lg_typedConfigurations := Some 0\<rparr>"
        and m = "Logger ''b''" and p = 0])
     (auto simp: owned_def small_storage_code Logger_def initUnflushedCount_def split: if_splits)

end
