(* ===== verification/Elpp_Dispatch.thy ===== *)
theory Elpp_Dispatch imports Elpp_Loggers begin

text \<open>
  From a message to the files and the terminal: the line built from the format of its level
  (\<open>DefaultLogBuilder\<close>), the callback that writes it (\<open>DefaultLogDispatchCallback\<close>), and the
  dispatcher that calls every callback (\<open>LogDispatcher\<close>).
\<close>

section \<open>Building the line\<close>

text \<open>
  The array of the builder has room for a file name and a line number; it is filled by \<open>strcat\<close>
  and the buffer functions, and read back as a C string.
\<close>

definition builder_buff :: nat where
  "builder_buff = kSourceFilenameMaxLength + kSourceLineMaxLength"

definition substitute :: "format_flag \<Rightarrow> string \<Rightarrow> string result \<Rightarrow> log_format \<Rightarrow> string \<Rightarrow> string result" where
  "substitute flag specifier text_of f logLine =
     (if lf_hasFlag flag f
      then rbind text_of (\<lambda>w. Inr (replaceFirstWithEscape logLine specifier w))
      else Inr logLine)"

definition file_text :: "string \<Rightarrow> string result" where
  "file_text file =
     rbind (buildStrippedFilename builder_buff file [] kSourceFilenameMaxLength) (c_array_string builder_buff)"

definition base_text :: "string \<Rightarrow> string result" where
  "base_text file =
     rbind (buildBaseFilename builder_buff file [] kSourceFilenameMaxLength kFilePathSeperator)
       (c_array_string builder_buff)"

definition line_text :: "nat \<Rightarrow> string result" where
  "line_text line =
     c_array_string builder_buff
       (convertAndAddToBuff line (int kSourceLineMaxLength) builder_buff False (clearBuff []))"

definition location_text :: "string \<Rightarrow> nat \<Rightarrow> string result" where
  "location_text file line =
     rbind (buildStrippedFilename builder_buff file [] kSourceFilenameMaxLength) (\<lambda>buff.
       let buf = addToBuff buff builder_buff [];
           buf = addToBuff '':'' builder_buff buf;
           buf = convertAndAddToBuff line (int kSourceLineMaxLength) builder_buff False buf
       in c_array_string builder_buff buf)"

definition vlevel_text :: "nat \<Rightarrow> string result" where
  "vlevel_text vlevel =
     c_array_string builder_buff (convertAndAddToBuff vlevel 1 builder_buff False (clearBuff []))"

definition date_text :: "'f system \<Rightarrow> 'f \<Rightarrow> level \<Rightarrow> typed_configurations \<Rightarrow> log_format \<Rightarrow> string result" where
  "date_text sys files level t f =
     rbind (tc_subsecondPrecision level t) (\<lambda>p.
       getDateTime (sy_localtime sys) (sy_now sys files) (lf_dateTimeFormat f) p)"

fun custom_specifiers :: "log_message \<Rightarrow> log_message custom_format_specifier list \<Rightarrow> string \<Rightarrow> string" where
  "custom_specifiers msg [] logLine = logLine"
| "custom_specifiers msg (c # cs) logLine =
     custom_specifiers msg cs (replaceFirstWithEscape logLine (cs_formatSpecifier c) (cs_resolver c msg))"

text \<open>What the builder reads besides the message: application and thread name, the date.\<close>

definition build_from ::
  "log_format \<Rightarrow> string \<Rightarrow> string \<Rightarrow> string result \<Rightarrow> log_message custom_format_specifier list \<Rightarrow>
   log_message \<Rightarrow> bool \<Rightarrow> string result" where
  "build_from f app thread date specifiers msg appendNewLine =
     rbind (substitute FF_AppName ''%app'' (Inr app) f (lf_format f)) (\<lambda>logLine.
     rbind (substitute FF_ThreadId ''%thread'' (Inr thread) f logLine) (\<lambda>logLine.
     rbind (substitute FF_DateTime ''%datetime'' date f logLine) (\<lambda>logLine.
     rbind (substitute FF_Function ''%func'' (Inr (lm_func msg)) f logLine) (\<lambda>logLine.
     rbind (substitute FF_File ''%file'' (file_text (lm_file msg)) f logLine) (\<lambda>logLine.
     rbind (substitute FF_FileBase ''%fbase'' (base_text (lm_file msg)) f logLine) (\<lambda>logLine.
     rbind (substitute FF_Line ''%line'' (line_text (lm_line msg)) f logLine) (\<lambda>logLine.
     rbind (substitute FF_Location ''%loc'' (location_text (lm_file msg) (lm_line msg)) f logLine) (\<lambda>logLine.
     rbind (if lm_level msg = Level_Verbose
            then substitute FF_VerboseLevel ''%vlevel'' (vlevel_text (lm_verboseLevel msg)) f logLine
            else Inr logLine) (\<lambda>logLine.
     rbind (substitute FF_LogMessage ''%msg'' (Inr (lm_message msg)) f logLine) (\<lambda>logLine.
     let logLine = custom_specifiers msg specifiers logLine
     in Inr (if appendNewLine then logLine @ [CHR 0x0A] else logLine)))))))))))"

definition default_build :: "'f environment \<Rightarrow> log_message \<Rightarrow> bool \<Rightarrow> ('f storage, string) prog" where
  "default_build env msg appendNewLine =
     pbind (tables_at (lm_logger msg)) (\<lambda>t.
     pbind (plift (tc_logFormat (lm_level msg) t)) (\<lambda>f.
     pbind (logger_at (lm_logger msg)) (\<lambda>l s.
       plift (build_from f (lg_parentApplicationName l) (sg_getThreadName getCurrentThreadId s)
                (date_text (en_sys env) (w_files (sg_world s)) (lm_level msg) t f)
                (sg_customFormatSpecifiers s) msg appendNewLine) s)))"

definition lb_build ::
  "'f environment \<Rightarrow> log_builder \<Rightarrow> log_message \<Rightarrow> bool \<Rightarrow> ('f storage, string) prog" where
  "lb_build env b msg appendNewLine =
     (case bl_kind b of
        DefaultLogBuilder \<Rightarrow> default_build env msg appendNewLine
      | UserLogBuilder k \<Rightarrow> en_build env k msg appendNewLine)"

definition colored :: "string \<Rightarrow> string \<Rightarrow> string" where
  "colored code logLine = CHR 0x1B # code @ logLine @ CHR 0x1B # ''[0m''"

definition convertToColoredOutput :: "log_builder \<Rightarrow> string \<Rightarrow> level \<Rightarrow> string" where
  "convertToColoredOutput b logLine level =
     (if \<not> bl_termSupportsColor b then logLine
      else if level = Level_Error \<or> level = Level_Fatal then colored ''[31m'' logLine
      else if level = Level_Warning then colored ''[33m'' logLine
      else if level = Level_Debug then colored ''[32m'' logLine
      else if level = Level_Info then colored ''[36m'' logLine
      else if level = Level_Trace then colored ''[35m'' logLine
      else logLine)"

section \<open>Writing the line\<close>

text \<open>
  The message an internal error prints on the terminal's error stream is left out. Nothing is
  written for the system log, which the program is built without.
\<close>

definition write_stream :: "'f environment \<Rightarrow> string \<Rightarrow> string \<Rightarrow> ('f storage, bool) prog" where
  "write_stream env f logLine s =
     (let (failed, files) = en_write env f logLine (w_files (sg_world s))
      in Some (Inr (failed, s\<lparr>sg_world := (sg_world s)\<lparr>w_files := files\<rparr>\<rparr>)))"

definition dispatch_file :: "'f environment \<Rightarrow> log_message \<Rightarrow> string \<Rightarrow> ('f storage, unit) prog" where
  "dispatch_file env msg logLine =
     (let a = lm_logger msg; level = lm_level msg in
      pbind (tables_at a) (\<lambda>t.
      if \<not> tc_toFile level t then preturn ()
      else
        pbind (plift (tc_fileStream level t)) (\<lambda>fs.
        case fs of
          None \<Rightarrow> preturn ()
        | Some f \<Rightarrow>
            pbind (write_stream env f logLine) (\<lambda>failed.
            if failed then preturn ()
            else
              pbind (pget (sg_hasFlag ImmediateFlush)) (\<lambda>immediate.
              pbind (if immediate then preturn True else isFlushNeeded a level) (\<lambda>needed.
              if needed then flush_level env a level (Some f) else preturn ()))))))"

definition logger_builder :: "nat \<Rightarrow> ('f storage, log_builder) prog" where
  "logger_builder a =
     pbind (logger_at a) (\<lambda>l.
       case lg_logBuilder l of None \<Rightarrow> plift (Inl NullDereference) | Some b \<Rightarrow> preturn b)"

definition dispatch_stdout :: "log_message \<Rightarrow> string \<Rightarrow> ('f storage, unit) prog" where
  "dispatch_stdout msg logLine =
     (let a = lm_logger msg; level = lm_level msg in
      pbind (tables_at a) (\<lambda>t.
      if \<not> tc_toStandardOutput level t then preturn ()
      else
        pbind (pget (sg_hasFlag ColoredTerminalOutput)) (\<lambda>color.
        pbind (if color then pbind (logger_builder a) (\<lambda>b. preturn (convertToColoredOutput b logLine level))
               else preturn logLine) (\<lambda>logLine.
        pmodify (\<lambda>s. s\<lparr>sg_stdout := sg_stdout s @ logLine\<rparr>)))))"

definition dispatch ::
  "'f environment \<Rightarrow> log_message \<Rightarrow> dispatch_action \<Rightarrow> string \<Rightarrow> ('f storage, unit) prog" where
  "dispatch env msg dispatchAction logLine =
     (if dispatchAction = NormalLog
      then pbind (dispatch_file env msg logLine) (\<lambda>_. dispatch_stdout msg logLine)
      else preturn ())"

definition default_handle ::
  "'f environment \<Rightarrow> log_message \<Rightarrow> dispatch_action \<Rightarrow> ('f storage, unit) prog" where
  "default_handle env msg dispatchAction =
     pbind (logger_builder (lm_logger msg)) (\<lambda>b.
     pbind (lb_build env b msg (dispatchAction = NormalLog)) (dispatch env msg dispatchAction))"

definition handle ::
  "'f environment \<Rightarrow> log_message \<Rightarrow> dispatch_action \<Rightarrow> dispatch_kind callback \<Rightarrow> ('f storage, unit) prog" where
  "handle env msg dispatchAction cb =
     (if \<not> cb_enabled cb then preturn ()
      else case cb_kind cb of
        DefaultLogDispatchCallback \<Rightarrow> default_handle env msg dispatchAction
      | UserLogDispatchCallback k \<Rightarrow> en_dispatched env k msg dispatchAction)"

definition log_dispatch ::
  "'f environment \<Rightarrow> bool \<Rightarrow> log_message \<Rightarrow> dispatch_action \<Rightarrow> ('f storage, unit) prog" where
  "log_dispatch env proceed msg dispatchAction =
     (if \<not> proceed \<or> dispatchAction = NoAction then preturn ()
      else
        pbind (logger_at (lm_logger msg)) (\<lambda>_.
        pbind (pget (sg_hasFlag StrictLogFileSizeCheck)) (\<lambda>strict.
        pbind (if strict then validateFileRolling_at env (lm_logger msg) (lm_level msg) else preturn ()) (\<lambda>_.
        pbind (pget sg_logDispatchCallbacks) (\<lambda>cbs.
        pfor cbs (\<lambda>(_, cb). handle env msg dispatchAction cb))))))"

section \<open>Facts\<close>

subsection \<open>The array of the builder\<close>

lemma digits_loop_length: "length (fst (digits_loop room n len p)) \<le> length p + room"
  by (induction room n len p rule: digits_loop.induct) auto

lemma c_array_fits: "length s < cap \<Longrightarrow> \<exists>u. c_array_string cap s = Inr u"
  by (simp add: c_array_string_def)

lemma number_length:
  "length (convertAndAddToBuff n len lim False buf) \<le> length buf + 8"
  using digits_loop_length [of 8 n len "[]"]
  by (auto simp: convertAndAddToBuff_def addToBuff_def case_prod_beta min_def split: if_splits)

lemma strip_into_length:
  assumes "limit < cap" and "3 \<le> limit"
  shows "\<exists>b. strip_into cap limit s [] = Inr b \<and> length b \<le> limit"
  using assms by (auto simp: strip_into_def str_cat_def Let_def)

lemma builder_buff_eq: "builder_buff = 110" "kSourceFilenameMaxLength = 100"
  by (simp_all add: builder_buff_def kSourceFilenameMaxLength_def kSourceLineMaxLength_def)

lemma stripped_length:
  "\<exists>b. buildStrippedFilename builder_buff s [] kSourceFilenameMaxLength = Inr b \<and> length b \<le> 100"
  unfolding buildStrippedFilename_def builder_buff_eq using strip_into_length [of 100 110 s] by simp

lemma base_length:
  "\<exists>b. buildBaseFilename builder_buff s [] kSourceFilenameMaxLength kFilePathSeperator = Inr b \<and> length b \<le> 100"
  unfolding buildBaseFilename_eq builder_buff_eq using strip_into_length [of 100 110] by simp

lemma file_text_fits: "\<exists>u. file_text s = Inr u"
proof -
  obtain b where "buildStrippedFilename builder_buff s [] kSourceFilenameMaxLength = Inr b" "length b \<le> 100"
    using stripped_length by blast
  then show ?thesis using c_array_fits [of b builder_buff] by (simp add: file_text_def builder_buff_eq)
qed

lemma base_text_fits: "\<exists>u. base_text s = Inr u"
proof -
  obtain b where "buildBaseFilename builder_buff s [] kSourceFilenameMaxLength kFilePathSeperator = Inr b"
    "length b \<le> 100"
    using base_length by blast
  then show ?thesis using c_array_fits [of b builder_buff] by (simp add: base_text_def builder_buff_eq)
qed

lemma number_fits: "\<exists>u. c_array_string builder_buff (convertAndAddToBuff n len builder_buff False []) = Inr u"
  using number_length [of n len builder_buff "[]"] by (intro c_array_fits) (simp add: builder_buff_eq)

lemma location_text_fits: "\<exists>u. location_text s n = Inr u"
proof -
  obtain b where b: "buildStrippedFilename builder_buff s [] kSourceFilenameMaxLength = Inr b" "length b \<le> 100"
    using stripped_length by blast
  let ?buf = "addToBuff '':'' builder_buff (addToBuff b builder_buff [])"
  have "length ?buf \<le> 101" using b(2) by (simp add: addToBuff_def builder_buff_eq)
  with number_length [of n "int kSourceLineMaxLength" builder_buff ?buf] b(1) show ?thesis
    by (auto simp: location_text_def builder_buff_eq intro!: c_array_fits)
qed

lemma vlevel_text_fits: "\<exists>u. vlevel_text n = Inr u"
  using number_fits by (simp add: vlevel_text_def clearBuff_def)

lemma line_text_fits: "\<exists>u. line_text n = Inr u"
  using number_fits by (simp add: line_text_def clearBuff_def)

lemmas texts_fit = file_text_fits base_text_fits line_text_fits location_text_fits vlevel_text_fits

text \<open>A substitution by a text that exists always succeeds.\<close>

lemma substitute_plain:
  "\<exists>u. substitute flag specifier (Inr w) f s = Inr u"
  by (simp add: substitute_def)

lemma substitute_error:
  "substitute flag specifier r f s = Inl e \<longleftrightarrow> lf_hasFlag flag f \<and> r = Inl e"
  by (cases r) (auto simp: substitute_def)

lemma rbind_error: "rbind r f = Inl e \<longleftrightarrow> r = Inl e \<or> (\<exists>x. r = Inr x \<and> f x = Inl e)"
  by (cases r) auto

lemma texts_no_error:
  "file_text p \<noteq> Inl e" "base_text p \<noteq> Inl e" "line_text n \<noteq> Inl e" "location_text p n \<noteq> Inl e"
  "vlevel_text n \<noteq> Inl e"
  using texts_fit by (metis Inl_Inr_False)+

subsection \<open>Errors of the builder\<close>

lemma build_error:
  "build_from f app thread date specifiers msg appendNewLine = Inl e \<longleftrightarrow>
     lf_hasFlag FF_DateTime f \<and> date = Inl e"
proof -
  have e: "rbind (substitute flag specifier (Inr w) f s) g = Inl e \<longleftrightarrow>
      g (if lf_hasFlag flag f then replaceFirstWithEscape s specifier w else s) = Inl e"
    for flag specifier w s and g :: "string \<Rightarrow> string result"
    by (simp add: substitute_def)
  have d: "rbind (substitute flag specifier (Inl e') f s) g = Inl e \<longleftrightarrow>
      (if lf_hasFlag flag f then e' = e else g s = Inl e)"
    for flag specifier e' s and g :: "string \<Rightarrow> string result"
    by (simp add: substitute_def)
  have v: "rbind (if b then substitute flag specifier r f s else Inr s) g = Inl e \<longleftrightarrow>
      g (case r of Inl _ \<Rightarrow> s | Inr w \<Rightarrow>
           if b \<and> lf_hasFlag flag f then replaceFirstWithEscape s specifier w else s) = Inl e"
    if "\<exists>w. r = Inr w" for b flag specifier r s and g :: "string \<Rightarrow> string result"
    using that by (auto simp: substitute_def)
  obtain u1 u2 u3 u4 where "file_text (lm_file msg) = Inr u1" "base_text (lm_file msg) = Inr u2"
    "line_text (lm_line msg) = Inr u3" "location_text (lm_file msg) (lm_line msg) = Inr u4"
    using texts_fit by metis
  then show ?thesis
    unfolding build_from_def
    by (cases date)
       (simp_all add: e d v [OF texts_fit(5)] Let_def if_distrib [of "\<lambda>r. r = Inl e"] del: rbind_Inr)
qed

text \<open>
  C36. The array of 110 characters in which the builder puts file names and line numbers is
  never overrun, whatever the file, the line and the message are: a line cannot be built only
  if its format has a date that cannot be formatted.
\<close>

theorem line_built_unless_date:
  "build_from f app thread date specifiers msg appendNewLine = Inl e \<longleftrightarrow>
     lf_hasFlag FF_DateTime f \<and> date = Inl e"
  by (rule build_error)

subsection \<open>Flushing\<close>

lemmas object_steps = pbind_logger_at pbind_update_logger pbind_tables_at

text \<open>
  A logger with a file for a level: the file, the threshold, and the number of lines since the
  last flush; no limit on the size of the file.
\<close>

definition file_logger :: "nat \<Rightarrow> level \<Rightarrow> string \<Rightarrow> nat \<Rightarrow> nat \<Rightarrow> 'f storage \<Rightarrow> bool" where
  "file_logger a level f n c s \<longleftrightarrow>
     (\<exists>l p ty. st_objs (sg_heap s) a = Some l \<and> lg_typedConfigurations l = Some p \<and>
        st_objs (sg_typed s) p = Some ty \<and> tc_toFile level (to_tables ty) \<and>
        tc_fileStream level (to_tables ty) = Inr (Some f) \<and>
        tc_logFlushThreshold level (to_tables ty) = n \<and> tc_maxLogFileSize level (to_tables ty) = 0 \<and>
        map_of (lg_unflushedCount l) level = Some c)"

text \<open>The files after some lines, when every n-th one is followed by a flush.\<close>

fun files_with_flushes ::
  "'f environment \<Rightarrow> string \<Rightarrow> nat \<Rightarrow> nat \<Rightarrow> string list \<Rightarrow> 'f \<Rightarrow> 'f" where
  "files_with_flushes env f n k [] files = files"
| "files_with_flushes env f n k (line # lines) files =
     (let files = snd (en_write env f line files)
      in files_with_flushes env f n (Suc k) lines
           (if Suc k mod n = 0 then en_flush env f files else files))"

lemma files_with_flushes_mod: "files_with_flushes env f n (k mod n) lines files = files_with_flushes env f n k lines files"
proof (induction lines arbitrary: k files)
  case (Cons line lines)
  have m: "Suc (k mod n) mod n = Suc k mod n" by (rule mod_Suc_eq)
  have "files_with_flushes env f n (Suc (k mod n)) lines g = files_with_flushes env f n (Suc k) lines g" for g
    using Cons.IH [of "Suc (k mod n)" g] Cons.IH [of "Suc k" g] by (simp add: m)
  then show ?case by (simp add: Let_def m)
qed simp

lemma map_of_map_assign:
  "map_of (map_assign (\<lambda>_ v. v) l v m) k = (if k = l \<and> map_of m l \<noteq> None then Some v else map_of m k)"
  by (rule map_of_assign)

lemma no_rolling:
  assumes "st_objs (sg_heap s) a = Some l" "lg_typedConfigurations l = Some p"
    "st_objs (sg_typed s) p = Some ty" "tc_fileStream level (to_tables ty) = Inr (Some f)"
    "tc_maxLogFileSize level (to_tables ty) = 0"
  shows "validateFileRolling_at env a level s = Some (Inr ((), s))"
proof -
  have "validateFileRolling (en_sys env) level cb (to_tables ty) w = Inr (False, w)" for cb w
    using assms(4, 5)
    by (simp add: validateFileRolling_def unsafeValidateFileRolling_def tc_fileStream_def
        tc_maxLogFileSize_def getConfigByRef_def getConfigByVal_def Let_def)
  then show ?thesis
    by (simp add: validateFileRolling_at_def pbind_tables_at [OF assms(1-3)])
       (simp add: pbind_def on_world_def)
qed

lemma isFlushNeeded_step:
  assumes "st_objs (sg_heap s) a = Some l" "lg_typedConfigurations l = Some p"
    "st_objs (sg_typed s) p = Some ty" "map_of (lg_unflushedCount l) level = Some c" "Suc c < 2 ^ 32"
  shows "isFlushNeeded a level s =
    Some (Inr (tc_logFlushThreshold level (to_tables ty) \<le> Suc c,
      s\<lparr>sg_heap := (sg_heap s)\<lparr>st_objs := (st_objs (sg_heap s))(a \<mapsto> set_unflushed level (Suc c) l)\<rparr>\<rparr>))"
proof -
  let ?s = "s\<lparr>sg_heap := (sg_heap s)\<lparr>st_objs := (st_objs (sg_heap s))(a \<mapsto> set_unflushed level (Suc c) l)\<rparr>\<rparr>"
  have "pbind (tables_at a) f ?s = f (to_tables ty) ?s" for f :: "typed_configurations \<Rightarrow> ('a storage, bool) prog"
    by (rule pbind_tables_at [where l = "set_unflushed level (Suc c) l"]) (use assms in \<open>simp_all add: set_unflushed_def\<close>)
  with assms show ?thesis
    by (simp add: isFlushNeeded_def pbind_logger_at [OF assms(1)] pbind_update_logger [OF assms(1)])
qed

lemma flush_level_step:
  assumes o: "st_objs (sg_heap s) a = Some l" "lg_typedConfigurations l = Some p"
    "st_objs (sg_typed s) p = Some ty" and f: "tc_fileStream level (to_tables ty) = Inr (Some f)"
    "tc_maxLogFileSize level (to_tables ty) = 0"
  shows "flush_level env a level (Some f) s = Some (Inr ((),
    s\<lparr>sg_world := (sg_world s)\<lparr>w_files := en_flush env f (w_files (sg_world s))\<rparr>,
      sg_heap := (sg_heap s)\<lparr>st_objs := (st_objs (sg_heap s))(a \<mapsto> set_unflushed level 0 l)\<rparr>\<rparr>))"
proof -
  let ?s1 = "s\<lparr>sg_world := (sg_world s)\<lparr>w_files := en_flush env f (w_files (sg_world s))\<rparr>\<rparr>"
  let ?s2 = "?s1\<lparr>sg_heap := (sg_heap s)\<lparr>st_objs := (st_objs (sg_heap s))(a \<mapsto> set_unflushed level 0 l)\<rparr>\<rparr>"
  have "st_objs (sg_heap ?s1) a = Some l" using o by simp
  from pbind_update_logger [OF this] have u: "pbind (update_logger a (set_unflushed level 0)) g ?s1 = g () ?s2"
    for g :: "unit \<Rightarrow> ('a storage, unit) prog" by simp
  have "validateFileRolling_at env a level ?s2 = Some (Inr ((), ?s2))"
    by (rule no_rolling [where l = "set_unflushed level 0 l"]) (use o f in \<open>simp_all add: set_unflushed_def\<close>)
  then show ?thesis by (simp add: flush_level_def flush_file_def u)
qed

text \<open>What dispatching a line to a file leaves alone.\<close>

definition same_logging :: "'f storage \<Rightarrow> 'f storage \<Rightarrow> bool" where
  "same_logging s t \<longleftrightarrow> sg_flags t = sg_flags s \<and> sg_stdout t = sg_stdout s \<and> sg_typed t = sg_typed s \<and>
     (\<forall>a. map_option (\<lambda>l. (lg_typedConfigurations l, lg_logBuilder l)) (st_objs (sg_heap t) a) =
          map_option (\<lambda>l. (lg_typedConfigurations l, lg_logBuilder l)) (st_objs (sg_heap s) a))"

lemma dispatch_file_line:
  assumes fl: "file_logger (lm_logger msg) (lm_level msg) f n c s" and c: "c < n" "n < 2 ^ 32"
    and nf: "\<not> sg_hasFlag ImmediateFlush s" and ok: "\<not> fst (en_write env f line (w_files (sg_world s)))"
  shows "\<exists>s'. dispatch_file env msg line s = Some (Inr ((), s')) \<and>
    file_logger (lm_logger msg) (lm_level msg) f n (Suc c mod n) s' \<and> same_logging s s' \<and>
    w_files (sg_world s') =
      (let files = snd (en_write env f line (w_files (sg_world s)))
       in if Suc c mod n = 0 then en_flush env f files else files)"
proof -
  let ?a = "lm_logger msg" and ?level = "lm_level msg"
  from fl obtain l p ty where o: "st_objs (sg_heap s) ?a = Some l" "lg_typedConfigurations l = Some p"
      "st_objs (sg_typed s) p = Some ty"
    and t: "tc_toFile ?level (to_tables ty)" "tc_fileStream ?level (to_tables ty) = Inr (Some f)"
      "tc_logFlushThreshold ?level (to_tables ty) = n" "tc_maxLogFileSize ?level (to_tables ty) = 0"
    and m: "map_of (lg_unflushedCount l) ?level = Some c"
    by (auto simp: file_logger_def)
  define files where "files = snd (en_write env f line (w_files (sg_world s)))"
  define s1 where "s1 = s\<lparr>sg_world := (sg_world s)\<lparr>w_files := files\<rparr>\<rparr>"
  define s2 where "s2 = s1\<lparr>sg_heap := (sg_heap s)\<lparr>st_objs :=
      (st_objs (sg_heap s))(?a \<mapsto> set_unflushed ?level (Suc c) l)\<rparr>\<rparr>"
  have w: "write_stream env f line s = Some (Inr (False, s1))"
    using ok by (cases "en_write env f line (w_files (sg_world s))")
      (simp add: write_stream_def s1_def files_def)
  have o1: "st_objs (sg_heap s1) ?a = Some l" "st_objs (sg_typed s1) p = Some ty" using o by (simp_all add: s1_def)
  have o2: "st_objs (sg_heap s2) ?a = Some (set_unflushed ?level (Suc c) l)" "st_objs (sg_typed s2) p = Some ty"
    "lg_typedConfigurations (set_unflushed ?level k l) = Some p" for k
    using o by (simp_all add: s2_def s1_def set_unflushed_def)
  have "Suc c < 2 ^ 32" using c by simp
  with isFlushNeeded_step [OF o1(1) o(2) o1(2) m] have needed:
    "isFlushNeeded ?a ?level s1 = Some (Inr (n \<le> Suc c, s2))" by (simp add: t s2_def s1_def)
  have full: "n \<le> Suc c \<longleftrightarrow> Suc c = n" "Suc c mod n = (if Suc c = n then 0 else Suc c)"
    using c by auto
  have nf1: "\<not> sg_hasFlag ImmediateFlush s1" using nf by (simp add: s1_def sg_hasFlag_def)
  have run: "dispatch_file env msg line s = (if Suc c = n then flush_level env ?a ?level (Some f) else preturn ()) s2"
    using t nf1 by (simp add: dispatch_file_def Let_def pbind_tables_at [OF o] full
        pbind_Inr [where m = "write_stream env f line", OF w]
        pbind_Inr [where m = "isFlushNeeded ?a ?level", OF needed] del: prog_apply)
  have count: "map_of (lg_unflushedCount (set_unflushed ?level k l)) ?level = Some k" for k
    using m by (simp add: set_unflushed_def map_of_map_assign)
  show ?thesis
  proof (cases "Suc c = n")
    case True
    let ?s3 = "s2\<lparr>sg_world := (sg_world s2)\<lparr>w_files := en_flush env f (w_files (sg_world s2))\<rparr>,
      sg_heap := (sg_heap s2)\<lparr>st_objs := (st_objs (sg_heap s2))
        (?a \<mapsto> set_unflushed ?level 0 (set_unflushed ?level (Suc c) l))\<rparr>\<rparr>"
    have r: "dispatch_file env msg line s = Some (Inr ((), ?s3))"
      using run True flush_level_step [OF o2(1) o2(3) o2(2) t(2) t(4)] by simp
    have "map_of (lg_unflushedCount (set_unflushed ?level 0 (set_unflushed ?level (Suc c) l))) ?level = Some 0"
      using count [of "Suc c"] by (simp add: set_unflushed_def map_of_map_assign)
    then have "file_logger ?a ?level f n 0 ?s3"
      using o t by (auto simp: file_logger_def s2_def s1_def set_unflushed_def)
    then show ?thesis
      using True o by (intro exI [of _ ?s3] conjI r)
        (simp_all add: s2_def s1_def files_def Let_def same_logging_def set_unflushed_def)
  next
    case False
    have "file_logger ?a ?level f n (Suc c) s2"
      using o t count [of "Suc c"] by (auto simp: file_logger_def s2_def s1_def set_unflushed_def)
    with False run full(2) o show ?thesis
      by (intro exI [of _ s2]) (simp add: s2_def s1_def files_def Let_def same_logging_def set_unflushed_def)
  qed
qed

subsection \<open>An example\<close>

definition file_tables :: typed_configurations where
  "file_tables = no_typed\<lparr>tc_enabledMap := [(Level_Global, True)], tc_toFileMap := [(Level_Global, True)],
     tc_filenameMap := [(Level_Global, ''log'')], tc_fileStreamMap := [(Level_Global, Some ''log'')],
     tc_logFlushThresholdMap := [(Level_Global, 2)]\<rparr>"

definition example_message :: log_message where
  "example_message = \<lparr>lm_level = Level_Info, lm_file = ''main.cpp'', lm_line = 7, lm_func = ''main'',
     lm_verboseLevel = 0, lm_logger = 0, lm_message = ''hello''\<rparr>"

lemma Logger_unflushed: "lg_unflushedCount (Logger i) = map (\<lambda>l. (l, 0)) proper_levels"
  by (simp add: Logger_def initUnflushedCount_def proper_levels_def map_insert_def)

text \<open>
  C23. Lines logged to a file are flushed in the rhythm of the threshold: of any number of lines
  in a row exactly those that complete the threshold are followed by a flush, so no more than
  the threshold of lines is ever waiting for one, and the next flush is never further away.
\<close>

theorem flush_every_threshold_lines:
  assumes "file_logger (lm_logger msg) (lm_level msg) f n c s" and "c < n" and "n < 2 ^ 32"
    and "\<not> sg_hasFlag ImmediateFlush s" and "\<And>line files. \<not> fst (en_write env f line files)"
  shows "\<exists>s'. pfor lines (dispatch_file env msg) s = Some (Inr ((), s')) \<and>
    file_logger (lm_logger msg) (lm_level msg) f n ((c + length lines) mod n) s' \<and>
    w_files (sg_world s') = files_with_flushes env f n c lines (w_files (sg_world s))"
  using assms(1, 2, 4)
proof (induction lines arbitrary: c s)
  case Nil
  then show ?case by simp
next
  case (Cons line lines)
  from dispatch_file_line [OF Cons.prems(1, 2) assms(3) Cons.prems(3) assms(5), of line]
  obtain s1 where s1: "dispatch_file env msg line s = Some (Inr ((), s1))"
      "file_logger (lm_logger msg) (lm_level msg) f n (Suc c mod n) s1" "same_logging s s1"
      "w_files (sg_world s1) = (let files = snd (en_write env f line (w_files (sg_world s)))
         in if Suc c mod n = 0 then en_flush env f files else files)"
    by blast
  have "Suc c mod n < n" "\<not> sg_hasFlag ImmediateFlush s1"
    using Cons.prems(2, 3) s1(3) by (simp_all add: sg_hasFlag_def same_logging_def)
  from Cons.IH [OF s1(2) this] obtain s2 where
    s2: "pfor lines (dispatch_file env msg) s1 = Some (Inr ((), s2))"
      "file_logger (lm_logger msg) (lm_level msg) f n ((Suc c mod n + length lines) mod n) s2"
      "w_files (sg_world s2) = files_with_flushes env f n (Suc c mod n) lines (w_files (sg_world s1))"
    by blast
  have "(Suc c mod n + length lines) mod n = (c + length (line # lines)) mod n"
    by (simp add: mod_add_left_eq)
  with s2 show ?case
    by (intro exI [of _ s2])
       (simp add: pbind_Inr [where m = "dispatch_file env msg line", OF s1(1)] s1(4) Let_def files_with_flushes_mod)
qed

theorem flush_every_threshold_lines_witness:
  "\<exists>s'. pfor [''a'', ''b'', ''c''] (dispatch_file trace_env example_message) (trace_storage file_tables) =
       Some (Inr ((), s')) \<and>
     file_logger 0 Level_Info ''log'' 2 1 s' \<and> w_files (sg_world s') = [''a'', ''b'', ''flush'', ''c'']"
proof -
  have "file_logger (lm_logger example_message) (lm_level example_message) ''log'' 2 0 (trace_storage file_tables)"
    by (simp add: file_logger_def trace_storage_def example_message_def file_tables_def no_typed_def
        tc_toFile_def tc_fileStream_def tc_logFlushThreshold_def tc_maxLogFileSize_def getConfigByVal_def
        getConfigByRef_def unsafeGetConfigByVal_def unsafeGetConfigByRef_def Logger_unflushed proper_levels_def)
  from flush_every_threshold_lines [OF this, of trace_env "[''a'', ''b'', ''c'']"] show ?thesis
    by (simp add: trace_storage_def empty_storage_def sg_hasFlag_def hasFlag_def bitwise_And_def trace_env_def
        example_message_def)
qed

end
