(* ===== verification/Elpp_Writer.thy ===== *)
theory Elpp_Writer imports Elpp_Dispatch begin

text \<open>
  Log statements: the text streamed into a logger (\<open>MessageBuilder\<close>), the object that lives for
  the length of a statement and dispatches at its end (\<open>Writer\<close>), and the functions of a logger
  that take a format (\<open>Logger::log\<close>).
\<close>

section \<open>\<open>MessageBuilder\<close>\<close>

text \<open>
  A builder holds its logger, which may be null, and the text between the elements of a
  container. A value is given by the text the stream makes of it.
\<close>

record message_builder =
  mb_logger :: ptr
  mb_containerLogSeperator :: string

definition MessageBuilder :: message_builder where
  "MessageBuilder = \<lparr>mb_logger = None, mb_containerLogSeperator = []\<rparr>"

definition mb_initialize :: "ptr \<Rightarrow> 'f storage \<Rightarrow> message_builder" where
  "mb_initialize logger s =
     \<lparr>mb_logger = logger,
      mb_containerLogSeperator =
        (if sg_hasFlag NewLineForContainer s then CHR 0x0A # ''    '' else '', '')\<rparr>"

definition stream_append :: "ptr \<Rightarrow> string \<Rightarrow> ('f storage, unit) prog" where
  "stream_append p txt =
     (case p of
        None \<Rightarrow> plift (Inl NullDereference)
      | Some a \<Rightarrow> update_logger a (\<lambda>l. l\<lparr>lg_stream := lg_stream l @ txt\<rparr>))"

definition mb_log :: "message_builder \<Rightarrow> string \<Rightarrow> ('f storage, unit) prog" where
  "mb_log b txt =
     pbind (stream_append (mb_logger b) txt) (\<lambda>_.
     pbind (pget (sg_hasFlag AutoSpacing)) (\<lambda>spacing.
     if spacing then stream_append (mb_logger b) '' '' else preturn ()))"

text \<open>The elements from the \<open>i\<close>-th on, each given by the texts it streams; whether all were written.\<close>

fun write_elements ::
  "message_builder \<Rightarrow> nat \<Rightarrow> nat \<Rightarrow> string list \<Rightarrow> ('f storage, bool) prog" where
  "write_elements b sz i [] = preturn True"
| "write_elements b sz i (e # es) =
     (if i < kMaxLogPerContainer then
        pbind (mb_log b e) (\<lambda>_.
        pbind (stream_append (mb_logger b) (if i < sz - 1 then mb_containerLogSeperator b else [])) (\<lambda>_.
        write_elements b sz (i + 1) es))
      else preturn False)"

definition writeIterator :: "message_builder \<Rightarrow> string list \<Rightarrow> nat \<Rightarrow> ('f storage, unit) prog" where
  "writeIterator b es sz =
     pbind (stream_append (mb_logger b) ''['') (\<lambda>_.
     pbind (write_elements b sz 0 es) (\<lambda>all.
     pbind (if all then preturn () else stream_append (mb_logger b) ''...'') (\<lambda>_.
     pbind (stream_append (mb_logger b) '']'') (\<lambda>_.
     pbind (pget (sg_hasFlag AutoSpacing)) (\<lambda>spacing.
     if spacing then stream_append (mb_logger b) '' '' else preturn ())))))"

text \<open>Containers with iterators, and the copies made of queues and stacks.\<close>

definition mb_container :: "message_builder \<Rightarrow> string list \<Rightarrow> ('f storage, unit) prog" where
  "mb_container b es = writeIterator b es (length es)"

fun copy_front :: "nat \<Rightarrow> 'x list \<Rightarrow> 'x list" where
  "copy_front count [] = []"
| "copy_front count (x # queue) =
     (if count + 1 < kMaxLogPerContainer then x # copy_front (count + 1) queue else [])"

definition IterableQueue :: "'x list \<Rightarrow> 'x list" where
  "IterableQueue queue = copy_front 0 queue"

text \<open>A stack is its elements from the top. The container of the copy, filled from the top, lists them so.\<close>

definition IterableStack :: "'x list \<Rightarrow> 'x list" where
  "IterableStack stack = copy_front 0 stack"

definition mb_queue :: "message_builder \<Rightarrow> string list \<Rightarrow> ('f storage, unit) prog" where
  "mb_queue b queue = (let es = IterableQueue queue in writeIterator b es (length es))"

definition mb_stack :: "message_builder \<Rightarrow> string list \<Rightarrow> ('f storage, unit) prog" where
  "mb_stack b stack = (let es = IterableStack stack in writeIterator b es (length es))"

definition mb_pair :: "message_builder \<Rightarrow> string \<Rightarrow> string \<Rightarrow> ('f storage, unit) prog" where
  "mb_pair b x y =
     pbind (stream_append (mb_logger b) ''('') (\<lambda>_.
     pbind (mb_log b x) (\<lambda>_.
     pbind (stream_append (mb_logger b) '', '') (\<lambda>_.
     pbind (mb_log b y) (\<lambda>_.
     stream_append (mb_logger b) '')''))))"

definition mb_bitset :: "message_builder \<Rightarrow> string \<Rightarrow> ('f storage, unit) prog" where
  "mb_bitset b bits =
     pbind (stream_append (mb_logger b) ''['') (\<lambda>_.
     pbind (mb_log b bits) (\<lambda>_.
     stream_append (mb_logger b) '']''))"

section \<open>\<open>Writer\<close>\<close>

record writer =
  wr_msg :: "log_message option"
  wr_level :: level
  wr_file :: string
  wr_line :: nat
  wr_func :: string
  wr_verboseLevel :: nat
  wr_logger :: ptr
  wr_proceed :: bool
  wr_messageBuilder :: message_builder
  wr_dispatchAction :: dispatch_action
  wr_loggerIds :: "string list"

definition Writer :: "level \<Rightarrow> string \<Rightarrow> nat \<Rightarrow> string \<Rightarrow> dispatch_action \<Rightarrow> nat \<Rightarrow> writer" where
  "Writer level file line func dispatchAction vlevel =
     \<lparr>wr_msg = None, wr_level = level, wr_file = file, wr_line = line, wr_func = func,
      wr_verboseLevel = vlevel, wr_logger = None, wr_proceed = False,
      wr_messageBuilder = MessageBuilder, wr_dispatchAction = dispatchAction, wr_loggerIds = []\<rparr>"

text \<open>
  A writer writes messages of its own through other writers, to the default logger. Those are
  the argument \<open>inner\<close>: level, file, line, function and the texts that are streamed.
\<close>

type_synonym 'f inner_writer = "level \<Rightarrow> string \<Rightarrow> nat \<Rightarrow> string \<Rightarrow> string list \<Rightarrow> ('f storage, unit) prog"

definition initializeLogger ::
  "'f environment \<Rightarrow> 'f inner_writer \<Rightarrow> string \<Rightarrow> bool \<Rightarrow> writer \<Rightarrow> ('f storage, writer) prog" where
  "initializeLogger env inner loggerId lookup w =
     pbind (if lookup
            then pbind (pget (sg_hasFlag CreateLoggerAutomatically)) (RL_get env loggerId)
            else preturn (wr_logger w)) (\<lambda>p.
     let w = w\<lparr>wr_logger := p\<rparr> in
     case p of
       None \<Rightarrow>
         pbind (RL_has env kDefaultLoggerId) (\<lambda>has.
         pbind (if has then preturn () else pbind (RL_get env kDefaultLoggerId True) (\<lambda>_. preturn ())) (\<lambda>_.
         pbind (inner Level_Debug (wr_file w) (wr_line w) (wr_func w)
                  [''Logger ['', loggerId, ''] is not registered yet!'']) (\<lambda>_.
         preturn (w\<lparr>wr_proceed := False\<rparr>))))
     | Some a \<Rightarrow>
         pbind (pget (sg_hasFlag HierarchicalLogging)) (\<lambda>hierarchical.
         if hierarchical \<and> wr_level w \<noteq> Level_Verbose then
           pbind (pget sg_loggingLevel) (\<lambda>least. preturn (w\<lparr>wr_proceed := (least \<le> wr_level w)\<rparr>))
         else
           pbind (tables_at a) (\<lambda>t. preturn (w\<lparr>wr_proceed := tc_enabled (wr_level w) t\<rparr>))))"

definition initialize_builder :: "writer \<Rightarrow> ('f storage, writer) prog" where
  "initialize_builder w = pget (\<lambda>s. w\<lparr>wr_messageBuilder := mb_initialize (wr_logger w) s\<rparr>)"

definition construct_logger ::
  "'f environment \<Rightarrow> 'f inner_writer \<Rightarrow> nat \<Rightarrow> writer \<Rightarrow> ('f storage, writer) prog" where
  "construct_logger env inner a w =
     pbind (logger_at a) (\<lambda>l.
     pbind (initializeLogger env inner (lg_id l) False (w\<lparr>wr_logger := Some a\<rparr>)) initialize_builder)"

definition construct ::
  "'f environment \<Rightarrow> 'f inner_writer \<Rightarrow> string list \<Rightarrow> writer \<Rightarrow> ('f storage, writer) prog" where
  "construct env inner loggerIds w =
     pbind (pget (sg_hasFlag MultiLoggerSupport)) (\<lambda>multi.
     case loggerIds of
       [] \<Rightarrow> plift (Inl StdOutOfRange)
     | i # _ \<Rightarrow>
         pbind (initializeLogger env inner i True
                  (if multi then w\<lparr>wr_loggerIds := loggerIds\<rparr> else w)) initialize_builder)"

definition wr_log :: "string \<Rightarrow> writer \<Rightarrow> ('f storage, unit) prog" where
  "wr_log txt w = (if wr_proceed w then mb_log (wr_messageBuilder w) txt else preturn ())"

definition clear_stream :: "ptr \<Rightarrow> ('f storage, unit) prog" where
  "clear_stream p =
     (case p of None \<Rightarrow> preturn () | Some a \<Rightarrow> update_logger a (\<lambda>l. l\<lparr>lg_stream := []\<rparr>))"

definition LogMessage :: "level \<Rightarrow> string \<Rightarrow> nat \<Rightarrow> string \<Rightarrow> nat \<Rightarrow> nat \<Rightarrow> ('f storage, log_message) prog" where
  "LogMessage level file line func vlevel a =
     pbind (logger_at a) (\<lambda>l. preturn
       \<lparr>lm_level = level, lm_file = file, lm_line = line, lm_func = func,
        lm_verboseLevel = vlevel, lm_logger = a, lm_message = lg_stream l\<rparr>)"

text \<open>\<open>abort\<close> ends the process: \<open>sg_aborted\<close> says so, and no statement runs after it.\<close>

definition triggerDispatch :: "'f environment \<Rightarrow> 'f inner_writer \<Rightarrow> writer \<Rightarrow> ('f storage, writer) prog" where
  "triggerDispatch env inner w =
     pbind (if wr_proceed w then
              pbind (case wr_msg w of
                       Some msg \<Rightarrow> preturn msg
                     | None \<Rightarrow> (case wr_logger w of
                         None \<Rightarrow> plift (Inl NullDereference)
                       | Some a \<Rightarrow> LogMessage (wr_level w) (wr_file w) (wr_line w) (wr_func w)
                                     (wr_verboseLevel w) a)) (\<lambda>msg.
              log_dispatch env (wr_proceed w) msg (wr_dispatchAction w))
            else preturn ()) (\<lambda>_.
     pbind (clear_stream (wr_logger w)) (\<lambda>_.
     pbind (pget (sg_hasFlag DisableApplicationAbortOnFatalLog)) (\<lambda>disabled.
     pbind (if wr_proceed w \<and> wr_level w = Level_Fatal \<and> \<not> disabled then
              pbind (inner Level_Warning (wr_file w) (wr_line w) (wr_func w)
                [''Aborting application. Reason: Fatal log at ['', wr_file w, '':'',
                 show_nat (wr_line w), '']'']) (\<lambda>_.
              pmodify (\<lambda>s. s\<lparr>sg_aborted := True\<rparr>))
            else preturn ()) (\<lambda>_.
     preturn (w\<lparr>wr_proceed := False\<rparr>)))))"

text \<open>
  The loop over the loggers of one statement. What was streamed is in the stream of the first
  logger; it is kept for the others when that one dispatches.
\<close>

fun process_loop ::
  "'f environment \<Rightarrow> 'f inner_writer \<Rightarrow> bool \<Rightarrow> string list \<Rightarrow> bool \<Rightarrow> string \<Rightarrow> writer \<Rightarrow>
   ('f storage, unit) prog" where
  "process_loop env inner several rest firstDispatched logMessage w =
     pbind (if wr_proceed w then
              pbind (if firstDispatched
                     then pbind (stream_append (wr_logger w) logMessage) (\<lambda>_. preturn logMessage)
                     else if several then
                       (case wr_logger w of
                          None \<Rightarrow> plift (Inl NullDereference)
                        | Some a \<Rightarrow> pbind (logger_at a) (\<lambda>l. preturn (lg_stream l)))
                     else preturn logMessage) (\<lambda>logMessage.
              pbind (triggerDispatch env inner w) (\<lambda>w. preturn (w, True, logMessage)))
            else pbind (clear_stream (wr_logger w)) (\<lambda>_. preturn (w, firstDispatched, logMessage)))
       (\<lambda>(w, firstDispatched, logMessage).
     pbind (pget sg_aborted) (\<lambda>aborted.
     if aborted then preturn ()
     else case rest of
       [] \<Rightarrow> preturn ()
     | i # rest \<Rightarrow>
         pbind (initializeLogger env inner i True w)
           (process_loop env inner several rest firstDispatched logMessage)))"

definition processDispatch :: "'f environment \<Rightarrow> 'f inner_writer \<Rightarrow> writer \<Rightarrow> ('f storage, unit) prog" where
  "processDispatch env inner w =
     pbind (pget (sg_hasFlag MultiLoggerSupport)) (\<lambda>multi.
     if multi then
       process_loop env inner (1 < length (wr_loggerIds w)) (tl (wr_loggerIds w)) False [] w
     else if wr_proceed w then pbind (triggerDispatch env inner w) (\<lambda>_. preturn ())
     else clear_stream (wr_logger w))"

text \<open>A statement: the writer, what is streamed into it, and its destructor.\<close>

definition log_statement ::
  "'f environment \<Rightarrow> 'f inner_writer \<Rightarrow> string list \<Rightarrow> string list \<Rightarrow> writer \<Rightarrow> ('f storage, unit) prog" where
  "log_statement env inner loggerIds texts w =
     pbind (construct env inner loggerIds w) (\<lambda>w.
     pbind (pfor texts (\<lambda>txt. wr_log txt w)) (\<lambda>_.
     processDispatch env inner w))"

text \<open>The writers inside writers, to a depth.\<close>

fun writer_at_depth :: "'f environment \<Rightarrow> nat \<Rightarrow> 'f inner_writer" where
  "writer_at_depth env 0 level file line func texts = (\<lambda>_. None)"
| "writer_at_depth env (Suc n) level file line func texts =
     log_statement env (writer_at_depth env n) [kDefaultLoggerId] texts
       (Writer level file line func NormalLog 0)"

text \<open>The writer for errors of the system adds \<open>errno\<close> and its text, which are arguments, and dispatches.\<close>

definition PErrorWriter_destroy ::
  "'f environment \<Rightarrow> 'f inner_writer \<Rightarrow> string \<Rightarrow> int32 \<Rightarrow> writer \<Rightarrow> ('f storage, unit) prog" where
  "PErrorWriter_destroy env inner strerror errno w =
     pbind (if wr_proceed w then
              pfor ['': '', strerror, '' ['', format_int errno, '']''] (stream_append (wr_logger w))
            else preturn ()) (\<lambda>_.
     processDispatch env inner w)"

section \<open>Formats of a logger\<close>

text \<open>
  The last call of the recursion: what is left of the format is logged as it stands. \<open>this_file\<close>
  is the name of the header.
\<close>

definition log_value ::
  "'f environment \<Rightarrow> 'f inner_writer \<Rightarrow> string \<Rightarrow> nat \<Rightarrow> level \<Rightarrow> nat \<Rightarrow> string \<Rightarrow> ('f storage, unit) prog" where
  "log_value env inner this_file a level vlevel txt =
     (let statement = (\<lambda>vlevel.
        pbind (construct_logger env inner a (Writer level ''FILE'' 0 ''FUNCTION'' NormalLog vlevel)) (\<lambda>w.
        pbind (wr_log txt w) (\<lambda>_. processDispatch env inner w)))
      in if level = Level_Verbose then
           pbind (\<lambda>s. plift (vr_allowed (en_order env) (sg_flags s) vlevel (Some this_file) (sg_vRegistry s)) s)
             (\<lambda>allowed. if allowed then statement vlevel else clear_stream (Some a))
         else statement 0)"

text \<open>
  The loop over the format: a doubled percent sign is one, \<open>%v\<close> takes the next value. With
  values left at the end of the format nothing is dispatched.
\<close>

fun log_format_loop ::
  "'f environment \<Rightarrow> 'f inner_writer \<Rightarrow> string \<Rightarrow> nat \<Rightarrow> level \<Rightarrow> nat \<Rightarrow> message_builder \<Rightarrow>
   string \<Rightarrow> string list \<Rightarrow> ('f storage, unit) prog" where
  "log_format_loop env inner this_file a level vlevel b s [] = log_value env inner this_file a level vlevel s"
| "log_format_loop env inner this_file a level vlevel b [] (v # vs) = preturn ()"
| "log_format_loop env inner this_file a level vlevel b [c] (v # vs) = mb_log b [c]"
| "log_format_loop env inner this_file a level vlevel b (c # d # s) (v # vs) =
     (if c = CHR ''%'' \<and> d = CHR ''%'' then
        pbind (mb_log b [d]) (\<lambda>_. log_format_loop env inner this_file a level vlevel b s (v # vs))
      else if c = CHR ''%'' \<and> d = CHR ''v'' then
        pbind (mb_log b v) (\<lambda>_. log_format_loop env inner this_file a level vlevel b s vs)
      else
        pbind (mb_log b [c]) (\<lambda>_. log_format_loop env inner this_file a level vlevel b (d # s) (v # vs)))"

definition Logger_log ::
  "'f environment \<Rightarrow> 'f inner_writer \<Rightarrow> string \<Rightarrow> nat \<Rightarrow> level \<Rightarrow> nat \<Rightarrow> string \<Rightarrow> string list \<Rightarrow>
   ('f storage, unit) prog" where
  "Logger_log env inner this_file a level vlevel s values =
     pbind (pget (mb_initialize (Some a)))
       (\<lambda>b. log_format_loop env inner this_file a level vlevel b s values)"

section \<open>Facts\<close>

subsection \<open>Streaming\<close>

lemma pbind_run: "m s = Some (Inr (x, u)) \<Longrightarrow> pbind m f s = f x u"
  by (rule pbind_Inr [where m = m])

definition with_stream :: "nat \<Rightarrow> logger \<Rightarrow> string \<Rightarrow> 'f storage \<Rightarrow> 'f storage" where
  "with_stream a l txt s =
     s\<lparr>sg_heap := (sg_heap s)\<lparr>st_objs := (st_objs (sg_heap s))(a \<mapsto> l\<lparr>lg_stream := txt\<rparr>)\<rparr>\<rparr>"

lemma with_stream_simps [simp]:
  "with_stream a (l\<lparr>lg_stream := u\<rparr>) txt s = with_stream a l txt s"
  "with_stream a l txt (with_stream a l' u s) = with_stream a l txt s"
  "st_objs (sg_heap (with_stream a l txt s)) b = (if b = a then Some (l\<lparr>lg_stream := txt\<rparr>) else st_objs (sg_heap s) b)"
  "sg_typed (with_stream a l txt s) = sg_typed s" "sg_flags (with_stream a l txt s) = sg_flags s"
  "sg_world (with_stream a l txt s) = sg_world s" "sg_stdout (with_stream a l txt s) = sg_stdout s"
  "sg_aborted (with_stream a l txt s) = sg_aborted s"
  "sg_registeredLoggers (with_stream a l txt s) = sg_registeredLoggers s"
  "sg_logDispatchCallbacks (with_stream a l txt s) = sg_logDispatchCallbacks s"
  "sg_customFormatSpecifiers (with_stream a l txt s) = sg_customFormatSpecifiers s"
  "sg_threadNames (with_stream a l txt s) = sg_threadNames s"
  "sg_loggingLevel (with_stream a l txt s) = sg_loggingLevel s"
  "sg_hasFlag flag (with_stream a l txt s) = sg_hasFlag flag s"
  by (simp_all add: with_stream_def sg_hasFlag_def)

lemma with_stream_same: "st_objs (sg_heap s) a = Some l \<Longrightarrow> lg_stream l = txt \<Longrightarrow> with_stream a l txt s = s"
proof -
  assume l: "st_objs (sg_heap s) a = Some l" "lg_stream l = txt"
  then have "l\<lparr>lg_stream := txt\<rparr> = l" by simp
  with l show "with_stream a l txt s = s" by (simp add: with_stream_def fun_upd_idem)
qed

lemma stream_append_eq:
  "st_objs (sg_heap s) a = Some l \<Longrightarrow>
     stream_append (Some a) txt s = Some (Inr ((), with_stream a l (lg_stream l @ txt) s))"
  by (simp add: stream_append_def update_logger_Some with_stream_def)

lemma clear_stream_eq:
  "st_objs (sg_heap s) a = Some l \<Longrightarrow> clear_stream (Some a) s = Some (Inr ((), with_stream a l [] s))"
  by (simp add: clear_stream_def update_logger_Some with_stream_def)

lemma mb_log_eq:
  assumes "st_objs (sg_heap s) a = Some l" and "mb_logger b = Some a"
  shows "mb_log b txt s = Some (Inr ((), with_stream a l
    (lg_stream l @ txt @ (if sg_hasFlag AutoSpacing s then '' '' else [])) s))"
  using assms
  by (simp add: mb_log_def pbind_Inr [where m = "stream_append (Some a) txt", OF stream_append_eq [OF assms(1)]]
      stream_append_eq)

text \<open>What a sequence of values puts into the stream.\<close>

definition streamed :: "bool \<Rightarrow> string list \<Rightarrow> string" where
  "streamed spacing texts = concat (map (\<lambda>txt. txt @ (if spacing then '' '' else [])) texts)"

lemma wr_log_all:
  assumes "st_objs (sg_heap s) a = Some l" and "wr_proceed w" and "mb_logger (wr_messageBuilder w) = Some a"
  shows "pfor texts (\<lambda>txt. wr_log txt w) s =
    Some (Inr ((), with_stream a l (lg_stream l @ streamed (sg_hasFlag AutoSpacing s) texts) s))"
  using assms(1)
proof (induction texts arbitrary: s l)
  case Nil
  then show ?case by (simp add: streamed_def with_stream_same)
next
  case (Cons v texts)
  let ?u = "lg_stream l @ v @ (if sg_hasFlag AutoSpacing s then '' '' else [])"
  have log: "wr_log v w s = Some (Inr ((), with_stream a l ?u s))"
    using assms(2, 3) mb_log_eq [OF Cons.prems] by (simp add: wr_log_def)
  from Cons.IH [of "with_stream a l ?u s" "l\<lparr>lg_stream := ?u\<rparr>"] show ?case
    by (simp add: pbind_Inr [where m = "wr_log v w", OF log] streamed_def)
qed

lemma wr_log_none: "\<not> wr_proceed w \<Longrightarrow> pfor texts (\<lambda>txt. wr_log txt w) s = Some (Inr ((), s))"
  by (induction texts) (simp_all add: wr_log_def)

subsection \<open>Containers\<close>

text \<open>Texts with a separator between them, and the texts of a container up to the most that are written.\<close>

primrec separated :: "string \<Rightarrow> string list \<Rightarrow> string" where
  "separated sep [] = []"
| "separated sep (e # es) = e @ (if es = [] then [] else sep @ separated sep es)"

definition first_elements :: "nat \<Rightarrow> string \<Rightarrow> string list \<Rightarrow> string" where
  "first_elements k sep es =
     (if length es \<le> k then separated sep es else concat (map (\<lambda>e. e @ sep) (take k es)))"

lemma first_elements_simps [simp]:
  "first_elements k sep [] = []" "first_elements 0 sep es = []"
  "first_elements (Suc k) sep (e # es) = e @ (if es = [] then [] else sep) @ first_elements k sep es"
  by (cases es; simp add: first_elements_def)+

lemma write_elements_eq:
  assumes "st_objs (sg_heap s) a = Some l" and "mb_logger b = Some a" and "i \<le> kMaxLogPerContainer"
    and "sz = i + length es"
  shows "write_elements b sz i es s = Some (Inr (sz \<le> kMaxLogPerContainer,
    with_stream a l (lg_stream l @ first_elements (kMaxLogPerContainer - i) (mb_containerLogSeperator b)
      (map (\<lambda>e. e @ (if sg_hasFlag AutoSpacing s then '' '' else [])) es)) s))"
  using assms
proof (induction es arbitrary: s l i)
  case Nil
  then show ?case by (simp add: with_stream_same)
next
  case (Cons e es)
  show ?case
  proof (cases "i < kMaxLogPerContainer")
    case False
    with Cons.prems show ?thesis by (simp add: with_stream_same)
  next
    case True
    then obtain k where k: "kMaxLogPerContainer - i = Suc k" "kMaxLogPerContainer - Suc i = k"
      by (metis Suc_diff_Suc)
    let ?e = "e @ (if sg_hasFlag AutoSpacing s then '' '' else [])"
    let ?sep = "if es = [] then [] else mb_containerLogSeperator b"
    have sep: "(if i < sz - 1 then mb_containerLogSeperator b else []) = ?sep"
      using Cons.prems(4) by (cases es) auto
    have 1: "pbind (mb_log b e) g s = g () (with_stream a l (lg_stream l @ ?e) s)"
      for g :: "unit \<Rightarrow> ('a storage, bool) prog"
      by (rule pbind_run) (simp add: mb_log_eq [OF Cons.prems(1, 2)])
    have 2: "pbind (stream_append (Some a) x) g (with_stream a l u s) = g () (with_stream a l (u @ x) s)"
      for x u and g :: "unit \<Rightarrow> ('a storage, bool) prog"
      by (rule pbind_run) (simp add: stream_append_eq [where l = "l\<lparr>lg_stream := u\<rparr>"])
    from Cons.IH [of "with_stream a l (lg_stream l @ ?e @ ?sep) s" "l\<lparr>lg_stream := lg_stream l @ ?e @ ?sep\<rparr>" "Suc i"]
      Cons.prems True show ?thesis
      unfolding write_elements.simps sep by (simp add: 1 2 k del: append_assoc split del: if_split cong: if_cong)
        (simp add: k split del: if_split cong: if_cong)
  qed
qed

lemma writeIterator_eq:
  assumes "st_objs (sg_heap s) a = Some l" and "mb_logger b = Some a"
  shows "writeIterator b es (length es) s = Some (Inr ((), with_stream a l (lg_stream l @ ''['' @
      first_elements kMaxLogPerContainer (mb_containerLogSeperator b)
        (map (\<lambda>e. e @ (if sg_hasFlag AutoSpacing s then '' '' else [])) es) @
      (if length es \<le> kMaxLogPerContainer then [] else ''...'') @ '']'' @
      (if sg_hasFlag AutoSpacing s then '' '' else [])) s))"
proof -
  let ?w = "\<lambda>u. with_stream a l u s"
  have start: "pbind (stream_append (Some a) x) g s = g () (?w (lg_stream l @ x))"
    for x and g :: "unit \<Rightarrow> ('a storage, unit) prog"
    by (rule pbind_run) (simp add: stream_append_eq [OF assms(1)])
  have append_eq: "stream_append (Some a) x (?w u) = Some (Inr ((), ?w (u @ x)))" for x u
    by (simp add: stream_append_eq [where l = "l\<lparr>lg_stream := u\<rparr>"])
  then have append: "pbind (stream_append (Some a) x) g (?w u) = g () (?w (u @ x))"
    for x u and g :: "unit \<Rightarrow> ('a storage, unit) prog"
    by (rule pbind_run)
  have elements: "pbind (write_elements b (length es) 0 es) g (?w u) =
      g (length es \<le> kMaxLogPerContainer) (?w (u @ first_elements kMaxLogPerContainer (mb_containerLogSeperator b)
        (map (\<lambda>e. e @ (if sg_hasFlag AutoSpacing s then '' '' else [])) es)))"
    for u and g :: "bool \<Rightarrow> ('a storage, unit) prog"
    by (rule pbind_run) (use assms(2) in \<open>simp add: write_elements_eq [where l = "l\<lparr>lg_stream := u\<rparr>" and a = a]\<close>)
  show ?thesis
    by (simp add: writeIterator_def assms(2) start append append_eq elements)
qed

lemma copy_front_eq: "copy_front n xs = take (kMaxLogPerContainer - 1 - n) xs"
proof (induction n xs rule: copy_front.induct)
  case (2 n x xs)
  have "kMaxLogPerContainer - 1 - n = Suc (kMaxLogPerContainer - 1 - (n + 1))" if "n + 1 < kMaxLogPerContainer"
    using that by linarith
  with 2 show ?case by auto
qed simp

subsection \<open>Statements\<close>

text \<open>A logger with its tables.\<close>

definition logger_is :: "nat \<Rightarrow> logger \<Rightarrow> typed_configurations \<Rightarrow> 'f storage \<Rightarrow> bool" where
  "logger_is a l t s \<longleftrightarrow> st_objs (sg_heap s) a = Some l \<and>
     (\<exists>p ty. lg_typedConfigurations l = Some p \<and> st_objs (sg_typed s) p = Some ty \<and> t = to_tables ty)"

lemma logger_isD: "logger_is a l t s \<Longrightarrow> st_objs (sg_heap s) a = Some l"
  by (simp add: logger_is_def)

lemma logger_is_tables: "logger_is a l t s \<Longrightarrow> pbind (tables_at a) f s = f t s"
  unfolding logger_is_def using pbind_tables_at by blast

lemma logger_is_stream:
  "logger_is a l t s \<Longrightarrow> logger_is a (l\<lparr>lg_stream := txt\<rparr>) t (with_stream a l txt s)"
  by (auto simp: logger_is_def)

lemma registered_get:
  "Registry_get i (sg_registeredLoggers s) = Some a \<Longrightarrow> RL_get env i force s = Some (Inr (Some a, s))"
  by (simp add: RL_get_def Let_def)

text \<open>Whether a statement goes on.\<close>

definition proceeds :: "level \<Rightarrow> typed_configurations \<Rightarrow> 'f storage \<Rightarrow> bool" where
  "proceeds level t s \<longleftrightarrow>
     (if sg_hasFlag HierarchicalLogging s \<and> level \<noteq> Level_Verbose then sg_loggingLevel s \<le> level
      else tc_enabled level t)"

lemma proceeds_with_stream [simp]: "proceeds level t (with_stream a l txt s) = proceeds level t s"
  by (simp add: proceeds_def)

lemma initialize_registered:
  assumes "Registry_get i (sg_registeredLoggers s) = Some a" and "logger_is a l t s"
  shows "initializeLogger env inner i True w s =
    Some (Inr (w\<lparr>wr_logger := Some a, wr_proceed := proceeds (wr_level w) t s\<rparr>, s))"
  using assms
  by (simp add: initializeLogger_def pbind_assoc Let_def logger_is_tables [OF assms(2)]
      pbind_run registered_get proceeds_def)

lemma initialize_given:
  assumes "wr_logger w = Some a" and "logger_is a l t s"
  shows "initializeLogger env inner i False w s = Some (Inr (w\<lparr>wr_proceed := proceeds (wr_level w) t s\<rparr>, s))"
proof -
  have "w\<lparr>wr_logger := Some a\<rparr> = w" using assms(1) by simp
  with assms show ?thesis
    by (simp add: initializeLogger_def Let_def logger_is_tables [OF assms(2)] proceeds_def)
qed

lemma trigger_bind:
  assumes "wr_msg w = None" and "wr_proceed w" and "wr_logger w = Some a"
    and "st_objs (sg_heap s) a = Some l" and "wr_level w \<noteq> Level_Fatal"
  shows "pbind (triggerDispatch env inner w) g s =
    pbind (log_dispatch env True
        \<lparr>lm_level = wr_level w, lm_file = wr_file w, lm_line = wr_line w, lm_func = wr_func w,
         lm_verboseLevel = wr_verboseLevel w, lm_logger = a, lm_message = lg_stream l\<rparr> (wr_dispatchAction w))
      (\<lambda>_. pbind (clear_stream (Some a)) (\<lambda>_. g (w\<lparr>wr_proceed := False\<rparr>))) s"
  using assms
  by (simp add: triggerDispatch_def LogMessage_def pbind_assoc pbind_logger_at [OF assms(4)] del: prog_apply)

lemma trigger_eq:
  assumes "wr_msg w = None" and "wr_proceed w" and "wr_logger w = Some a"
    and "st_objs (sg_heap s) a = Some l" and "wr_level w \<noteq> Level_Fatal"
  shows "pbind (triggerDispatch env inner w) (\<lambda>_. preturn ()) s =
    pbind (log_dispatch env True
        \<lparr>lm_level = wr_level w, lm_file = wr_file w, lm_line = wr_line w, lm_func = wr_func w,
         lm_verboseLevel = wr_verboseLevel w, lm_logger = a, lm_message = lg_stream l\<rparr> (wr_dispatchAction w))
      (\<lambda>_. clear_stream (Some a)) s"
  using trigger_bind [OF assms, of env inner "\<lambda>_. preturn ()"] by simp

text \<open>A statement for one logger that is registered and has no text left in its stream.\<close>

lemma statement_single:
  assumes r: "Registry_get i (sg_registeredLoggers s) = Some a" and l: "logger_is a l t s" "lg_stream l = []"
    and m: "\<not> sg_hasFlag MultiLoggerSupport s"
    and nf: "proceeds level t s \<Longrightarrow> level \<noteq> Level_Fatal"
  shows "log_statement env inner [i] texts (Writer level file line func action v) s =
    (if proceeds level t s then
       pbind (log_dispatch env True
          \<lparr>lm_level = level, lm_file = file, lm_line = line, lm_func = func, lm_verboseLevel = v,
           lm_logger = a, lm_message = streamed (sg_hasFlag AutoSpacing s) texts\<rparr> action)
         (\<lambda>_. clear_stream (Some a)) (with_stream a l (streamed (sg_hasFlag AutoSpacing s) texts) s)
     else Some (Inr ((), s)))"
proof -
  define w where "w = (Writer level file line func action v)\<lparr>wr_logger := Some a, wr_proceed := proceeds level t s,
      wr_messageBuilder := mb_initialize (Some a) s\<rparr>"
  have w: "wr_logger w = Some a" "wr_proceed w = proceeds level t s" "mb_logger (wr_messageBuilder w) = Some a"
    "wr_msg w = None" "wr_level w = level" "wr_file w = file" "wr_line w = line" "wr_func w = func"
    "wr_verboseLevel w = v" "wr_dispatchAction w = action"
    by (simp_all add: w_def Writer_def mb_initialize_def)
  have c: "construct env inner [i] (Writer level file line func action v) s = Some (Inr (w, s))"
    using m by (simp add: construct_def initialize_builder_def
        pbind_run [where m = "initializeLogger env inner i True (Writer level file line func action v)",
          OF initialize_registered [OF r l(1)]])
       (simp add: Writer_def w_def)
  have run: "pbind (construct env inner [i] (Writer level file line func action v)) g s = g w s"
    for g :: "writer \<Rightarrow> ('a storage, unit) prog"
    by (rule pbind_run) (rule c)
  show ?thesis
  proof (cases "proceeds level t s")
    case False
    then have "pfor texts (\<lambda>x. wr_log x w) s = Some (Inr ((), s))" by (simp add: wr_log_none w)
    then have log: "pbind (pfor texts (\<lambda>x. wr_log x w)) g s = g () s" for g :: "unit \<Rightarrow> ('a storage, unit) prog"
      by (rule pbind_run)
    show ?thesis
      using False m clear_stream_eq [OF logger_isD [OF l(1)]] with_stream_same [OF logger_isD [OF l(1)] l(2)]
      by (simp add: log_statement_def run log processDispatch_def w)
  next
    case True
    let ?s = "with_stream a l (streamed (sg_hasFlag AutoSpacing s) texts) s"
    have "pfor texts (\<lambda>x. wr_log x w) s = Some (Inr ((), ?s))"
      using wr_log_all [OF logger_isD [OF l(1)], of w texts] True w l(2) by simp
    then have log: "pbind (pfor texts (\<lambda>x. wr_log x w)) g s = g () ?s" for g :: "unit \<Rightarrow> ('a storage, unit) prog"
      by (rule pbind_run)
    have o: "st_objs (sg_heap ?s) a = Some (l\<lparr>lg_stream := streamed (sg_hasFlag AutoSpacing s) texts\<rparr>)" by simp
    have p: "wr_proceed w" "wr_level w \<noteq> Level_Fatal" using True nf by (simp_all add: w)
    have "log_statement env inner [i] texts (Writer level file line func action v) s =
        pbind (triggerDispatch env inner w) (\<lambda>_. preturn ()) ?s"
      using True m by (simp add: log_statement_def run log processDispatch_def w del: pbind_unit)
    also have "\<dots> = pbind (log_dispatch env True
          \<lparr>lm_level = level, lm_file = file, lm_line = line, lm_func = func, lm_verboseLevel = v,
           lm_logger = a, lm_message = streamed (sg_hasFlag AutoSpacing s) texts\<rparr> action)
         (\<lambda>_. clear_stream (Some a)) ?s"
      using trigger_eq [OF w(4) p(1) w(1) o p(2), of env inner] by (simp add: w)
    finally show ?thesis using True by simp
  qed
qed

text \<open>A logger that writes a level to the terminal only.\<close>

definition terminal_logger :: "level \<Rightarrow> log_format \<Rightarrow> logger \<Rightarrow> typed_configurations \<Rightarrow> bool" where
  "terminal_logger level f l t \<longleftrightarrow>
     lg_stream l = [] \<and> (\<exists>b. lg_logBuilder l = Some b \<and> bl_kind b = DefaultLogBuilder) \<and>
     \<not> tc_toFile level t \<and> tc_toStandardOutput level t \<and> tc_logFormat level t = Inr f \<and>
     \<not> lf_hasFlag FF_DateTime f"

text \<open>No flag that changes what a dispatch does, and the library's callback only.\<close>

definition plain_output :: "'f storage \<Rightarrow> bool" where
  "plain_output s \<longleftrightarrow>
     \<not> sg_hasFlag StrictLogFileSizeCheck s \<and> \<not> sg_hasFlag ColoredTerminalOutput s \<and>
     (\<exists>n. sg_logDispatchCallbacks s =
        [(n, \<lparr>cb_enabled = True, cb_kind = DefaultLogDispatchCallback\<rparr>)])"

lemma default_build_run:
  assumes "logger_is (lm_logger msg) l t s" and "tc_logFormat (lm_level msg) t = Inr f"
    and "\<not> lf_hasFlag FF_DateTime f"
  shows "\<exists>logLine.
    build_from f (lg_parentApplicationName l) (sg_getThreadName getCurrentThreadId s)
      (date_text (en_sys env) (w_files (sg_world s)) (lm_level msg) t f)
      (sg_customFormatSpecifiers s) msg nl = Inr logLine \<and>
    default_build env msg nl s = Some (Inr (logLine, s))"
proof -
  let ?r = "build_from f (lg_parentApplicationName l) (sg_getThreadName getCurrentThreadId s)
      (date_text (en_sys env) (w_files (sg_world s)) (lm_level msg) t f)
      (sg_customFormatSpecifiers s) msg nl"
  from assms(3) build_error have "?r \<noteq> Inl e" for e by blast
  then obtain logLine where r: "?r = Inr logLine" by (cases ?r) auto
  then show ?thesis
    by (simp add: default_build_def logger_is_tables [OF assms(1)] assms(2) pbind_logger_at [OF logger_isD [OF assms(1)]])
qed

lemma terminal_dispatch:
  assumes l: "logger_is (lm_logger msg) l t s" and f: "terminal_logger (lm_level msg) f (l\<lparr>lg_stream := []\<rparr>) t"
    and p: "plain_output s"
  shows "\<exists>logLine.
    build_from f (lg_parentApplicationName l) (sg_getThreadName getCurrentThreadId s)
      (date_text (en_sys env) (w_files (sg_world s)) (lm_level msg) t f)
      (sg_customFormatSpecifiers s) msg True = Inr logLine \<and>
    log_dispatch env True msg NormalLog s = Some (Inr ((), s\<lparr>sg_stdout := sg_stdout s @ logLine\<rparr>))"
proof -
  from f have t: "\<not> tc_toFile (lm_level msg) t" "tc_toStandardOutput (lm_level msg) t"
      "tc_logFormat (lm_level msg) t = Inr f" "\<not> lf_hasFlag FF_DateTime f"
    by (simp_all add: terminal_logger_def)
  from f obtain b where b: "lg_logBuilder l = Some b" "bl_kind b = DefaultLogBuilder"
    by (auto simp: terminal_logger_def)
  from p obtain n where n: "sg_logDispatchCallbacks s = [(n, \<lparr>cb_enabled = True, cb_kind = DefaultLogDispatchCallback\<rparr>)]"
    by (auto simp: plain_output_def)
  from default_build_run [OF l t(3) t(4), of env True] obtain logLine where
    r: "build_from f (lg_parentApplicationName l) (sg_getThreadName getCurrentThreadId s)
      (date_text (en_sys env) (w_files (sg_world s)) (lm_level msg) t f)
      (sg_customFormatSpecifiers s) msg True = Inr logLine"
    and d: "default_build env msg True s = Some (Inr (logLine, s))" by blast
  have h: "handle env msg NormalLog \<lparr>cb_enabled = True, cb_kind = DefaultLogDispatchCallback\<rparr> s =
      Some (Inr ((), s\<lparr>sg_stdout := sg_stdout s @ logLine\<rparr>))"
    using t p by (simp add: handle_def default_handle_def logger_builder_def pbind_assoc
        pbind_logger_at [OF logger_isD [OF l]] b lb_build_def pbind_run [where m = "default_build env msg True", OF d]
        dispatch_def dispatch_file_def dispatch_stdout_def Let_def logger_is_tables [OF l] plain_output_def
        del: prog_apply)
       (simp add: logger_is_tables [OF l])
  then have "log_dispatch env True msg NormalLog s = Some (Inr ((), s\<lparr>sg_stdout := sg_stdout s @ logLine\<rparr>))"
    using p n by (simp add: log_dispatch_def pbind_logger_at [OF logger_isD [OF l]] plain_output_def)
  with r show ?thesis by blast
qed

definition message_of :: "level \<Rightarrow> string \<Rightarrow> nat \<Rightarrow> string \<Rightarrow> nat \<Rightarrow> nat \<Rightarrow> string \<Rightarrow> log_message" where
  "message_of level file line func vlevel a txt =
     \<lparr>lm_level = level, lm_file = file, lm_line = line, lm_func = func, lm_verboseLevel = vlevel,
      lm_logger = a, lm_message = txt\<rparr>"

text \<open>The line of a message on the terminal, and a dispatch followed by the clearing of the stream.\<close>

definition printed ::
  "'f environment \<Rightarrow> log_message \<Rightarrow> logger \<Rightarrow> log_format \<Rightarrow> typed_configurations \<Rightarrow> 'f storage \<Rightarrow> string result" where
  "printed env msg l f t s =
     build_from f (lg_parentApplicationName l) (sg_getThreadName getCurrentThreadId s)
      (date_text (en_sys env) (w_files (sg_world s)) (lm_level msg) t f) (sg_customFormatSpecifiers s) msg True"

lemma delivery:
  assumes l: "logger_is (lm_logger msg) l t s" and f: "terminal_logger (lm_level msg) f l t" and p: "plain_output s"
  shows "\<exists>logLine. printed env msg l f t s = Inr logLine \<and>
    (\<forall>u g. pbind (log_dispatch env True msg NormalLog) (\<lambda>_. pbind (clear_stream (Some (lm_logger msg))) g)
        (with_stream (lm_logger msg) l u s) = g () (s\<lparr>sg_stdout := sg_stdout s @ logLine\<rparr>))"
proof -
  let ?a = "lm_logger msg"
  have e: "lg_stream l = []" using f by (simp add: terminal_logger_def)
  then have same: "l\<lparr>lg_stream := []\<rparr> = l" by simp
  have d: "\<exists>logLine. printed env msg l f t s = Inr logLine \<and>
      log_dispatch env True msg NormalLog (with_stream ?a l u s) =
        Some (Inr ((), (with_stream ?a l u s)\<lparr>sg_stdout := sg_stdout s @ logLine\<rparr>))" for u
    using terminal_dispatch [of msg "l\<lparr>lg_stream := u\<rparr>" t "with_stream ?a l u s" f env] f p
      logger_is_stream [OF l] same
    by (auto simp: printed_def plain_output_def sg_getThreadName_def)
  then obtain logLine where r: "printed env msg l f t s = Inr logLine" by blast
  have "pbind (log_dispatch env True msg NormalLog) (\<lambda>_. pbind (clear_stream (Some ?a)) g) (with_stream ?a l u s) =
      g () (s\<lparr>sg_stdout := sg_stdout s @ logLine\<rparr>)" for u and g :: "unit \<Rightarrow> ('a storage, 'b) prog"
  proof -
    let ?s = "(with_stream ?a l u s)\<lparr>sg_stdout := sg_stdout s @ logLine\<rparr>"
    have "clear_stream (Some ?a) ?s = Some (Inr ((), with_stream ?a (l\<lparr>lg_stream := u\<rparr>) [] ?s))"
      by (rule clear_stream_eq) simp
    also have "with_stream ?a (l\<lparr>lg_stream := u\<rparr>) [] ?s = (with_stream ?a l [] s)\<lparr>sg_stdout := sg_stdout s @ logLine\<rparr>"
      by (simp add: with_stream_def)
    also have "with_stream ?a l [] s = s" using with_stream_same [OF logger_isD [OF l] e] .
    finally have c: "clear_stream (Some ?a) ?s = Some (Inr ((), s\<lparr>sg_stdout := sg_stdout s @ logLine\<rparr>))" .
    from d [of u] r have d: "log_dispatch env True msg NormalLog (with_stream ?a l u s) = Some (Inr ((), ?s))" by simp
    show ?thesis
      unfolding pbind_run [where m = "log_dispatch env True msg NormalLog", OF d]
        pbind_run [where m = "clear_stream (Some ?a)", OF c] ..
  qed
  with r show ?thesis by blast
qed

subsection \<open>An example\<close>

definition example_format :: log_format where
  "example_format = \<lparr>lf_level = Level_Info, lf_userFormat = ''%level %msg'', lf_format = ''INFO %msg'',
     lf_dateTimeFormat = [], lf_flags = 512, lf_currentUser = [], lf_currentHost = []\<rparr>"

definition terminal_tables :: typed_configurations where
  "terminal_tables = no_typed\<lparr>tc_enabledMap := [(Level_Global, True)],
     tc_toStandardOutputMap := [(Level_Global, True)], tc_logFormatMap := [(Level_Global, example_format)]\<rparr>"

definition example_logger :: "nat \<Rightarrow> logger" where
  "example_logger p = (Logger kDefaultLoggerId)\<lparr>lg_typedConfigurations := Some p,
     lg_logBuilder := Some \<lparr>bl_kind = DefaultLogBuilder, bl_termSupportsColor = True\<rparr>\<rparr>"

text \<open>The default logger of the first storage is enabled, the one of the second is not.\<close>

definition two_loggers :: "string list storage" where
  "two_loggers = (trace_storage no_typed)\<lparr>sg_flags := flag_value MultiLoggerSupport,
     sg_typed := \<lparr>st_objs = [0 \<mapsto> \<lparr>to_tables = no_typed, to_owner = 0\<rparr>,
       1 \<mapsto> \<lparr>to_tables = terminal_tables, to_owner = 1\<rparr>], st_next = 2\<rparr>,
     sg_heap := \<lparr>st_objs = [0 \<mapsto> example_logger 0, 1 \<mapsto> example_logger 1], st_next = 2\<rparr>,
     sg_registeredLoggers := [(kDefaultLoggerId, Some 0), (''other'', Some 1)]\<rparr>"

lemma format_plain: "\<not> lf_hasFlag FF_DateTime example_format"
  by code_simp

lemma terminal_example: "terminal_logger Level_Info example_format (example_logger p) terminal_tables"
  by (simp add: terminal_logger_def example_logger_def terminal_tables_def no_typed_def format_plain
      tc_toFile_def tc_toStandardOutput_def tc_logFormat_def getConfigByVal_def getConfigByRef_def
      unsafeGetConfigByVal_def unsafeGetConfigByRef_def Logger_def initUnflushedCount_def)

lemma plain_example: "plain_output (trace_storage t)" "plain_output two_loggers"
  by (simp_all add: plain_output_def two_loggers_def trace_storage_def empty_storage_def sg_hasFlag_def
      hasFlag_def bitwise_And_def)

lemma proceeds_example: "proceeds Level_Info terminal_tables (trace_storage t)"
  by (simp add: proceeds_def trace_storage_def empty_storage_def sg_hasFlag_def hasFlag_def bitwise_And_def
      terminal_tables_def tc_enabled_def getConfigByVal_def unsafeGetConfigByVal_def no_typed_def)

lemma trace_logger: "logger_is 0 (example_logger 0) t (trace_storage t)"
  by (simp add: logger_is_def trace_storage_def example_logger_def)

lemma printed_plain:
  "build_from example_format [] [] d [] (message_of Level_Info place line func 0 a txt) True =
     Inr (replaceFirstWithEscape ''INFO %msg'' ''%msg'' txt @ [CHR 0x0A])"
proof -
  have f: "\<forall>g \<in> {FF_AppName, FF_ThreadId, FF_DateTime, FF_Function, FF_File, FF_FileBase, FF_Line, FF_Location}.
      \<not> lf_hasFlag g example_format" "lf_hasFlag FF_LogMessage example_format"
    by code_simp+
  then show ?thesis
    by (simp_all add: build_from_def substitute_def message_of_def, simp_all add: example_format_def)
qed

lemma printed_example:
  "build_from example_format [] [] d [] (message_of Level_Info place line func 0 a ''hello'') True =
     Inr (''INFO hello'' @ [CHR 0x0A])"
  "build_from example_format [] [] d [] (message_of Level_Info place line func 0 a []) True =
     Inr (''INFO '' @ [CHR 0x0A])"
proof -
  have 1: "replaceFirstWithEscape ''INFO %msg'' ''%msg'' ''hello'' = ''INFO hello''" by code_simp
  have 2: "replaceFirstWithEscape ''INFO %msg'' ''%msg'' [] = ''INFO ''" by code_simp
  show "build_from example_format [] [] d [] (message_of Level_Info place line func 0 a ''hello'') True =
     Inr (''INFO hello'' @ [CHR 0x0A])"
    "build_from example_format [] [] d [] (message_of Level_Info place line func 0 a []) True =
     Inr (''INFO '' @ [CHR 0x0A])"
    unfolding printed_plain 1 2 by simp_all
qed

lemma statement_terminal:
  fixes s :: "'f storage"
  assumes "Registry_get i (sg_registeredLoggers s) = Some a" and "logger_is a l t s"
    and "terminal_logger level f l t" and "plain_output s" and "level \<noteq> Level_Fatal"
    and "\<not> sg_hasFlag MultiLoggerSupport s"
  shows "\<exists>logLine.
    printed env (message_of level file line func v a (streamed (sg_hasFlag AutoSpacing s) texts)) l f t s =
      Inr logLine \<and>
    log_statement env inner [i] texts (Writer level file line func NormalLog v) s =
      Some (Inr ((), if proceeds level t s then s\<lparr>sg_stdout := sg_stdout s @ logLine\<rparr> else s))"
proof -
  let ?text = "streamed (sg_hasFlag AutoSpacing s) texts"
  let ?msg = "message_of level file line func v a ?text"
  have m: "lm_logger ?msg = a" "lm_level ?msg = level" by (simp_all add: message_of_def)
  from delivery [of ?msg l t s f env] assms(2-4) obtain logLine where
    r: "printed env ?msg l f t s = Inr logLine"
    and d: "\<And>g :: unit \<Rightarrow> ('f storage, unit) prog.
      pbind (log_dispatch env True ?msg NormalLog) (\<lambda>_. pbind (clear_stream (Some a)) g)
        (with_stream a l ?text s) = g () (s\<lparr>sg_stdout := sg_stdout s @ logLine\<rparr>)"
    unfolding m by blast
  have "lg_stream l = []" using assms(3) by (simp add: terminal_logger_def)
  then have "log_statement env inner [i] texts (Writer level file line func NormalLog v) s =
      (if proceeds level t s then pbind (log_dispatch env True ?msg NormalLog) (\<lambda>_. clear_stream (Some a))
         (with_stream a l ?text s)
       else Some (Inr ((), s)))"
    unfolding message_of_def by (intro statement_single assms)
  with r d [of preturn] show ?thesis by auto
qed

text \<open>
  C22. A log statement for a registered logger that writes the level to the terminal prints one
  line, the format of the level filled with what was streamed, the place of the statement and
  the names of the program and the thread; it leaves everything else as it was, the stream of
  the logger empty. With the level disabled it does nothing.
\<close>

theorem statement_prints_its_line:
  fixes s :: "'f storage"
  assumes "Registry_get i (sg_registeredLoggers s) = Some a" and "logger_is a l t s"
    and "terminal_logger level f l t" and "plain_output s" and "level \<noteq> Level_Fatal"
    and "\<not> sg_hasFlag MultiLoggerSupport s"
  shows "\<exists>logLine.
    printed env (message_of level file line func v a (streamed (sg_hasFlag AutoSpacing s) texts)) l f t s =
      Inr logLine \<and>
    log_statement env inner [i] texts (Writer level file line func NormalLog v) s =
      Some (Inr ((), if proceeds level t s then s\<lparr>sg_stdout := sg_stdout s @ logLine\<rparr> else s))"
  using assms by (rule statement_terminal)

theorem statement_prints_its_line_witness:
  "log_statement trace_env (\<lambda>_ _ _ _ _ _. None) [''default''] [''hel'', ''lo'']
     (Writer Level_Info ''main.cpp'' 7 ''main'' NormalLog 0) (trace_storage terminal_tables) =
   Some (Inr ((), (trace_storage terminal_tables)\<lparr>sg_stdout := ''INFO hello'' @ [CHR 0x0A]\<rparr>))"
proof -
  let ?s = "trace_storage terminal_tables"
  have r: "Registry_get ''default'' (sg_registeredLoggers ?s) = Some 0"
    by (simp add: trace_storage_def Registry_get_def kDefaultLoggerId_def)
  have f: "\<not> sg_hasFlag MultiLoggerSupport ?s" "\<not> sg_hasFlag HierarchicalLogging ?s" "\<not> sg_hasFlag AutoSpacing ?s"
    "sg_stdout ?s = []" "sg_threadNames ?s = []" "sg_customFormatSpecifiers ?s = []"
    by (simp_all add: trace_storage_def empty_storage_def sg_hasFlag_def hasFlag_def bitwise_And_def)
  have e: "lg_parentApplicationName (example_logger 0) = []"
    by (simp add: example_logger_def Logger_def initUnflushedCount_def)
  have t: "streamed False [''hel'', ''lo''] = ''hello''" by (simp add: streamed_def)
  from statement_prints_its_line [OF r trace_logger terminal_example plain_example(1) _ f(1),
      of trace_env "''main.cpp''" 7 "''main''" 0 "[''hel'', ''lo'']" "\<lambda>_ _ _ _ _ _. None"] f e t proceeds_example
  show ?thesis
    by (simp add: printed_def printed_example sg_getThreadName_def getCurrentThreadId_def)
qed

text \<open>
  A statement for several loggers loses its text if the level is disabled for the first of
  them: the second one prints a line with an empty message.
\<close>

theorem disabled_first_logger_loses_text:
  fixes s :: "'f storage"
  assumes "sg_hasFlag MultiLoggerSupport s" and "\<not> sg_aborted s"
    and "Registry_get i (sg_registeredLoggers s) = Some a" and "logger_is a l t s" and "\<not> proceeds level t s"
    and "lg_stream l = []"
    and "Registry_get j (sg_registeredLoggers s) = Some b" and "logger_is b m u s" and "proceeds level u s"
    and "terminal_logger level f m u" and "plain_output s" and "level \<noteq> Level_Fatal"
  shows "\<exists>logLine.
    printed env (message_of level file line func v b []) m f u s = Inr logLine \<and>
    log_statement env inner [i, j] texts (Writer level file line func NormalLog v) s =
      Some (Inr ((), s\<lparr>sg_stdout := sg_stdout s @ logLine\<rparr>))"
proof -
  let ?W = "Writer level file line func NormalLog v"
  let ?msg = "message_of level file line func v b []"
  define w where "w = ?W\<lparr>wr_loggerIds := [i, j], wr_logger := Some a, wr_proceed := False,
      wr_messageBuilder := mb_initialize (Some a) s\<rparr>"
  define w' where "w' = w\<lparr>wr_logger := Some b, wr_proceed := True\<rparr>"
  note init = initialize_registered [OF assms(3, 4)] initialize_registered [OF assms(7, 8)]
  have c: "construct env inner [i, j] ?W s = Some (Inr (w, s))"
    using assms(1, 5) by (simp add: construct_def initialize_builder_def
        pbind_run [where m = "initializeLogger env inner i True (?W\<lparr>wr_loggerIds := [i, j]\<rparr>)", OF init(1)])
      (simp add: Writer_def w_def)
  have n: "pfor texts (\<lambda>x. wr_log x w) s = Some (Inr ((), s))" by (rule wr_log_none) (simp add: w_def)
  have i2: "initializeLogger env inner j True w s = Some (Inr (w', s))"
    using init(2) [of env inner w] assms(9) by (simp add: w'_def w_def Writer_def)
  have e: "lg_stream m = []" using assms(10) by (simp add: terminal_logger_def)
  have m: "lm_logger ?msg = b" "lm_level ?msg = level" by (simp_all add: message_of_def)
  from delivery [of ?msg m u s f env] assms(8, 10, 11) obtain logLine where
    r: "printed env ?msg m f u s = Inr logLine"
    and d: "\<And>g :: unit \<Rightarrow> ('f storage, unit) prog.
      pbind (log_dispatch env True ?msg NormalLog) (\<lambda>_. pbind (clear_stream (Some b)) g)
        (with_stream b m [] s) = g () (s\<lparr>sg_stdout := sg_stdout s @ logLine\<rparr>)"
    unfolding m by blast
  have w': "wr_msg w' = None" "wr_proceed w'" "wr_logger w' = Some b" "wr_level w' \<noteq> Level_Fatal"
    and loggers: "wr_loggerIds w = [i, j]" "wr_proceed w = False" "wr_logger w = Some a"
    using assms(12) by (simp_all add: w'_def w_def Writer_def)
  have t: "pbind (triggerDispatch env inner w') g s = g (w'\<lparr>wr_proceed := False\<rparr>) (s\<lparr>sg_stdout := sg_stdout s @ logLine\<rparr>)"
    for g :: "writer \<Rightarrow> ('f storage, unit) prog"
    using trigger_bind [OF w'(1-3) logger_isD [OF assms(8)] w'(4), of env inner g]
      d [of "\<lambda>_. g (w'\<lparr>wr_proceed := False\<rparr>)"] with_stream_same [OF logger_isD [OF assms(8)] e] e
    by (simp add: w'_def w_def Writer_def message_of_def)
  have clear: "pbind (clear_stream (Some a)) g s = g () s" for g :: "unit \<Rightarrow> ('f storage, unit) prog"
    by (rule pbind_run) (simp add: clear_stream_eq [OF logger_isD [OF assms(4)]]
        with_stream_same [OF logger_isD [OF assms(4)] assms(6)])
  have second: "process_loop env inner True [] False [] w' s = Some (Inr ((), s\<lparr>sg_stdout := sg_stdout s @ logLine\<rparr>))"
    using assms(2) by (subst process_loop.simps)
      (simp add: w' pbind_assoc pbind_logger_at [OF logger_isD [OF assms(8)]] e t del: process_loop.simps)
  have "process_loop env inner True [j] False [] w s = Some (Inr ((), s\<lparr>sg_stdout := sg_stdout s @ logLine\<rparr>))"
    using assms(2) by (subst process_loop.simps)
      (simp add: loggers pbind_assoc clear pbind_run [where m = "initializeLogger env inner j True w", OF i2]
        second del: process_loop.simps)
  then have "processDispatch env inner w s = Some (Inr ((), s\<lparr>sg_stdout := sg_stdout s @ logLine\<rparr>))"
    using assms(1) by (simp add: processDispatch_def loggers)
  then have "log_statement env inner [i, j] texts ?W s = Some (Inr ((), s\<lparr>sg_stdout := sg_stdout s @ logLine\<rparr>))"
    by (simp add: log_statement_def pbind_run [where m = "construct env inner [i, j] ?W", OF c]
        pbind_run [where m = "pfor texts (\<lambda>x. wr_log x w)", OF n])
  with r show ?thesis by blast
qed

theorem disabled_first_logger_loses_text_witness:
  "log_statement trace_env (\<lambda>_ _ _ _ _ _. None) [''default'', ''other''] [''hello'']
     (Writer Level_Info ''main.cpp'' 7 ''main'' NormalLog 0) two_loggers =
   Some (Inr ((), two_loggers\<lparr>sg_stdout := ''INFO '' @ [CHR 0x0A]\<rparr>))"
proof -
  let ?s = two_loggers
  have r: "Registry_get ''default'' (sg_registeredLoggers ?s) = Some 0" "Registry_get ''other'' (sg_registeredLoggers ?s) = Some 1"
    by (simp_all add: two_loggers_def Registry_get_def kDefaultLoggerId_def)
  have f: "sg_hasFlag MultiLoggerSupport ?s" "\<not> sg_hasFlag HierarchicalLogging ?s" "\<not> sg_aborted ?s"
    "sg_stdout ?s = []" "sg_threadNames ?s = []" "sg_customFormatSpecifiers ?s = []"
    by (simp_all add: two_loggers_def trace_storage_def empty_storage_def sg_hasFlag_def hasFlag_def bitwise_And_def)
  have l: "logger_is 0 (example_logger 0) no_typed ?s" "logger_is 1 (example_logger 1) terminal_tables ?s"
    by (simp_all add: two_loggers_def logger_is_def example_logger_def)
  have e: "proceeds Level_Info terminal_tables ?s" "\<not> proceeds Level_Info no_typed ?s" "lg_stream (example_logger 0) = []"
    "lg_parentApplicationName (example_logger 1) = []"
    by (simp_all add: f proceeds_def terminal_tables_def tc_enabled_def getConfigByVal_def unsafeGetConfigByVal_def no_typed_def
        example_logger_def Logger_def initUnflushedCount_def)
  from disabled_first_logger_loses_text [OF f(1, 3) r(1) l(1) e(2, 3) r(2) l(2) e(1) terminal_example plain_example(2),
      of trace_env "''main.cpp''" 7 "''main''" 0 "\<lambda>_ _ _ _ _ _. None" "[''hello'']"] f e
  show ?thesis
    by (simp add: printed_def printed_example sg_getThreadName_def getCurrentThreadId_def)
qed

text \<open>
  With hierarchical logging from errors, warnings or plain messages on, a fatal statement is
  dropped, whether the level is enabled or not: nothing is printed and the program goes on. The
  numbers put the fatal level before these.
\<close>

theorem hierarchical_drops_fatal:
  assumes "Registry_get i (sg_registeredLoggers s) = Some a" and "logger_is a l t s" and "lg_stream l = []"
    and "\<not> sg_hasFlag MultiLoggerSupport s" and "sg_hasFlag HierarchicalLogging s"
    and "sg_loggingLevel s \<in> {Level_Error, Level_Warning, Level_Info}"
  shows "log_statement env inner [i] texts (Writer Level_Fatal file line func action v) s = Some (Inr ((), s))"
proof -
  have "\<not> proceeds Level_Fatal t s" using assms(5, 6) by (auto simp: proceeds_def less_eq_level_def)
  with statement_single [OF assms(1-4), of Level_Fatal] show ?thesis by simp
qed

theorem hierarchical_drops_fatal_witness:
  "let s = (trace_storage terminal_tables)\<lparr>sg_flags := flag_value HierarchicalLogging, sg_loggingLevel := Level_Error\<rparr>
   in log_statement trace_env (\<lambda>_ _ _ _ _ _. None) [''default''] [''out of memory'']
        (Writer Level_Fatal ''main.cpp'' 7 ''main'' NormalLog 0) s = Some (Inr ((), s))"
proof -
  let ?s = "(trace_storage terminal_tables)\<lparr>sg_flags := flag_value HierarchicalLogging, sg_loggingLevel := Level_Error\<rparr>"
  have "Registry_get ''default'' (sg_registeredLoggers ?s) = Some 0" "logger_is 0 (example_logger 0) terminal_tables ?s"
    "lg_stream (example_logger 0) = []" "\<not> sg_hasFlag MultiLoggerSupport ?s" "sg_hasFlag HierarchicalLogging ?s"
    "sg_loggingLevel ?s \<in> {Level_Error, Level_Warning, Level_Info}"
    using trace_logger [of terminal_tables]
    by (simp_all add: logger_is_def Registry_get_def trace_storage_def kDefaultLoggerId_def sg_hasFlag_def hasFlag_def
        bitwise_And_def example_logger_def Logger_def initUnflushedCount_def)
  then show ?thesis unfolding Let_def by (rule hierarchical_drops_fatal)
qed

text \<open>
  A container is written between brackets, its elements separated, and ends in dots after
  the first hundred. The copy made of a queue or a stack ends one element before that, so that
  of a longer one ninety-nine elements are written and nothing shows that some are missing.
\<close>

theorem containers_written:
  assumes "st_objs (sg_heap s) a = Some l" and "mb_logger b = Some a" and "\<not> sg_hasFlag AutoSpacing s"
  shows "mb_container b es s = Some (Inr ((), with_stream a l (lg_stream l @ ''['' @
      (if length es \<le> 100 then separated (mb_containerLogSeperator b) es
       else concat (map (\<lambda>e. e @ mb_containerLogSeperator b) (take 100 es)) @ ''...'') @ '']'') s)) \<and>
    mb_queue b es s = Some (Inr ((), with_stream a l (lg_stream l @ ''['' @
      separated (mb_containerLogSeperator b) (take 99 es) @ '']'') s)) \<and>
    mb_stack b es s = mb_queue b es s"
proof -
  have k: "kMaxLogPerContainer = 100" by (simp add: kMaxLogPerContainer_def)
  have "length (take 99 es) \<le> 100" by simp
  with assms writeIterator_eq [OF assms(1, 2), of "take 99 es"] show ?thesis
    by (simp add: mb_container_def mb_queue_def IterableQueue_def copy_front_eq Let_def first_elements_def k
        mb_stack_def IterableStack_def writeIterator_eq [OF assms(1, 2)])
qed

theorem containers_written_witness:
  "mb_queue (mb_initialize (Some 0) (trace_storage no_typed)) (replicate 100 ''x'') (trace_storage no_typed) =
   Some (Inr ((), with_stream 0 (example_logger 0)
     (''['' @ separated '', '' (replicate 99 ''x'') @ '']'') (trace_storage no_typed)))"
proof -
  let ?s = "trace_storage no_typed"
  have o: "st_objs (sg_heap ?s) 0 = Some (example_logger 0)" by (rule logger_isD [OF trace_logger])
  have b: "mb_logger (mb_initialize (Some 0) ?s) = Some 0"
    "mb_containerLogSeperator (mb_initialize (Some 0) ?s) = '', ''"
    and spacing: "\<not> sg_hasFlag AutoSpacing ?s" and e: "lg_stream (example_logger 0) = []"
    by (simp_all add: mb_initialize_def trace_storage_def empty_storage_def sg_hasFlag_def hasFlag_def bitwise_And_def
        example_logger_def Logger_def initUnflushedCount_def)
  from containers_written [OF o b(1) spacing, of "replicate 100 ''x''"] b(2) e show ?thesis
    by simp
qed

subsection \<open>Formats\<close>

text \<open>The text of a format with values, and whether all values were taken.\<close>

fun expand :: "string \<Rightarrow> string list \<Rightarrow> string \<times> bool" where
  "expand s [] = (s, True)"
| "expand [] (v # vs) = ([], False)"
| "expand [c] (v # vs) = ([c], False)"
| "expand (c # d # s) (v # vs) =
     (if c = CHR ''%'' \<and> d = CHR ''%'' then apfst ((#) d) (expand s (v # vs))
      else if c = CHR ''%'' \<and> d = CHR ''v'' then apfst ((@) v) (expand s vs)
      else apfst ((#) c) (expand (d # s) (v # vs)))"

lemma log_value_terminal:
  fixes s :: "'f storage"
  assumes l: "logger_is a l t s" and f: "terminal_logger level f l t" and p: "plain_output s"
    and flags: "\<not> sg_hasFlag MultiLoggerSupport s" "\<not> sg_hasFlag AutoSpacing s"
    and level: "level \<noteq> Level_Fatal" "level \<noteq> Level_Verbose"
  shows "\<exists>logLine.
    printed env (message_of level ''FILE'' 0 ''FUNCTION'' 0 a (u @ rest)) l f t s = Inr logLine \<and>
    log_value env inner this_file a level vlevel rest (with_stream a l u s) =
      Some (Inr ((), if proceeds level t s then s\<lparr>sg_stdout := sg_stdout s @ logLine\<rparr> else s))"
proof -
  let ?s = "with_stream a l u s" and ?W = "Writer level ''FILE'' 0 ''FUNCTION'' NormalLog 0"
  let ?msg = "message_of level ''FILE'' 0 ''FUNCTION'' 0 a (u @ rest)"
  define w where "w = ?W\<lparr>wr_logger := Some a, wr_proceed := proceeds level t s,
      wr_messageBuilder := mb_initialize (Some a) ?s\<rparr>"
  have w: "wr_logger w = Some a" "wr_proceed w = proceeds level t s" "mb_logger (wr_messageBuilder w) = Some a"
    "wr_msg w = None" "wr_level w = level" "wr_file w = ''FILE''" "wr_line w = 0" "wr_func w = ''FUNCTION''"
    "wr_verboseLevel w = 0" "wr_dispatchAction w = NormalLog"
    by (simp_all add: w_def Writer_def mb_initialize_def)
  have ls: "logger_is a (l\<lparr>lg_stream := u\<rparr>) t ?s" by (rule logger_is_stream [OF l])
  have c: "construct_logger env inner a ?W ?s = Some (Inr (w, ?s))"
  proof -
    have "initializeLogger env inner i False (?W\<lparr>wr_logger := Some a\<rparr>) ?s =
        Some (Inr (?W\<lparr>wr_logger := Some a, wr_proceed := proceeds level t s\<rparr>, ?s))" for i
      using initialize_given [OF _ ls, of "?W\<lparr>wr_logger := Some a\<rparr>" env inner i] flags by (simp add: Writer_def)
    then have i: "pbind (initializeLogger env inner i False (?W\<lparr>wr_logger := Some a\<rparr>)) g ?s =
        g (?W\<lparr>wr_logger := Some a, wr_proceed := proceeds level t s\<rparr>) ?s"
      for i and g :: "writer \<Rightarrow> ('f storage, writer) prog" by (rule pbind_run)
    show ?thesis
      by (simp add: construct_logger_def pbind_logger_at [OF logger_isD [OF ls]] i)
         (simp add: initialize_builder_def w_def Writer_def)
  qed
  have e: "lg_stream l = []" using f by (simp add: terminal_logger_def)
  have m: "lm_logger ?msg = a" "lm_level ?msg = level" by (simp_all add: message_of_def)
  from delivery [of ?msg l t s f env] l f p obtain logLine where
    r: "printed env ?msg l f t s = Inr logLine"
    and d: "\<And>u (g :: unit \<Rightarrow> ('f storage, unit) prog).
      pbind (log_dispatch env True ?msg NormalLog) (\<lambda>_. pbind (clear_stream (Some a)) g)
        (with_stream a l u s) = g () (s\<lparr>sg_stdout := sg_stdout s @ logLine\<rparr>)"
    unfolding m by blast
  have v: "log_value env inner this_file a level vlevel rest ?s =
      pbind (wr_log rest w) (\<lambda>_. processDispatch env inner w) ?s"
    using level by (simp add: log_value_def Let_def pbind_run [where m = "construct_logger env inner a ?W", OF c])
  show ?thesis
  proof (cases "proceeds level t s")
    case False
    have "clear_stream (Some a) ?s = Some (Inr ((), s))"
      using clear_stream_eq [OF logger_isD [OF ls]] with_stream_same [OF logger_isD [OF l] e] by simp
    with False v r flags show ?thesis
      by (intro exI [of _ logLine]) (simp add: wr_log_def w processDispatch_def)
  next
    case True
    have "wr_log rest w ?s = Some (Inr ((), with_stream a l (u @ rest) s))"
      using mb_log_eq [OF logger_isD [OF ls] w(3), of rest] True flags by (simp add: wr_log_def w)
    then have "log_value env inner this_file a level vlevel rest ?s =
        pbind (triggerDispatch env inner w) (\<lambda>_. preturn ()) (with_stream a l (u @ rest) s)"
      using v True flags
      by (simp add: pbind_run [where m = "wr_log rest w"] processDispatch_def w del: pbind_unit)
    also have "\<dots> = Some (Inr ((), s\<lparr>sg_stdout := sg_stdout s @ logLine\<rparr>))"
      using trigger_bind [where w = w and a = a and l = "l\<lparr>lg_stream := u @ rest\<rparr>" and g = "\<lambda>_. preturn ()" and env = env
          and inner = inner and s = "with_stream a l (u @ rest) s"] True level d [of "\<lambda>_. preturn ()" "u @ rest"]
      by (simp add: w message_of_def)
    finally show ?thesis using True r by (intro exI [of _ logLine]) simp
  qed
qed

lemma log_format_terminal:
  fixes s :: "'f storage"
  assumes l: "logger_is a l t s" and f: "terminal_logger level f l t" and p: "plain_output s"
    and flags: "\<not> sg_hasFlag MultiLoggerSupport s" "\<not> sg_hasFlag AutoSpacing s"
    and level: "level \<noteq> Level_Fatal" "level \<noteq> Level_Verbose" and b: "mb_logger b = Some a"
  shows "\<exists>logLine.
    printed env (message_of level ''FILE'' 0 ''FUNCTION'' 0 a (u @ fst (expand form vs))) l f t s = Inr logLine \<and>
    log_format_loop env inner this_file a level vlevel b form vs (with_stream a l u s) =
      Some (Inr ((),
        if \<not> snd (expand form vs) then with_stream a l (u @ fst (expand form vs)) s
        else if proceeds level t s then s\<lparr>sg_stdout := sg_stdout s @ logLine\<rparr> else s))"
proof -
  have printed_exists: "\<exists>logLine. printed env (message_of level ''FILE'' 0 ''FUNCTION'' 0 a x) l f t s = Inr logLine" for x
    using delivery [of "message_of level ''FILE'' 0 ''FUNCTION'' 0 a x" l t s f env] l f p
    by (auto simp: message_of_def)
  show ?thesis
proof (induction form vs arbitrary: u rule: expand.induct)
  case (1 form)
  then show ?case using log_value_terminal [OF assms(1-7), of env u form] by simp
next
  case (2 v vs)
  from printed_exists [of u] show ?case by simp
next
  case (3 c v vs)
  have "mb_log b [c] (with_stream a l u s) = Some (Inr ((), with_stream a l (u @ [c]) s))"
    using mb_log_eq [of "with_stream a l u s" a "l\<lparr>lg_stream := u\<rparr>" b "[c]"] b flags by simp
  with printed_exists [of "u @ [c]"] show ?case by simp
next
  case (4 c d form v vs)
  have log: "pbind (mb_log b x) g (with_stream a l u s) = g () (with_stream a l (u @ x) s)" for x
    and g :: "unit \<Rightarrow> ('f storage, unit) prog"
    by (rule pbind_run) (use mb_log_eq [of "with_stream a l u s" a "l\<lparr>lg_stream := u\<rparr>" b x] b flags in simp)
  consider "c = CHR ''%'' \<and> d = CHR ''%''" | "c = CHR ''%'' \<and> d = CHR ''v''"
    | "\<not> (c = CHR ''%'' \<and> d = CHR ''%'')" "\<not> (c = CHR ''%'' \<and> d = CHR ''v'')" by blast
  then show ?case
  proof cases
    case 1
    with "4.IH"(1) [of "u @ [d]"] show ?thesis by (simp add: log cong: if_cong split del: if_split)
  next
    case 2
    with "4.IH"(2) [of "u @ v"] show ?thesis by (simp add: log cong: if_cong split del: if_split)
  next
    case 3
    then have n: "(c = CHR ''%'' \<and> d = CHR ''%'') = False" "(c = CHR ''%'' \<and> d = CHR ''v'') = False" by auto
    from "4.IH"(3) [OF 3, of "u @ [c]"] show ?thesis
      unfolding expand.simps log_format_loop.simps n if_False log by (simp cong: if_cong split del: if_split)
  qed
qed
qed

text \<open>
  C38. A call with a format and values prints one line when the format has a place for each
  value: what is left in the stream of the logger, then the format with \<open>%v\<close> replaced by the
  values in their order and a doubled percent sign by one. With a value too many nothing is
  printed: the text stays in the stream, and so stands before the next message.
\<close>

theorem format_values_in_order:
  fixes s :: "'f storage"
  assumes "logger_is a l t s" and "terminal_logger level f l t" and "plain_output s"
    and "\<not> sg_hasFlag MultiLoggerSupport s" and "\<not> sg_hasFlag AutoSpacing s"
    and "level \<noteq> Level_Fatal" and "level \<noteq> Level_Verbose"
  shows "\<exists>logLine.
    printed env (message_of level ''FILE'' 0 ''FUNCTION'' 0 a (u @ fst (expand form values))) l f t s = Inr logLine \<and>
    Logger_log env inner this_file a level vlevel form values (with_stream a l u s) =
      Some (Inr ((),
        if \<not> snd (expand form values) then with_stream a l (u @ fst (expand form values)) s
        else if proceeds level t s then s\<lparr>sg_stdout := sg_stdout s @ logLine\<rparr> else s))"
  using log_format_terminal [OF assms, of "mb_initialize (Some a) (with_stream a l u s)" env u form "values" inner this_file vlevel]
  by (simp add: Logger_log_def mb_initialize_def)

text \<open>A value too many, then a message: its line starts with the text of the first call.\<close>

theorem format_values_in_order_witness:
  "Logger_log trace_env (\<lambda>_ _ _ _ _ _. None) ''easylogging++.h'' 0 Level_Info 0 ''he%v'' [''l'', ''x'']
     (trace_storage terminal_tables) =
   Some (Inr ((), with_stream 0 (example_logger 0) ''hel'' (trace_storage terminal_tables))) \<and>
   Logger_log trace_env (\<lambda>_ _ _ _ _ _. None) ''easylogging++.h'' 0 Level_Info 0 ''lo'' []
     (with_stream 0 (example_logger 0) ''hel'' (trace_storage terminal_tables)) =
   Some (Inr ((), (trace_storage terminal_tables)\<lparr>sg_stdout := ''INFO hello'' @ [CHR 0x0A]\<rparr>))"
proof -
  let ?s = "trace_storage terminal_tables :: string list storage"
  have f: "\<not> sg_hasFlag MultiLoggerSupport ?s" "\<not> sg_hasFlag HierarchicalLogging ?s" "\<not> sg_hasFlag AutoSpacing ?s"
    "sg_stdout ?s = []" "sg_threadNames ?s = []" "sg_customFormatSpecifiers ?s = []"
    by (simp_all add: trace_storage_def empty_storage_def sg_hasFlag_def hasFlag_def bitwise_And_def)
  have e: "lg_parentApplicationName (example_logger 0) = []"
    by (simp add: example_logger_def Logger_def initUnflushedCount_def)
  have x: "expand ''he%v'' [''l'', ''x''] = (''hel'', False)" "expand ''lo'' [] = (''lo'', True)" by code_simp+
  have same: "with_stream 0 (example_logger 0) [] ?s = ?s"
    by (rule with_stream_same [OF logger_isD [OF trace_logger]])
       (simp add: example_logger_def Logger_def initUnflushedCount_def)
  note step = format_values_in_order [OF trace_logger terminal_example plain_example(1) f(1, 3),
      of trace_env _ _ _ "\<lambda>_ _ _ _ _ _. None" "''easylogging++.h''" 0]
  from step [of "[]" "''he%v''" "[''l'', ''x'']"] step [of "''hel''" "''lo''" "[]"] f e x same proceeds_example
  show ?thesis
    by (simp add: printed_def printed_example sg_getThreadName_def getCurrentThreadId_def)
qed

end
