(* ===== verification/Elpp_Values.thy ===== *)
theory Elpp_Values imports Elpp_Writer begin

text \<open>
  What can be streamed into a log besides the text of a value: wide strings, null pointers,
  priority queues, the containers of other libraries, and the text of a value outside of a log
  statement. Also what the library takes from a shell.
\<close>

section \<open>Shell commands\<close>

text \<open>
  \<open>fgets\<close> with room for \<open>n\<close> characters reads up to a line's end, which it keeps; it fails at the
  end of the output. What a command prints is an argument, nothing if it cannot be run.
\<close>

fun fgets_line :: "nat \<Rightarrow> string \<Rightarrow> string" where
  "fgets_line 0 out = []"
| "fgets_line (Suc n) [] = []"
| "fgets_line (Suc n) (c # out) = (if c = CHR 0x0A then [c] else c # fgets_line n out)"

definition c_text :: "string \<Rightarrow> string" where
  "c_text s = takeWhile (\<lambda>c. c \<noteq> CHR 0x00) s"

definition bash_buff :: nat where "bash_buff = 4096"

definition getBashOutput :: "(string \<Rightarrow> string option) \<Rightarrow> string option \<Rightarrow> string" where
  "getBashOutput popen command =
     (case command of
        None \<Rightarrow> []
      | Some command \<Rightarrow>
          (case popen command of
             None \<Rightarrow> []
           | Some out \<Rightarrow>
               if out = [] then []
               else
                 (let hBuff = c_text (fgets_line (bash_buff - 1) out)
                  in if hBuff \<noteq> [] \<and> last hBuff = CHR 0x0A then butlast hBuff else hBuff)))"

text \<open>The variant of the library that asks a shell for variables that are not set.\<close>

definition getEnvironmentVariable_bash ::
  "(string \<Rightarrow> string option) \<Rightarrow> (string \<Rightarrow> string option) \<Rightarrow> string \<Rightarrow> string \<Rightarrow> string option \<Rightarrow> string" where
  "getEnvironmentVariable_bash popen getenv variableName defaultVal alternativeBashCommand =
     (let val = getenv variableName
      in if val = None \<or> val = Some [] then
           (let valBash = getBashOutput popen alternativeBashCommand
            in if valBash = [] then defaultVal else valBash)
         else the val)"

section \<open>Wide strings\<close>

text \<open>
  The encoding of the locale gives the bytes of a wide character, or none for a character it
  does not have. \<open>wcstombs\<close> with room for \<open>n\<close> bytes stops before the first character that does
  not fit or has no bytes; it writes a terminator only if there is room for one.
\<close>

type_synonym encoding = "nat \<Rightarrow> string option"

fun wcstombs :: "encoding \<Rightarrow> nat \<Rightarrow> nat list \<Rightarrow> string" where
  "wcstombs enc n [] = (if 0 < n then [CHR 0x00] else [])"
| "wcstombs enc n (w # ws) =
     (case enc w of
        None \<Rightarrow> []
      | Some bs \<Rightarrow> if length bs \<le> n then bs @ wcstombs enc (n - length bs) ws else [])"

text \<open>
  The buffer is not initialised: what is read of it must have been written. It has one byte
  more than the conversion may use.
\<close>

definition wcharPtrToCharPtr :: "encoding \<Rightarrow> nat list \<Rightarrow> string" where
  "wcharPtrToCharPtr enc line = (let len = length line + 1 in wcstombs enc len line)"

definition written_c_string :: "string \<Rightarrow> string result" where
  "written_c_string buff = (if CHR 0x00 \<in> set buff then Inr (c_text buff) else Inl IndeterminateRead)"

section \<open>Values of the language\<close>

text \<open>
  The types the builder has operators for, but for floating point and pointers. Streaming a null
  pointer to characters is undefined; only the operator for wide strings tests for it.
\<close>

datatype simple_value =
    Char_value char
  | Bool_value bool
  | Signed_value int
  | Unsigned_value nat
  | CString_value "string option"
  | String_value string
  | Wide_value "nat list option"
  | Manipulator string

definition kNullPointer :: string where "kNullPointer = ''nullptr''"

definition c_string_text :: "string option \<Rightarrow> string result" where
  "c_string_text p = (case p of None \<Rightarrow> Inl NullDereference | Some s \<Rightarrow> Inr (c_text s))"

definition mb_wide :: "encoding \<Rightarrow> message_builder \<Rightarrow> nat list option \<Rightarrow> ('f storage, unit) prog" where
  "mb_wide enc b msg =
     (case msg of
        None \<Rightarrow> stream_append (mb_logger b) kNullPointer
      | Some msg \<Rightarrow> pbind (plift (written_c_string (wcharPtrToCharPtr enc msg))) (mb_log b))"

definition mb_manipulator :: "message_builder \<Rightarrow> string \<Rightarrow> ('f storage, unit) prog" where
  "mb_manipulator b txt = stream_append (mb_logger b) txt"

definition mb_value :: "encoding \<Rightarrow> message_builder \<Rightarrow> simple_value \<Rightarrow> ('f storage, unit) prog" where
  "mb_value enc b v =
     (case v of
        Char_value c \<Rightarrow> mb_log b [c]
      | Bool_value x \<Rightarrow> mb_log b (if x then ''1'' else ''0'')
      | Signed_value n \<Rightarrow> mb_log b ((if n < 0 then ''-'' else []) @ show_nat (nat (abs n)))
      | Unsigned_value n \<Rightarrow> mb_log b (show_nat n)
      | CString_value p \<Rightarrow> pbind (plift (c_string_text p)) (mb_log b)
      | String_value txt \<Rightarrow> pbind (plift (c_string_text (Some txt))) (mb_log b)
      | Wide_value p \<Rightarrow> mb_wide enc b p
      | Manipulator txt \<Rightarrow> mb_manipulator b txt)"

section \<open>Priority queues\<close>

text \<open>
  A priority queue is given by its elements in the order in which they are popped. Pushing to
  the copy moves the new element up in its vector past parents that are less.
\<close>

fun sift_up :: "('x \<Rightarrow> 'x \<Rightarrow> bool) \<Rightarrow> 'x list \<Rightarrow> nat \<Rightarrow> 'x \<Rightarrow> 'x list" where
  "sift_up lt xs i x =
     (if 0 < i \<and> lt (xs ! ((i - 1) div 2)) x
      then sift_up lt (xs[i := xs ! ((i - 1) div 2)]) ((i - 1) div 2) x
      else xs[i := x])"

definition pq_push :: "('x \<Rightarrow> 'x \<Rightarrow> bool) \<Rightarrow> 'x \<Rightarrow> 'x list \<Rightarrow> 'x list" where
  "pq_push lt x c = sift_up lt (c @ [x]) (length c) x"

fun copy_priority :: "('x \<Rightarrow> 'x \<Rightarrow> bool) \<Rightarrow> nat \<Rightarrow> 'x list \<Rightarrow> 'x list \<Rightarrow> 'x list" where
  "copy_priority lt count [] c = c"
| "copy_priority lt count (x # queue) c =
     (if count + 1 < kMaxLogPerContainer then copy_priority lt (count + 1) queue (pq_push lt x c) else c)"

definition IterablePriorityQueue :: "('x \<Rightarrow> 'x \<Rightarrow> bool) \<Rightarrow> 'x list \<Rightarrow> 'x list" where
  "IterablePriorityQueue lt queue = copy_priority lt 0 queue []"

definition mb_priority_queue ::
  "('x \<Rightarrow> 'x \<Rightarrow> bool) \<Rightarrow> ('x \<Rightarrow> string) \<Rightarrow> message_builder \<Rightarrow> 'x list \<Rightarrow> ('f storage, unit) prog" where
  "mb_priority_queue lt txt b queue =
     (let es = map txt (IterablePriorityQueue lt queue) in writeIterator b es (length es))"

text \<open>An array of the standard library.\<close>

definition mb_array :: "message_builder \<Rightarrow> string list \<Rightarrow> ('f storage, unit) prog" where
  "mb_array b es = writeIterator b es (length es)"

section \<open>Containers of other libraries\<close>

text \<open>
  \<open>MAKE_CONTAINERELPP_FRIENDLY\<close> writes to any stream. The size is what the given method returns;
  the unsigned number before zero is the largest.
\<close>

definition size_minus_one :: "nat \<Rightarrow> nat" where
  "size_minus_one sz = (if sz = 0 then 2 ^ 64 - 1 else sz - 1)"

fun friendly_loop :: "string \<Rightarrow> nat \<Rightarrow> nat \<Rightarrow> string list \<Rightarrow> string \<times> bool" where
  "friendly_loop sep sz i [] = ([], True)"
| "friendly_loop sep sz i (e # es) =
     (if i < kMaxLogPerContainer
      then (let (txt, all) = friendly_loop sep sz (i + 1) es
            in (e @ (if i < size_minus_one sz then sep else []) @ txt, all))
      else ([], False))"

definition MAKE_CONTAINERELPP_FRIENDLY :: "'f storage \<Rightarrow> nat \<Rightarrow> string list \<Rightarrow> string" where
  "MAKE_CONTAINERELPP_FRIENDLY s sz es =
     (let sep = (if sg_hasFlag NewLineForContainer s then CHR 0x0A # ''    '' else '', '');
          (txt, all) = friendly_loop sep sz 0 es
      in ''['' @ txt @ (if all then [] else ''...'') @ '']'')"

text \<open>
  The containers of wxWidgets; without its support the macros expand to nothing. The macro for a
  hash map, \<open>ELPP_WX_HASH_MAP_ENABLED\<close>, has no definition here: its text in the header lacks a
  closing parenthesis, so no program that uses it compiles.
\<close>

definition ELPP_WX_ENABLED :: "'f storage \<Rightarrow> string list \<Rightarrow> string" where
  "ELPP_WX_ENABLED s es = MAKE_CONTAINERELPP_FRIENDLY s (length es) es"

definition ELPP_WX_PTR_ENABLED :: "'f storage \<Rightarrow> string option list \<Rightarrow> string result" where
  "ELPP_WX_PTR_ENABLED s ps =
     (if None \<in> set (take kMaxLogPerContainer ps) then Inl NullDereference
      else Inr (MAKE_CONTAINERELPP_FRIENDLY s (length ps) (map (\<lambda>p. case p of None \<Rightarrow> [] | Some e \<Rightarrow> e) ps)))"

text \<open>
  The types of Qt. A text is given by what \<open>toStdString\<close> makes of it; texts, numbers and
  characters go to the stream without the space of the flag.
\<close>

definition mb_qt_text :: "message_builder \<Rightarrow> string \<Rightarrow> ('f storage, unit) prog" where
  "mb_qt_text b txt = stream_append (mb_logger b) txt"

definition mb_qt_pair :: "message_builder \<Rightarrow> string \<Rightarrow> string \<Rightarrow> ('f storage, unit) prog" where
  "mb_qt_pair b x y =
     pbind (stream_append (mb_logger b) ''('') (\<lambda>_.
     pbind (mb_log b x) (\<lambda>_.
     pbind (stream_append (mb_logger b) '', '') (\<lambda>_.
     pbind (mb_log b y) (\<lambda>_.
     stream_append (mb_logger b) '')''))))"

text \<open>The loop over the keys of a map or a hash: whether it reached the end.\<close>

fun qt_map_loop ::
  "message_builder \<Rightarrow> nat \<Rightarrow> nat \<Rightarrow> ('k \<Rightarrow> string) \<Rightarrow> ('k \<Rightarrow> string) \<Rightarrow> 'k list \<Rightarrow> ('f storage, bool) prog" where
  "qt_map_loop b sz i key_text value_text [] = preturn True"
| "qt_map_loop b sz i key_text value_text (k # ks) =
     (if i < kMaxLogPerContainer then
        pbind (stream_append (mb_logger b) ''('') (\<lambda>_.
        pbind (mb_log b (key_text k)) (\<lambda>_.
        pbind (stream_append (mb_logger b) '', '') (\<lambda>_.
        pbind (mb_log b (value_text k)) (\<lambda>_.
        pbind (stream_append (mb_logger b) '')'') (\<lambda>_.
        pbind (stream_append (mb_logger b) (if int i < int sz - 1 then mb_containerLogSeperator b else [])) (\<lambda>_.
        qt_map_loop b sz (i + 1) key_text value_text ks))))))
      else preturn False)"

definition mb_qt_map ::
  "message_builder \<Rightarrow> ('k \<Rightarrow> string) \<Rightarrow> ('k \<Rightarrow> string) \<Rightarrow> 'k list \<Rightarrow> ('f storage, unit) prog" where
  "mb_qt_map b key_text value_text ks =
     pbind (stream_append (mb_logger b) ''['') (\<lambda>_.
     pbind (qt_map_loop b (length ks) 0 key_text value_text ks) (\<lambda>all.
     pbind (if all then preturn () else stream_append (mb_logger b) ''...'') (\<lambda>_.
     stream_append (mb_logger b) '']'')))"

section \<open>Text outside of a statement\<close>

text \<open>
  \<open>Helpers::convertTemplateToStdString\<close> borrows the stream of the default logger; \<open>put\<close> streams
  the value into a builder.
\<close>

definition convertTemplateToStdString ::
  "'f environment \<Rightarrow> (message_builder \<Rightarrow> ('f storage, unit) prog) \<Rightarrow> ('f storage, string) prog" where
  "convertTemplateToStdString env put =
     pbind (RL_get env kDefaultLoggerId True) (\<lambda>logger.
     case logger of
       None \<Rightarrow> preturn []
     | Some a \<Rightarrow>
         pbind (pget (mb_initialize logger)) (\<lambda>b.
         pbind (put b) (\<lambda>_.
         pbind (logger_at a) (\<lambda>l.
         pbind (clear_stream (Some a)) (\<lambda>_. preturn (lg_stream l))))))"

text \<open>Rolling the files of a logger, which may be null.\<close>

definition Helpers_validateFileRolling :: "'f environment \<Rightarrow> ptr \<Rightarrow> level \<Rightarrow> ('f storage, unit) prog" where
  "Helpers_validateFileRolling env logger level =
     (case logger of None \<Rightarrow> preturn () | Some a \<Rightarrow> validateFileRolling_at env a level)"

section \<open>Facts\<close>

subsection \<open>Shell commands\<close>

lemma fgets_line_eq:
  "fgets_line n out = takeWhile (\<lambda>c. c \<noteq> CHR 0x0A) (take n out) @ (if CHR 0x0A \<in> set (take n out) then [CHR 0x0A] else [])"
  by (induction n out rule: fgets_line.induct) auto

lemma c_text_terminated: "CHR 0x00 \<notin> set s \<Longrightarrow> c_text (s @ [CHR 0x00]) = s"
  by (induction s) (auto simp: c_text_def)

lemma c_text_id: "CHR 0x00 \<notin> set s \<Longrightarrow> c_text s = s"
  by (auto simp: c_text_def takeWhile_eq_all_conv)

text \<open>
  What the library takes from a shell is the first line of the output, without its end, and
  at most the first 4095 characters of it.
\<close>

theorem shell_output_first_line:
  assumes "popen command = Some out" and "CHR 0x00 \<notin> set out"
  shows "getBashOutput popen (Some command) = takeWhile (\<lambda>c. c \<noteq> CHR 0x0A) (take (bash_buff - 1) out)"
proof -
  define n where "n = bash_buff - 1"
  define line where "line = takeWhile (\<lambda>c. c \<noteq> CHR 0x0A) (take n out)"
  have n: "CHR 0x00 \<notin> set line" "CHR 0x0A \<notin> set line"
    using assms(2) unfolding line_def by (auto dest: set_takeWhileD in_set_takeD)
  then have "line \<noteq> [] \<Longrightarrow> last line \<noteq> CHR 0x0A" using last_in_set by metis
  moreover have "c_text (fgets_line n out) = line @ (if CHR 0x0A \<in> set (take n out) then [CHR 0x0A] else [])"
    using n by (auto simp: fgets_line_eq c_text_id simp flip: line_def)
  ultimately have "getBashOutput popen (Some command) = (if out = [] then [] else line)"
    by (auto simp: getBashOutput_def assms(1) Let_def simp flip: n_def [simplified])
  moreover have "out = [] \<Longrightarrow> line = []" by (simp add: line_def)
  ultimately show ?thesis by (auto simp: line_def n_def)
qed

theorem shell_output_first_line_witness:
  "getBashOutput (\<lambda>_. Some (''nerull'' @ [CHR 0x0A] @ ''x'')) (Some ''whoami'') = ''nerull''"
  by (subst shell_output_first_line [where out = "''nerull'' @ [CHR 0x0A] @ ''x''"]) (simp_all add: bash_buff_def)

subsection \<open>Wide strings\<close>

definition encoding_ok :: "encoding \<Rightarrow> bool" where
  "encoding_ok enc \<longleftrightarrow> (\<forall>w bs. enc w = Some bs \<longrightarrow> bs \<noteq> [] \<and> CHR 0x00 \<notin> set bs)"

lemma wcstombs_within: "length (wcstombs enc n ws) \<le> n"
  by (induction enc n ws rule: wcstombs.induct) (auto split: option.split)

lemma wcstombs_terminated:
  assumes "encoding_ok enc"
  shows "CHR 0x00 \<in> set (wcstombs enc n ws) \<longleftrightarrow>
    (\<forall>w \<in> set ws. enc w \<noteq> None) \<and> sum_list (map (\<lambda>w. length (the (enc w))) ws) < n"
proof (induction ws arbitrary: n)
  case (Cons w ws)
  show ?case
  proof (cases "enc w")
    case (Some bs)
    then have "bs \<noteq> [] \<and> CHR 0x00 \<notin> set bs" using assms unfolding encoding_ok_def by blast
    with Cons.IH [of "n - length bs"] Some show ?thesis by (auto simp: less_diff_conv add.commute)
  qed simp
qed simp

lemma wcstombs_single:
  "\<forall>w \<in> set ws. \<exists>c. enc w = Some [c] \<Longrightarrow> length ws < n \<Longrightarrow>
     wcstombs enc n ws = map (\<lambda>w. hd (the (enc w))) ws @ [CHR 0x00]"
  by (induction ws arbitrary: n) auto

text \<open>With no character missing from the encoding, the bytes are as many as the characters only if each has one.\<close>

lemma bytes_per_character:
  assumes "encoding_ok enc" and "\<forall>w \<in> set ws. enc w \<noteq> None"
  shows "length ws \<le> sum_list (map (\<lambda>w. length (the (enc w))) ws) \<and>
    (sum_list (map (\<lambda>w. length (the (enc w))) ws) = length ws \<longrightarrow> (\<forall>w \<in> set ws. \<exists>c. enc w = Some [c]))"
  using assms(2)
proof (induction ws)
  case (Cons w ws)
  then obtain bs where bs: "enc w = Some bs" by auto
  then have "bs \<noteq> []" using assms(1) unfolding encoding_ok_def by blast
  then obtain c bs' where "bs = c # bs'" by (cases bs) auto
  with Cons bs show ?case by (cases bs') auto
qed simp

text \<open>
  Converting a wide string never writes past the buffer, but the terminator is written only
  if every character is one byte in the encoding of the locale: a single character of two bytes,
  or one that the encoding does not have, leaves the buffer without an end, and streaming it
  reads what was never written.
\<close>

theorem wide_text_needs_single_bytes:
  assumes "encoding_ok enc"
  shows "length (wcharPtrToCharPtr enc line) \<le> length line + 1 \<and>
    written_c_string (wcharPtrToCharPtr enc line) =
      (if \<forall>w \<in> set line. \<exists>c. enc w = Some [c] then Inr (map (\<lambda>w. hd (the (enc w))) line)
       else Inl IndeterminateRead)"
proof (cases "\<forall>w \<in> set line. \<exists>c. enc w = Some [c]")
  case True
  have "CHR 0x00 \<notin> set (map (\<lambda>w. hd (the (enc w))) line)"
  proof
    assume "CHR 0x00 \<in> set (map (\<lambda>w. hd (the (enc w))) line)"
    then obtain w where w: "w \<in> set line" "hd (the (enc w)) = CHR 0x00" by auto
    with True obtain c where "enc w = Some [c]" by blast
    with w(2) assms show False unfolding encoding_ok_def by fastforce
  qed
  from c_text_terminated [OF this]
  have "c_text (map (\<lambda>w. hd (the (enc w))) line @ [CHR 0x00]) = map (\<lambda>w. hd (the (enc w))) line" .
  with True show ?thesis
    by (simp add: wcharPtrToCharPtr_def wcstombs_single written_c_string_def)
next
  case False
  then have "CHR 0x00 \<notin> set (wcharPtrToCharPtr enc line)"
    using bytes_per_character [OF assms, of line]
    unfolding wcharPtrToCharPtr_def Let_def wcstombs_terminated [OF assms] by (metis Suc_eq_plus1 le_antisym less_Suc_eq_le)
  with False wcstombs_within [of enc "length line + 1" line] show ?thesis
    by (auto simp: written_c_string_def wcharPtrToCharPtr_def)
qed

text \<open>The letters of ASCII, and the letter e with an acute accent, in UTF-8.\<close>

definition small_utf8 :: encoding where
  "small_utf8 w = (if 0 < w \<and> w < 128 then Some [char_of w] else if w = 233 then Some [CHR 0xC3, CHR 0xA9] else None)"

theorem wide_text_needs_single_bytes_witness:
  "written_c_string (wcharPtrToCharPtr small_utf8 [79, 75]) = Inr ''OK'' \<and>
   written_c_string (wcharPtrToCharPtr small_utf8 [233, 33]) = Inl IndeterminateRead"
proof -
  have nz: "char_of w \<noteq> CHR 0x00" if "0 < w" "w < 128" for w :: nat
  proof
    assume "char_of w = CHR 0x00"
    then have "of_char (char_of w) = (of_char (CHR 0x00) :: nat)" by simp
    with that show False by (simp only: of_char_of) simp
  qed
  have "encoding_ok small_utf8"
    by (auto simp: encoding_ok_def small_utf8_def nz nz [symmetric] split: if_splits)
  moreover have "small_utf8 79 = Some ''O''" "small_utf8 75 = Some ''K''" "small_utf8 33 = Some ''!''"
    "small_utf8 233 = Some [CHR 0xC3, CHR 0xA9]"
    by code_simp+
  ultimately show ?thesis
    using wide_text_needs_single_bytes [of small_utf8 "[79, 75]"] wide_text_needs_single_bytes [of small_utf8 "[233, 33]"]
    by simp
qed

subsection \<open>Priority queues\<close>

lemma sift_up_stays: "\<not> lt (xs ! ((i - 1) div 2)) x \<Longrightarrow> sift_up lt xs i x = xs[i := x]"
  by simp

lemma pq_push_smallest:
  assumes "\<forall>y \<in> set c. \<not> lt y x"
  shows "pq_push lt x c = c @ [x]"
proof (cases "c = []")
  case False
  then have "(length c - 1) div 2 < length c" by (cases c) auto
  with assms have "\<not> lt ((c @ [x]) ! ((length c - 1) div 2)) x" by (simp add: nth_append)
  then show ?thesis unfolding pq_push_def by (subst sift_up_stays) simp_all
qed (simp add: pq_push_def)

lemma copy_priority_sorted:
  "sorted_wrt (\<lambda>x y. \<not> lt x y) (c @ queue) \<Longrightarrow> copy_priority lt n queue c = c @ copy_front n queue"
proof (induction lt n queue c rule: copy_priority.induct)
  case (2 lt n x queue c)
  then have "pq_push lt x c = c @ [x]" by (intro pq_push_smallest) (simp add: sorted_wrt_append)
  with 2 show ?case by simp
qed simp

text \<open>
  A priority queue is written as a queue of its elements in the order of priority would be:
  filling the copy never moves an element, since no element popped has a higher priority than
  one popped before it.
\<close>

theorem priority_queue_written:
  assumes "sorted_wrt (\<lambda>x y. \<not> lt x y) queue"
  shows "mb_priority_queue lt txt b queue = mb_queue b (map txt queue)"
proof -
  have "map txt (copy_front n queue) = copy_front n (map txt queue)" for n
    by (induction n queue rule: copy_front.induct) auto
  with assms show ?thesis
    by (simp add: mb_priority_queue_def mb_queue_def IterablePriorityQueue_def IterableQueue_def Let_def
        copy_priority_sorted del: map_map)
qed

theorem priority_queue_written_witness:
  "mb_priority_queue (<) show_nat MessageBuilder [9, 7, 7, 2] =
     (mb_queue MessageBuilder [''9'', ''7'', ''7'', ''2''] :: (unit storage, unit) prog)"
proof -
  have "map show_nat [9, 7, 7, 2] = [''9'', ''7'', ''7'', ''2'']" by code_simp
  with priority_queue_written [of "(<)" "[9, 7, 7, 2]" show_nat MessageBuilder] show ?thesis by simp
qed

subsection \<open>Containers of other libraries\<close>

lemma friendly_loop_eq:
  "i \<le> kMaxLogPerContainer \<Longrightarrow> sz = i + length es \<Longrightarrow>
     friendly_loop sep sz i es = (first_elements (kMaxLogPerContainer - i) sep es, sz \<le> kMaxLogPerContainer)"
proof (induction sep sz i es rule: friendly_loop.induct)
  case (2 sep sz i e es)
  show ?case
  proof (cases "i < kMaxLogPerContainer")
    case True
    then obtain k where "kMaxLogPerContainer - i = Suc k" "kMaxLogPerContainer - (i + 1) = k"
      by (metis Suc_diff_Suc Suc_eq_plus1)
    moreover have "i < size_minus_one sz \<longleftrightarrow> es \<noteq> []" using 2(3) by (cases es) (auto simp: size_minus_one_def)
    ultimately show ?thesis using 2 True by simp
  next
    case False
    with 2 show ?thesis by simp
  qed
qed simp

lemma builder_separator:
  "mb_containerLogSeperator (mb_initialize p s) = (if sg_hasFlag NewLineForContainer s then CHR 0x0A # ''    '' else '', '')"
  "mb_logger (mb_initialize p s) = p"
  by (simp_all add: mb_initialize_def)

lemma friendly_eq:
  "MAKE_CONTAINERELPP_FRIENDLY s (length es) es =
     ''['' @ first_elements kMaxLogPerContainer (mb_containerLogSeperator (mb_initialize p s)) es @
     (if length es \<le> kMaxLogPerContainer then [] else ''...'') @ '']''"
  by (simp add: MAKE_CONTAINERELPP_FRIENDLY_def builder_separator friendly_loop_eq [where i = 0, simplified] Let_def)

text \<open>The loop of a map of Qt is the loop of a container of the pairs, without the space of the flag.\<close>

lemma append_run:
  "pbind (stream_append (Some a) x) g (with_stream a l u s) = g () (with_stream a l (u @ x) s)"
  by (rule pbind_run) (simp add: stream_append_eq [where l = "l\<lparr>lg_stream := u\<rparr>"])

lemma log_run:
  assumes "mb_logger b = Some a" and "\<not> sg_hasFlag AutoSpacing s"
  shows "pbind (mb_log b x) g (with_stream a l u s) = g () (with_stream a l (u @ x) s)"
  using assms by (intro pbind_run) (simp add: mb_log_eq [where l = "l\<lparr>lg_stream := u\<rparr>" and a = a] sg_hasFlag_def)

lemma qt_map_loop_eq:
  assumes b: "mb_logger b = Some a" and f: "\<not> sg_hasFlag AutoSpacing s"
  shows "i + length ks = sz \<Longrightarrow> qt_map_loop b sz i kt vt ks (with_stream a l u s) =
    write_elements b sz i (map (\<lambda>k. ''('' @ kt k @ '', '' @ vt k @ '')'') ks) (with_stream a l u s)"
proof (induction ks arbitrary: i u)
  case (Cons k ks)
  have i: "int i < int sz - 1 \<longleftrightarrow> i < sz - 1" using Cons.prems by auto
  have "Suc i + length ks = sz" using Cons.prems by simp
  from Cons.IH [OF this] show ?case
    by (cases "i < kMaxLogPerContainer")
       (simp_all add: i b append_run log_run [OF b f] split del: if_split)
qed simp

text \<open>
  C39. The ways to write a container agree: the elements in their order that the macro for
  containers of other libraries puts between brackets are what a log statement writes of a
  container, and a map of Qt is written as the container of its pairs. That holds without the
  flag for spaces, which only the builder knows.
\<close>

theorem containers_written_alike:
  assumes "st_objs (sg_heap s) a = Some l" and "\<not> sg_hasFlag AutoSpacing s"
  defines "b \<equiv> mb_initialize (Some a) s"
  shows "mb_container b es s =
      Some (Inr ((), with_stream a l (lg_stream l @ MAKE_CONTAINERELPP_FRIENDLY s (length es) es) s)) \<and>
    mb_qt_map b kt vt ks s =
      Some (Inr ((), with_stream a l (lg_stream l @ MAKE_CONTAINERELPP_FRIENDLY s (length ks)
        (map (\<lambda>k. ''('' @ kt k @ '', '' @ vt k @ '')'') ks)) s))"
proof
  have b: "mb_logger b = Some a" by (simp add: b_def builder_separator)
  let ?text = "\<lambda>es. MAKE_CONTAINERELPP_FRIENDLY s (length es) es"
  have c: "mb_container b es s = Some (Inr ((), with_stream a l (lg_stream l @ ?text es) s))" for es
    using assms(2) by (simp add: mb_container_def writeIterator_eq [OF assms(1) b] 
        friendly_eq [of s es "Some a", folded b_def])
  then show "mb_container b es s = Some (Inr ((), with_stream a l (lg_stream l @ ?text es) s))" .
  let ?es = "map (\<lambda>k. ''('' @ kt k @ '', '' @ vt k @ '')'') ks"
  have f: "\<not> sg_hasFlag AutoSpacing (with_stream a l u s)" for u using assms(2) by (simp add: sg_hasFlag_def)
  have "qt_map_loop b (length ks) 0 kt vt ks (with_stream a l u s) = Some (Inr (length ks \<le> kMaxLogPerContainer,
      with_stream a l (u @ first_elements kMaxLogPerContainer (mb_containerLogSeperator b) ?es) s))" for u
    using write_elements_eq [of "with_stream a l u s" a "l\<lparr>lg_stream := u\<rparr>" b 0 "length ks" ?es] b f
    by (simp add: qt_map_loop_eq [OF b assms(2)] comp_def)
  note loop = pbind_run [where m = "qt_map_loop b (length ks) 0 kt vt ks", OF this]
  have last: "stream_append (Some a) x (with_stream a l u s) = Some (Inr ((), with_stream a l (u @ x) s))" for x u
    by (simp add: stream_append_eq [where l = "l\<lparr>lg_stream := u\<rparr>"])
  have "mb_qt_map b kt vt ks (with_stream a l (lg_stream l) s) =
      Some (Inr ((), with_stream a l (lg_stream l @ ?text ?es) s))"
    by (simp add: mb_qt_map_def b append_run loop last friendly_eq [of s ?es "Some a", simplified, folded b_def])
  then show "mb_qt_map b kt vt ks s =
      Some (Inr ((), with_stream a l (lg_stream l @ MAKE_CONTAINERELPP_FRIENDLY s (length ks)
        (map (\<lambda>k. ''('' @ kt k @ '', '' @ vt k @ '')'') ks)) s))"
    by (simp add: comp_def with_stream_same [OF assms(1) refl])
qed

lemma example_stream: "lg_stream (example_logger 0) = []"
  by (simp add: example_logger_def Logger_def initUnflushedCount_def)

lemma example_storage:
  "st_objs (sg_heap (trace_storage t)) 0 = Some (example_logger 0)"
  "\<not> sg_hasFlag AutoSpacing (trace_storage t)" "\<not> sg_hasFlag NewLineForContainer (trace_storage t)"
  "Registry_get kDefaultLoggerId (sg_registeredLoggers (trace_storage t)) = Some 0"
  by (simp_all add: trace_storage_def example_logger_def Logger_def initUnflushedCount_def empty_storage_def sg_hasFlag_def
      hasFlag_def bitwise_And_def Registry_get_def kDefaultLoggerId_def)

theorem containers_written_alike_witness:
  "mb_container (mb_initialize (Some 0) (trace_storage terminal_tables)) [''a'', ''b''] (trace_storage terminal_tables) =
     Some (Inr ((), with_stream 0 (example_logger 0) ''[a, b]'' (trace_storage terminal_tables))) \<and>
   mb_qt_map (mb_initialize (Some 0) (trace_storage terminal_tables)) show_nat (\<lambda>_. ''x'') [1, 2] (trace_storage terminal_tables) =
     Some (Inr ((), with_stream 0 (example_logger 0) ''[(1, x), (2, x)]'' (trace_storage terminal_tables)))"
proof -
  let ?s = "trace_storage terminal_tables"
  have n: "show_nat 1 = ''1''" "show_nat 2 = ''2''" by code_simp+
  have t: "MAKE_CONTAINERELPP_FRIENDLY ?s 2 [''a'', ''b''] = ''[a, b]''"
    "MAKE_CONTAINERELPP_FRIENDLY ?s (length [1, 2]) (map (\<lambda>k. ''('' @ show_nat k @ '', '' @ ''x'' @ '')'') [1, 2]) = ''[(1, x), (2, x)]''"
    unfolding MAKE_CONTAINERELPP_FRIENDLY_def using example_storage(3) [of terminal_tables]
    by (simp_all add: size_minus_one_def kMaxLogPerContainer_def n [simplified])
  have l: "length [''a'', ''b''] = 2" by simp
  note e = example_storage [of terminal_tables]
  from containers_written_alike [OF e(1, 2), of "[''a'', ''b'']" show_nat "\<lambda>_. ''x''" "[1, 2]", unfolded l t example_stream]
  show ?thesis by simp
qed

text \<open>
  Converting a value to a text borrows the stream of the default logger: the text begins with
  whatever a statement under way has already streamed, which that statement then loses.
\<close>

theorem conversion_takes_pending_text:
  assumes "Registry_get kDefaultLoggerId (sg_registeredLoggers s) = Some a" and "st_objs (sg_heap s) a = Some l"
    and "\<not> sg_hasFlag AutoSpacing s"
  shows "convertTemplateToStdString env (\<lambda>b. mb_log b txt) s = Some (Inr (lg_stream l @ txt, with_stream a l [] s))"
proof -
  have get: "RL_get env kDefaultLoggerId True s = Some (Inr (Some a, s))" by (rule registered_get [OF assms(1)])
  have put: "mb_log (mb_initialize (Some a) s) txt s = Some (Inr ((), with_stream a l (lg_stream l @ txt) s))"
    using mb_log_eq [OF assms(2)] assms(3) by (simp add: builder_separator)
  have clear: "clear_stream (Some a) (with_stream a l u s) = Some (Inr ((), with_stream a l [] s))" for u
    by (simp add: clear_stream_eq [where l = "l\<lparr>lg_stream := u\<rparr>"])
  show ?thesis
    by (simp add: convertTemplateToStdString_def pbind_def get put clear pget_def logger_at_Some preturn_def)
qed

theorem conversion_takes_pending_text_witness:
  "convertTemplateToStdString trace_env (\<lambda>b. mb_log b ''42'')
       (with_stream 0 (example_logger 0) ''pending '' (trace_storage terminal_tables)) =
     Some (Inr (''pending 42'', with_stream 0 (example_logger 0) [] (trace_storage terminal_tables)))"
proof -
  let ?s = "with_stream 0 (example_logger 0) ''pending '' (trace_storage terminal_tables)"
  note e = example_storage [of terminal_tables]
  have "Registry_get kDefaultLoggerId (sg_registeredLoggers ?s) = Some 0"
    "st_objs (sg_heap ?s) 0 = Some ((example_logger 0)\<lparr>lg_stream := ''pending ''\<rparr>)"
    "\<not> sg_hasFlag AutoSpacing ?s"
    using e by (simp_all add: with_stream_def sg_hasFlag_def)
  from conversion_takes_pending_text [OF this, of trace_env "''42''"] show ?thesis by simp
qed

end
