(* ===== verification/Elpp_Performance.thy ===== *)
theory Elpp_Performance imports Elpp_Writer begin

text \<open>
  The time a block takes: \<open>PerformanceTracker\<close> with its checkpoints, the data it hands to the
  callbacks, and the callback of the library, which logs a message through a writer.
\<close>

section \<open>State\<close>

record performance_tracker =
  pt_blockName :: string
  pt_timestampUnit :: timestamp_unit
  pt_loggerId :: string
  pt_scopedLog :: bool
  pt_level :: level
  pt_hasChecked :: bool
  pt_lastCheckpointId :: string
  pt_enabled :: bool
  pt_startTime :: timeval
  pt_endTime :: timeval
  pt_lastCheckpointTime :: timeval

datatype tracking_type = Checkpoint | Complete

text \<open>The data points to the tracker as it is while the callbacks run.\<close>

record tracking_data =
  td_performanceTracker :: performance_tracker
  td_formattedTimeTaken :: string
  td_dataType :: tracking_type
  td_firstCheckpoint :: bool
  td_checkpointId :: string
  td_file :: string
  td_line :: nat
  td_func :: string

definition PerformanceTrackingData :: "tracking_type \<Rightarrow> performance_tracker \<Rightarrow> tracking_data" where
  "PerformanceTrackingData dataType tr =
     \<lparr>td_performanceTracker = tr, td_formattedTimeTaken = [], td_dataType = dataType,
      td_firstCheckpoint = False, td_checkpointId = [], td_file = [], td_line = 0, td_func = []\<rparr>"

section \<open>Operations\<close>

text \<open>
  Readings of the clock are arguments: \<open>now\<close>, and \<open>later\<close> for the one after the callbacks. The
  times of a tracker that is not enabled are not initialised (\<open>garbage\<close>).
\<close>

definition PerformanceTracker ::
  "'f environment \<Rightarrow> timeval \<Rightarrow> timeval \<Rightarrow> string \<Rightarrow> timestamp_unit \<Rightarrow> string \<Rightarrow> bool \<Rightarrow> level \<Rightarrow>
   ('f storage, performance_tracker) prog" where
  "PerformanceTracker env garbage now blockName timestampUnit loggerId scopedLog level =
     pbind (RL_get env loggerId False) (\<lambda>p.
     pbind (case p of
              None \<Rightarrow> preturn False
            | Some a \<Rightarrow> pbind (tables_at a) (\<lambda>t. preturn (tc_performanceTracking level t))) (\<lambda>enabled.
     preturn
       \<lparr>pt_blockName = blockName, pt_timestampUnit = timestampUnit, pt_loggerId = loggerId,
        pt_scopedLog = scopedLog, pt_level = level, pt_hasChecked = False, pt_lastCheckpointId = [],
        pt_enabled = enabled, pt_startTime = (if enabled then now else garbage), pt_endTime = garbage,
        pt_lastCheckpointTime = garbage\<rparr>))"

definition getFormattedTimeTaken :: "performance_tracker \<Rightarrow> timeval \<Rightarrow> 'f storage \<Rightarrow> string" where
  "getFormattedTimeTaken tr startTime s =
     (let time = unat (getTimeDifference (pt_endTime tr) startTime (pt_timestampUnit tr))
      in if sg_hasFlag FixedTimeFormat s
         then show_nat time @ '' '' @ snd (kTimeFormats ! unit_index (pt_timestampUnit tr))
         else formatTime time (pt_timestampUnit tr))"

text \<open>The text of the library's callback; streaming the tracker writes its time since the start.\<close>

definition tracking_text :: "tracking_data \<Rightarrow> 'f storage \<Rightarrow> string" where
  "tracking_text data s =
     (let tr = td_performanceTracker data in
      if td_dataType data = Complete then
        ''Executed ['' @ pt_blockName tr @ ''] in ['' @ td_formattedTimeTaken data @ '']''
      else
        ''Performance checkpoint'' @
        (if td_checkpointId data \<noteq> [] then '' ['' @ td_checkpointId data @ '']'' else []) @
        '' for block ['' @ pt_blockName tr @ ''] : ['' @ getFormattedTimeTaken tr (pt_startTime tr) s @
        (if \<not> sg_hasFlag DisablePerformanceTrackingCheckpointComparison s \<and> pt_hasChecked tr then
           '' (['' @ td_formattedTimeTaken data @ ''] from '' @
           (if pt_lastCheckpointId tr = [] then ''last checkpoint''
            else ''checkpoint '' @ [CHR 0x27] @ pt_lastCheckpointId tr @ [CHR 0x27]) @ '')]''
         else '']''))"

definition default_tracking_handle ::
  "'f environment \<Rightarrow> 'f inner_writer \<Rightarrow> tracking_data \<Rightarrow> ('f storage, unit) prog" where
  "default_tracking_handle env inner data =
     pbind (pget (tracking_text data)) (\<lambda>ss.
     log_statement env inner [pt_loggerId (td_performanceTracker data)] [ss]
       (Writer (pt_level (td_performanceTracker data)) (td_file data) (td_line data) (td_func data) NormalLog 0))"

text \<open>The functions of the user's callbacks are the argument \<open>user\<close>.\<close>

type_synonym 'f tracking_functions = "nat \<Rightarrow> tracking_data \<Rightarrow> ('f storage, unit) prog"

definition run_tracking_callbacks ::
  "'f environment \<Rightarrow> 'f inner_writer \<Rightarrow> 'f tracking_functions \<Rightarrow> tracking_data \<Rightarrow> ('f storage, unit) prog" where
  "run_tracking_callbacks env inner user data =
     pbind (pget sg_performanceTrackingCallbacks) (\<lambda>cbs.
     pfor cbs (\<lambda>(_, cb).
       if \<not> cb_enabled cb then preturn ()
       else case cb_kind cb of
         DefaultPerformanceTrackingCallback \<Rightarrow> default_tracking_handle env inner data
       | UserPerformanceTrackingCallback k \<Rightarrow> user k data))"

definition PerformanceTracker_destroy ::
  "'f environment \<Rightarrow> 'f inner_writer \<Rightarrow> 'f tracking_functions \<Rightarrow> timeval \<Rightarrow> performance_tracker \<Rightarrow>
   ('f storage, unit) prog" where
  "PerformanceTracker_destroy env inner user now tr =
     (if pt_enabled tr \<and> pt_scopedLog tr then
        (let tr = tr\<lparr>pt_endTime := now\<rparr> in
         pbind (pget (getFormattedTimeTaken tr (pt_startTime tr))) (\<lambda>formattedTime.
         run_tracking_callbacks env inner user
           ((PerformanceTrackingData Complete tr)\<lparr>td_formattedTimeTaken := formattedTime\<rparr>)))
      else preturn ())"

definition checkpoint ::
  "'f environment \<Rightarrow> 'f inner_writer \<Rightarrow> 'f tracking_functions \<Rightarrow> timeval \<Rightarrow> timeval \<Rightarrow> string \<Rightarrow> string \<Rightarrow> nat \<Rightarrow>
   string \<Rightarrow> performance_tracker \<Rightarrow> ('f storage, performance_tracker) prog" where
  "checkpoint env inner user now later i file line func tr =
     (if pt_enabled tr then
        (let tr = tr\<lparr>pt_endTime := now\<rparr> in
         pbind (if pt_hasChecked tr then pget (getFormattedTimeTaken tr (pt_lastCheckpointTime tr)) else preturn [])
           (\<lambda>formattedTime.
         pbind (run_tracking_callbacks env inner user
           ((PerformanceTrackingData Checkpoint tr)\<lparr>td_checkpointId := i, td_file := file, td_line := line,
              td_func := func, td_formattedTimeTaken := formattedTime\<rparr>)) (\<lambda>_.
         preturn (tr\<lparr>pt_lastCheckpointTime := later, pt_hasChecked := True, pt_lastCheckpointId := i\<rparr>))))
      else preturn tr)"

definition installPerformanceTrackingCallback :: "string \<Rightarrow> performance_kind \<Rightarrow> ('f storage, bool) prog" where
  "installPerformanceTrackingCallback i k =
     pbind (pget sg_performanceTrackingCallbacks) (\<lambda>l.
     let (done, l) = install_named i \<lparr>cb_enabled = True, cb_kind = k\<rparr> l in
     pbind (pmodify (\<lambda>s. s\<lparr>sg_performanceTrackingCallbacks := l\<rparr>)) (\<lambda>_. preturn done))"

definition uninstallPerformanceTrackingCallback :: "string \<Rightarrow> ('f storage, unit) prog" where
  "uninstallPerformanceTrackingCallback i =
     pmodify (\<lambda>s. s\<lparr>sg_performanceTrackingCallbacks := uninstall_named i (sg_performanceTrackingCallbacks s)\<rparr>)"

section \<open>Facts\<close>

text \<open>The difference of two times as a text, and the milliseconds between them.\<close>

definition taken_text :: "bool \<Rightarrow> timestamp_unit \<Rightarrow> timeval \<Rightarrow> timeval \<Rightarrow> string" where
  "taken_text fixed u e b =
     (let time = unat (getTimeDifference e b u)
      in if fixed then show_nat time @ '' '' @ snd (kTimeFormats ! unit_index u) else formatTime time u)"

lemma getFormattedTimeTaken_eq:
  "getFormattedTimeTaken tr b s = taken_text (sg_hasFlag FixedTimeFormat s) (pt_timestampUnit tr) (pt_endTime tr) b"
  by (simp add: getFormattedTimeTaken_def taken_text_def Let_def)

definition milliseconds :: "timeval \<Rightarrow> int" where
  "milliseconds t = tv_sec t * 1000 + tv_usec t sdiv 1000"

lemma unat_difference:
  fixes a b :: int
  assumes "0 \<le> b" "b \<le> a" "a < 2 ^ 64"
  shows "unat (word_of_int a - word_of_int b :: uint64) = nat (a - b)"
proof -
  have "uint (word_of_int (a - b) :: uint64) = a - b"
    using assms by (simp add: unsigned_of_int take_bit_int_eq_self del: of_int_diff)
  then show ?thesis by (simp add: unat_eq_nat_uint flip: of_int_diff)
qed

subsection \<open>What printing on the terminal leaves alone\<close>

lemma stdout_frame [simp]:
  "sg_hasFlag flag (s\<lparr>sg_stdout := x\<rparr>) = sg_hasFlag flag s"
  "logger_is a l t (s\<lparr>sg_stdout := x\<rparr>) = logger_is a l t s"
  "plain_output (s\<lparr>sg_stdout := x\<rparr>) = plain_output s"
  "proceeds level t (s\<lparr>sg_stdout := x\<rparr>) = proceeds level t s"
  "printed env msg l f t (s\<lparr>sg_stdout := x\<rparr>) = printed env msg l f t s"
  by (simp_all add: sg_hasFlag_def logger_is_def plain_output_def proceeds_def printed_def sg_getThreadName_def)

subsection \<open>Checkpoints\<close>

text \<open>A terminal on which a tracker reports: its logger, and the library's callback alone.\<close>

definition reports ::
  "performance_tracker \<Rightarrow> nat \<Rightarrow> logger \<Rightarrow> typed_configurations \<Rightarrow> log_format \<Rightarrow> 'f storage \<Rightarrow> bool" where
  "reports tr a l t f s \<longleftrightarrow>
     pt_enabled tr \<and> pt_level tr \<noteq> Level_Fatal \<and>
     Registry_get (pt_loggerId tr) (sg_registeredLoggers s) = Some a \<and> logger_is a l t s \<and>
     terminal_logger (pt_level tr) f l t \<and> plain_output s \<and> proceeds (pt_level tr) t s \<and>
     \<not> sg_hasFlag MultiLoggerSupport s \<and> \<not> sg_hasFlag AutoSpacing s \<and>
     \<not> sg_hasFlag DisablePerformanceTrackingCheckpointComparison s \<and>
     (\<exists>n. sg_performanceTrackingCallbacks s =
        [(n, \<lparr>cb_enabled = True, cb_kind = DefaultPerformanceTrackingCallback\<rparr>)])"

lemma reports_frame [simp]: "reports tr a l t f (s\<lparr>sg_stdout := x\<rparr>) = reports tr a l t f s"
  by (simp add: reports_def)

lemma callbacks_print:
  fixes s :: "'f storage"
  assumes "reports (td_performanceTracker data) a l t f s"
  shows "\<exists>logLine.
    printed env (message_of (pt_level (td_performanceTracker data)) (td_file data) (td_line data) (td_func data) 0 a
      (tracking_text data s)) l f t s = Inr logLine \<and>
    run_tracking_callbacks env inner user data s = Some (Inr ((), s\<lparr>sg_stdout := sg_stdout s @ logLine\<rparr>))"
proof -
  let ?tr = "td_performanceTracker data"
  from assms obtain n where r: "Registry_get (pt_loggerId ?tr) (sg_registeredLoggers s) = Some a" "logger_is a l t s"
      "terminal_logger (pt_level ?tr) f l t" "plain_output s" "pt_level ?tr \<noteq> Level_Fatal" "\<not> sg_hasFlag MultiLoggerSupport s"
    and p: "proceeds (pt_level ?tr) t s" "\<not> sg_hasFlag AutoSpacing s"
    and cb: "sg_performanceTrackingCallbacks s = [(n, \<lparr>cb_enabled = True, cb_kind = DefaultPerformanceTrackingCallback\<rparr>)]"
    unfolding reports_def by blast
  from statement_terminal [OF r, of env "td_file data" "td_line data" "td_func data" 0 "[tracking_text data s]" inner] p
  obtain logLine where
    print: "printed env (message_of (pt_level ?tr) (td_file data) (td_line data) (td_func data) 0 a (tracking_text data s)) l f t s =
      Inr logLine"
    and log: "log_statement env inner [pt_loggerId ?tr] [tracking_text data s]
        (Writer (pt_level ?tr) (td_file data) (td_line data) (td_func data) NormalLog 0) s =
      Some (Inr ((), s\<lparr>sg_stdout := sg_stdout s @ logLine\<rparr>))"
    by (auto simp: streamed_def)
  have "default_tracking_handle env inner data s = Some (Inr ((), s\<lparr>sg_stdout := sg_stdout s @ logLine\<rparr>))"
    by (simp add: default_tracking_handle_def log)
  with print show ?thesis by (simp add: run_tracking_callbacks_def cb)
qed

text \<open>A checkpoint: its place, its identity and the two readings of the clock.\<close>

record checkpoint_call =
  cc_now :: timeval
  cc_later :: timeval
  cc_id :: string
  cc_file :: string
  cc_line :: nat
  cc_func :: string

definition call_checkpoint ::
  "'f environment \<Rightarrow> 'f inner_writer \<Rightarrow> 'f tracking_functions \<Rightarrow> checkpoint_call \<Rightarrow> performance_tracker \<Rightarrow>
   ('f storage, performance_tracker) prog" where
  "call_checkpoint env inner user c =
     checkpoint env inner user (cc_now c) (cc_later c) (cc_id c) (cc_file c) (cc_line c) (cc_func c)"

fun call_checkpoints ::
  "'f environment \<Rightarrow> 'f inner_writer \<Rightarrow> 'f tracking_functions \<Rightarrow> checkpoint_call list \<Rightarrow> performance_tracker \<Rightarrow>
   ('f storage, performance_tracker) prog" where
  "call_checkpoints env inner user [] tr = preturn tr"
| "call_checkpoints env inner user (c # cs) tr =
     pbind (call_checkpoint env inner user c tr) (call_checkpoints env inner user cs)"

text \<open>
  What a block of a name reports: the time since its start at each checkpoint, from the second
  one on with the time since the end of the one before, and the time of the whole.
\<close>

definition checkpoint_text ::
  "bool \<Rightarrow> timestamp_unit \<Rightarrow> string \<Rightarrow> timeval \<Rightarrow> (timeval \<times> string) option \<Rightarrow> timeval \<Rightarrow> string \<Rightarrow> string" where
  "checkpoint_text fixed u block start prev now i =
     ''Performance checkpoint'' @ (if i = [] then [] else '' ['' @ i @ '']'') @
     '' for block ['' @ block @ ''] : ['' @ taken_text fixed u now start @
     (case prev of
        None \<Rightarrow> '']''
      | Some (previous, j) \<Rightarrow>
          '' (['' @ taken_text fixed u now previous @ ''] from '' @
          (if j = [] then ''last checkpoint'' else ''checkpoint '' @ [CHR 0x27] @ j @ [CHR 0x27]) @ '')]'')"

definition complete_text :: "bool \<Rightarrow> timestamp_unit \<Rightarrow> string \<Rightarrow> timeval \<Rightarrow> timeval \<Rightarrow> string" where
  "complete_text fixed u block start now = ''Executed ['' @ block @ ''] in ['' @ taken_text fixed u now start @ '']''"

text \<open>The messages of a block, with their places; they are logged in this order.\<close>

fun block_messages ::
  "bool \<Rightarrow> performance_tracker \<Rightarrow> nat \<Rightarrow> checkpoint_call list \<Rightarrow> (timeval \<times> string) option \<Rightarrow> timeval \<Rightarrow>
   log_message list" where
  "block_messages fixed tr a [] prev now =
     (if pt_scopedLog tr
      then [message_of (pt_level tr) [] 0 [] 0 a
              (complete_text fixed (pt_timestampUnit tr) (pt_blockName tr) (pt_startTime tr) now)]
      else [])"
| "block_messages fixed tr a (c # cs) prev now =
     message_of (pt_level tr) (cc_file c) (cc_line c) (cc_func c) 0 a
       (checkpoint_text fixed (pt_timestampUnit tr) (pt_blockName tr) (pt_startTime tr) prev (cc_now c) (cc_id c)) #
     block_messages fixed tr a cs (Some (cc_later c, cc_id c)) now"

definition last_checkpoint :: "performance_tracker \<Rightarrow> (timeval \<times> string) option" where
  "last_checkpoint tr = (if pt_hasChecked tr then Some (pt_lastCheckpointTime tr, pt_lastCheckpointId tr) else None)"

text \<open>The tracker after a checkpoint.\<close>

definition checked :: "checkpoint_call \<Rightarrow> performance_tracker \<Rightarrow> performance_tracker" where
  "checked c tr = tr\<lparr>pt_endTime := cc_now c, pt_lastCheckpointTime := cc_later c, pt_hasChecked := True,
     pt_lastCheckpointId := cc_id c\<rparr>"

lemma checked_simps [simp]:
  "pt_level (checked c tr) = pt_level tr" "pt_scopedLog (checked c tr) = pt_scopedLog tr"
  "pt_timestampUnit (checked c tr) = pt_timestampUnit tr" "pt_blockName (checked c tr) = pt_blockName tr"
  "pt_startTime (checked c tr) = pt_startTime tr"
  "reports (checked c tr) a l t f s = reports tr a l t f s"
  "last_checkpoint (checked c tr) = Some (cc_later c, cc_id c)"
  by (simp_all add: checked_def reports_def last_checkpoint_def)

lemma block_messages_checked [simp]:
  "block_messages fixed (checked c tr) a cs prev now = block_messages fixed tr a cs prev now"
  by (induction cs arbitrary: prev) simp_all

lemma checkpoint_prints:
  fixes s :: "'f storage"
  assumes r: "reports tr a l t f s"
  shows "\<exists>logLine.
    printed env (message_of (pt_level tr) (cc_file c) (cc_line c) (cc_func c) 0 a
      (checkpoint_text (sg_hasFlag FixedTimeFormat s) (pt_timestampUnit tr) (pt_blockName tr) (pt_startTime tr)
        (last_checkpoint tr) (cc_now c) (cc_id c))) l f t s = Inr logLine \<and>
    call_checkpoint env inner user c tr s = Some (Inr (checked c tr, s\<lparr>sg_stdout := sg_stdout s @ logLine\<rparr>))"
proof -
  let ?tr = "tr\<lparr>pt_endTime := cc_now c\<rparr>"
  let ?time = "if pt_hasChecked tr then getFormattedTimeTaken ?tr (pt_lastCheckpointTime tr) s else []"
  let ?data = "(PerformanceTrackingData Checkpoint ?tr)\<lparr>td_checkpointId := cc_id c, td_file := cc_file c,
     td_line := cc_line c, td_func := cc_func c, td_formattedTimeTaken := ?time\<rparr>"
  from r have d: "reports (td_performanceTracker ?data) a l t f s" and e: "pt_enabled tr"
    and cmp: "\<not> sg_hasFlag DisablePerformanceTrackingCheckpointComparison s"
    by (simp_all add: reports_def PerformanceTrackingData_def)
  have text_eq: "tracking_text ?data s = checkpoint_text (sg_hasFlag FixedTimeFormat s) (pt_timestampUnit tr)
      (pt_blockName tr) (pt_startTime tr) (last_checkpoint tr) (cc_now c) (cc_id c)"
    by (simp add: tracking_text_def checkpoint_text_def PerformanceTrackingData_def last_checkpoint_def cmp
        getFormattedTimeTaken_eq)
  from callbacks_print [OF d, of env inner user] obtain logLine where
    "printed env (message_of (pt_level tr) (cc_file c) (cc_line c) (cc_func c) 0 a (tracking_text ?data s)) l f t s = Inr logLine"
    and run: "run_tracking_callbacks env inner user ?data s = Some (Inr ((), s\<lparr>sg_stdout := sg_stdout s @ logLine\<rparr>))"
    by (auto simp: PerformanceTrackingData_def)
  moreover have "call_checkpoint env inner user c tr s = Some (Inr (checked c tr, s\<lparr>sg_stdout := sg_stdout s @ logLine\<rparr>))"
  proof -
    have "pbind (run_tracking_callbacks env inner user ?data) g s = g () (s\<lparr>sg_stdout := sg_stdout s @ logLine\<rparr>)"
      for g :: "unit \<Rightarrow> ('f storage, performance_tracker) prog" by (rule pbind_run) (rule run)
    with e show ?thesis
      by (cases "pt_hasChecked tr") (simp_all add: call_checkpoint_def checkpoint_def checked_def Let_def)
  qed
  ultimately show ?thesis unfolding text_eq by blast
qed

lemma destroy_prints:
  fixes s :: "'f storage"
  assumes r: "reports tr a l t f s"
  shows "\<exists>lines.
    list_all2 (\<lambda>msg line. printed env msg l f t s = Inr line)
      (block_messages (sg_hasFlag FixedTimeFormat s) tr a [] (last_checkpoint tr) now) lines \<and>
    PerformanceTracker_destroy env inner user now tr s = Some (Inr ((), s\<lparr>sg_stdout := sg_stdout s @ concat lines\<rparr>))"
proof -
  let ?tr = "tr\<lparr>pt_endTime := now\<rparr>"
  let ?data = "(PerformanceTrackingData Complete ?tr)\<lparr>td_formattedTimeTaken := getFormattedTimeTaken ?tr (pt_startTime tr) s\<rparr>"
  from r have d: "reports (td_performanceTracker ?data) a l t f s" and e: "pt_enabled tr"
    by (simp_all add: reports_def PerformanceTrackingData_def)
  have "tracking_text ?data s =
      complete_text (sg_hasFlag FixedTimeFormat s) (pt_timestampUnit tr) (pt_blockName tr) (pt_startTime tr) now"
    by (simp add: tracking_text_def complete_text_def PerformanceTrackingData_def getFormattedTimeTaken_eq)
  with callbacks_print [OF d, of env inner user] e show ?thesis
    by (cases "pt_scopedLog tr")
       (auto simp: PerformanceTracker_destroy_def Let_def PerformanceTrackingData_def list_all2_Cons1)
qed

section \<open>Properties\<close>

text \<open>
  C37. A tracked block on a terminal reports one line for each checkpoint, in their order, and
  one for its end unless it was told not to: the time since the start, and from the second
  checkpoint on the time since the one before was written, with its name.
\<close>

theorem tracked_block_reports:
  fixes s :: "'f storage"
  assumes "reports tr a l t f s"
  shows "\<exists>lines.
    list_all2 (\<lambda>msg line. printed env msg l f t s = Inr line)
      (block_messages (sg_hasFlag FixedTimeFormat s) tr a cs (last_checkpoint tr) now) lines \<and>
    pbind (call_checkpoints env inner user cs tr) (PerformanceTracker_destroy env inner user now) s =
      Some (Inr ((), s\<lparr>sg_stdout := sg_stdout s @ concat lines\<rparr>))"
  using assms
proof (induction cs arbitrary: tr s)
  case Nil
  have start: "pbind (call_checkpoints env inner user [] tr) g s = g tr s"
    for g :: "performance_tracker \<Rightarrow> ('f storage, unit) prog" by (simp del: prog_apply)
  show ?case unfolding start by (rule destroy_prints [OF Nil])
next
  case (Cons c cs)
  from checkpoint_prints [OF Cons.prems, of env c inner user] obtain line where
    first: "printed env (message_of (pt_level tr) (cc_file c) (cc_line c) (cc_func c) 0 a
      (checkpoint_text (sg_hasFlag FixedTimeFormat s) (pt_timestampUnit tr) (pt_blockName tr) (pt_startTime tr)
        (last_checkpoint tr) (cc_now c) (cc_id c))) l f t s = Inr line"
    and run: "call_checkpoint env inner user c tr s = Some (Inr (checked c tr, s\<lparr>sg_stdout := sg_stdout s @ line\<rparr>))"
    by blast
  have next_state: "reports (checked c tr) a l t f (s\<lparr>sg_stdout := sg_stdout s @ line\<rparr>)" using Cons.prems by simp
  from Cons.IH [OF next_state] obtain lines where
    "list_all2 (\<lambda>msg line. printed env msg l f t s = Inr line)
      (block_messages (sg_hasFlag FixedTimeFormat s) tr a cs (Some (cc_later c, cc_id c)) now) lines"
    and rest: "pbind (call_checkpoints env inner user cs (checked c tr)) (PerformanceTracker_destroy env inner user now)
        (s\<lparr>sg_stdout := sg_stdout s @ line\<rparr>) =
      Some (Inr ((), s\<lparr>sg_stdout := sg_stdout s @ line @ concat lines\<rparr>))"
    by auto
  with first have "list_all2 (\<lambda>msg line. printed env msg l f t s = Inr line)
      (block_messages (sg_hasFlag FixedTimeFormat s) tr a (c # cs) (last_checkpoint tr) now) (line # lines)" by simp
  moreover have "pbind (call_checkpoint env inner user c tr) g s = g (checked c tr) (s\<lparr>sg_stdout := sg_stdout s @ line\<rparr>)"
    for g :: "performance_tracker \<Rightarrow> ('f storage, unit) prog" by (rule pbind_run) (rule run)
  with rest have "pbind (call_checkpoints env inner user (c # cs) tr) (PerformanceTracker_destroy env inner user now) s =
      Some (Inr ((), s\<lparr>sg_stdout := sg_stdout s @ concat (line # lines)\<rparr>))"
    by (simp add: pbind_assoc)
  ultimately show ?case by blast
qed

text \<open>A block \<open>load\<close> that is entered at 0, with a checkpoint after 2 milliseconds, and left after 5.\<close>

definition load_tracker :: performance_tracker where
  "load_tracker = \<lparr>pt_blockName = ''load'', pt_timestampUnit = Millisecond, pt_loggerId = ''default'',
     pt_scopedLog = True, pt_level = Level_Info, pt_hasChecked = False, pt_lastCheckpointId = [], pt_enabled = True,
     pt_startTime = \<lparr>tv_sec = 0, tv_usec = 0\<rparr>, pt_endTime = \<lparr>tv_sec = 0, tv_usec = 0\<rparr>,
     pt_lastCheckpointTime = \<lparr>tv_sec = 0, tv_usec = 0\<rparr>\<rparr>"

definition load_checkpoint :: checkpoint_call where
  "load_checkpoint = \<lparr>cc_now = \<lparr>tv_sec = 0, tv_usec = 2000\<rparr>, cc_later = \<lparr>tv_sec = 0, tv_usec = 2500\<rparr>,
     cc_id = ''read'', cc_file = ''main.cpp'', cc_line = 7, cc_func = ''main''\<rparr>"

definition tracking_storage :: "string list storage" where
  "tracking_storage = (trace_storage terminal_tables)\<lparr>sg_performanceTrackingCallbacks :=
     [(''D'', \<lparr>cb_enabled = True, cb_kind = DefaultPerformanceTrackingCallback\<rparr>)]\<rparr>"

lemma load_messages:
  "block_messages False load_tracker 0 [load_checkpoint] None \<lparr>tv_sec = 0, tv_usec = 5000\<rparr> =
    [message_of Level_Info ''main.cpp'' 7 ''main'' 0 0 ''Performance checkpoint [read] for block [load] : [2 ms]'',
     message_of Level_Info [] 0 [] 0 0 ''Executed [load] in [5 ms]'']"
  by code_simp

theorem tracked_block_reports_witness:
  "\<exists>s'. pbind (call_checkpoints trace_env (\<lambda>_ _ _ _ _ _. None) (\<lambda>_ _ _. None) [load_checkpoint] load_tracker)
      (PerformanceTracker_destroy trace_env (\<lambda>_ _ _ _ _ _. None) (\<lambda>_ _ _. None) \<lparr>tv_sec = 0, tv_usec = 5000\<rparr>)
      tracking_storage = Some (Inr ((), s')) \<and>
    sg_stdout s' = ''INFO Performance checkpoint [read] for block [load] : [2 ms]'' @ [CHR 0x0A] @
      ''INFO Executed [load] in [5 ms]'' @ [CHR 0x0A]"
proof -
  let ?s = tracking_storage
  have flags: "sg_flags ?s = 0" "sg_threadNames ?s = []" "sg_customFormatSpecifiers ?s = []" "sg_stdout ?s = []"
    "\<not> sg_hasFlag flag ?s" for flag
    by (simp_all add: tracking_storage_def trace_storage_def empty_storage_def sg_hasFlag_def hasFlag_def bitwise_And_def)
  have e: "tc_enabled Level_Info terminal_tables"
    by (simp add: terminal_tables_def tc_enabled_def getConfigByVal_def unsafeGetConfigByVal_def no_typed_def)
  have r: "reports load_tracker 0 (example_logger 0) terminal_tables example_format ?s"
    using trace_logger [of terminal_tables] terminal_example plain_example(1) [of terminal_tables] flags(5) e
    by (simp add: reports_def load_tracker_def logger_is_def plain_output_def proceeds_def)
       (simp add: tracking_storage_def trace_storage_def Registry_get_def kDefaultLoggerId_def sg_hasFlag_def)
  have 1: "replaceFirstWithEscape ''INFO %msg'' ''%msg'' ''Performance checkpoint [read] for block [load] : [2 ms]'' =
      ''INFO Performance checkpoint [read] for block [load] : [2 ms]''" by code_simp
  have 2: "replaceFirstWithEscape ''INFO %msg'' ''%msg'' ''Executed [load] in [5 ms]'' = ''INFO Executed [load] in [5 ms]''"
    by code_simp
  have p: "printed trace_env (message_of Level_Info place line func 0 0 x) (example_logger 0) example_format
      terminal_tables ?s = Inr (replaceFirstWithEscape ''INFO %msg'' ''%msg'' x @ [CHR 0x0A])" for place line func x
    by (simp add: printed_def printed_plain flags sg_getThreadName_def getCurrentThreadId_def example_logger_def
        Logger_def initUnflushedCount_def)
  have "last_checkpoint load_tracker = None" by (simp add: last_checkpoint_def load_tracker_def)
  with tracked_block_reports [OF r, of trace_env "[load_checkpoint]" "\<lparr>tv_sec = 0, tv_usec = 5000\<rparr>"
      "\<lambda>_ _ _ _ _ _. None" "\<lambda>_ _ _. None"] flags(4, 5)
  show ?thesis by (auto simp: load_messages list_all2_Cons1 p 1 2 simp del: block_messages.simps call_checkpoints.simps)
qed

text \<open>
  Times are measured in milliseconds for every unit but the microsecond, and are given
  the name of the unit they are called for: with the unit of seconds a time comes out a
  thousand times too long.
\<close>

theorem seconds_count_milliseconds:
  assumes "pt_timestampUnit tr \<noteq> Microsecond" and "0 \<le> milliseconds b" and "milliseconds b \<le> milliseconds (pt_endTime tr)"
    and "milliseconds (pt_endTime tr) < 2 ^ 64"
  shows "getFormattedTimeTaken tr b s =
    (let elapsed = nat (milliseconds (pt_endTime tr) - milliseconds b)
     in if sg_hasFlag FixedTimeFormat s
        then show_nat elapsed @ '' '' @ snd (kTimeFormats ! unit_index (pt_timestampUnit tr))
        else formatTime elapsed (pt_timestampUnit tr))"
  using unat_difference [OF assms(2-4)] assms(1)
  by (simp add: getFormattedTimeTaken_def getTimeDifference_def Let_def flip: milliseconds_def)

text \<open>A minute and a half, in seconds.\<close>

theorem seconds_count_milliseconds_witness:
  "getFormattedTimeTaken (load_tracker\<lparr>pt_timestampUnit := Second, pt_endTime := \<lparr>tv_sec = 90, tv_usec = 0\<rparr>\<rparr>)
     \<lparr>tv_sec = 0, tv_usec = 0\<rparr> tracking_storage = ''1 days''"
proof -
  have f: "\<not> sg_hasFlag FixedTimeFormat tracking_storage"
    by (simp add: tracking_storage_def trace_storage_def empty_storage_def sg_hasFlag_def hasFlag_def bitwise_And_def)
  have t: "formatTime 90000 Second = ''1 days''"
    by (simp add: formatTime_def kTimeFormats_def) code_simp
  have m: "milliseconds \<lparr>tv_sec = 90, tv_usec = 0\<rparr> = 90000" "milliseconds \<lparr>tv_sec = 0, tv_usec = 0\<rparr> = 0"
    by (simp_all add: milliseconds_def)
  from seconds_count_milliseconds [of "load_tracker\<lparr>pt_timestampUnit := Second, pt_endTime := \<lparr>tv_sec = 90, tv_usec = 0\<rparr>\<rparr>"
      "\<lparr>tv_sec = 0, tv_usec = 0\<rparr>" tracking_storage] f
  show ?thesis by (simp add: m t)
qed

end
