(* ===== verification/Elpp_Build.thy ===== *)
theory Elpp_Build imports Elpp_Types begin

text \<open>
  The configuration of the logging library by the preprocessor (the first part of
  \<open>easylogging++.h\<close>): which compiler, system and features the macros of a translation unit
  select, which levels are compiled in, and what an internal assertion or message expands to.
\<close>

section \<open>Macros\<close>

text \<open>
  The macros given by the compiler and the command line with the numbers they expand to; those
  the header itself defines are not among them. In a condition an identifier that is no macro
  counts as zero.
\<close>

type_synonym macros = "string \<Rightarrow> int option"

definition macro_defined :: "macros \<Rightarrow> string \<Rightarrow> bool" where
  "macro_defined m x \<longleftrightarrow> m x \<noteq> None"

definition macro_value :: "macros \<Rightarrow> string \<Rightarrow> int" where
  "macro_value m x = (case m x of None \<Rightarrow> 0 | Some v \<Rightarrow> v)"

section \<open>Compilers\<close>

definition ELPP_COMPILER_GCC :: "macros \<Rightarrow> bool" where
  "ELPP_COMPILER_GCC m \<longleftrightarrow> macro_defined m ''__GNUC__''"

definition ELPP_GCC_VERSION :: "macros \<Rightarrow> int" where
  "ELPP_GCC_VERSION m =
     (if ELPP_COMPILER_GCC m
      then macro_value m ''__GNUC__'' * 10000 + macro_value m ''__GNUC_MINOR__'' * 100 +
        macro_value m ''__GNUC_PATCHLEVEL__''
      else 0)"

definition ELPP_COMPILER_MSVC :: "macros \<Rightarrow> bool" where
  "ELPP_COMPILER_MSVC m \<longleftrightarrow> macro_defined m ''_MSC_VER''"

definition ELPP_CRT_DBG_WARNINGS :: "macros \<Rightarrow> bool" where
  "ELPP_CRT_DBG_WARNINGS m \<longleftrightarrow> ELPP_COMPILER_MSVC m"

definition ELPP_CXX0X :: "macros \<Rightarrow> bool" where
  "ELPP_CXX0X m \<longleftrightarrow>
     ELPP_COMPILER_GCC m \<and> macro_defined m ''__GXX_EXPERIMENTAL_CXX0X__'' \<or>
     ELPP_COMPILER_MSVC m \<and> macro_value m ''_MSC_VER'' = 1600"

definition ELPP_CXX11 :: "macros \<Rightarrow> bool" where
  "ELPP_CXX11 m \<longleftrightarrow>
     201103 \<le> macro_value m ''__cplusplus'' \<or>
     ELPP_COMPILER_MSVC m \<and> 1700 \<le> macro_value m ''_MSC_VER''"

definition ELPP_COMPILER_CLANG :: "macros \<Rightarrow> bool" where
  "ELPP_COMPILER_CLANG m \<longleftrightarrow> macro_defined m ''__clang__'' \<and> macro_value m ''__clang__'' = 1"

text \<open>Whether there is a header \<open>thread\<close> is an argument; \<open>m\<close> has the macros of the library it comes with.\<close>

definition ELPP_CLANG_SUPPORTS_THREAD :: "bool \<Rightarrow> macros \<Rightarrow> bool" where
  "ELPP_CLANG_SUPPORTS_THREAD has_thread m \<longleftrightarrow>
     ELPP_COMPILER_CLANG m \<and> has_thread \<and>
       (\<not> macro_defined m ''__GLIBCXX__'' \<or> 20150426 \<le> macro_value m ''__GLIBCXX__'')"

definition ELPP_MINGW :: "macros \<Rightarrow> bool" where
  "ELPP_MINGW m \<longleftrightarrow> macro_defined m ''__MINGW32__'' \<or> macro_defined m ''__MINGW64__''"

definition ELPP_CYGWIN :: "macros \<Rightarrow> bool" where
  "ELPP_CYGWIN m \<longleftrightarrow> macro_defined m ''__CYGWIN__'' \<and> macro_value m ''__CYGWIN__'' = 1"

definition ELPP_COMPILER_INTEL :: "macros \<Rightarrow> bool" where
  "ELPP_COMPILER_INTEL m \<longleftrightarrow> macro_defined m ''__INTEL_COMPILER''"

section \<open>Systems\<close>

definition ELPP_OS_WINDOWS :: "macros \<Rightarrow> bool" where
  "ELPP_OS_WINDOWS m \<longleftrightarrow> macro_defined m ''_WIN32'' \<or> macro_defined m ''_WIN64''"

definition linux_macros :: "macros \<Rightarrow> bool" where
  "linux_macros m \<longleftrightarrow> macro_defined m ''__linux'' \<or> macro_defined m ''__linux__''"

definition ELPP_OS_MAC :: "macros \<Rightarrow> bool" where
  "ELPP_OS_MAC m \<longleftrightarrow> macro_defined m ''__APPLE__''"

definition ELPP_OS_FREEBSD :: "macros \<Rightarrow> bool" where
  "ELPP_OS_FREEBSD m \<longleftrightarrow> macro_defined m ''__FreeBSD__'' \<or> macro_defined m ''__FreeBSD_kernel__''"

definition ELPP_OS_SOLARIS :: "macros \<Rightarrow> bool" where
  "ELPP_OS_SOLARIS m \<longleftrightarrow> macro_defined m ''__sun''"

definition ELPP_OS_AIX :: "macros \<Rightarrow> bool" where
  "ELPP_OS_AIX m \<longleftrightarrow> macro_defined m ''_AIX''"

definition ELPP_OS_NETBSD :: "macros \<Rightarrow> bool" where
  "ELPP_OS_NETBSD m \<longleftrightarrow> macro_defined m ''__NetBSD__''"

text \<open>Unix as first evaluated; Cygwin counts as one only where nothing else was recognised.\<close>

definition unix_macros :: "macros \<Rightarrow> bool" where
  "unix_macros m \<longleftrightarrow>
     (linux_macros m \<or> ELPP_OS_MAC m \<or> ELPP_OS_FREEBSD m \<or> ELPP_OS_NETBSD m \<or> ELPP_OS_SOLARIS m \<or>
      ELPP_OS_AIX m) \<and> \<not> ELPP_OS_WINDOWS m"

definition cygwin_as_unix :: "macros \<Rightarrow> bool" where
  "cygwin_as_unix m \<longleftrightarrow> \<not> unix_macros m \<and> \<not> ELPP_OS_WINDOWS m \<and> ELPP_CYGWIN m"

definition ELPP_OS_UNIX :: "macros \<Rightarrow> bool" where
  "ELPP_OS_UNIX m \<longleftrightarrow> unix_macros m \<or> cygwin_as_unix m"

definition ELPP_OS_LINUX :: "macros \<Rightarrow> bool" where
  "ELPP_OS_LINUX m \<longleftrightarrow> linux_macros m \<or> cygwin_as_unix m"

definition ELPP_OS_ANDROID :: "macros \<Rightarrow> bool" where
  "ELPP_OS_ANDROID m \<longleftrightarrow> macro_defined m ''__ANDROID__''"

section \<open>Assertions and internal messages\<close>

text \<open>
  What they write to the error stream or the output stream, unless the program redefines these,
  and whether the program aborts. \<open>line\<close> is the line in the file they stand in.
\<close>

definition ELPP_ASSERT :: "macros \<Rightarrow> nat \<Rightarrow> string \<Rightarrow> bool \<Rightarrow> string \<Rightarrow> string \<times> bool" where
  "ELPP_ASSERT m line expr holds msg =
     (if macro_defined m ''ELPP_DISABLE_ASSERT'' \<or> holds then ([], False)
      else if macro_defined m ''ELPP_DEBUG_ASSERT_FAILURE'' then
        (''EASYLOGGING++ ASSERTION FAILED (LINE: '' @ show_nat line @ '') ['' @ expr @
         ''] WITH MESSAGE '' @ [CHR 0x22] @ msg @ [CHR 0x22, CHR 0x0A], True)
      else
        (''ASSERTION FAILURE FROM EASYLOGGING++ (LINE: '' @ show_nat line @ '') ['' @ expr @
         ''] WITH MESSAGE '' @ [CHR 0x22] @ msg @ [CHR 0x22, CHR 0x0A], False))"

definition ELPP_INTERNAL_DEBUGGING_WRITE_PERROR :: "string \<Rightarrow> int32 \<Rightarrow> string" where
  "ELPP_INTERNAL_DEBUGGING_WRITE_PERROR strerror errno = '': '' @ strerror @ '' ['' @ format_int errno @ '']''"

definition ELPP_INTERNAL_ERROR :: "macros \<Rightarrow> nat \<Rightarrow> string \<Rightarrow> string \<Rightarrow> int32 \<Rightarrow> bool \<Rightarrow> string" where
  "ELPP_INTERNAL_ERROR m line msg strerror errno pe =
     (if macro_defined m ''ELPP_DEBUG_ERRORS'' then
        ''ERROR FROM EASYLOGGING++ (LINE: '' @ show_nat line @ '') <ERROR> '' @ msg @ [CHR 0x0A] @
        (if pe then ''    '' @ ELPP_INTERNAL_DEBUGGING_WRITE_PERROR strerror errno else [])
      else [])"

definition ELPP_INTERNAL_INFO :: "macros \<Rightarrow> int \<Rightarrow> string \<Rightarrow> string" where
  "ELPP_INTERNAL_INFO m lvl msg =
     (if macro_defined m ''ELPP_DEBUG_INFO'' \<and>
         lvl \<le> (if macro_defined m ''ELPP_INTERNAL_INFO_LEVEL'' then macro_value m ''ELPP_INTERNAL_INFO_LEVEL'' else 9)
      then ''<INFO> '' @ msg @ [CHR 0x0A] else [])"

section \<open>Features\<close>

definition crash_log_compiled :: "macros \<Rightarrow> bool" where
  "crash_log_compiled m \<longleftrightarrow> macro_defined m ''ELPP_FEATURE_ALL'' \<or> macro_defined m ''ELPP_FEATURE_CRASH_LOG''"

definition ELPP_STACKTRACE :: "macros \<Rightarrow> bool" where
  "ELPP_STACKTRACE m \<longleftrightarrow>
     crash_log_compiled m \<and> ELPP_COMPILER_GCC m \<and> \<not> ELPP_MINGW m \<and> \<not> ELPP_OS_ANDROID m"

definition ELPP_USE_STD_THREADING :: "bool \<Rightarrow> macros \<Rightarrow> bool" where
  "ELPP_USE_STD_THREADING has_thread m \<longleftrightarrow>
     \<not> (ELPP_MINGW m \<and> \<not> macro_defined m ''ELPP_FORCE_USE_STD_THREAD'') \<and>
     (ELPP_COMPILER_CLANG m \<and> ELPP_CLANG_SUPPORTS_THREAD has_thread m \<or>
      \<not> ELPP_COMPILER_CLANG m \<and> ELPP_CXX11 m \<or> macro_defined m ''ELPP_FORCE_USE_STD_THREAD'')"

definition ELPP_FINAL :: "macros \<Rightarrow> string" where
  "ELPP_FINAL m = (if ELPP_COMPILER_INTEL m \<or> ELPP_GCC_VERSION m < 40702 then [] else ''final'')"

definition ELPP_ASYNC_LOGGING :: "macros \<Rightarrow> bool" where
  "ELPP_ASYNC_LOGGING m \<longleftrightarrow> macro_defined m ''ELPP_EXPERIMENTAL_ASYNC''"

definition ELPP_THREADING_ENABLED :: "macros \<Rightarrow> bool" where
  "ELPP_THREADING_ENABLED m \<longleftrightarrow> macro_defined m ''ELPP_THREAD_SAFE'' \<or> ELPP_ASYNC_LOGGING m"

text \<open>What names the function a statement stands in; \<open>__func__\<close> is a variable, rarely a macro.\<close>

definition ELPP_FUNC :: "macros \<Rightarrow> string" where
  "ELPP_FUNC m =
     (if ELPP_COMPILER_MSVC m then ''__FUNCSIG__''
      else if ELPP_COMPILER_GCC m \<or> ELPP_COMPILER_INTEL m \<or> ELPP_COMPILER_CLANG m then ''__PRETTY_FUNCTION__''
      else if macro_defined m ''__func__'' then ''__func__'' else [])"

definition ELPP_VARIADIC_TEMPLATES_SUPPORTED :: "macros \<Rightarrow> bool" where
  "ELPP_VARIADIC_TEMPLATES_SUPPORTED m \<longleftrightarrow>
     ELPP_COMPILER_GCC m \<or> ELPP_COMPILER_CLANG m \<or> ELPP_COMPILER_INTEL m \<or>
     ELPP_COMPILER_MSVC m \<and> 1800 \<le> macro_value m ''_MSC_VER''"

section \<open>Levels\<close>

definition ELPP_LOGGING_ENABLED :: "macros \<Rightarrow> bool" where
  "ELPP_LOGGING_ENABLED m \<longleftrightarrow> \<not> macro_defined m ''ELPP_DISABLE_LOGS''"

definition ELPP_DEBUG_LOG :: "macros \<Rightarrow> bool" where
  "ELPP_DEBUG_LOG m \<longleftrightarrow> \<not> macro_defined m ''ELPP_DISABLE_DEBUG_LOGS'' \<and> ELPP_LOGGING_ENABLED m"

definition ELPP_INFO_LOG :: "macros \<Rightarrow> bool" where
  "ELPP_INFO_LOG m \<longleftrightarrow> \<not> macro_defined m ''ELPP_DISABLE_INFO_LOGS'' \<and> ELPP_LOGGING_ENABLED m"

definition ELPP_WARNING_LOG :: "macros \<Rightarrow> bool" where
  "ELPP_WARNING_LOG m \<longleftrightarrow> \<not> macro_defined m ''ELPP_DISABLE_WARNING_LOGS'' \<and> ELPP_LOGGING_ENABLED m"

definition ELPP_ERROR_LOG :: "macros \<Rightarrow> bool" where
  "ELPP_ERROR_LOG m \<longleftrightarrow> \<not> macro_defined m ''ELPP_DISABLE_ERROR_LOGS'' \<and> ELPP_LOGGING_ENABLED m"

definition ELPP_FATAL_LOG :: "macros \<Rightarrow> bool" where
  "ELPP_FATAL_LOG m \<longleftrightarrow> \<not> macro_defined m ''ELPP_DISABLE_FATAL_LOGS'' \<and> ELPP_LOGGING_ENABLED m"

definition ELPP_TRACE_LOG :: "macros \<Rightarrow> bool" where
  "ELPP_TRACE_LOG m \<longleftrightarrow> \<not> macro_defined m ''ELPP_DISABLE_TRACE_LOGS'' \<and> ELPP_LOGGING_ENABLED m"

definition ELPP_VERBOSE_LOG :: "macros \<Rightarrow> bool" where
  "ELPP_VERBOSE_LOG m \<longleftrightarrow> \<not> macro_defined m ''ELPP_DISABLE_VERBOSE_LOGS'' \<and> ELPP_LOGGING_ENABLED m"

text \<open>The header refuses to compile without C++0x.\<close>

definition compiles :: "macros \<Rightarrow> bool" where
  "compiles m \<longleftrightarrow> ELPP_CXX0X m \<or> ELPP_CXX11 m"

text \<open>The function that breaks up a time.\<close>

definition elpptime_r :: "macros \<Rightarrow> string" where
  "elpptime_r m = (if macro_defined m ''ELPP_UTC_DATETIME'' then ''gmtime_r'' else ''localtime_r'')"

definition elpptime_s :: "macros \<Rightarrow> string" where
  "elpptime_s m = (if macro_defined m ''ELPP_UTC_DATETIME'' then ''gmtime_s'' else ''localtime_s'')"

definition elpptime :: "macros \<Rightarrow> string" where
  "elpptime m = (if macro_defined m ''ELPP_UTC_DATETIME'' then ''gmtime'' else ''localtime'')"

section \<open>Facts\<close>

lemmas level_macros = ELPP_DEBUG_LOG_def ELPP_INFO_LOG_def ELPP_WARNING_LOG_def ELPP_ERROR_LOG_def
  ELPP_FATAL_LOG_def ELPP_TRACE_LOG_def ELPP_VERBOSE_LOG_def

text \<open>Without any of the macros that disable levels all of them are compiled in.\<close>

definition all_levels :: "macros \<Rightarrow> bool" where
  "all_levels m \<longleftrightarrow> ELPP_DEBUG_LOG m \<and> ELPP_INFO_LOG m \<and> ELPP_WARNING_LOG m \<and> ELPP_ERROR_LOG m \<and>
     ELPP_FATAL_LOG m \<and> ELPP_TRACE_LOG m \<and> ELPP_VERBOSE_LOG m"

lemma levels_disabled:
  "\<not> ELPP_LOGGING_ENABLED m \<Longrightarrow> \<not> ELPP_DEBUG_LOG m \<and> \<not> ELPP_INFO_LOG m \<and> \<not> ELPP_WARNING_LOG m \<and>
     \<not> ELPP_ERROR_LOG m \<and> \<not> ELPP_FATAL_LOG m \<and> \<not> ELPP_TRACE_LOG m \<and> \<not> ELPP_VERBOSE_LOG m"
  by (simp add: level_macros)

text \<open>The macros of a g++ on Linux for C++20, which the build of this repository asks for.\<close>

definition gcc_linux :: macros where
  "gcc_linux = [''__GNUC__'' \<mapsto> 9, ''__GNUC_MINOR__'' \<mapsto> 3, ''__GNUC_PATCHLEVEL__'' \<mapsto> 0,
     ''__linux__'' \<mapsto> 1, ''__linux'' \<mapsto> 1, ''__cplusplus'' \<mapsto> 201709,
     ''__GXX_EXPERIMENTAL_CXX0X__'' \<mapsto> 1]"

lemma gcc_linux_build:
  "all_levels gcc_linux" "compiles gcc_linux" "ELPP_OS_UNIX gcc_linux" "\<not> ELPP_ASYNC_LOGGING gcc_linux"
  "\<not> ELPP_THREADING_ENABLED gcc_linux" "\<not> ELPP_STACKTRACE gcc_linux" "ELPP_USE_STD_THREADING has_thread gcc_linux"
  "ELPP_VARIADIC_TEMPLATES_SUPPORTED gcc_linux"
  by (simp_all add: all_levels_def level_macros ELPP_LOGGING_ENABLED_def compiles_def ELPP_CXX11_def
      ELPP_OS_UNIX_def unix_macros_def linux_macros_def ELPP_OS_WINDOWS_def ELPP_ASYNC_LOGGING_def
      ELPP_THREADING_ENABLED_def ELPP_STACKTRACE_def crash_log_compiled_def ELPP_USE_STD_THREADING_def
      ELPP_MINGW_def ELPP_COMPILER_CLANG_def ELPP_VARIADIC_TEMPLATES_SUPPORTED_def ELPP_COMPILER_GCC_def
      macro_defined_def macro_value_def gcc_linux_def)

end
