(* ===== verification/Elpp_Macros.thy ===== *)
theory Elpp_Macros imports Elpp_Performance Elpp_Build begin

text \<open>
  The logging macros of \<open>easylogging++.h\<close>: what \<open>LOG\<close>, \<open>VLOG\<close>, \<open>PLOG\<close>, \<open>SYSLOG\<close> and \<open>CHECK\<close>
  with their variants expand to, as programs that take the values streamed into them. The
  macros keep their names; the token \<open>LEVEL\<close> that is pasted into the name of another macro is
  an argument.
\<close>

section \<open>Statements\<close>

text \<open>
  A place in the source: the macros of its translation unit, what the library runs on, the
  predefined macros for the place, \<open>ELPP_DEFAULT_LOGGER\<close> if it is defined, and the error of the
  system with its text when the statement ends. Every execution of a statement at a place has
  the same file and line.
\<close>

record 'f log_site =
  ls_macros :: macros
  ls_env :: "'f environment"
  ls_inner :: "'f inner_writer"
  ls_file :: string
  ls_line :: nat
  ls_func :: string
  ls_default_logger :: "string option"
  ls_errno :: int32
  ls_strerror :: string

datatype level_token = INFO | WARNING | DEBUG | ERROR | FATAL | TRACE

datatype writer_class = PlainWriter | ErrorWriter

text \<open>
  A statement takes the texts streamed into it; a condition may change the state, as the tests
  of the hit counters do.
\<close>

type_synonym 'f statement = "string list \<Rightarrow> ('f storage, unit) prog"

type_synonym 'f condition = "('f storage, bool) prog"

definition NullWriter :: "'f statement" where
  "NullWriter texts = preturn ()"

definition guarded :: "'f condition \<Rightarrow> 'f statement \<Rightarrow> 'f statement" where
  "guarded c stmt texts = pbind c (\<lambda>b. if b then stmt texts else preturn ())"

text \<open>
  The number of loggers given, by the position of a number behind them: with more than ten
  there is a logger in the place of the number.
\<close>

definition el_getVALength :: "string list \<Rightarrow> nat option" where
  "el_getVALength ids = (map (\<lambda>_. None) ids @ map Some (rev [0 ..< 11])) ! 10"

lemma el_getVALength_count: "length ids \<le> 10 \<Longrightarrow> el_getVALength ids = Some (length ids)"
  by (simp add: el_getVALength_def nth_append rev_nth del: upt_Suc)

definition end_of_statement :: "'f log_site \<Rightarrow> writer_class \<Rightarrow> writer \<Rightarrow> ('f storage, unit) prog" where
  "end_of_statement c cls w =
     (case cls of
        PlainWriter \<Rightarrow> processDispatch (ls_env c) (ls_inner c) w
      | ErrorWriter \<Rightarrow> PErrorWriter_destroy (ls_env c) (ls_inner c) (ls_strerror c) (ls_errno c) w)"

definition write_log ::
  "'f log_site \<Rightarrow> writer_class \<Rightarrow> level \<Rightarrow> dispatch_action \<Rightarrow> nat \<Rightarrow> string list \<Rightarrow> 'f statement" where
  "write_log c cls level action vlevel ids texts =
     pbind (construct (ls_env c) (ls_inner c) ids
              (Writer level (ls_file c) (ls_line c) (ls_func c) action vlevel)) (\<lambda>w.
     pbind (pfor texts (\<lambda>txt. wr_log txt w)) (\<lambda>_.
     end_of_statement c cls w))"

section \<open>The tests of the hit counters\<close>

definition on_counters :: "(hit_counter list \<Rightarrow> bool \<times> hit_counter list) \<Rightarrow> 'f condition" where
  "on_counters f s =
     (let (b, cs) = f (sg_registeredHitCounters s) in Some (Inr (b, s\<lparr>sg_registeredHitCounters := cs\<rparr>)))"

definition validateEveryNCounter :: "string \<Rightarrow> nat \<Rightarrow> uint64 \<Rightarrow> 'f condition" where
  "validateEveryNCounter filename lineNumber occasion = on_counters (validateEveryN filename lineNumber occasion)"

definition validateAfterNCounter :: "string \<Rightarrow> nat \<Rightarrow> uint64 \<Rightarrow> 'f condition" where
  "validateAfterNCounter filename lineNumber n = on_counters (validateAfterN filename lineNumber n)"

definition validateNTimesCounter :: "string \<Rightarrow> nat \<Rightarrow> uint64 \<Rightarrow> 'f condition" where
  "validateNTimesCounter filename lineNumber n = on_counters (validateNTimes filename lineNumber n)"

definition VLOG_IS_ON :: "'f log_site \<Rightarrow> nat \<Rightarrow> 'f condition" where
  "VLOG_IS_ON c vlevel s =
     plift (vr_allowed (en_order (ls_env c)) (sg_flags s) vlevel (Some (ls_file c)) (sg_vRegistry s)) s"

text \<open>
  The counter of the place, and its hits. The \<open>-1\<close> for no counter is converted to the type of
  the hits, and becomes the greatest number of that type.
\<close>

definition ELPP_COUNTER :: "'f log_site \<Rightarrow> 'f storage \<Rightarrow> hit_counter option" where
  "ELPP_COUNTER c s = getCounter (ls_file c) (ls_line c) (sg_registeredHitCounters s)"

definition ELPP_COUNTER_POS :: "'f log_site \<Rightarrow> 'f storage \<Rightarrow> uint64" where
  "ELPP_COUNTER_POS c s = (case ELPP_COUNTER c s of None \<Rightarrow> -1 | Some counter \<Rightarrow> hc_hitCounts counter)"

section \<open>Writing a log\<close>

definition ELPP_WRITE_LOG :: "'f log_site \<Rightarrow> writer_class \<Rightarrow> level \<Rightarrow> dispatch_action \<Rightarrow> string list \<Rightarrow> 'f statement" where
  "ELPP_WRITE_LOG c cls level action ids = write_log c cls level action 0 ids"

definition ELPP_WRITE_LOG_IF ::
  "'f log_site \<Rightarrow> writer_class \<Rightarrow> 'f condition \<Rightarrow> level \<Rightarrow> dispatch_action \<Rightarrow> string list \<Rightarrow> 'f statement" where
  "ELPP_WRITE_LOG_IF c cls condition level action ids =
     guarded condition (write_log c cls level action 0 ids)"

definition ELPP_WRITE_LOG_EVERY_N ::
  "'f log_site \<Rightarrow> writer_class \<Rightarrow> uint64 \<Rightarrow> level \<Rightarrow> dispatch_action \<Rightarrow> string list \<Rightarrow> 'f statement" where
  "ELPP_WRITE_LOG_EVERY_N c cls occasion level action ids =
     guarded (validateEveryNCounter (ls_file c) (ls_line c) occasion) (write_log c cls level action 0 ids)"

definition ELPP_WRITE_LOG_AFTER_N ::
  "'f log_site \<Rightarrow> writer_class \<Rightarrow> uint64 \<Rightarrow> level \<Rightarrow> dispatch_action \<Rightarrow> string list \<Rightarrow> 'f statement" where
  "ELPP_WRITE_LOG_AFTER_N c cls n level action ids =
     guarded (validateAfterNCounter (ls_file c) (ls_line c) n) (write_log c cls level action 0 ids)"

definition ELPP_WRITE_LOG_N_TIMES ::
  "'f log_site \<Rightarrow> writer_class \<Rightarrow> uint64 \<Rightarrow> level \<Rightarrow> dispatch_action \<Rightarrow> string list \<Rightarrow> 'f statement" where
  "ELPP_WRITE_LOG_N_TIMES c cls n level action ids =
     guarded (validateNTimesCounter (ls_file c) (ls_line c) n) (write_log c cls level action 0 ids)"

section \<open>By level\<close>

text \<open>
  The macros \<open>CINFO\<close> to \<open>CTRACE\<close> in one function of the token, and those for verbose logs.
  A level that is not compiled in leaves a writer that does nothing.
\<close>

fun C_LEVEL ::
  "'f log_site \<Rightarrow> level_token \<Rightarrow> writer_class \<Rightarrow> dispatch_action \<Rightarrow> string list \<Rightarrow> 'f statement" where
  "C_LEVEL c INFO cls action ids =
     (if ELPP_INFO_LOG (ls_macros c) then ELPP_WRITE_LOG c cls Level_Info action ids else NullWriter)"
| "C_LEVEL c WARNING cls action ids =
     (if ELPP_WARNING_LOG (ls_macros c) then ELPP_WRITE_LOG c cls Level_Warning action ids else NullWriter)"
| "C_LEVEL c DEBUG cls action ids =
     (if ELPP_DEBUG_LOG (ls_macros c) then ELPP_WRITE_LOG c cls Level_Debug action ids else NullWriter)"
| "C_LEVEL c ERROR cls action ids =
     (if ELPP_ERROR_LOG (ls_macros c) then ELPP_WRITE_LOG c cls Level_Error action ids else NullWriter)"
| "C_LEVEL c FATAL cls action ids =
     (if ELPP_FATAL_LOG (ls_macros c) then ELPP_WRITE_LOG c cls Level_Fatal action ids else NullWriter)"
| "C_LEVEL c TRACE cls action ids =
     (if ELPP_TRACE_LOG (ls_macros c) then ELPP_WRITE_LOG c cls Level_Trace action ids else NullWriter)"

definition CVERBOSE ::
  "'f log_site \<Rightarrow> writer_class \<Rightarrow> nat \<Rightarrow> dispatch_action \<Rightarrow> string list \<Rightarrow> 'f statement" where
  "CVERBOSE c cls vlevel action ids =
     (if ELPP_VERBOSE_LOG (ls_macros c)
      then guarded (VLOG_IS_ON c vlevel) (write_log c cls Level_Verbose action vlevel ids) else NullWriter)"

fun C_LEVEL_IF ::
  "'f log_site \<Rightarrow> level_token \<Rightarrow> writer_class \<Rightarrow> 'f condition \<Rightarrow> dispatch_action \<Rightarrow> string list \<Rightarrow> 'f statement" where
  "C_LEVEL_IF c INFO cls condition action ids =
     (if ELPP_INFO_LOG (ls_macros c) then ELPP_WRITE_LOG_IF c cls condition Level_Info action ids else NullWriter)"
| "C_LEVEL_IF c WARNING cls condition action ids =
     (if ELPP_WARNING_LOG (ls_macros c) then ELPP_WRITE_LOG_IF c cls condition Level_Warning action ids else NullWriter)"
| "C_LEVEL_IF c DEBUG cls condition action ids =
     (if ELPP_DEBUG_LOG (ls_macros c) then ELPP_WRITE_LOG_IF c cls condition Level_Debug action ids else NullWriter)"
| "C_LEVEL_IF c ERROR cls condition action ids =
     (if ELPP_ERROR_LOG (ls_macros c) then ELPP_WRITE_LOG_IF c cls condition Level_Error action ids else NullWriter)"
| "C_LEVEL_IF c FATAL cls condition action ids =
     (if ELPP_FATAL_LOG (ls_macros c) then ELPP_WRITE_LOG_IF c cls condition Level_Fatal action ids else NullWriter)"
| "C_LEVEL_IF c TRACE cls condition action ids =
     (if ELPP_TRACE_LOG (ls_macros c) then ELPP_WRITE_LOG_IF c cls condition Level_Trace action ids else NullWriter)"

text \<open>The condition is not evaluated unless the verbose level is on.\<close>

definition CVERBOSE_IF ::
  "'f log_site \<Rightarrow> writer_class \<Rightarrow> 'f condition \<Rightarrow> nat \<Rightarrow> dispatch_action \<Rightarrow> string list \<Rightarrow> 'f statement" where
  "CVERBOSE_IF c cls condition vlevel action ids =
     (if ELPP_VERBOSE_LOG (ls_macros c)
      then guarded (pbind (VLOG_IS_ON c vlevel) (\<lambda>on. if on then condition else preturn False))
             (write_log c cls Level_Verbose action vlevel ids)
      else NullWriter)"

fun C_LEVEL_EVERY_N ::
  "'f log_site \<Rightarrow> level_token \<Rightarrow> writer_class \<Rightarrow> uint64 \<Rightarrow> dispatch_action \<Rightarrow> string list \<Rightarrow> 'f statement" where
  "C_LEVEL_EVERY_N c INFO cls occasion action ids =
     (if ELPP_INFO_LOG (ls_macros c) then ELPP_WRITE_LOG_EVERY_N c cls occasion Level_Info action ids else NullWriter)"
| "C_LEVEL_EVERY_N c WARNING cls occasion action ids =
     (if ELPP_WARNING_LOG (ls_macros c) then ELPP_WRITE_LOG_EVERY_N c cls occasion Level_Warning action ids else NullWriter)"
| "C_LEVEL_EVERY_N c DEBUG cls occasion action ids =
     (if ELPP_DEBUG_LOG (ls_macros c) then ELPP_WRITE_LOG_EVERY_N c cls occasion Level_Debug action ids else NullWriter)"
| "C_LEVEL_EVERY_N c ERROR cls occasion action ids =
     (if ELPP_ERROR_LOG (ls_macros c) then ELPP_WRITE_LOG_EVERY_N c cls occasion Level_Error action ids else NullWriter)"
| "C_LEVEL_EVERY_N c FATAL cls occasion action ids =
     (if ELPP_FATAL_LOG (ls_macros c) then ELPP_WRITE_LOG_EVERY_N c cls occasion Level_Fatal action ids else NullWriter)"
| "C_LEVEL_EVERY_N c TRACE cls occasion action ids =
     (if ELPP_TRACE_LOG (ls_macros c) then ELPP_WRITE_LOG_EVERY_N c cls occasion Level_Trace action ids else NullWriter)"

definition CVERBOSE_EVERY_N ::
  "'f log_site \<Rightarrow> writer_class \<Rightarrow> uint64 \<Rightarrow> nat \<Rightarrow> dispatch_action \<Rightarrow> string list \<Rightarrow> 'f statement" where
  "CVERBOSE_EVERY_N c cls occasion vlevel action ids =
     (if ELPP_VERBOSE_LOG (ls_macros c)
      then CVERBOSE_IF c cls (validateEveryNCounter (ls_file c) (ls_line c) occasion) vlevel action ids else NullWriter)"

fun C_LEVEL_AFTER_N ::
  "'f log_site \<Rightarrow> level_token \<Rightarrow> writer_class \<Rightarrow> uint64 \<Rightarrow> dispatch_action \<Rightarrow> string list \<Rightarrow> 'f statement" where
  "C_LEVEL_AFTER_N c INFO cls n action ids =
     (if ELPP_INFO_LOG (ls_macros c) then ELPP_WRITE_LOG_AFTER_N c cls n Level_Info action ids else NullWriter)"
| "C_LEVEL_AFTER_N c WARNING cls n action ids =
     (if ELPP_WARNING_LOG (ls_macros c) then ELPP_WRITE_LOG_AFTER_N c cls n Level_Warning action ids else NullWriter)"
| "C_LEVEL_AFTER_N c DEBUG cls n action ids =
     (if ELPP_DEBUG_LOG (ls_macros c) then ELPP_WRITE_LOG_AFTER_N c cls n Level_Debug action ids else NullWriter)"
| "C_LEVEL_AFTER_N c ERROR cls n action ids =
     (if ELPP_ERROR_LOG (ls_macros c) then ELPP_WRITE_LOG_AFTER_N c cls n Level_Error action ids else NullWriter)"
| "C_LEVEL_AFTER_N c FATAL cls n action ids =
     (if ELPP_FATAL_LOG (ls_macros c) then ELPP_WRITE_LOG_AFTER_N c cls n Level_Fatal action ids else NullWriter)"
| "C_LEVEL_AFTER_N c TRACE cls n action ids =
     (if ELPP_TRACE_LOG (ls_macros c) then ELPP_WRITE_LOG_AFTER_N c cls n Level_Trace action ids else NullWriter)"

definition CVERBOSE_AFTER_N ::
  "'f log_site \<Rightarrow> writer_class \<Rightarrow> uint64 \<Rightarrow> nat \<Rightarrow> dispatch_action \<Rightarrow> string list \<Rightarrow> 'f statement" where
  "CVERBOSE_AFTER_N c cls n vlevel action ids =
     (if ELPP_VERBOSE_LOG (ls_macros c)
      then CVERBOSE_IF c cls (validateAfterNCounter (ls_file c) (ls_line c) n) vlevel action ids else NullWriter)"

fun C_LEVEL_N_TIMES ::
  "'f log_site \<Rightarrow> level_token \<Rightarrow> writer_class \<Rightarrow> uint64 \<Rightarrow> dispatch_action \<Rightarrow> string list \<Rightarrow> 'f statement" where
  "C_LEVEL_N_TIMES c INFO cls n action ids =
     (if ELPP_INFO_LOG (ls_macros c) then ELPP_WRITE_LOG_N_TIMES c cls n Level_Info action ids else NullWriter)"
| "C_LEVEL_N_TIMES c WARNING cls n action ids =
     (if ELPP_WARNING_LOG (ls_macros c) then ELPP_WRITE_LOG_N_TIMES c cls n Level_Warning action ids else NullWriter)"
| "C_LEVEL_N_TIMES c DEBUG cls n action ids =
     (if ELPP_DEBUG_LOG (ls_macros c) then ELPP_WRITE_LOG_N_TIMES c cls n Level_Debug action ids else NullWriter)"
| "C_LEVEL_N_TIMES c ERROR cls n action ids =
     (if ELPP_ERROR_LOG (ls_macros c) then ELPP_WRITE_LOG_N_TIMES c cls n Level_Error action ids else NullWriter)"
| "C_LEVEL_N_TIMES c FATAL cls n action ids =
     (if ELPP_FATAL_LOG (ls_macros c) then ELPP_WRITE_LOG_N_TIMES c cls n Level_Fatal action ids else NullWriter)"
| "C_LEVEL_N_TIMES c TRACE cls n action ids =
     (if ELPP_TRACE_LOG (ls_macros c) then ELPP_WRITE_LOG_N_TIMES c cls n Level_Trace action ids else NullWriter)"

definition CVERBOSE_N_TIMES ::
  "'f log_site \<Rightarrow> writer_class \<Rightarrow> uint64 \<Rightarrow> nat \<Rightarrow> dispatch_action \<Rightarrow> string list \<Rightarrow> 'f statement" where
  "CVERBOSE_N_TIMES c cls n vlevel action ids =
     (if ELPP_VERBOSE_LOG (ls_macros c)
      then CVERBOSE_IF c cls (validateNTimesCounter (ls_file c) (ls_line c) n) vlevel action ids else NullWriter)"

section \<open>For given loggers\<close>

definition CLOG :: "'f log_site \<Rightarrow> level_token \<Rightarrow> string list \<Rightarrow> 'f statement" where
  "CLOG c level ids = C_LEVEL c level PlainWriter NormalLog ids"

definition CVLOG :: "'f log_site \<Rightarrow> nat \<Rightarrow> string list \<Rightarrow> 'f statement" where
  "CVLOG c vlevel ids = CVERBOSE c PlainWriter vlevel NormalLog ids"

definition CLOG_IF :: "'f log_site \<Rightarrow> 'f condition \<Rightarrow> level_token \<Rightarrow> string list \<Rightarrow> 'f statement" where
  "CLOG_IF c condition level ids = C_LEVEL_IF c level PlainWriter condition NormalLog ids"

definition CVLOG_IF :: "'f log_site \<Rightarrow> 'f condition \<Rightarrow> nat \<Rightarrow> string list \<Rightarrow> 'f statement" where
  "CVLOG_IF c condition vlevel ids = CVERBOSE_IF c PlainWriter condition vlevel NormalLog ids"

definition CLOG_EVERY_N :: "'f log_site \<Rightarrow> uint64 \<Rightarrow> level_token \<Rightarrow> string list \<Rightarrow> 'f statement" where
  "CLOG_EVERY_N c n level ids = C_LEVEL_EVERY_N c level PlainWriter n NormalLog ids"

definition CVLOG_EVERY_N :: "'f log_site \<Rightarrow> uint64 \<Rightarrow> nat \<Rightarrow> string list \<Rightarrow> 'f statement" where
  "CVLOG_EVERY_N c n vlevel ids = CVERBOSE_EVERY_N c PlainWriter n vlevel NormalLog ids"

definition CLOG_AFTER_N :: "'f log_site \<Rightarrow> uint64 \<Rightarrow> level_token \<Rightarrow> string list \<Rightarrow> 'f statement" where
  "CLOG_AFTER_N c n level ids = C_LEVEL_AFTER_N c level PlainWriter n NormalLog ids"

definition CVLOG_AFTER_N :: "'f log_site \<Rightarrow> uint64 \<Rightarrow> nat \<Rightarrow> string list \<Rightarrow> 'f statement" where
  "CVLOG_AFTER_N c n vlevel ids = CVERBOSE_AFTER_N c PlainWriter n vlevel NormalLog ids"

definition CLOG_N_TIMES :: "'f log_site \<Rightarrow> uint64 \<Rightarrow> level_token \<Rightarrow> string list \<Rightarrow> 'f statement" where
  "CLOG_N_TIMES c n level ids = C_LEVEL_N_TIMES c level PlainWriter n NormalLog ids"

definition CVLOG_N_TIMES :: "'f log_site \<Rightarrow> uint64 \<Rightarrow> nat \<Rightarrow> string list \<Rightarrow> 'f statement" where
  "CVLOG_N_TIMES c n vlevel ids = CVERBOSE_N_TIMES c PlainWriter n vlevel NormalLog ids"

section \<open>For the default logger\<close>

definition ELPP_CURR_FILE_LOGGER_ID :: "'f log_site \<Rightarrow> string" where
  "ELPP_CURR_FILE_LOGGER_ID c = (case ls_default_logger c of Some i \<Rightarrow> i | None \<Rightarrow> kDefaultLoggerId)"

definition ELPP_TRACE :: "'f log_site \<Rightarrow> 'f statement" where
  "ELPP_TRACE c = CLOG c TRACE [ELPP_CURR_FILE_LOGGER_ID c]"

definition LOG :: "'f log_site \<Rightarrow> level_token \<Rightarrow> 'f statement" where
  "LOG c level = CLOG c level [ELPP_CURR_FILE_LOGGER_ID c]"

definition VLOG :: "'f log_site \<Rightarrow> nat \<Rightarrow> 'f statement" where
  "VLOG c vlevel = CVLOG c vlevel [ELPP_CURR_FILE_LOGGER_ID c]"

definition LOG_IF :: "'f log_site \<Rightarrow> 'f condition \<Rightarrow> level_token \<Rightarrow> 'f statement" where
  "LOG_IF c condition level = CLOG_IF c condition level [ELPP_CURR_FILE_LOGGER_ID c]"

definition VLOG_IF :: "'f log_site \<Rightarrow> 'f condition \<Rightarrow> nat \<Rightarrow> 'f statement" where
  "VLOG_IF c condition vlevel = CVLOG_IF c condition vlevel [ELPP_CURR_FILE_LOGGER_ID c]"

definition LOG_EVERY_N :: "'f log_site \<Rightarrow> uint64 \<Rightarrow> level_token \<Rightarrow> 'f statement" where
  "LOG_EVERY_N c n level = CLOG_EVERY_N c n level [ELPP_CURR_FILE_LOGGER_ID c]"

definition VLOG_EVERY_N :: "'f log_site \<Rightarrow> uint64 \<Rightarrow> nat \<Rightarrow> 'f statement" where
  "VLOG_EVERY_N c n vlevel = CVLOG_EVERY_N c n vlevel [ELPP_CURR_FILE_LOGGER_ID c]"

definition LOG_AFTER_N :: "'f log_site \<Rightarrow> uint64 \<Rightarrow> level_token \<Rightarrow> 'f statement" where
  "LOG_AFTER_N c n level = CLOG_AFTER_N c n level [ELPP_CURR_FILE_LOGGER_ID c]"

definition VLOG_AFTER_N :: "'f log_site \<Rightarrow> uint64 \<Rightarrow> nat \<Rightarrow> 'f statement" where
  "VLOG_AFTER_N c n vlevel = CVLOG_AFTER_N c n vlevel [ELPP_CURR_FILE_LOGGER_ID c]"

definition LOG_N_TIMES :: "'f log_site \<Rightarrow> uint64 \<Rightarrow> level_token \<Rightarrow> 'f statement" where
  "LOG_N_TIMES c n level = CLOG_N_TIMES c n level [ELPP_CURR_FILE_LOGGER_ID c]"

definition VLOG_N_TIMES :: "'f log_site \<Rightarrow> uint64 \<Rightarrow> nat \<Rightarrow> 'f statement" where
  "VLOG_N_TIMES c n vlevel = CVLOG_N_TIMES c n vlevel [ELPP_CURR_FILE_LOGGER_ID c]"

section \<open>With the error of the system\<close>

text \<open>What is compiled for debugging only: a condition that is a constant of the build.\<close>

definition debug_only :: "'f log_site \<Rightarrow> 'f statement \<Rightarrow> 'f statement" where
  "debug_only c stmt = guarded (preturn (ELPP_DEBUG_LOG (ls_macros c))) stmt"

definition debug_and :: "'f log_site \<Rightarrow> 'f condition \<Rightarrow> 'f condition" where
  "debug_and c condition = (if ELPP_DEBUG_LOG (ls_macros c) then condition else preturn False)"

definition CPLOG :: "'f log_site \<Rightarrow> level_token \<Rightarrow> string list \<Rightarrow> 'f statement" where
  "CPLOG c level ids = C_LEVEL c level ErrorWriter NormalLog ids"

definition CPLOG_IF :: "'f log_site \<Rightarrow> 'f condition \<Rightarrow> level_token \<Rightarrow> string list \<Rightarrow> 'f statement" where
  "CPLOG_IF c condition level ids = C_LEVEL_IF c level ErrorWriter condition NormalLog ids"

definition DCPLOG :: "'f log_site \<Rightarrow> level_token \<Rightarrow> string list \<Rightarrow> 'f statement" where
  "DCPLOG c level ids = debug_only c (C_LEVEL c level ErrorWriter NormalLog ids)"

definition DCPLOG_IF :: "'f log_site \<Rightarrow> 'f condition \<Rightarrow> level_token \<Rightarrow> string list \<Rightarrow> 'f statement" where
  "DCPLOG_IF c condition level ids = C_LEVEL_IF c level ErrorWriter (debug_and c condition) NormalLog ids"

definition PLOG :: "'f log_site \<Rightarrow> level_token \<Rightarrow> 'f statement" where
  "PLOG c level = CPLOG c level [ELPP_CURR_FILE_LOGGER_ID c]"

definition PLOG_IF :: "'f log_site \<Rightarrow> 'f condition \<Rightarrow> level_token \<Rightarrow> 'f statement" where
  "PLOG_IF c condition level = CPLOG_IF c condition level [ELPP_CURR_FILE_LOGGER_ID c]"

definition DPLOG :: "'f log_site \<Rightarrow> level_token \<Rightarrow> 'f statement" where
  "DPLOG c level = DCPLOG c level [ELPP_CURR_FILE_LOGGER_ID c]"

definition DPLOG_IF :: "'f log_site \<Rightarrow> 'f condition \<Rightarrow> level_token \<Rightarrow> 'f statement" where
  "DPLOG_IF c condition level = DCPLOG_IF c condition level [ELPP_CURR_FILE_LOGGER_ID c]"

section \<open>To the system log\<close>

definition with_syslog :: "'f log_site \<Rightarrow> 'f statement \<Rightarrow> 'f statement" where
  "with_syslog c stmt = (if macro_defined (ls_macros c) ''ELPP_SYSLOG'' then stmt else NullWriter)"

definition CSYSLOG :: "'f log_site \<Rightarrow> level_token \<Rightarrow> string list \<Rightarrow> 'f statement" where
  "CSYSLOG c level ids = with_syslog c (C_LEVEL c level PlainWriter SysLog ids)"

definition CSYSLOG_IF :: "'f log_site \<Rightarrow> 'f condition \<Rightarrow> level_token \<Rightarrow> string list \<Rightarrow> 'f statement" where
  "CSYSLOG_IF c condition level ids = with_syslog c (C_LEVEL_IF c level PlainWriter condition SysLog ids)"

definition CSYSLOG_EVERY_N :: "'f log_site \<Rightarrow> uint64 \<Rightarrow> level_token \<Rightarrow> string list \<Rightarrow> 'f statement" where
  "CSYSLOG_EVERY_N c n level ids = with_syslog c (C_LEVEL_EVERY_N c level PlainWriter n SysLog ids)"

definition CSYSLOG_AFTER_N :: "'f log_site \<Rightarrow> uint64 \<Rightarrow> level_token \<Rightarrow> string list \<Rightarrow> 'f statement" where
  "CSYSLOG_AFTER_N c n level ids = with_syslog c (C_LEVEL_AFTER_N c level PlainWriter n SysLog ids)"

definition CSYSLOG_N_TIMES :: "'f log_site \<Rightarrow> uint64 \<Rightarrow> level_token \<Rightarrow> string list \<Rightarrow> 'f statement" where
  "CSYSLOG_N_TIMES c n level ids = with_syslog c (C_LEVEL_N_TIMES c level PlainWriter n SysLog ids)"

definition SYSLOG :: "'f log_site \<Rightarrow> level_token \<Rightarrow> 'f statement" where
  "SYSLOG c level = with_syslog c (CSYSLOG c level [kSysLogLoggerId])"

definition SYSLOG_IF :: "'f log_site \<Rightarrow> 'f condition \<Rightarrow> level_token \<Rightarrow> 'f statement" where
  "SYSLOG_IF c condition level = with_syslog c (CSYSLOG_IF c condition level [kSysLogLoggerId])"

definition SYSLOG_EVERY_N :: "'f log_site \<Rightarrow> uint64 \<Rightarrow> level_token \<Rightarrow> 'f statement" where
  "SYSLOG_EVERY_N c n level = with_syslog c (CSYSLOG_EVERY_N c n level [kSysLogLoggerId])"

definition SYSLOG_AFTER_N :: "'f log_site \<Rightarrow> uint64 \<Rightarrow> level_token \<Rightarrow> 'f statement" where
  "SYSLOG_AFTER_N c n level = with_syslog c (CSYSLOG_AFTER_N c n level [kSysLogLoggerId])"

definition SYSLOG_N_TIMES :: "'f log_site \<Rightarrow> uint64 \<Rightarrow> level_token \<Rightarrow> 'f statement" where
  "SYSLOG_N_TIMES c n level = with_syslog c (CSYSLOG_N_TIMES c n level [kSysLogLoggerId])"

definition DCSYSLOG :: "'f log_site \<Rightarrow> level_token \<Rightarrow> string list \<Rightarrow> 'f statement" where
  "DCSYSLOG c level ids = with_syslog c (debug_only c (C_LEVEL c level PlainWriter SysLog ids))"

definition DCSYSLOG_IF :: "'f log_site \<Rightarrow> 'f condition \<Rightarrow> level_token \<Rightarrow> string list \<Rightarrow> 'f statement" where
  "DCSYSLOG_IF c condition level ids =
     with_syslog c (C_LEVEL_IF c level PlainWriter (debug_and c condition) SysLog ids)"

definition DCSYSLOG_EVERY_N :: "'f log_site \<Rightarrow> uint64 \<Rightarrow> level_token \<Rightarrow> string list \<Rightarrow> 'f statement" where
  "DCSYSLOG_EVERY_N c n level ids = with_syslog c (debug_only c (C_LEVEL_EVERY_N c level PlainWriter n SysLog ids))"

definition DCSYSLOG_AFTER_N :: "'f log_site \<Rightarrow> uint64 \<Rightarrow> level_token \<Rightarrow> string list \<Rightarrow> 'f statement" where
  "DCSYSLOG_AFTER_N c n level ids = with_syslog c (debug_only c (C_LEVEL_AFTER_N c level PlainWriter n SysLog ids))"

text \<open>The last of these expands to the macro for every n-th time.\<close>

definition DCSYSLOG_N_TIMES :: "'f log_site \<Rightarrow> uint64 \<Rightarrow> level_token \<Rightarrow> string list \<Rightarrow> 'f statement" where
  "DCSYSLOG_N_TIMES c n level ids = with_syslog c (debug_only c (C_LEVEL_EVERY_N c level PlainWriter n SysLog ids))"

definition DSYSLOG :: "'f log_site \<Rightarrow> level_token \<Rightarrow> 'f statement" where
  "DSYSLOG c level = with_syslog c (DCSYSLOG c level [kSysLogLoggerId])"

definition DSYSLOG_IF :: "'f log_site \<Rightarrow> 'f condition \<Rightarrow> level_token \<Rightarrow> 'f statement" where
  "DSYSLOG_IF c condition level = with_syslog c (DCSYSLOG_IF c condition level [kSysLogLoggerId])"

definition DSYSLOG_EVERY_N :: "'f log_site \<Rightarrow> uint64 \<Rightarrow> level_token \<Rightarrow> 'f statement" where
  "DSYSLOG_EVERY_N c n level = with_syslog c (DCSYSLOG_EVERY_N c n level [kSysLogLoggerId])"

definition DSYSLOG_AFTER_N :: "'f log_site \<Rightarrow> uint64 \<Rightarrow> level_token \<Rightarrow> 'f statement" where
  "DSYSLOG_AFTER_N c n level = with_syslog c (DCSYSLOG_AFTER_N c n level [kSysLogLoggerId])"

definition DSYSLOG_N_TIMES :: "'f log_site \<Rightarrow> uint64 \<Rightarrow> level_token \<Rightarrow> 'f statement" where
  "DSYSLOG_N_TIMES c n level = with_syslog c (DCSYSLOG_N_TIMES c n level [kSysLogLoggerId])"

section \<open>For debugging only\<close>

definition DCLOG :: "'f log_site \<Rightarrow> level_token \<Rightarrow> string list \<Rightarrow> 'f statement" where
  "DCLOG c level ids = debug_only c (CLOG c level ids)"

definition DCVLOG :: "'f log_site \<Rightarrow> nat \<Rightarrow> string list \<Rightarrow> 'f statement" where
  "DCVLOG c vlevel ids = debug_only c (CVLOG c vlevel ids)"

definition DCLOG_IF :: "'f log_site \<Rightarrow> 'f condition \<Rightarrow> level_token \<Rightarrow> string list \<Rightarrow> 'f statement" where
  "DCLOG_IF c condition level ids = debug_only c (CLOG_IF c condition level ids)"

definition DCVLOG_IF :: "'f log_site \<Rightarrow> 'f condition \<Rightarrow> nat \<Rightarrow> string list \<Rightarrow> 'f statement" where
  "DCVLOG_IF c condition vlevel ids = debug_only c (CVLOG_IF c condition vlevel ids)"

definition DCLOG_EVERY_N :: "'f log_site \<Rightarrow> uint64 \<Rightarrow> level_token \<Rightarrow> string list \<Rightarrow> 'f statement" where
  "DCLOG_EVERY_N c n level ids = debug_only c (CLOG_EVERY_N c n level ids)"

definition DCVLOG_EVERY_N :: "'f log_site \<Rightarrow> uint64 \<Rightarrow> nat \<Rightarrow> string list \<Rightarrow> 'f statement" where
  "DCVLOG_EVERY_N c n vlevel ids = debug_only c (CVLOG_EVERY_N c n vlevel ids)"

definition DCLOG_AFTER_N :: "'f log_site \<Rightarrow> uint64 \<Rightarrow> level_token \<Rightarrow> string list \<Rightarrow> 'f statement" where
  "DCLOG_AFTER_N c n level ids = debug_only c (CLOG_AFTER_N c n level ids)"

definition DCVLOG_AFTER_N :: "'f log_site \<Rightarrow> uint64 \<Rightarrow> nat \<Rightarrow> string list \<Rightarrow> 'f statement" where
  "DCVLOG_AFTER_N c n vlevel ids = debug_only c (CVLOG_AFTER_N c n vlevel ids)"

definition DCLOG_N_TIMES :: "'f log_site \<Rightarrow> uint64 \<Rightarrow> level_token \<Rightarrow> string list \<Rightarrow> 'f statement" where
  "DCLOG_N_TIMES c n level ids = debug_only c (CLOG_N_TIMES c n level ids)"

definition DCVLOG_N_TIMES :: "'f log_site \<Rightarrow> uint64 \<Rightarrow> nat \<Rightarrow> string list \<Rightarrow> 'f statement" where
  "DCVLOG_N_TIMES c n vlevel ids = debug_only c (CVLOG_N_TIMES c n vlevel ids)"

definition DLOG :: "'f log_site \<Rightarrow> level_token \<Rightarrow> 'f statement" where
  "DLOG c level = DCLOG c level [ELPP_CURR_FILE_LOGGER_ID c]"

definition DVLOG :: "'f log_site \<Rightarrow> nat \<Rightarrow> 'f statement" where
  "DVLOG c vlevel = DCVLOG c vlevel [ELPP_CURR_FILE_LOGGER_ID c]"

definition DLOG_IF :: "'f log_site \<Rightarrow> 'f condition \<Rightarrow> level_token \<Rightarrow> 'f statement" where
  "DLOG_IF c condition level = DCLOG_IF c condition level [ELPP_CURR_FILE_LOGGER_ID c]"

definition DVLOG_IF :: "'f log_site \<Rightarrow> 'f condition \<Rightarrow> nat \<Rightarrow> 'f statement" where
  "DVLOG_IF c condition vlevel = DCVLOG_IF c condition vlevel [ELPP_CURR_FILE_LOGGER_ID c]"

definition DLOG_EVERY_N :: "'f log_site \<Rightarrow> uint64 \<Rightarrow> level_token \<Rightarrow> 'f statement" where
  "DLOG_EVERY_N c n level = DCLOG_EVERY_N c n level [ELPP_CURR_FILE_LOGGER_ID c]"

definition DVLOG_EVERY_N :: "'f log_site \<Rightarrow> uint64 \<Rightarrow> nat \<Rightarrow> 'f statement" where
  "DVLOG_EVERY_N c n vlevel = DCVLOG_EVERY_N c n vlevel [ELPP_CURR_FILE_LOGGER_ID c]"

definition DLOG_AFTER_N :: "'f log_site \<Rightarrow> uint64 \<Rightarrow> level_token \<Rightarrow> 'f statement" where
  "DLOG_AFTER_N c n level = DCLOG_AFTER_N c n level [ELPP_CURR_FILE_LOGGER_ID c]"

definition DVLOG_AFTER_N :: "'f log_site \<Rightarrow> uint64 \<Rightarrow> nat \<Rightarrow> 'f statement" where
  "DVLOG_AFTER_N c n vlevel = DCVLOG_AFTER_N c n vlevel [ELPP_CURR_FILE_LOGGER_ID c]"

definition DLOG_N_TIMES :: "'f log_site \<Rightarrow> uint64 \<Rightarrow> level_token \<Rightarrow> 'f statement" where
  "DLOG_N_TIMES c n level = DCLOG_N_TIMES c n level [ELPP_CURR_FILE_LOGGER_ID c]"

definition DVLOG_N_TIMES :: "'f log_site \<Rightarrow> uint64 \<Rightarrow> nat \<Rightarrow> 'f statement" where
  "DVLOG_N_TIMES c n vlevel = DCVLOG_N_TIMES c n vlevel [ELPP_CURR_FILE_LOGGER_ID c]"

section \<open>Checks\<close>

text \<open>
  An operand is its text after the expansion of macros and its value. The texts of the operands
  are put next to the operator as they are, so that the value of the condition is that of the
  comparison for operands that bind tighter than it.
\<close>

type_synonym 'v operand = "string \<times> 'v"

definition compare :: "string \<Rightarrow> ('v \<Rightarrow> 'w \<Rightarrow> bool) \<Rightarrow> 'v operand \<Rightarrow> 'w operand \<Rightarrow> bool operand" where
  "compare operator f a b = (fst a @ '' '' @ operator @ '' '' @ fst b, f (snd a) (snd b))"

definition parenthesised :: "'v operand \<Rightarrow> 'v operand" where
  "parenthesised a = (''('' @ fst a @ '')'', snd a)"

definition unless :: "bool \<Rightarrow> 'f condition" where
  "unless b = preturn (\<not> b)"

definition CCHECK :: "'f log_site \<Rightarrow> bool operand \<Rightarrow> string list \<Rightarrow> 'f statement" where
  "CCHECK c condition ids texts =
     CLOG_IF c (unless (snd condition)) FATAL ids ([''Check failed: ['', fst condition, ''] ''] @ texts)"

definition CPCHECK :: "'f log_site \<Rightarrow> bool operand \<Rightarrow> string list \<Rightarrow> 'f statement" where
  "CPCHECK c condition ids texts =
     CPLOG_IF c (unless (snd condition)) FATAL ids ([''Check failed: ['', fst condition, ''] ''] @ texts)"

definition CHECK :: "'f log_site \<Rightarrow> bool operand \<Rightarrow> 'f statement" where
  "CHECK c condition = CCHECK c condition [ELPP_CURR_FILE_LOGGER_ID c]"

definition PCHECK :: "'f log_site \<Rightarrow> bool operand \<Rightarrow> 'f statement" where
  "PCHECK c condition = CPCHECK c condition [ELPP_CURR_FILE_LOGGER_ID c]"

definition CCHECK_EQ :: "'f log_site \<Rightarrow> 'v operand \<Rightarrow> 'v operand \<Rightarrow> string list \<Rightarrow> 'f statement" where
  "CCHECK_EQ c a b ids = CCHECK c (compare ''=='' (=) a b) ids"

definition CCHECK_NE :: "'f log_site \<Rightarrow> 'v operand \<Rightarrow> 'v operand \<Rightarrow> string list \<Rightarrow> 'f statement" where
  "CCHECK_NE c a b ids = CCHECK c (compare ''!='' (\<noteq>) a b) ids"

definition CCHECK_LT :: "'f log_site \<Rightarrow> ('v::linorder) operand \<Rightarrow> ('v::linorder) operand \<Rightarrow> string list \<Rightarrow> 'f statement" where
  "CCHECK_LT c a b ids = CCHECK c (compare ''<'' (<) a b) ids"

definition CCHECK_GT :: "'f log_site \<Rightarrow> ('v::linorder) operand \<Rightarrow> ('v::linorder) operand \<Rightarrow> string list \<Rightarrow> 'f statement" where
  "CCHECK_GT c a b ids = CCHECK c (compare ''>'' (>) a b) ids"

definition CCHECK_LE :: "'f log_site \<Rightarrow> ('v::linorder) operand \<Rightarrow> ('v::linorder) operand \<Rightarrow> string list \<Rightarrow> 'f statement" where
  "CCHECK_LE c a b ids = CCHECK c (compare ''<='' (\<le>) a b) ids"

definition CCHECK_GE :: "'f log_site \<Rightarrow> ('v::linorder) operand \<Rightarrow> ('v::linorder) operand \<Rightarrow> string list \<Rightarrow> 'f statement" where
  "CCHECK_GE c a b ids = CCHECK c (compare ''>='' (\<ge>) a b) ids"

definition CCHECK_BOUNDS :: "'f log_site \<Rightarrow> ('v::linorder) operand \<Rightarrow> ('v::linorder) operand \<Rightarrow> ('v::linorder) operand \<Rightarrow> string list \<Rightarrow> 'f statement" where
  "CCHECK_BOUNDS c val lowest highest ids =
     CCHECK c (compare ''&&'' (\<and>) (compare ''>='' (\<ge>) val lowest) (compare ''<='' (\<le>) val highest)) ids"

definition CHECK_EQ :: "'f log_site \<Rightarrow> 'v operand \<Rightarrow> 'v operand \<Rightarrow> 'f statement" where
  "CHECK_EQ c a b = CCHECK_EQ c a b [ELPP_CURR_FILE_LOGGER_ID c]"

definition CHECK_NE :: "'f log_site \<Rightarrow> 'v operand \<Rightarrow> 'v operand \<Rightarrow> 'f statement" where
  "CHECK_NE c a b = CCHECK_NE c a b [ELPP_CURR_FILE_LOGGER_ID c]"

definition CHECK_LT :: "'f log_site \<Rightarrow> ('v::linorder) operand \<Rightarrow> ('v::linorder) operand \<Rightarrow> 'f statement" where
  "CHECK_LT c a b = CCHECK_LT c a b [ELPP_CURR_FILE_LOGGER_ID c]"

definition CHECK_GT :: "'f log_site \<Rightarrow> ('v::linorder) operand \<Rightarrow> ('v::linorder) operand \<Rightarrow> 'f statement" where
  "CHECK_GT c a b = CCHECK_GT c a b [ELPP_CURR_FILE_LOGGER_ID c]"

definition CHECK_LE :: "'f log_site \<Rightarrow> ('v::linorder) operand \<Rightarrow> ('v::linorder) operand \<Rightarrow> 'f statement" where
  "CHECK_LE c a b = CCHECK_LE c a b [ELPP_CURR_FILE_LOGGER_ID c]"

definition CHECK_GE :: "'f log_site \<Rightarrow> ('v::linorder) operand \<Rightarrow> ('v::linorder) operand \<Rightarrow> 'f statement" where
  "CHECK_GE c a b = CCHECK_GE c a b [ELPP_CURR_FILE_LOGGER_ID c]"

definition CHECK_BOUNDS :: "'f log_site \<Rightarrow> ('v::linorder) operand \<Rightarrow> ('v::linorder) operand \<Rightarrow> ('v::linorder) operand \<Rightarrow> 'f statement" where
  "CHECK_BOUNDS c val lowest highest = CCHECK_BOUNDS c val lowest highest [ELPP_CURR_FILE_LOGGER_ID c]"

definition CCHECK_NOTNULL :: "'f log_site \<Rightarrow> 'v option operand \<Rightarrow> string list \<Rightarrow> 'f statement" where
  "CCHECK_NOTNULL c ptr ids = CCHECK c (fst (parenthesised ptr) @ '' != nullptr'', snd ptr \<noteq> None) ids"

text \<open>The checks of C strings; a null pointer equals a null pointer.\<close>

definition check_strings ::
  "'f log_site \<Rightarrow> bool \<Rightarrow> string \<Rightarrow> string option operand \<Rightarrow> string option operand \<Rightarrow> string list \<Rightarrow> 'f statement" where
  "check_strings c holds operator str1 str2 ids texts =
     CLOG_IF c (unless holds) FATAL ids ([''Check failed: ['', fst str1, operator, fst str2, ''] ''] @ texts)"

definition CCHECK_STREQ :: "'f log_site \<Rightarrow> string option operand \<Rightarrow> string option operand \<Rightarrow> string list \<Rightarrow> 'f statement" where
  "CCHECK_STREQ c str1 str2 ids = check_strings c (cStringEq (snd str1) (snd str2)) '' == '' str1 str2 ids"

definition CCHECK_STRNE :: "'f log_site \<Rightarrow> string option operand \<Rightarrow> string option operand \<Rightarrow> string list \<Rightarrow> 'f statement" where
  "CCHECK_STRNE c str1 str2 ids = check_strings c (\<not> cStringEq (snd str1) (snd str2)) '' != '' str1 str2 ids"

definition CCHECK_STRCASEEQ :: "'f log_site \<Rightarrow> string option operand \<Rightarrow> string option operand \<Rightarrow> string list \<Rightarrow> 'f statement" where
  "CCHECK_STRCASEEQ c str1 str2 ids = check_strings c (cStringCaseEq (snd str1) (snd str2)) '' == '' str1 str2 ids"

definition CCHECK_STRCASENE :: "'f log_site \<Rightarrow> string option operand \<Rightarrow> string option operand \<Rightarrow> string list \<Rightarrow> 'f statement" where
  "CCHECK_STRCASENE c str1 str2 ids =
     check_strings c (\<not> cStringCaseEq (snd str1) (snd str2)) '' != '' str1 str2 ids"

definition CHECK_NOTNULL :: "'f log_site \<Rightarrow> 'v option operand \<Rightarrow> 'f statement" where
  "CHECK_NOTNULL c ptr = CCHECK_NOTNULL c (parenthesised ptr) [ELPP_CURR_FILE_LOGGER_ID c]"

definition CHECK_STREQ :: "'f log_site \<Rightarrow> string option operand \<Rightarrow> string option operand \<Rightarrow> 'f statement" where
  "CHECK_STREQ c str1 str2 = CCHECK_STREQ c str1 str2 [ELPP_CURR_FILE_LOGGER_ID c]"

definition CHECK_STRNE :: "'f log_site \<Rightarrow> string option operand \<Rightarrow> string option operand \<Rightarrow> 'f statement" where
  "CHECK_STRNE c str1 str2 = CCHECK_STRNE c str1 str2 [ELPP_CURR_FILE_LOGGER_ID c]"

definition CHECK_STRCASEEQ :: "'f log_site \<Rightarrow> string option operand \<Rightarrow> string option operand \<Rightarrow> 'f statement" where
  "CHECK_STRCASEEQ c str1 str2 = CCHECK_STRCASEEQ c str1 str2 [ELPP_CURR_FILE_LOGGER_ID c]"

definition CHECK_STRCASENE :: "'f log_site \<Rightarrow> string option operand \<Rightarrow> string option operand \<Rightarrow> 'f statement" where
  "CHECK_STRCASENE c str1 str2 = CCHECK_STRCASENE c str1 str2 [ELPP_CURR_FILE_LOGGER_ID c]"

text \<open>The checks for debugging only.\<close>

definition DCCHECK :: "'f log_site \<Rightarrow> bool operand \<Rightarrow> string list \<Rightarrow> 'f statement" where
  "DCCHECK c condition ids = debug_only c (CCHECK c condition ids)"

definition DCCHECK_EQ :: "'f log_site \<Rightarrow> 'v operand \<Rightarrow> 'v operand \<Rightarrow> string list \<Rightarrow> 'f statement" where
  "DCCHECK_EQ c a b ids = debug_only c (CCHECK_EQ c a b ids)"

definition DCCHECK_NE :: "'f log_site \<Rightarrow> 'v operand \<Rightarrow> 'v operand \<Rightarrow> string list \<Rightarrow> 'f statement" where
  "DCCHECK_NE c a b ids = debug_only c (CCHECK_NE c a b ids)"

definition DCCHECK_LT :: "'f log_site \<Rightarrow> ('v::linorder) operand \<Rightarrow> ('v::linorder) operand \<Rightarrow> string list \<Rightarrow> 'f statement" where
  "DCCHECK_LT c a b ids = debug_only c (CCHECK_LT c a b ids)"

definition DCCHECK_GT :: "'f log_site \<Rightarrow> ('v::linorder) operand \<Rightarrow> ('v::linorder) operand \<Rightarrow> string list \<Rightarrow> 'f statement" where
  "DCCHECK_GT c a b ids = debug_only c (CCHECK_GT c a b ids)"

definition DCCHECK_LE :: "'f log_site \<Rightarrow> ('v::linorder) operand \<Rightarrow> ('v::linorder) operand \<Rightarrow> string list \<Rightarrow> 'f statement" where
  "DCCHECK_LE c a b ids = debug_only c (CCHECK_LE c a b ids)"

definition DCCHECK_GE :: "'f log_site \<Rightarrow> ('v::linorder) operand \<Rightarrow> ('v::linorder) operand \<Rightarrow> string list \<Rightarrow> 'f statement" where
  "DCCHECK_GE c a b ids = debug_only c (CCHECK_GE c a b ids)"

definition DCCHECK_BOUNDS :: "'f log_site \<Rightarrow> ('v::linorder) operand \<Rightarrow> ('v::linorder) operand \<Rightarrow> ('v::linorder) operand \<Rightarrow> string list \<Rightarrow> 'f statement" where
  "DCCHECK_BOUNDS c val lowest highest ids = debug_only c (CCHECK_BOUNDS c val lowest highest ids)"

definition DCCHECK_NOTNULL :: "'f log_site \<Rightarrow> 'v option operand \<Rightarrow> string list \<Rightarrow> 'f statement" where
  "DCCHECK_NOTNULL c ptr ids = debug_only c (CCHECK_NOTNULL c (parenthesised ptr) ids)"

definition DCCHECK_STREQ :: "'f log_site \<Rightarrow> string option operand \<Rightarrow> string option operand \<Rightarrow> string list \<Rightarrow> 'f statement" where
  "DCCHECK_STREQ c str1 str2 ids = debug_only c (CCHECK_STREQ c str1 str2 ids)"

definition DCCHECK_STRNE :: "'f log_site \<Rightarrow> string option operand \<Rightarrow> string option operand \<Rightarrow> string list \<Rightarrow> 'f statement" where
  "DCCHECK_STRNE c str1 str2 ids = debug_only c (CCHECK_STRNE c str1 str2 ids)"

definition DCCHECK_STRCASEEQ :: "'f log_site \<Rightarrow> string option operand \<Rightarrow> string option operand \<Rightarrow> string list \<Rightarrow> 'f statement" where
  "DCCHECK_STRCASEEQ c str1 str2 ids = debug_only c (CCHECK_STRCASEEQ c str1 str2 ids)"

definition DCCHECK_STRCASENE :: "'f log_site \<Rightarrow> string option operand \<Rightarrow> string option operand \<Rightarrow> string list \<Rightarrow> 'f statement" where
  "DCCHECK_STRCASENE c str1 str2 ids = debug_only c (CCHECK_STRCASENE c str1 str2 ids)"

definition DCPCHECK :: "'f log_site \<Rightarrow> bool operand \<Rightarrow> string list \<Rightarrow> 'f statement" where
  "DCPCHECK c condition ids = debug_only c (CPCHECK c condition ids)"

definition DCHECK :: "'f log_site \<Rightarrow> bool operand \<Rightarrow> 'f statement" where
  "DCHECK c condition = DCCHECK c condition [ELPP_CURR_FILE_LOGGER_ID c]"

definition DCHECK_EQ :: "'f log_site \<Rightarrow> 'v operand \<Rightarrow> 'v operand \<Rightarrow> 'f statement" where
  "DCHECK_EQ c a b = DCCHECK_EQ c a b [ELPP_CURR_FILE_LOGGER_ID c]"

definition DCHECK_NE :: "'f log_site \<Rightarrow> 'v operand \<Rightarrow> 'v operand \<Rightarrow> 'f statement" where
  "DCHECK_NE c a b = DCCHECK_NE c a b [ELPP_CURR_FILE_LOGGER_ID c]"

definition DCHECK_LT :: "'f log_site \<Rightarrow> ('v::linorder) operand \<Rightarrow> ('v::linorder) operand \<Rightarrow> 'f statement" where
  "DCHECK_LT c a b = DCCHECK_LT c a b [ELPP_CURR_FILE_LOGGER_ID c]"

definition DCHECK_GT :: "'f log_site \<Rightarrow> ('v::linorder) operand \<Rightarrow> ('v::linorder) operand \<Rightarrow> 'f statement" where
  "DCHECK_GT c a b = DCCHECK_GT c a b [ELPP_CURR_FILE_LOGGER_ID c]"

definition DCHECK_LE :: "'f log_site \<Rightarrow> ('v::linorder) operand \<Rightarrow> ('v::linorder) operand \<Rightarrow> 'f statement" where
  "DCHECK_LE c a b = DCCHECK_LE c a b [ELPP_CURR_FILE_LOGGER_ID c]"

definition DCHECK_GE :: "'f log_site \<Rightarrow> ('v::linorder) operand \<Rightarrow> ('v::linorder) operand \<Rightarrow> 'f statement" where
  "DCHECK_GE c a b = DCCHECK_GE c a b [ELPP_CURR_FILE_LOGGER_ID c]"

definition DCHECK_BOUNDS :: "'f log_site \<Rightarrow> ('v::linorder) operand \<Rightarrow> ('v::linorder) operand \<Rightarrow> ('v::linorder) operand \<Rightarrow> 'f statement" where
  "DCHECK_BOUNDS c val lowest highest = DCCHECK_BOUNDS c val lowest highest [ELPP_CURR_FILE_LOGGER_ID c]"

definition DCHECK_NOTNULL :: "'f log_site \<Rightarrow> 'v option operand \<Rightarrow> 'f statement" where
  "DCHECK_NOTNULL c ptr = DCCHECK_NOTNULL c (parenthesised ptr) [ELPP_CURR_FILE_LOGGER_ID c]"

definition DCHECK_STREQ :: "'f log_site \<Rightarrow> string option operand \<Rightarrow> string option operand \<Rightarrow> 'f statement" where
  "DCHECK_STREQ c str1 str2 = DCCHECK_STREQ c str1 str2 [ELPP_CURR_FILE_LOGGER_ID c]"

definition DCHECK_STRNE :: "'f log_site \<Rightarrow> string option operand \<Rightarrow> string option operand \<Rightarrow> 'f statement" where
  "DCHECK_STRNE c str1 str2 = DCCHECK_STRNE c str1 str2 [ELPP_CURR_FILE_LOGGER_ID c]"

definition DCHECK_STRCASEEQ :: "'f log_site \<Rightarrow> string option operand \<Rightarrow> string option operand \<Rightarrow> 'f statement" where
  "DCHECK_STRCASEEQ c str1 str2 = DCCHECK_STRCASEEQ c str1 str2 [ELPP_CURR_FILE_LOGGER_ID c]"

definition DCHECK_STRCASENE :: "'f log_site \<Rightarrow> string option operand \<Rightarrow> string option operand \<Rightarrow> 'f statement" where
  "DCHECK_STRCASENE c str1 str2 = DCCHECK_STRCASENE c str1 str2 [ELPP_CURR_FILE_LOGGER_ID c]"

definition DPCHECK :: "'f log_site \<Rightarrow> bool operand \<Rightarrow> 'f statement" where
  "DPCHECK c condition = DCPCHECK c condition [ELPP_CURR_FILE_LOGGER_ID c]"

section \<open>The functions of a logger\<close>

text \<open>
  With one value, and with a verbose level. The functions for the levels are compiled like the
  macros: without the level they do nothing, but \<open>Logger::log\<close> itself is always there.
\<close>

definition Logger_log_one ::
  "'f environment \<Rightarrow> 'f inner_writer \<Rightarrow> string \<Rightarrow> nat \<Rightarrow> level \<Rightarrow> string \<Rightarrow> ('f storage, unit) prog" where
  "Logger_log_one env inner this_file a level txt = log_value env inner this_file a level 0 txt"

definition Logger_verbose ::
  "macros \<Rightarrow> 'f environment \<Rightarrow> 'f inner_writer \<Rightarrow> string \<Rightarrow> nat \<Rightarrow> nat \<Rightarrow> string \<Rightarrow> string list \<Rightarrow>
   ('f storage, unit) prog" where
  "Logger_verbose m env inner this_file a vlevel s values =
     (if ELPP_VERBOSE_LOG m then Logger_log env inner this_file a Level_Verbose vlevel s values else preturn ())"

definition Logger_verbose_one ::
  "macros \<Rightarrow> 'f environment \<Rightarrow> 'f inner_writer \<Rightarrow> string \<Rightarrow> nat \<Rightarrow> nat \<Rightarrow> string \<Rightarrow> ('f storage, unit) prog" where
  "Logger_verbose_one m env inner this_file a vlevel txt =
     (if ELPP_VERBOSE_LOG m then log_value env inner this_file a Level_Verbose vlevel txt else preturn ())"

text \<open>\<open>info\<close>, \<open>debug\<close>, \<open>warn\<close>, \<open>error\<close>, \<open>fatal\<close> and \<open>trace\<close>, with a format and with one value.\<close>

fun level_compiled :: "macros \<Rightarrow> level_token \<Rightarrow> bool" where
  "level_compiled m INFO = ELPP_INFO_LOG m"
| "level_compiled m DEBUG = ELPP_DEBUG_LOG m"
| "level_compiled m WARNING = ELPP_WARNING_LOG m"
| "level_compiled m ERROR = ELPP_ERROR_LOG m"
| "level_compiled m FATAL = ELPP_FATAL_LOG m"
| "level_compiled m TRACE = ELPP_TRACE_LOG m"

fun level_of :: "level_token \<Rightarrow> level" where
  "level_of INFO = Level_Info"
| "level_of DEBUG = Level_Debug"
| "level_of WARNING = Level_Warning"
| "level_of ERROR = Level_Error"
| "level_of FATAL = Level_Fatal"
| "level_of TRACE = Level_Trace"

definition logger_function ::
  "macros \<Rightarrow> 'f environment \<Rightarrow> 'f inner_writer \<Rightarrow> string \<Rightarrow> nat \<Rightarrow> level_token \<Rightarrow> string \<Rightarrow> string list \<Rightarrow>
   ('f storage, unit) prog" where
  "logger_function m env inner this_file a level s values =
     (if level_compiled m level then Logger_log env inner this_file a (level_of level) 0 s values else preturn ())"

definition logger_function_one ::
  "macros \<Rightarrow> 'f environment \<Rightarrow> 'f inner_writer \<Rightarrow> string \<Rightarrow> nat \<Rightarrow> level_token \<Rightarrow> string \<Rightarrow>
   ('f storage, unit) prog" where
  "logger_function_one m env inner this_file a level txt =
     (if level_compiled m level then Logger_log_one env inner this_file a (level_of level) txt else preturn ())"

section \<open>Tracking a block\<close>

text \<open>
  The object of a tracked scope, or none; the scope runs \<open>body\<close>, which may take checkpoints,
  and ends with the destructor of the object.
\<close>

definition ELPP_MIN_UNIT :: "macros \<Rightarrow> timestamp_unit" where
  "ELPP_MIN_UNIT m = (if macro_defined m ''ELPP_PERFORMANCE_MICROSECONDS'' then Microsecond else Millisecond)"

definition TIMED_SCOPE_IF ::
  "'f log_site \<Rightarrow> 'f tracking_functions \<Rightarrow> timeval \<Rightarrow> timeval \<Rightarrow> timeval \<Rightarrow> string \<Rightarrow> bool \<Rightarrow>
   (performance_tracker option \<Rightarrow> ('f storage, performance_tracker option) prog) \<Rightarrow> ('f storage, unit) prog" where
  "TIMED_SCOPE_IF c user garbage start now blockname condition body =
     pbind (if condition
            then pbind (PerformanceTracker (ls_env c) garbage start blockname (ELPP_MIN_UNIT (ls_macros c))
                          kPerformanceLoggerId True kPerformanceTrackerDefaultLevel) (\<lambda>tr. preturn (Some tr))
            else preturn None) (\<lambda>tr.
     pbind (body tr) (\<lambda>tr.
       case tr of
         None \<Rightarrow> preturn ()
       | Some tr \<Rightarrow> PerformanceTracker_destroy (ls_env c) (ls_inner c) user now tr))"

definition TIMED_SCOPE ::
  "'f log_site \<Rightarrow> 'f tracking_functions \<Rightarrow> timeval \<Rightarrow> timeval \<Rightarrow> timeval \<Rightarrow> string \<Rightarrow>
   (performance_tracker option \<Rightarrow> ('f storage, performance_tracker option) prog) \<Rightarrow> ('f storage, unit) prog" where
  "TIMED_SCOPE c user garbage start now blockname body =
     TIMED_SCOPE_IF c user garbage start now blockname True body"

definition TIMED_FUNC_IF ::
  "'f log_site \<Rightarrow> 'f tracking_functions \<Rightarrow> timeval \<Rightarrow> timeval \<Rightarrow> timeval \<Rightarrow> bool \<Rightarrow>
   (performance_tracker option \<Rightarrow> ('f storage, performance_tracker option) prog) \<Rightarrow> ('f storage, unit) prog" where
  "TIMED_FUNC_IF c user garbage start now condition body =
     TIMED_SCOPE_IF c user garbage start now (ls_func c) condition body"

definition TIMED_FUNC ::
  "'f log_site \<Rightarrow> 'f tracking_functions \<Rightarrow> timeval \<Rightarrow> timeval \<Rightarrow> timeval \<Rightarrow>
   (performance_tracker option \<Rightarrow> ('f storage, performance_tracker option) prog) \<Rightarrow> ('f storage, unit) prog" where
  "TIMED_FUNC c user garbage start now body = TIMED_SCOPE c user garbage start now (ls_func c) body"

text \<open>
  A block is the body of a loop whose variable holds a counter and the object; the destructor
  runs when the loop has ended. The block leaves the counter alone.
\<close>

function timed_loop ::
  "(performance_tracker option \<Rightarrow> ('s, performance_tracker option) prog) \<Rightarrow> nat \<Rightarrow>
   performance_tracker option \<Rightarrow> ('s, performance_tracker option) prog" where
  "timed_loop body i timer =
     (if i < 1 then pbind (body timer) (\<lambda>timer. timed_loop body (Suc i) timer) else preturn timer)"
  by pat_completeness auto

termination by (relation "measure (\<lambda>(_, i, _). 1 - i)") auto

declare timed_loop.simps [simp del]

definition TIMED_BLOCK ::
  "'f log_site \<Rightarrow> 'f tracking_functions \<Rightarrow> timeval \<Rightarrow> timeval \<Rightarrow> timeval \<Rightarrow> string \<Rightarrow>
   (performance_tracker option \<Rightarrow> ('f storage, performance_tracker option) prog) \<Rightarrow> ('f storage, unit) prog" where
  "TIMED_BLOCK c user garbage start now blockName body =
     pbind (PerformanceTracker (ls_env c) garbage start blockName (ELPP_MIN_UNIT (ls_macros c))
        kPerformanceLoggerId True kPerformanceTrackerDefaultLevel) (\<lambda>tr.
     pbind (timed_loop body 0 (Some tr)) (\<lambda>tr.
       case tr of
         None \<Rightarrow> preturn ()
       | Some tr \<Rightarrow> PerformanceTracker_destroy (ls_env c) (ls_inner c) user now tr))"

text \<open>A checkpoint of an object that was not created dereferences null.\<close>

definition PERFORMANCE_CHECKPOINT_WITH_ID ::
  "'f log_site \<Rightarrow> 'f tracking_functions \<Rightarrow> timeval \<Rightarrow> timeval \<Rightarrow> string \<Rightarrow> performance_tracker option \<Rightarrow>
   ('f storage, performance_tracker option) prog" where
  "PERFORMANCE_CHECKPOINT_WITH_ID c user now later i tr =
     (case tr of
        None \<Rightarrow> plift (Inl NullDereference)
      | Some tr \<Rightarrow>
          pbind (checkpoint (ls_env c) (ls_inner c) user now later i (ls_file c) (ls_line c) (ls_func c) tr)
            (\<lambda>tr. preturn (Some tr)))"

definition PERFORMANCE_CHECKPOINT ::
  "'f log_site \<Rightarrow> 'f tracking_functions \<Rightarrow> timeval \<Rightarrow> timeval \<Rightarrow> performance_tracker option \<Rightarrow>
   ('f storage, performance_tracker option) prog" where
  "PERFORMANCE_CHECKPOINT c user now later tr = PERFORMANCE_CHECKPOINT_WITH_ID c user now later [] tr"

end
