(* ===== verification/Elpp_Statements.thy ===== *)
theory Elpp_Statements imports Elpp_Macros begin

text \<open>
  What the logging macros do, for a logger that writes to the terminal: which executions of a
  statement print, that checks pass or end the program, and what is left of the macros when
  levels are not compiled in.
\<close>

section \<open>Tracked blocks\<close>

text \<open>The loop runs its body once, so a tracked block is a tracked scope.\<close>

lemma timed_block_is_scope:
  "TIMED_BLOCK c user garbage start now blockName body = TIMED_SCOPE c user garbage start now blockName body"
proof -
  have "timed_loop body 1 = (preturn :: _ \<Rightarrow> ('a storage, _) prog)" by (simp add: fun_eq_iff timed_loop.simps del: prog_apply)
  then have "timed_loop body 0 tr = body tr" for tr
    by (simp add: timed_loop.simps [of body 0] pbind_right)
  then show ?thesis by (simp add: TIMED_BLOCK_def TIMED_SCOPE_def TIMED_SCOPE_IF_def pbind_assoc)
qed

section \<open>Tokens\<close>

lemma guarded_preturn [simp]: "guarded (preturn b) stmt texts = (if b then stmt texts else preturn ())"
  by (simp add: guarded_def)

lemma level_cases:
  assumes "level_compiled (ls_macros c) level"
  shows "C_LEVEL c level cls action ids = write_log c cls (level_of level) action 0 ids"
    and "C_LEVEL_IF c level cls condition action ids = guarded condition (write_log c cls (level_of level) action 0 ids)"
    and "C_LEVEL_EVERY_N c level cls n action ids =
      guarded (validateEveryNCounter (ls_file c) (ls_line c) n) (write_log c cls (level_of level) action 0 ids)"
    and "C_LEVEL_AFTER_N c level cls n action ids =
      guarded (validateAfterNCounter (ls_file c) (ls_line c) n) (write_log c cls (level_of level) action 0 ids)"
    and "C_LEVEL_N_TIMES c level cls n action ids =
      guarded (validateNTimesCounter (ls_file c) (ls_line c) n) (write_log c cls (level_of level) action 0 ids)"
  using assms by (cases level; simp add: ELPP_WRITE_LOG_def ELPP_WRITE_LOG_IF_def ELPP_WRITE_LOG_EVERY_N_def
      ELPP_WRITE_LOG_AFTER_N_def ELPP_WRITE_LOG_N_TIMES_def)+

lemma level_missing:
  assumes "\<not> level_compiled (ls_macros c) level"
  shows "C_LEVEL c level cls action ids = NullWriter" "C_LEVEL_IF c level cls condition action ids = NullWriter"
    "C_LEVEL_EVERY_N c level cls n action ids = NullWriter" "C_LEVEL_AFTER_N c level cls n action ids = NullWriter"
    "C_LEVEL_N_TIMES c level cls n action ids = NullWriter"
  using assms by (cases level; simp)+

lemma compiled_levels: "\<not> ELPP_LOGGING_ENABLED m \<Longrightarrow> \<not> level_compiled m level \<and> \<not> ELPP_VERBOSE_LOG m \<and> \<not> ELPP_DEBUG_LOG m"
  using levels_disabled [of m] by (cases level) auto

text \<open>A plain statement without a system log is the statement of the writer.\<close>

lemma write_log_plain:
  "write_log c PlainWriter level action v ids texts =
     log_statement (ls_env c) (ls_inner c) ids texts (Writer level (ls_file c) (ls_line c) (ls_func c) action v)"
  by (simp add: write_log_def log_statement_def end_of_statement_def)

section \<open>A statement that prints a line\<close>

definition prints_line ::
  "'f log_site \<Rightarrow> level \<Rightarrow> nat \<Rightarrow> string \<Rightarrow> string list \<Rightarrow> string \<Rightarrow> 'f storage \<Rightarrow> bool" where
  "prints_line c level v i texts logLine s \<longleftrightarrow>
     (\<exists>a l t f. Registry_get i (sg_registeredLoggers s) = Some a \<and> logger_is a l t s \<and>
        terminal_logger level f l t \<and> plain_output s \<and> \<not> sg_hasFlag MultiLoggerSupport s \<and> proceeds level t s \<and>
        printed (ls_env c) (message_of level (ls_file c) (ls_line c) (ls_func c) v a
          (streamed (sg_hasFlag AutoSpacing s) texts)) l f t s = Inr logLine)"

text \<open>It depends neither on what was printed nor on the counters.\<close>

lemma prints_line_stdout [simp]:
  "prints_line c level v i texts logLine (s\<lparr>sg_stdout := x\<rparr>) = prints_line c level v i texts logLine s"
  by (simp add: prints_line_def logger_is_def plain_output_def proceeds_def printed_def sg_hasFlag_def
      sg_getThreadName_def)

lemma prints_line_counters [simp]:
  "prints_line c level v i texts logLine (s\<lparr>sg_registeredHitCounters := x\<rparr>) = prints_line c level v i texts logLine s"
  by (simp add: prints_line_def logger_is_def plain_output_def proceeds_def printed_def sg_hasFlag_def
      sg_getThreadName_def)

lemma statement_prints:
  assumes "prints_line c level v i texts logLine s" and "level \<noteq> Level_Fatal"
  shows "write_log c PlainWriter level NormalLog v [i] texts s = Some (Inr ((), s\<lparr>sg_stdout := sg_stdout s @ logLine\<rparr>))"
proof -
  from assms(1) obtain a l t f where r: "Registry_get i (sg_registeredLoggers s) = Some a" and l: "logger_is a l t s"
    and f: "terminal_logger level f l t" and p: "plain_output s" "\<not> sg_hasFlag MultiLoggerSupport s" "proceeds level t s"
    and d: "printed (ls_env c) (message_of level (ls_file c) (ls_line c) (ls_func c) v a
          (streamed (sg_hasFlag AutoSpacing s) texts)) l f t s = Inr logLine"
    unfolding prints_line_def by blast
  from statement_terminal [OF r l f p(1) assms(2) p(2), of "ls_env c" "ls_file c" "ls_line c" "ls_func c" v texts
      "ls_inner c"] d p(3)
  show ?thesis by (simp add: write_log_plain)
qed

section \<open>Occasional statements\<close>

text \<open>A statement executed \<open>k\<close> times, and the answers of a test asked \<open>k\<close> times.\<close>

primrec repeated :: "nat \<Rightarrow> ('s, unit) prog \<Rightarrow> ('s, unit) prog" where
  "repeated 0 p = preturn ()"
| "repeated (Suc k) p = pbind (repeated k p) (\<lambda>_. p)"

fun run_tests :: "(hit_counter list \<Rightarrow> bool \<times> hit_counter list) \<Rightarrow> nat \<Rightarrow> hit_counter list \<Rightarrow> bool list \<times> hit_counter list" where
  "run_tests f 0 cs = ([], cs)"
| "run_tests f (Suc k) cs = (let (bs, cs) = run_tests f k cs; (b, cs) = f cs in (bs @ [b], cs))"

lemma run_every_tests: "run_every file line n k cs = run_tests (validateEveryN file line n) k cs"
  by (induction k) (simp_all add: Let_def case_prod_beta)





definition lines_at :: "(nat \<Rightarrow> bool) \<Rightarrow> nat \<Rightarrow> string \<Rightarrow> string" where
  "lines_at P k logLine = concat (map (\<lambda>i. if P i then logLine else []) [0 ..< k])"

text \<open>A condition that is a test of a counter whatever was printed and counted before.\<close>

lemma repeated_guarded:
  assumes "prints_line c level v i texts logLine s" and "level \<noteq> Level_Fatal"
    and "\<And>out cs. cond (s\<lparr>sg_stdout := out, sg_registeredHitCounters := cs\<rparr>) =
      on_counters f (s\<lparr>sg_stdout := out, sg_registeredHitCounters := cs\<rparr>)"
  shows "repeated k (guarded cond (write_log c PlainWriter level NormalLog v [i]) texts) s =
    Some (Inr ((), s\<lparr>sg_stdout := sg_stdout s @
        concat (map (\<lambda>b. if b then logLine else []) (fst (run_tests f k (sg_registeredHitCounters s)))),
      sg_registeredHitCounters := snd (run_tests f k (sg_registeredHitCounters s))\<rparr>))"
proof (induction k)
  case (Suc k)
  let ?r = "run_tests f k (sg_registeredHitCounters s)"
  let ?s = "s\<lparr>sg_stdout := sg_stdout s @ concat (map (\<lambda>b. if b then logLine else []) (fst ?r)),
      sg_registeredHitCounters := snd ?r\<rparr>"
  obtain b cs where f: "f (snd ?r) = (b, cs)" by (cases "f (snd ?r)") auto
  let ?t = "?s\<lparr>sg_registeredHitCounters := cs\<rparr>"
  have o: "cond ?s = Some (Inr (b, ?t))" using f unfolding assms(3) by (simp add: on_counters_def)
  have "prints_line c level v i texts logLine ?t" using assms(1) by simp
  from statement_prints [OF this assms(2)]
  have "guarded cond (write_log c PlainWriter level NormalLog v [i]) texts ?s =
      Some (Inr ((), ?t\<lparr>sg_stdout := sg_stdout ?t @ (if b then logLine else [])\<rparr>))"
    by (simp add: guarded_def pbind_Inr [where m = cond, OF o])
  moreover have "repeated (Suc k) (guarded cond (write_log c PlainWriter level NormalLog v [i]) texts) s =
      guarded cond (write_log c PlainWriter level NormalLog v [i]) texts ?s"
    using Suc.IH by (simp add: pbind_run)
  ultimately show ?case
    by (simp only:) (simp add: f case_prod_beta Let_def)
qed simp

lemma repeated_occasions:
  assumes "prints_line c level v i texts logLine s" and "level \<noteq> Level_Fatal"
    and "fst (run_tests f k (sg_registeredHitCounters s)) = map P [0 ..< k]"
    and "\<And>out cs. cond (s\<lparr>sg_stdout := out, sg_registeredHitCounters := cs\<rparr>) =
      on_counters f (s\<lparr>sg_stdout := out, sg_registeredHitCounters := cs\<rparr>)"
  shows "\<exists>cs. repeated k (guarded cond (write_log c PlainWriter level NormalLog v [i]) texts) s =
    Some (Inr ((), s\<lparr>sg_stdout := sg_stdout s @ lines_at P k logLine, sg_registeredHitCounters := cs\<rparr>))"
  using repeated_guarded [OF assms(1, 2, 4), of k] assms(3) by (auto simp: lines_at_def o_def)

lemma repeated_skip: "p s = Some (Inr ((), s)) \<Longrightarrow> repeated k p s = Some (Inr ((), s))"
  by (induction k) (simp_all add: pbind_run)

section \<open>Fatal statements\<close>

lemma fatal_statement:
  fixes s :: "'f storage"
  assumes "prints_line c Level_Fatal v i texts logLine s" and "\<not> sg_hasFlag DisableApplicationAbortOnFatalLog s"
  shows "write_log c PlainWriter Level_Fatal NormalLog v [i] texts s =
    pbind (ls_inner c Level_Warning (ls_file c) (ls_line c) (ls_func c)
        [''Aborting application. Reason: Fatal log at ['', ls_file c, '':'', show_nat (ls_line c), '']''])
      (\<lambda>_. pmodify (\<lambda>s. s\<lparr>sg_aborted := True\<rparr>)) (s\<lparr>sg_stdout := sg_stdout s @ logLine\<rparr>)"
proof -
  let ?w = "Writer Level_Fatal (ls_file c) (ls_line c) (ls_func c) NormalLog v"
  let ?text = "streamed (sg_hasFlag AutoSpacing s) texts"
  from assms(1) obtain a l t f where r: "Registry_get i (sg_registeredLoggers s) = Some a" and l: "logger_is a l t s"
    and f: "terminal_logger Level_Fatal f l t" and p: "plain_output s" "\<not> sg_hasFlag MultiLoggerSupport s"
      "proceeds Level_Fatal t s"
    and d: "printed (ls_env c) (message_of Level_Fatal (ls_file c) (ls_line c) (ls_func c) v a ?text) l f t s = Inr logLine"
    unfolding prints_line_def by blast
  define w where "w = ?w\<lparr>wr_logger := Some a, wr_proceed := True, wr_messageBuilder := mb_initialize (Some a) s\<rparr>"
  have w: "wr_logger w = Some a" "wr_proceed w" "mb_logger (wr_messageBuilder w) = Some a" "wr_msg w = None"
    "wr_level w = Level_Fatal" "wr_file w = ls_file c" "wr_line w = ls_line c" "wr_func w = ls_func c"
    "wr_verboseLevel w = v" "wr_dispatchAction w = NormalLog"
    by (simp_all add: w_def Writer_def mb_initialize_def)
  have "construct (ls_env c) (ls_inner c) [i] ?w s = Some (Inr (w, s))"
    using p by (simp add: construct_def initialize_builder_def
        pbind_run [where m = "initializeLogger (ls_env c) (ls_inner c) i True ?w", OF initialize_registered [OF r l]])
       (simp add: Writer_def w_def)
  then have run: "pbind (construct (ls_env c) (ls_inner c) [i] ?w) g s = g w s"
    for g :: "writer \<Rightarrow> ('f storage, unit) prog"
    by (rule pbind_run)
  let ?s = "with_stream a l ?text s"
  have e: "lg_stream l = []" using f by (simp add: terminal_logger_def)
  then have "pfor texts (\<lambda>x. wr_log x w) s = Some (Inr ((), ?s))"
    using wr_log_all [OF logger_isD [OF l], of w texts] w by simp
  then have log: "pbind (pfor texts (\<lambda>x. wr_log x w)) g s = g () ?s" for g :: "unit \<Rightarrow> ('f storage, unit) prog"
    by (rule pbind_run)
  let ?msg = "message_of Level_Fatal (ls_file c) (ls_line c) (ls_func c) v a ?text"
  have m: "lm_logger ?msg = a" "lm_level ?msg = Level_Fatal" by (simp_all add: message_of_def)
  from delivery [of ?msg l t s f "ls_env c"] l f p(1) d have deliver:
    "pbind (log_dispatch (ls_env c) True ?msg NormalLog) (\<lambda>_. pbind (clear_stream (Some a)) g) ?s =
      g () (s\<lparr>sg_stdout := sg_stdout s @ logLine\<rparr>)" for g :: "unit \<Rightarrow> ('f storage, unit) prog"
    unfolding m by auto
  have "write_log c PlainWriter Level_Fatal NormalLog v [i] texts s =
      pbind (triggerDispatch (ls_env c) (ls_inner c) w) (\<lambda>_. preturn ()) ?s"
    using p w by (simp add: write_log_plain log_statement_def run log processDispatch_def del: pbind_unit)
  also have "\<dots> = pbind (ls_inner c Level_Warning (ls_file c) (ls_line c) (ls_func c)
        [''Aborting application. Reason: Fatal log at ['', ls_file c, '':'', show_nat (ls_line c), '']''])
      (\<lambda>_. pmodify (\<lambda>s. s\<lparr>sg_aborted := True\<rparr>)) (s\<lparr>sg_stdout := sg_stdout s @ logLine\<rparr>)"
  proof -
    have o: "st_objs (sg_heap ?s) a = Some (l\<lparr>lg_stream := ?text\<rparr>)" by simp
    have "pbind (triggerDispatch (ls_env c) (ls_inner c) w) (\<lambda>_. preturn ()) ?s =
      pbind (log_dispatch (ls_env c) True ?msg NormalLog) (\<lambda>_. pbind (clear_stream (Some a)) (\<lambda>_.
      pbind (pget (sg_hasFlag DisableApplicationAbortOnFatalLog)) (\<lambda>disabled.
      pbind (if \<not> disabled then
              pbind (ls_inner c Level_Warning (ls_file c) (ls_line c) (ls_func c)
                [''Aborting application. Reason: Fatal log at ['', ls_file c, '':'', show_nat (ls_line c), '']'']) (\<lambda>_.
              pmodify (\<lambda>s. s\<lparr>sg_aborted := True\<rparr>))
            else preturn ()) (\<lambda>_. preturn ())))) ?s"
      by (simp add: triggerDispatch_def LogMessage_def pbind_assoc pbind_logger_at [OF o] w message_of_def
          cong: if_cong del: prog_apply)
    also have "\<dots> = pbind (ls_inner c Level_Warning (ls_file c) (ls_line c) (ls_func c)
        [''Aborting application. Reason: Fatal log at ['', ls_file c, '':'', show_nat (ls_line c), '']''])
      (\<lambda>_. pmodify (\<lambda>s. s\<lparr>sg_aborted := True\<rparr>)) (s\<lparr>sg_stdout := sg_stdout s @ logLine\<rparr>)"
      using assms(2) unfolding deliver by (simp add: sg_hasFlag_def)
    finally show ?thesis .
  qed
  finally show ?thesis .
qed

text \<open>The warning that follows it is a statement of its own, one level deeper.\<close>

lemma fatal_aborts:
  assumes "\<not> sg_hasFlag DisableApplicationAbortOnFatalLog s"
    and "ls_inner c = writer_at_depth (ls_env c) (Suc d)"
    and "prints_line c Level_Fatal v i texts fatal s"
    and "prints_line (c\<lparr>ls_inner := writer_at_depth (ls_env c) d\<rparr>) Level_Warning 0 kDefaultLoggerId
      [''Aborting application. Reason: Fatal log at ['', ls_file c, '':'', show_nat (ls_line c), '']''] warning s"
  shows "write_log c PlainWriter Level_Fatal NormalLog v [i] texts s =
    Some (Inr ((), s\<lparr>sg_stdout := sg_stdout s @ fatal @ warning, sg_aborted := True\<rparr>))"
proof -
  let ?warn = "[''Aborting application. Reason: Fatal log at ['', ls_file c, '':'', show_nat (ls_line c), '']'']"
  let ?c = "c\<lparr>ls_inner := writer_at_depth (ls_env c) d\<rparr>" and ?s = "s\<lparr>sg_stdout := sg_stdout s @ fatal\<rparr>"
  have "prints_line ?c Level_Warning 0 kDefaultLoggerId ?warn warning ?s" using assms(4) by simp
  from statement_prints [OF this]
  have "ls_inner c Level_Warning (ls_file c) (ls_line c) (ls_func c) ?warn ?s =
      Some (Inr ((), s\<lparr>sg_stdout := sg_stdout s @ fatal @ warning\<rparr>))"
    by (simp add: assms(2) write_log_plain)
  then show ?thesis
    unfolding fatal_statement [OF assms(3, 1)] by (simp add: pbind_run)
qed

section \<open>Properties\<close>


definition example_site :: "string list log_site" where
  "example_site = \<lparr>ls_macros = gcc_linux, ls_env = trace_env, ls_inner = writer_at_depth trace_env 2,
     ls_file = ''main.cpp'', ls_line = 7, ls_func = ''main'', ls_default_logger = None, ls_errno = 0,
     ls_strerror = []\<rparr>"

text \<open>The example logger writes every level in the same format.\<close>

definition example_line :: "string list \<Rightarrow> string" where
  "example_line texts = replaceFirstWithEscape ''INFO %msg'' ''%msg'' (concat texts) @ [CHR 0x0A]"

lemma example_printed:
  "build_from example_format [] [] d [] (message_of level place line func 0 a (concat texts)) True =
     Inr (example_line texts)"
proof -
  have f: "\<forall>g \<in> {FF_AppName, FF_ThreadId, FF_DateTime, FF_Function, FF_File, FF_FileBase, FF_Line, FF_Location,
      FF_VerboseLevel}. \<not> lf_hasFlag g example_format" "lf_hasFlag FF_LogMessage example_format"
    by code_simp+
  then show ?thesis
    by (simp_all add: build_from_def substitute_def message_of_def example_line_def, simp_all add: example_format_def)
qed

lemma example_prints_line:
  assumes "ls_env c = trace_env"
  shows "prints_line c level 0 ''default'' texts (example_line texts) (trace_storage terminal_tables)"
proof -
  let ?s = "trace_storage terminal_tables"
  have r: "Registry_get ''default'' (sg_registeredLoggers ?s) = Some 0"
    by (simp add: trace_storage_def Registry_get_def kDefaultLoggerId_def)
  have f: "\<not> sg_hasFlag MultiLoggerSupport ?s" "\<not> sg_hasFlag AutoSpacing ?s" "\<not> sg_hasFlag HierarchicalLogging ?s"
    "sg_threadNames ?s = []" "sg_customFormatSpecifiers ?s = []"
    by (simp_all add: trace_storage_def empty_storage_def sg_hasFlag_def hasFlag_def bitwise_And_def)
  have e: "lg_parentApplicationName (example_logger 0) = []"
    by (simp add: example_logger_def Logger_def initUnflushedCount_def)
  have t: "streamed False texts = concat texts" by (induction texts) (simp_all add: streamed_def)
  have g: "terminal_logger level example_format (example_logger 0) terminal_tables" "proceeds level terminal_tables ?s"
    using f(3) by (simp_all add: terminal_logger_def example_logger_def terminal_tables_def no_typed_def format_plain
      tc_toFile_def tc_toStandardOutput_def tc_logFormat_def getConfigByVal_def getConfigByRef_def proceeds_def
      unsafeGetConfigByVal_def unsafeGetConfigByRef_def Logger_def initUnflushedCount_def tc_enabled_def)
  have "printed (ls_env c) (message_of level (ls_file c) (ls_line c) (ls_func c) 0 0 (streamed (sg_hasFlag AutoSpacing ?s) texts))
      (example_logger 0) example_format terminal_tables ?s = Inr (example_line texts)"
    using example_printed f e t assms by (simp add: printed_def sg_getThreadName_def getCurrentThreadId_def)
  with r f(1) g trace_logger plain_example(1) show ?thesis
    unfolding prints_line_def by blast
qed

lemma example_site_facts:
  "ELPP_CURR_FILE_LOGGER_ID example_site = ''default''" "level_compiled (ls_macros example_site) level"
  "sg_registeredHitCounters (trace_storage terminal_tables) = []" "sg_stdout (trace_storage terminal_tables) = []"
  "hits f l [] = 0" "\<not> sg_hasFlag DisableApplicationAbortOnFatalLog (trace_storage terminal_tables)"
  using gcc_linux_build(1)
  by (simp_all add: ELPP_CURR_FILE_LOGGER_ID_def example_site_def kDefaultLoggerId_def trace_storage_def
      empty_storage_def hits_def getCounter_def sg_hasFlag_def hasFlag_def bitwise_And_def)
    (cases level; simp add: all_levels_def)

lemma example_env: "ls_env example_site = trace_env"
  by (simp add: example_site_def)

definition abort_line :: string where
  "abort_line = ''INFO Aborting application. Reason: Fatal log at [main.cpp:7]'' @ [CHR 0x0A]"

lemma example_lines:
  "example_line [''hel'', ''lo''] = ''INFO hello'' @ [CHR 0x0A]"
  "example_line [''Aborting application. Reason: Fatal log at ['', ''main.cpp'', '':'', show_nat 7, '']''] = abort_line"
  by code_simp+

text \<open>The warning of a fatal statement at the example's place, whatever macros its file has.\<close>

lemma example_warning:
  "ls_env c = trace_env \<Longrightarrow> prints_line c Level_Warning 0 kDefaultLoggerId
     [''Aborting application. Reason: Fatal log at ['', ''main.cpp'', '':'', show_nat 7, '']''] abort_line
     (trace_storage terminal_tables)"
  unfolding example_lines(2) [symmetric] kDefaultLoggerId_def by (rule example_prints_line)


text \<open>
  C30. A check that holds does nothing. One that fails prints the text of its condition with what
  was streamed as a fatal line, then the warning that the program ends, and the program is
  aborted.
\<close>

theorem failed_check_aborts:
  assumes "level_compiled (ls_macros c) FATAL" and "\<not> sg_hasFlag DisableApplicationAbortOnFatalLog s"
    and "ls_inner c = writer_at_depth (ls_env c) (Suc d)"
    and "prints_line c Level_Fatal 0 (ELPP_CURR_FILE_LOGGER_ID c)
      ([''Check failed: ['', txt, ''] ''] @ texts) fatal s"
    and "prints_line (c\<lparr>ls_inner := writer_at_depth (ls_env c) d\<rparr>) Level_Warning 0 kDefaultLoggerId
      [''Aborting application. Reason: Fatal log at ['', ls_file c, '':'', show_nat (ls_line c), '']''] warning s"
  shows "CHECK c (txt, True) texts s = Some (Inr ((), s)) \<and>
    CHECK c (txt, False) texts s =
      Some (Inr ((), s\<lparr>sg_stdout := sg_stdout s @ fatal @ warning, sg_aborted := True\<rparr>))"
  using fatal_aborts [OF assms(2-5)]
  unfolding CHECK_def CCHECK_def CLOG_IF_def level_cases [OF assms(1)] by (simp add: unless_def)

theorem failed_check_aborts_witness:
  "CHECK_LT example_site (''queued'', 5 :: int) (''limit'', 4) [''too many''] (trace_storage terminal_tables) =
     Some (Inr ((), (trace_storage terminal_tables)\<lparr>sg_stdout :=
       (''INFO Check failed: [queued < limit] too many'' @ [CHR 0x0A]) @ abort_line, sg_aborted := True\<rparr>))"
proof -
  have i: "ls_inner example_site = writer_at_depth (ls_env example_site) (Suc 1)"
    "ls_file example_site = ''main.cpp''" "ls_line example_site = 7" "ls_macros example_site = gcc_linux"
    by (simp_all add: example_site_def numeral_2_eq_2)
  have l: "example_line ([''Check failed: ['', ''queued < limit'', ''] ''] @ [''too many'']) =
      ''INFO Check failed: [queued < limit] too many'' @ [CHR 0x0A]"
    by code_simp
  have fatal: "prints_line example_site Level_Fatal 0 (ELPP_CURR_FILE_LOGGER_ID example_site)
      ([''Check failed: ['', ''queued < limit'', ''] ''] @ [''too many''])
      (''INFO Check failed: [queued < limit] too many'' @ [CHR 0x0A]) (trace_storage terminal_tables)"
    unfolding l [symmetric] example_site_facts(1) by (rule example_prints_line) (rule example_env)
  have warning: "prints_line (example_site\<lparr>ls_inner := writer_at_depth (ls_env example_site) 1\<rparr>) Level_Warning 0 kDefaultLoggerId
      [''Aborting application. Reason: Fatal log at ['', ls_file example_site, '':'', show_nat (ls_line example_site), '']'']
      abort_line (trace_storage terminal_tables)"
    unfolding i(2, 3) by (rule example_warning) (simp add: example_env)
  show ?thesis
    using failed_check_aborts [OF example_site_facts(2) example_site_facts(6) i(1) fatal warning]
    by (simp add: CHECK_LT_def CCHECK_LT_def CHECK_def compare_def example_site_facts)
qed

text \<open>
  A verbose statement for every n-th time prints its line at the n-th, 2n-th ... execution
  while its verbose level is on for the file; while it is off an execution is not even counted.
\<close>

theorem verbose_occasions:
  assumes "prints_line c Level_Verbose vlevel (ELPP_CURR_FILE_LOGGER_ID c) texts logLine s"
    and "ELPP_VERBOSE_LOG (ls_macros c)"
    and "vr_allowed (en_order (ls_env c)) (sg_flags s) vlevel (Some (ls_file c)) (sg_vRegistry s) = Inr on"
    and "hits (ls_file c) (ls_line c) (sg_registeredHitCounters s) = 0"
    and "1 \<le> n" and "n \<le> ucast kMaxLogPerCounter"
  shows "\<exists>cs. repeated k (VLOG_EVERY_N c n vlevel texts) s =
    Some (Inr ((), if on then s\<lparr>sg_stdout := sg_stdout s @ lines_at (\<lambda>i. Suc i mod unat n = 0) k logLine,
      sg_registeredHitCounters := cs\<rparr> else s))"
proof -
  let ?test = "validateEveryN (ls_file c) (ls_line c) n"
  let ?cond = "pbind (VLOG_IS_ON c vlevel)
      (\<lambda>on. if on then validateEveryNCounter (ls_file c) (ls_line c) n else preturn False)"
  let ?stmt = "write_log c PlainWriter Level_Verbose NormalLog vlevel [ELPP_CURR_FILE_LOGGER_ID c]"
  have on: "VLOG_IS_ON c vlevel t = Some (Inr (on, t))"
    if "sg_flags t = sg_flags s" "sg_vRegistry t = sg_vRegistry s" for t
    using assms(3) that by (simp add: VLOG_IS_ON_def)
  have cond: "?cond t = (if on then on_counters ?test t else Some (Inr (False, t)))"
    if "sg_flags t = sg_flags s" "sg_vRegistry t = sg_vRegistry s" for t
    by (simp add: pbind_Inr [where m = "VLOG_IS_ON c vlevel", OF on [OF that]] validateEveryNCounter_def)
  have v: "VLOG_EVERY_N c n vlevel texts = guarded ?cond ?stmt texts"
    using assms(2) by (simp add: VLOG_EVERY_N_def CVLOG_EVERY_N_def CVERBOSE_EVERY_N_def CVERBOSE_IF_def)
  show ?thesis
  proof (cases on)
    case False
    then have "guarded ?cond ?stmt texts s = Some (Inr ((), s))"
      using cond [of s] by (simp add: guarded_def pbind_Inr [where m = ?cond])
    with False show ?thesis unfolding v by (simp add: repeated_skip)
  next
    case True
    have "fst (run_tests ?test k (sg_registeredHitCounters s)) = map (\<lambda>i. Suc i mod unat n = 0) [0 ..< k]"
      using fst_run_every [OF assms(5, 4, 6)] by (simp add: run_every_tests)
    from repeated_occasions [OF assms(1) _ this, of ?cond] cond True show ?thesis unfolding v by simp
  qed
qed

theorem verbose_occasions_witness:
  "\<exists>cs. repeated 4 (VLOG_EVERY_N example_site 3 0 [''hel'', ''lo'']) (trace_storage terminal_tables) =
      Some (Inr ((), (trace_storage terminal_tables)\<lparr>sg_stdout := ''INFO hello'' @ [CHR 0x0A],
        sg_registeredHitCounters := cs\<rparr>))"
proof -
  have p: "prints_line example_site Level_Verbose 0 (ELPP_CURR_FILE_LOGGER_ID example_site) [''hel'', ''lo'']
      (''INFO hello'' @ [CHR 0x0A]) (trace_storage terminal_tables)"
    using example_prints_line [OF example_env, of Level_Verbose "[''hel'', ''lo'']"]
    by (simp add: example_site_facts example_lines)
  have v: "ELPP_VERBOSE_LOG (ls_macros example_site)" using gcc_linux_build(1) by (simp add: example_site_def all_levels_def)
  have on: "vr_allowed (en_order (ls_env example_site)) (sg_flags (trace_storage terminal_tables)) 0
      (Some (ls_file example_site)) (sg_vRegistry (trace_storage terminal_tables)) = Inr True"
    by (simp add: vr_allowed_def trace_storage_def empty_storage_def VRegistry_def)
  have "lines_at (\<lambda>i. Suc i mod 3 = 0) 4 (''INFO hello'' @ [CHR 0x0A]) = ''INFO hello'' @ [CHR 0x0A]"
    by (simp add: lines_at_def upt_rec)
  with verbose_occasions [OF p v on _, of 3 4] show ?thesis by (auto simp: kMaxLogPerCounter_def example_site_facts)
qed

text \<open>
  Without logging, or with the levels disabled, nothing is left of the statements: not even a
  check that fails ends the program.
\<close>

theorem disabled_logs_do_nothing:
  assumes "\<not> ELPP_LOGGING_ENABLED (ls_macros c)"
  shows "LOG c level texts = preturn ()" "LOG_IF c condition level texts = preturn ()"
    "LOG_EVERY_N c n level texts = preturn ()" "VLOG c v texts = preturn ()"
    "VLOG_EVERY_N c n v texts = preturn ()" "PLOG c level texts = preturn ()"
    "SYSLOG c level texts = preturn ()" "CHECK c (txt, False) texts = preturn ()"
    "DLOG c level texts = preturn ()" "PCHECK c (txt, False) texts = preturn ()"
  using compiled_levels [OF assms]
  by (auto simp: LOG_def CLOG_def LOG_IF_def CLOG_IF_def LOG_EVERY_N_def CLOG_EVERY_N_def VLOG_def CVLOG_def
      CVERBOSE_def VLOG_EVERY_N_def CVLOG_EVERY_N_def CVERBOSE_EVERY_N_def PLOG_def CPLOG_def SYSLOG_def
      CSYSLOG_def with_syslog_def CHECK_def CCHECK_def DLOG_def DCLOG_def debug_only_def PCHECK_def CPCHECK_def
      CPLOG_IF_def level_missing NullWriter_def simp del: C_LEVEL.simps C_LEVEL_IF.simps
      C_LEVEL_EVERY_N.simps level_compiled.simps)

end
