(* ===== verification/Elpp_Crash.thy ===== *)
theory Elpp_Crash imports Elpp_Statements begin

text \<open>
  The crash handler of the logging library, as compiled with \<open>ELPP_FEATURE_CRASH_LOG\<close>: stack
  traces from what \<open>backtrace_symbols\<close> returns, the reason of a crash, and the handlers
  installed for signals.
\<close>

section \<open>\<open>StackTrace\<close>\<close>

record stack_entry =
  se_index :: nat
  se_location :: string
  se_demangled :: string
  se_hex :: string
  se_addr :: string

definition StackTraceEntry :: "nat \<Rightarrow> string \<Rightarrow> string \<Rightarrow> string \<Rightarrow> string \<Rightarrow> stack_entry" where
  "StackTraceEntry index loc demang hex addr =
     \<lparr>se_index = index, se_location = loc, se_demangled = demang, se_hex = hex, se_addr = addr\<rparr>"

definition StackTraceEntry_location :: "nat \<Rightarrow> string \<Rightarrow> stack_entry" where
  "StackTraceEntry_location index loc =
     \<lparr>se_index = index, se_location = loc, se_demangled = [], se_hex = [], se_addr = []\<rparr>"

definition print_entry :: "stack_entry \<Rightarrow> string" where
  "print_entry si =
     ''['' @ show_nat (se_index si) @ ''] '' @ se_location si @ (if se_hex si = [] then [] else ''+'') @ se_hex si @
     '' '' @ se_addr si @ (if se_demangled si = [] then [] else '':'') @ se_demangled si"

fun print_trace :: "stack_entry list \<Rightarrow> string" where
  "print_trace [] = []"
| "print_trace (e # st) = ''    '' @ print_entry e @ [CHR 0x0A] @ print_trace st"

definition kMaxStack :: nat where "kMaxStack = 64"

definition kStackStart :: nat where "kStackStart = 2"

text \<open>\<open>substr\<close> up to what \<open>find\<close> returns, which is everything if it finds nothing.\<close>

definition up_to :: "string \<Rightarrow> string \<Rightarrow> string" where
  "up_to s pat = (case str_find s pat 0 of None \<Rightarrow> s | Some k \<Rightarrow> substr s 0 k)"

definition from_first :: "string \<Rightarrow> string \<Rightarrow> string \<Rightarrow> string" where
  "from_first line start stop =
     (case str_find line start 0 of None \<Rightarrow> [] | Some p \<Rightarrow> up_to (drop p line) stop)"

text \<open>The demangler of the C++ library is an argument; it gives nothing for a name it cannot read.\<close>

definition parse_stack_line :: "(string \<Rightarrow> string option) \<Rightarrow> nat \<Rightarrow> string \<Rightarrow> stack_entry" where
  "parse_stack_line demangle i line =
     (let mangName = from_first line ''_'' '' +'';
          addr = from_first line ''0x'' ''_''
      in if mangName \<noteq> [] then
           (case demangle mangName of
              Some demangName \<Rightarrow> StackTraceEntry (i - 1) [] demangName [] addr
            | None \<Rightarrow> StackTraceEntry (i - 1) [] mangName [] addr)
         else StackTraceEntry_location (i - 1) line)"

text \<open>The lines are those of at most \<open>kMaxStack\<close> frames; the first two are skipped.\<close>

definition generateNew ::
  "macros \<Rightarrow> (string \<Rightarrow> string option) \<Rightarrow> string list \<Rightarrow> stack_entry list \<Rightarrow> stack_entry list" where
  "generateNew m demangle strings st =
     (if ELPP_STACKTRACE m then
        (let strings = take kMaxStack strings in
         map (\<lambda>i. parse_stack_line demangle i (strings ! i)) [kStackStart ..< length strings])
      else st)"

definition StackTrace :: "macros \<Rightarrow> (string \<Rightarrow> string option) \<Rightarrow> string list \<Rightarrow> stack_entry list" where
  "StackTrace m demangle strings = generateNew m demangle strings []"

section \<open>The reason of a crash\<close>

fun unknown_signal :: "(crash_signal \<Rightarrow> int32) \<Rightarrow> crash_signal \<Rightarrow> string" where
  "unknown_signal signo sig = ''Application has crashed due to unknown signal ['' @ format_int (signo sig) @ '']''"

definition known_signal :: "bool \<Rightarrow> string \<times> string \<times> string \<Rightarrow> string" where
  "known_signal detailed d =
     (let (name, brief, detail) = d in
      ''Application has crashed due to ['' @ name @ ''] signal'' @
      (if detailed then CHR 0x0A # ''    '' @ brief @ CHR 0x0A # ''    '' @ detail else []))"

text \<open>The numbers of the signals are an argument. The loop does not stop at the first match.\<close>

definition crashReason :: "(crash_signal \<Rightarrow> int32) \<Rightarrow> bool \<Rightarrow> crash_signal \<Rightarrow> string" where
  "crashReason signo detailed sig =
     (let found = filter (\<lambda>(s, _). signo s = signo sig) kCrashSignals
      in if found = [] then unknown_signal signo sig
         else concat (map (\<lambda>(_, d). known_signal detailed d) found))"

definition crash_text ::
  "(crash_signal \<Rightarrow> int32) \<Rightarrow> macros \<Rightarrow> stack_entry list \<Rightarrow> bool \<Rightarrow> bool \<Rightarrow> crash_signal \<Rightarrow> string" where
  "crash_text signo m st detailed stackTraceIfAvailable sig =
     ''CRASH HANDLED; '' @ crashReason signo detailed sig @
     (if ELPP_STACKTRACE m \<and> stackTraceIfAvailable
      then CHR 0x0A # ''    ======= Backtrace: ========='' @ CHR 0x0A # print_trace st else [])"

definition logCrashReason ::
  "'f log_site \<Rightarrow> (crash_signal \<Rightarrow> int32) \<Rightarrow> stack_entry list \<Rightarrow> crash_signal \<Rightarrow> bool \<Rightarrow> level \<Rightarrow> string \<Rightarrow>
   ('f storage, unit) prog" where
  "logCrashReason c signo st sig stackTraceIfAvailable level logger =
     pbind (pget (sg_hasFlag LogDetailedCrashReason)) (\<lambda>detailed.
     ELPP_WRITE_LOG c PlainWriter level NormalLog [logger]
       [crash_text signo (ls_macros c) st detailed stackTraceIfAvailable sig])"

text \<open>\<open>abort\<close> ends the process and drops the reason it is given.\<close>

definition utils_abort :: "string \<Rightarrow> ('f storage, unit) prog" where
  "utils_abort reason = pmodify (\<lambda>s. s\<lparr>sg_aborted := True\<rparr>)"

definition crashAbort :: "crash_signal \<Rightarrow> ('f storage, unit) prog" where
  "crashAbort sig = utils_abort []"

definition defaultCrashHandler ::
  "'f log_site \<Rightarrow> (crash_signal \<Rightarrow> int32) \<Rightarrow> stack_entry list \<Rightarrow> crash_signal \<Rightarrow> ('f storage, unit) prog" where
  "defaultCrashHandler c signo st sig =
     pbind (logCrashReason c signo st sig True Level_Fatal kDefaultLoggerId) (\<lambda>_. crashAbort sig)"

definition crash_abort_reason ::
  "(crash_signal \<Rightarrow> int32) \<Rightarrow> bool \<Rightarrow> crash_signal \<Rightarrow> string option \<Rightarrow> nat \<Rightarrow> string" where
  "crash_abort_reason signo detailed sig sourceFile line =
     crashReason signo detailed sig @ '' - [Called easyloggingpp::Helpers::crashAbort('' @ format_int (signo sig) @ '')]'' @
     (case sourceFile of
        None \<Rightarrow> []
      | Some f \<Rightarrow>
          if f = [] then []
          else '' - Source: '' @ f @
            (if 0 < line then CHR '':'' # show_nat line else '' (line number not specified)''))"

definition Helpers_crashAbort ::
  "(crash_signal \<Rightarrow> int32) \<Rightarrow> crash_signal \<Rightarrow> string option \<Rightarrow> nat \<Rightarrow> ('f storage, unit) prog" where
  "Helpers_crashAbort signo sig sourceFile line =
     pbind (pget (sg_hasFlag LogDetailedCrashReason)) (\<lambda>detailed.
     utils_abort (crash_abort_reason signo detailed sig sourceFile line))"

definition Helpers_logCrashReason ::
  "'f log_site \<Rightarrow> (crash_signal \<Rightarrow> int32) \<Rightarrow> stack_entry list \<Rightarrow> crash_signal \<Rightarrow> bool \<Rightarrow> level \<Rightarrow> string \<Rightarrow>
   ('f storage, unit) prog" where
  "Helpers_logCrashReason c signo st sig stackTraceIfAvailable level logger =
     logCrashReason c signo st sig stackTraceIfAvailable level logger"

section \<open>\<open>CrashHandler\<close>\<close>

text \<open>
  The actions of the process by signal, and the member \<open>m_handler\<close>: \<open>signal\<close> returns the action
  a signal had before.
\<close>

record 'h crash_handler =
  ch_handler :: 'h
  ch_actions :: "crash_signal \<Rightarrow> 'h"

fun install_handlers :: "'h \<Rightarrow> crash_signal list \<Rightarrow> 'h crash_handler \<Rightarrow> 'h crash_handler" where
  "install_handlers cHandler [] h = h"
| "install_handlers cHandler (s # signals) h =
     install_handlers cHandler signals
       \<lparr>ch_handler = ch_actions h s, ch_actions = (ch_actions h)(s := cHandler)\<rparr>"

definition setHandler :: "macros \<Rightarrow> 'h \<Rightarrow> 'h crash_handler \<Rightarrow> 'h crash_handler" where
  "setHandler m cHandler h =
     install_handlers cHandler
       (drop (if macro_defined m ''ELPP_HANDLE_SIGABRT'' then 0 else 1) (map fst kCrashSignals))
       (h\<lparr>ch_handler := cHandler\<rparr>)"

definition CrashHandler :: "macros \<Rightarrow> 'h \<Rightarrow> bool \<Rightarrow> 'h crash_handler \<Rightarrow> 'h crash_handler" where
  "CrashHandler m defaultHandler useDefault h =
     (if crash_log_compiled m \<and> useDefault then setHandler m defaultHandler h else h)"

definition ELPP_USE_DEF_CRASH_HANDLER :: "macros \<Rightarrow> bool" where
  "ELPP_USE_DEF_CRASH_HANDLER m \<longleftrightarrow> \<not> macro_defined m ''ELPP_DISABLE_DEFAULT_CRASH_HANDLING''"

definition setCrashHandler :: "macros \<Rightarrow> 'h \<Rightarrow> 'h crash_handler \<Rightarrow> 'h crash_handler" where
  "setCrashHandler m crashHandler h = setHandler m crashHandler h"

section \<open>Facts\<close>

lemma find_scan_char: "ch \<notin> set u \<Longrightarrow> find_scan [ch] (u @ ch # v) k = Some (k + length u)"
  by (induction u arbitrary: k) auto

lemma find_scan_two:
  "find_scan [a, b] u k = None \<Longrightarrow> a \<noteq> b \<Longrightarrow> find_scan [a, b] (u @ a # b # v) k = Some (k + length u)"
proof (induction u arbitrary: k)
  case (Cons c cs)
  then have n: "find_scan [a, b] cs (Suc k) = None" "\<not> (\<exists>d ds. cs = d # ds \<and> c = a \<and> d = b)"
    by (auto split: if_splits)
  with Cons.prems(2) have "take 2 (c # cs @ a # b # v) \<noteq> [a, b]" by (cases cs) (auto simp: numeral_2_eq_2)
  with Cons.IH [OF n(1) Cons.prems(2)] show ?case by (simp add: numeral_2_eq_2)
qed simp

lemma str_find_char: "ch \<notin> set u \<Longrightarrow> str_find (u @ ch # v) [ch] 0 = Some (length u)"
  by (simp add: str_find_def find_scan_char)

lemma str_find_two:
  "\<not> str_contains u [a, b] \<Longrightarrow> a \<noteq> b \<Longrightarrow> str_find (u @ a # b # v) [a, b] 0 = Some (length u)"
  using find_scan_two [of a b u 0 v] by (simp add: str_contains_def str_find_def)

lemma str_find_no_char: "ch \<notin> set u \<Longrightarrow> str_find u [ch] 0 = None"
proof -
  have "ch \<notin> set u \<Longrightarrow> find_scan [ch] u k = None" for k by (induction u arbitrary: k) auto
  then show "ch \<notin> set u \<Longrightarrow> str_find u [ch] 0 = None" by (simp add: str_find_def)
qed

lemma up_to_whole: "\<not> str_contains s pat \<Longrightarrow> up_to s pat = s"
  by (simp add: up_to_def str_contains_def)

lemma from_first_at:
  "str_find (u @ v) start 0 = Some (length u) \<Longrightarrow> from_first (u @ v) start stop = up_to v stop"
  by (simp add: from_first_def)

lemma up_to_first: "str_find (u @ v) stop 0 = Some (length u) \<Longrightarrow> up_to (u @ v) stop = u"
  by (simp add: up_to_def substr_def)

lemma no_blank_plus:
  assumes "CHR '' '' \<notin> set u" "CHR '' '' \<notin> set v" "v \<noteq> []" "hd v \<noteq> CHR ''+''"
  shows "\<not> str_contains (u @ CHR '' '' # v) '' +''"
proof
  assume "str_contains (u @ CHR '' '' # v) '' +''"
  then obtain x y where "u @ CHR '' '' # v = x @ CHR '' '' # CHR ''+'' # y" by (auto simp: str_contains_iff)
  then have "v = CHR ''+'' # y" using append_Cons_eq_iff [OF assms(1, 2)] by blast
  with assms(4) show False by simp
qed

lemma crash_signals:
  assumes "distinct (map (signo \<circ> fst) kCrashSignals)" and "(sig, d) \<in> set kCrashSignals"
  shows "crashReason signo detailed sig = known_signal detailed d"
  using assms by (auto simp: crashReason_def kCrashSignals_def Let_def)

section \<open>Properties\<close>

text \<open>
  A line of a stack trace in the form of macOS is read as meant: the address and the mangled
  name up to the offset, demangled if the demangler knows it. A line in the form of glibc,
  \<open>file(name+offset) [address]\<close>, is not: the demangler is given the whole rest of the line from
  the name on, and the address recorded is the text from the offset to the end.
\<close>

theorem stack_lines_read:
  assumes "CHR ''_'' \<notin> set pre" "\<not> str_contains pre ''0x''" "CHR ''_'' \<notin> set hex"
    and "\<not> str_contains (CHR ''_'' # name) '' +''"
    and "CHR ''_'' \<notin> set file" "\<not> str_contains (file @ ''(_'' @ symbol @ ''+'') ''0x''"
    and "CHR ''_'' \<notin> set offset" "CHR '' '' \<notin> set symbol" "CHR '' '' \<notin> set offset" "CHR ''_'' \<notin> set address"
    and "CHR '' '' \<notin> set address"
  shows "parse_stack_line demangle i (pre @ ''0x'' @ hex @ '' _'' @ name @ '' + '' @ off) =
      StackTraceEntry (i - 1) []
        (case demangle (CHR ''_'' # name) of None \<Rightarrow> CHR ''_'' # name | Some d \<Rightarrow> d) [] (''0x'' @ hex @ '' '') \<and>
    (let rest = offset @ '') [0x'' @ address @ '']'';
         given = CHR ''_'' # symbol @ ''+0x'' @ rest
     in parse_stack_line demangle i (file @ ''('' @ given) =
      StackTraceEntry (i - 1) [] (case demangle given of None \<Rightarrow> given | Some d \<Rightarrow> d) [] (''0x'' @ rest))"
proof
  let ?line = "pre @ ''0x'' @ hex @ '' _'' @ name @ '' + '' @ off"
  let ?pre = "pre @ ''0x'' @ hex @ '' ''" and ?name = "CHR ''_'' # name" and ?addr = "''0x'' @ hex @ '' ''"
  have "from_first (?pre @ ?name @ '' + '' @ off) ''_'' '' +'' = up_to (?name @ '' + '' @ off) '' +''"
    using str_find_char [of "CHR ''_''" ?pre "name @ '' + '' @ off"] assms(1, 3) by (intro from_first_at) simp
  also have "\<dots> = ?name" using str_find_two [OF assms(4), of "CHR '' '' # off"] by (intro up_to_first) simp
  finally have m: "from_first ?line ''_'' '' +'' = ?name" by simp
  have "from_first (pre @ ?addr @ ?name @ '' + '' @ off) ''0x'' ''_'' = up_to (?addr @ ?name @ '' + '' @ off) ''_''"
    using str_find_two [OF assms(2), of "hex @ '' _'' @ name @ '' + '' @ off"] by (intro from_first_at) simp
  also have "\<dots> = ?addr"
    using str_find_char [of "CHR ''_''" ?addr "name @ '' + '' @ off"] assms(3) by (intro up_to_first) simp
  finally have a: "from_first ?line ''0x'' ''_'' = ?addr" by simp
  show "parse_stack_line demangle i ?line =
      StackTraceEntry (i - 1) []
        (case demangle (CHR ''_'' # name) of None \<Rightarrow> CHR ''_'' # name | Some d \<Rightarrow> d) [] (''0x'' @ hex @ '' '')"
    unfolding parse_stack_line_def m a by (simp add: Let_def split: option.split)
next
  let ?rest = "offset @ '') [0x'' @ address @ '']''"
  let ?given = "CHR ''_'' # symbol @ ''+0x'' @ ?rest"
  have "from_first ((file @ ''('') @ ?given) ''_'' '' +'' = up_to ?given '' +''"
    using str_find_char [of "CHR ''_''" "file @ ''(''" "symbol @ ''+0x'' @ ?rest"] assms(5) by (intro from_first_at) simp
  also have "\<dots> = ?given"
    using no_blank_plus [of "CHR ''_'' # symbol @ ''+0x'' @ offset @ '')''" "''[0x'' @ address @ '']''"] assms(8, 9, 11)
    by (intro up_to_whole) simp
  finally have m: "from_first (file @ ''('' @ ?given) ''_'' '' +'' = ?given" by simp
  have "from_first ((file @ ''(_'' @ symbol @ ''+'') @ ''0x'' @ ?rest) ''0x'' ''_'' = up_to (''0x'' @ ?rest) ''_''"
    using str_find_two [OF assms(6), of ?rest] by (intro from_first_at) simp
  also have "\<dots> = ''0x'' @ ?rest"
    using str_find_no_char [of "CHR ''_''" "''0x'' @ ?rest"] assms(7, 10) by (intro up_to_whole) (simp add: str_contains_def)
  finally have a: "from_first (file @ ''('' @ ?given) ''0x'' ''_'' = ''0x'' @ ?rest" by simp
  show "let rest = ?rest; given = CHR ''_'' # symbol @ ''+0x'' @ rest
     in parse_stack_line demangle i (file @ ''('' @ given) =
      StackTraceEntry (i - 1) [] (case demangle given of None \<Rightarrow> given | Some d \<Rightarrow> d) [] (''0x'' @ rest)"
    unfolding Let_def parse_stack_line_def m a by (simp split: option.split)
qed

theorem stack_lines_read_witness:
  "let demangle = (\<lambda>n. if n = ''_Zmain'' then Some ''main'' else None) in
   parse_stack_line demangle 3 ''2   app    0x0000000101552be5 _Zmain + 21'' =
     StackTraceEntry 2 [] ''main'' [] ''0x0000000101552be5 '' \<and>
   parse_stack_line demangle 3 ''./app(_Zmain+0x1f) [0x55d0]'' =
     StackTraceEntry 2 [] ''_Zmain+0x1f) [0x55d0]'' [] ''0x1f) [0x55d0]''"
proof -
  have "\<not> str_contains ''2   app    '' ''0x''" "\<not> str_contains ''_Zmain'' '' +''"
    "\<not> str_contains (''./app'' @ ''(_'' @ ''Zmain'' @ ''+'') ''0x''" by code_simp+
  with stack_lines_read [of "''2   app    ''" "''0000000101552be5''" "''Zmain''" "''./app''" "''Zmain''" "''1f''" "''55d0''"
      "\<lambda>n. if n = ''_Zmain'' then Some ''main'' else None" 3 "''21''"]
  show ?thesis by (simp add: Let_def)
qed

text \<open>
  The handler is installed for every signal of the table, for \<open>SIGABRT\<close> only on demand. In a
  crash the default handler prints the reason, and the stack if there is one, as a fatal line and
  ends the program; the member \<open>m_handler\<close> is left with what \<open>SIGINT\<close> did before.
\<close>

theorem crash_reported:
  assumes "\<not> sg_hasFlag DisableApplicationAbortOnFatalLog s" and "ls_inner c = writer_at_depth (ls_env c) (Suc d)"
    and "distinct (map (signo \<circ> fst) kCrashSignals)" and "(sig, descr) \<in> set kCrashSignals"
    and "prints_line c Level_Fatal 0 kDefaultLoggerId
      [''CRASH HANDLED; '' @ known_signal (sg_hasFlag LogDetailedCrashReason s) descr @
       (if ELPP_STACKTRACE (ls_macros c)
        then CHR 0x0A # ''    ======= Backtrace: ========='' @ CHR 0x0A # print_trace st else [])] fatal s"
    and "prints_line (c\<lparr>ls_inner := writer_at_depth (ls_env c) d\<rparr>) Level_Warning 0 kDefaultLoggerId
      [''Aborting application. Reason: Fatal log at ['', ls_file c, '':'', show_nat (ls_line c), '']''] warning s"
  shows "defaultCrashHandler c signo st sig s =
      Some (Inr ((), s\<lparr>sg_stdout := sg_stdout s @ fatal @ warning, sg_aborted := True\<rparr>)) \<and>
    ch_actions (setHandler (ls_macros c) h handlers) sig =
      (if sig = SIGABRT \<and> \<not> macro_defined (ls_macros c) ''ELPP_HANDLE_SIGABRT'' then ch_actions handlers sig else h) \<and>
    ch_handler (setHandler (ls_macros c) h handlers) = ch_actions handlers SIGINT"
proof (intro conjI)
  let ?text = "crash_text signo (ls_macros c) st (sg_hasFlag LogDetailedCrashReason s) True sig"
  have "prints_line c Level_Fatal 0 kDefaultLoggerId [?text] fatal s"
    using assms(5) crash_signals [OF assms(3, 4)] by (simp add: crash_text_def)
  from fatal_aborts [OF assms(1, 2) this assms(6)]
  have "write_log c PlainWriter Level_Fatal NormalLog 0 [kDefaultLoggerId] [?text] s =
      Some (Inr ((), s\<lparr>sg_stdout := sg_stdout s @ fatal @ warning, sg_aborted := True\<rparr>))" .
  then show "defaultCrashHandler c signo st sig s =
      Some (Inr ((), s\<lparr>sg_stdout := sg_stdout s @ fatal @ warning, sg_aborted := True\<rparr>))"
    by (simp add: defaultCrashHandler_def logCrashReason_def ELPP_WRITE_LOG_def crashAbort_def utils_abort_def
        pbind_assoc pbind_run)
qed (use assms(4) in \<open>auto simp: setHandler_def kCrashSignals_def\<close>)

definition linux_signals :: "crash_signal \<Rightarrow> int32" where
  "linux_signals s =
     (case s of SIGABRT \<Rightarrow> 6 | SIGFPE \<Rightarrow> 8 | SIGILL \<Rightarrow> 4 | SIGSEGV \<Rightarrow> 11 | SIGINT \<Rightarrow> 2 | OtherSignal n \<Rightarrow> n)"

definition crash_macros :: macros where
  "crash_macros = gcc_linux(''ELPP_FEATURE_CRASH_LOG'' \<mapsto> 1)"

theorem crash_reported_witness:
  "defaultCrashHandler (example_site\<lparr>ls_macros := crash_macros\<rparr>) linux_signals [] SIGSEGV (trace_storage terminal_tables) =
      Some (Inr ((), (trace_storage terminal_tables)\<lparr>sg_stdout :=
        (''INFO CRASH HANDLED; Application has crashed due to [SIGSEGV] signal'' @ [CHR 0x0A] @
         ''    ======= Backtrace: ========='' @ [CHR 0x0A, CHR 0x0A]) @ abort_line, sg_aborted := True\<rparr>)) \<and>
    ch_handler (setHandler crash_macros ''log'' \<lparr>ch_handler = [], ch_actions = (\<lambda>_. ''default'')\<rparr>) = ''default''"
proof -
  let ?c = "example_site\<lparr>ls_macros := crash_macros\<rparr>"
  let ?descr = "(''SIGSEGV'', ''Invalid access to memory'',
    ''Program is trying to read an invalid (unallocated, deleted or corrupted) or inaccessible memory.'')"
  let ?text = "''CRASH HANDLED; '' @ known_signal False ?descr @
    CHR 0x0A # ''    ======= Backtrace: ========='' @ CHR 0x0A # print_trace []"
  have i: "ls_inner ?c = writer_at_depth (ls_env ?c) (Suc 1)" "ls_env ?c = trace_env"
    "ls_file example_site = ''main.cpp''" "ls_line example_site = 7"
    by (simp_all add: example_site_def numeral_2_eq_2)
  have d: "distinct (map (linux_signals \<circ> fst) kCrashSignals)" "(SIGSEGV, ?descr) \<in> set kCrashSignals"
    by (simp_all add: linux_signals_def kCrashSignals_def)
  have f: "\<not> sg_hasFlag LogDetailedCrashReason (trace_storage terminal_tables)" "ELPP_STACKTRACE crash_macros"
    by (simp_all add: trace_storage_def empty_storage_def sg_hasFlag_def hasFlag_def bitwise_And_def crash_macros_def
        gcc_linux_def ELPP_STACKTRACE_def crash_log_compiled_def macro_defined_def ELPP_COMPILER_GCC_def
        ELPP_MINGW_def ELPP_OS_ANDROID_def)
  have l: "example_line [?text] =
      ''INFO CRASH HANDLED; Application has crashed due to [SIGSEGV] signal'' @ [CHR 0x0A] @
         ''    ======= Backtrace: ========='' @ [CHR 0x0A, CHR 0x0A]" (is "_ = ?line")
    by code_simp
  have "prints_line ?c Level_Fatal 0 kDefaultLoggerId [?text] ?line (trace_storage terminal_tables)"
    unfolding l [symmetric] kDefaultLoggerId_def by (rule example_prints_line) (rule i)
  then have fatal: "prints_line ?c Level_Fatal 0 kDefaultLoggerId
      [''CRASH HANDLED; '' @ known_signal (sg_hasFlag LogDetailedCrashReason (trace_storage terminal_tables)) ?descr @
       (if ELPP_STACKTRACE (ls_macros ?c)
        then CHR 0x0A # ''    ======= Backtrace: ========='' @ CHR 0x0A # print_trace [] else [])]
      ?line (trace_storage terminal_tables)"
    using f by simp
  have warning: "prints_line (?c\<lparr>ls_inner := writer_at_depth (ls_env ?c) 1\<rparr>) Level_Warning 0 kDefaultLoggerId
      [''Aborting application. Reason: Fatal log at ['', ls_file ?c, '':'', show_nat (ls_line ?c), '']'']
      abort_line (trace_storage terminal_tables)"
    using example_warning [of "?c\<lparr>ls_inner := writer_at_depth (ls_env ?c) 1\<rparr>"] i by simp
  from crash_reported [OF example_site_facts(6) i(1) d fatal warning,
      of "''log''" "\<lparr>ch_handler = [], ch_actions = (\<lambda>_. ''default'')\<rparr>"]
  show ?thesis by (simp add: example_site_facts)
qed

end
