(* ===== verification/Elpp_Async.thy ===== *)
theory Elpp_Async imports Elpp_Performance Elpp_Build begin

text \<open>
  Asynchronous logging and the system log, which the library compiles in with
  \<open>ELPP_EXPERIMENTAL_ASYNC\<close> and \<open>ELPP_SYSLOG\<close>: the queue of log items, the callback that fills
  it, and the worker thread that empties it (\<open>AsyncLogQueue\<close>, \<open>AsyncLogDispatchCallback\<close>,
  \<open>AsyncDispatchWorker\<close>).
\<close>

section \<open>State\<close>

text \<open>
  An item keeps copies of the message and of the dispatch data, of which only the action is read,
  and the line.
\<close>

record async_log_item =
  ai_logMessage :: log_message
  ai_dispatchAction :: dispatch_action
  ai_logLine :: string

datatype syslog_priority = LOG_EMERG | LOG_ERR | LOG_WARNING | LOG_NOTICE | LOG_INFO | LOG_DEBUG

text \<open>
  The process: the storage with the queue, the flag of the worker, what went to the system log,
  and whether the global pointer \<open>elStorage\<close> has been set, which happens once the constructor of
  the storage has returned.
\<close>

record 'f process =
  pr_storage :: "'f storage"
  pr_queue :: "async_log_item list"
  pr_continueRunning :: bool
  pr_syslog :: "(syslog_priority \<times> string) list"
  pr_elStorage :: bool

definition on_storage :: "('f storage, 'a) prog \<Rightarrow> ('f process, 'a) prog" where
  "on_storage m p = obind (m (pr_storage p)) (\<lambda>(x, s). Some (Inr (x, p\<lparr>pr_storage := s\<rparr>)))"

text \<open>What is reached through the global pointer.\<close>

definition with_ELPP :: "('f process, 'a) prog \<Rightarrow> ('f process, 'a) prog" where
  "with_ELPP m p = (if pr_elStorage p then m p else Some (Inl NullDereference))"

section \<open>The system log\<close>

definition sysLogPriority :: "level \<Rightarrow> syslog_priority" where
  "sysLogPriority level =
     (if level = Level_Fatal then LOG_EMERG
      else if level = Level_Error then LOG_ERR
      else if level = Level_Warning then LOG_WARNING
      else if level = Level_Info then LOG_INFO
      else if level = Level_Debug then LOG_DEBUG
      else LOG_NOTICE)"

definition write_syslog :: "log_message \<Rightarrow> string \<Rightarrow> ('f process, unit) prog" where
  "write_syslog msg logLine =
     pmodify (\<lambda>p. p\<lparr>pr_syslog := pr_syslog p @ [(sysLogPriority (lm_level msg), logLine)]\<rparr>)"

definition build_line :: "'f environment \<Rightarrow> log_message \<Rightarrow> dispatch_action \<Rightarrow> ('f storage, string) prog" where
  "build_line env msg dispatchAction =
     pbind (logger_builder (lm_logger msg)) (\<lambda>b. lb_build env b msg (dispatchAction = NormalLog))"

text \<open>The callback of the library with the system log.\<close>

definition default_handle_syslog ::
  "'f environment \<Rightarrow> log_message \<Rightarrow> dispatch_action \<Rightarrow> ('f process, unit) prog" where
  "default_handle_syslog env msg dispatchAction =
     pbind (on_storage (build_line env msg dispatchAction)) (\<lambda>logLine.
     if dispatchAction = NormalLog then on_storage (dispatch env msg NormalLog logLine)
     else if dispatchAction = SysLog then write_syslog msg logLine
     else preturn ())"

section \<open>\<open>AsyncLogQueue\<close>\<close>

definition queue_front :: "('f process, async_log_item) prog" where
  "queue_front p = (case pr_queue p of [] \<Rightarrow> Some (Inl EmptyQueueFront) | item # _ \<Rightarrow> Some (Inr (item, p)))"

definition queue_pop :: "('f process, unit) prog" where
  "queue_pop p = (case pr_queue p of [] \<Rightarrow> Some (Inl EmptyQueueFront) | _ # q \<Rightarrow> Some (Inr ((), p\<lparr>pr_queue := q\<rparr>)))"

definition queue_next :: "('f process, async_log_item) prog" where
  "queue_next = pbind queue_front (\<lambda>result. pbind queue_pop (\<lambda>_. preturn result))"

definition queue_push :: "async_log_item \<Rightarrow> ('f process, unit) prog" where
  "queue_push item = pmodify (\<lambda>p. p\<lparr>pr_queue := pr_queue p @ [item]\<rparr>)"

definition queue_empty :: "('f process, bool) prog" where
  "queue_empty = pget (\<lambda>p. pr_queue p = [])"

section \<open>\<open>AsyncLogDispatchCallback\<close>\<close>

text \<open>
  The line is coloured in place before it is written to the terminal, and it is the same line
  that is queued.
\<close>

definition async_stdout :: "log_message \<Rightarrow> dispatch_action \<Rightarrow> string \<Rightarrow> ('f storage, string) prog" where
  "async_stdout msg dispatchAction logLine =
     (let a = lm_logger msg; level = lm_level msg in
      if dispatchAction \<noteq> NormalLog then preturn logLine
      else
        pbind (tables_at a) (\<lambda>t.
        if \<not> tc_toStandardOutput level t then preturn logLine
        else
          pbind (pget (sg_hasFlag ColoredTerminalOutput)) (\<lambda>color.
          pbind (if color then pbind (logger_builder a) (\<lambda>b. preturn (convertToColoredOutput b logLine level))
                 else preturn logLine) (\<lambda>logLine.
          pbind (pmodify (\<lambda>s. s\<lparr>sg_stdout := sg_stdout s @ logLine\<rparr>)) (\<lambda>_. preturn logLine)))))"

definition async_handle :: "'f environment \<Rightarrow> log_message \<Rightarrow> dispatch_action \<Rightarrow> ('f process, unit) prog" where
  "async_handle env msg dispatchAction =
     pbind (on_storage (build_line env msg dispatchAction)) (\<lambda>logLine.
     pbind (on_storage (async_stdout msg dispatchAction logLine)) (\<lambda>logLine.
     pbind (on_storage (tables_at (lm_logger msg))) (\<lambda>t.
     if tc_toFile (lm_level msg) t then
       with_ELPP (queue_push \<lparr>ai_logMessage = msg, ai_dispatchAction = dispatchAction, ai_logLine = logLine\<rparr>)
     else preturn ())))"

section \<open>\<open>AsyncDispatchWorker\<close>\<close>

definition setContinueRunning :: "bool \<Rightarrow> ('f process, unit) prog" where
  "setContinueRunning value = pmodify (\<lambda>p. p\<lparr>pr_continueRunning := value\<rparr>)"

definition AsyncDispatchWorker :: "('f process, unit) prog" where
  "AsyncDispatchWorker = setContinueRunning False"

text \<open>Writing the line is what the callback of the library does with it.\<close>

definition worker_handle :: "'f environment \<Rightarrow> async_log_item \<Rightarrow> ('f process, unit) prog" where
  "worker_handle env logItem =
     pbind (on_storage (logger_at (lm_logger (ai_logMessage logItem)))) (\<lambda>_.
     if ai_dispatchAction logItem = NormalLog then
       on_storage (dispatch_file env (ai_logMessage logItem) (ai_logLine logItem))
     else if ai_dispatchAction logItem = SysLog then write_syslog (ai_logMessage logItem) (ai_logLine logItem)
     else preturn ())"

text \<open>
  The loops may run for ever: that is \<open>None\<close>. Sleeping changes nothing. In \<open>emptyQueue\<close> no other
  thread runs; their interleaving is a relation below.
\<close>

definition worker_step :: "'f environment \<Rightarrow> ('f process, bool) prog" where
  "worker_step env =
     pbind (with_ELPP queue_empty) (\<lambda>none.
     if none then preturn False
     else pbind (with_ELPP queue_next) (\<lambda>data. pbind (worker_handle env data) (\<lambda>_. preturn True)))"

partial_function (option) emptyQueue :: "'f environment \<Rightarrow> 'f process \<Rightarrow> (unit \<times> 'f process) outcome" where
  "emptyQueue env p =
     (case worker_step env p of
        None \<Rightarrow> None
      | Some (Inl e) \<Rightarrow> Some (Inl e)
      | Some (Inr (again, p)) \<Rightarrow> if again then emptyQueue env p else Some (Inr ((), p)))"

partial_function (option) worker_run :: "'f environment \<Rightarrow> 'f process \<Rightarrow> (unit \<times> 'f process) outcome" where
  "worker_run env p =
     (if pr_continueRunning p then
        (case emptyQueue env p of
           None \<Rightarrow> None
         | Some (Inl e) \<Rightarrow> Some (Inl e)
         | Some (Inr (_, p)) \<Rightarrow> worker_run env p)
      else Some (Inr ((), p)))"

text \<open>The thread that starts the worker waits for it to end.\<close>

definition worker_start :: "'f environment \<Rightarrow> ('f process, unit) prog" where
  "worker_start env = pbind (setContinueRunning True) (\<lambda>_. worker_run env)"

text \<open>Waiting for a queue that is empty, and that nobody fills any more, does not end.\<close>

definition clean :: "'f environment \<Rightarrow> ('f process, bool) prog" where
  "clean env =
     pbind (with_ELPP queue_empty) (\<lambda>none.
     if none then (\<lambda>_. None)
     else pbind (emptyQueue env) (\<lambda>_. with_ELPP queue_empty))"

definition AsyncDispatchWorker_destroy :: "'f environment \<Rightarrow> ('f process, unit) prog" where
  "AsyncDispatchWorker_destroy env =
     pbind (setContinueRunning False) (\<lambda>_. pbind (clean env) (\<lambda>_. preturn ()))"

section \<open>The storage\<close>

text \<open>
  The constructor of the storage with asynchronous logging and perhaps the system log: it
  registers the loggers, installs the callback, which the storage knows by a number, and starts
  the worker. The global pointer is set when it has returned.
\<close>

definition reformat_logger :: "'f environment \<Rightarrow> ptr \<Rightarrow> string \<Rightarrow> ('f storage, unit) prog" where
  "reformat_logger env p format =
     (case p of
        None \<Rightarrow> plift (Inl NullDereference)
      | Some a \<Rightarrow>
          pbind (update_logger a (\<lambda>l. l\<lparr>lg_configurations :=
              setGlobally_public Config_Format format (lg_configurations l)\<rparr>)) (\<lambda>_. reconfigure env a))"

definition Storage_loggers :: "macros \<Rightarrow> 'f environment \<Rightarrow> nat \<Rightarrow> ('f storage, unit) prog" where
  "Storage_loggers m env async_callback =
     pbind (RL_get env kDefaultLoggerId True) (\<lambda>_.
     pbind (RL_get env ''default'' True) (\<lambda>_.
     pbind (RL_get env kPerformanceLoggerId True) (\<lambda>performanceLogger.
     pbind (RL_get env ''performance'' True) (\<lambda>_.
     pbind (reformat_logger env performanceLogger ''%datetime %level %msg'') (\<lambda>_.
     pbind (if macro_defined m ''ELPP_SYSLOG'' then
              pbind (RL_get env kSysLogLoggerId True) (\<lambda>sysLogLogger. reformat_logger env sysLogLogger ''%level: %msg'')
            else preturn ()) (\<lambda>_.
     pbind (sg_addFlag AllowVerboseIfModuleNotSpecified) (\<lambda>_.
     pbind (installLogDispatchCallback ''AsyncLogDispatchCallback'' (UserLogDispatchCallback async_callback)) (\<lambda>_.
     pbind (if macro_defined m ''ELPP_FEATURE_ALL'' \<or> macro_defined m ''ELPP_FEATURE_PERFORMANCE_TRACKING''
            then installPerformanceTrackingCallback ''DefaultPerformanceTrackingCallback'' DefaultPerformanceTrackingCallback
            else preturn False) (\<lambda>_.
     preturn ())))))))))"

definition Storage_async :: "macros \<Rightarrow> 'f environment \<Rightarrow> nat \<Rightarrow> ('f process, unit) prog" where
  "Storage_async m env async_callback =
     pbind AsyncDispatchWorker (\<lambda>_.
     pbind (on_storage (Storage_loggers m env async_callback)) (\<lambda>_.
     worker_start env))"

definition initialize_async :: "macros \<Rightarrow> 'f environment \<Rightarrow> nat \<Rightarrow> 'f storage \<Rightarrow> 'f process outcome" where
  "initialize_async m env async_callback s =
     obind (Storage_async m env async_callback
         \<lparr>pr_storage = s, pr_queue = [], pr_continueRunning = False, pr_syslog = [], pr_elStorage = False\<rparr>)
       (\<lambda>(_, p). Some (Inr (p\<lparr>pr_elStorage := True\<rparr>)))"

text \<open>The part of the destructor that concerns logging: the callback is replaced, the worker deleted.\<close>

definition Storage_destroy_async :: "'f environment \<Rightarrow> ('f process, unit) prog" where
  "Storage_destroy_async env =
     pbind (on_storage (uninstallLogDispatchCallback ''AsyncLogDispatchCallback'')) (\<lambda>_.
     pbind (on_storage (installLogDispatchCallback ''DefaultLogDispatchCallback'' DefaultLogDispatchCallback)) (\<lambda>_.
     AsyncDispatchWorker_destroy env))"

section \<open>Threads\<close>

text \<open>
  The program and the worker interleaved, for a process whose storage exists. The queue is
  locked, so an operation on it is one step; between taking an item and writing its line the
  worker holds it. The log calls so far and the items written are recorded.
\<close>

record 'f threads =
  th_process :: "'f process"
  th_held :: "async_log_item option"
  th_calls :: "(log_message \<times> dispatch_action) list"
  th_written :: "async_log_item list"

inductive async_step :: "'f environment \<Rightarrow> 'f threads \<Rightarrow> 'f threads \<Rightarrow> bool" for env where
  log_call: "async_handle env msg action (th_process t) = Some (Inr ((), p)) \<Longrightarrow>
     async_step env t (t\<lparr>th_process := p, th_calls := th_calls t @ [(msg, action)]\<rparr>)"
| take_item: "th_held t = None \<Longrightarrow> with_ELPP queue_next (th_process t) = Some (Inr (item, p)) \<Longrightarrow>
     async_step env t (t\<lparr>th_process := p, th_held := Some item\<rparr>)"
| write_item: "th_held t = Some item \<Longrightarrow> worker_handle env item (th_process t) = Some (Inr ((), p)) \<Longrightarrow>
     async_step env t (t\<lparr>th_process := p, th_held := None, th_written := th_written t @ [item]\<rparr>)"

inductive async_reaches :: "'f environment \<Rightarrow> 'f process \<Rightarrow> 'f threads \<Rightarrow> bool" for env p where
  start: "pr_queue p = [] \<Longrightarrow> pr_elStorage p \<Longrightarrow>
     async_reaches env p \<lparr>th_process = p, th_held = None, th_calls = [], th_written = []\<rparr>"
| step: "async_reaches env p t \<Longrightarrow> async_step env t u \<Longrightarrow> async_reaches env p u"

inductive_cases async_stepE: "async_step env t u"

section \<open>Facts\<close>

lemma on_storage_eq:
  "on_storage m p = Some (Inr (x, q)) \<longleftrightarrow> (\<exists>s. m (pr_storage p) = Some (Inr (x, s)) \<and> q = p\<lparr>pr_storage := s\<rparr>)"
  by (auto simp: on_storage_def obind_def split: option.splits sum.splits)

lemma on_storage_run: "m (pr_storage p) = Some (Inr (x, s)) \<Longrightarrow> on_storage m p = Some (Inr (x, p\<lparr>pr_storage := s\<rparr>))"
  by (simp add: on_storage_eq)

lemma with_ELPP_simps [simp]:
  "pr_elStorage p \<Longrightarrow> with_ELPP m p = m p" "\<not> pr_elStorage p \<Longrightarrow> with_ELPP m p = Some (Inl NullDereference)"
  by (simp_all add: with_ELPP_def)

lemma queue_next_eq:
  "queue_next p = (case pr_queue p of [] \<Rightarrow> Some (Inl EmptyQueueFront) | item # q \<Rightarrow> Some (Inr (item, p\<lparr>pr_queue := q\<rparr>)))"
  by (auto simp: queue_next_def queue_front_def queue_pop_def pbind_def obind_def split: list.split)

text \<open>The worker leaves the queue, the pointer and its flag alone while it writes.\<close>

lemma worker_handle_frame:
  assumes "worker_handle env item p = Some (Inr (x, q))"
  shows "pr_queue q = pr_queue p" "pr_elStorage q = pr_elStorage p" "pr_continueRunning q = pr_continueRunning p"
  using assms
  by (auto simp: worker_handle_def pbind_def obind_def on_storage_eq write_syslog_def split: if_splits option.splits sum.splits)

lemma worker_step_cases:
  assumes "pr_elStorage p"
  shows "worker_step env p = (case pr_queue p of
      [] \<Rightarrow> Some (Inr (False, p))
    | item # q \<Rightarrow> obind (worker_handle env item (p\<lparr>pr_queue := q\<rparr>)) (\<lambda>(_, p). Some (Inr (True, p))))"
  using assms
  by (auto simp: worker_step_def queue_empty_def queue_next_eq pbind_def obind_def preturn_def pget_def split: list.split)

text \<open>Nor does what it writes depend on the queue.\<close>

lemma on_storage_queue:
  "on_storage m (p\<lparr>pr_queue := q\<rparr>) = obind (on_storage m p) (\<lambda>(x, p). Some (Inr (x, p\<lparr>pr_queue := q\<rparr>)))"
  by (auto simp: on_storage_def obind_def split: option.splits sum.splits)

lemma worker_handle_queue:
  "worker_handle env item (p\<lparr>pr_queue := q\<rparr>) =
     obind (worker_handle env item p) (\<lambda>(x, p). Some (Inr (x, p\<lparr>pr_queue := q\<rparr>)))"
  by (auto simp: worker_handle_def pbind_def on_storage_queue write_syslog_def pmodify_def preturn_def obind_def
      split: option.splits sum.splits)

lemma pfor_queue:
  "pfor items (worker_handle env) (p\<lparr>pr_queue := q\<rparr>) =
     obind (pfor items (worker_handle env) p) (\<lambda>(x, p). Some (Inr (x, p\<lparr>pr_queue := q\<rparr>)))"
proof (induction items arbitrary: p)
  case Nil
  then show ?case by (simp add: preturn_def)
next
  case (Cons item items)
  then show ?case
    by (auto simp: pbind_def worker_handle_queue obind_def split: option.splits sum.splits)
qed

text \<open>Without another thread, the loop handles the items in order until the queue is empty.\<close>

lemma emptyQueue_handles:
  assumes "pr_elStorage p"
  shows "emptyQueue env p =
    obind (pfor (pr_queue p) (worker_handle env) p) (\<lambda>(_, p). Some (Inr ((), p\<lparr>pr_queue := []\<rparr>)))"
  using assms
proof (induction "pr_queue p" arbitrary: p)
  case Nil
  then have "p\<lparr>pr_queue := []\<rparr> = p" by simp
  with Nil show ?case
    by (subst emptyQueue.simps) (simp add: worker_step_cases preturn_def flip: Nil.hyps)
next
  case (Cons item q)
  then have p: "pr_queue p = item # q" by simp
  show ?case
  proof (cases "worker_handle env item p")
    case None
    with p Cons.prems show ?thesis
      by (subst emptyQueue.simps) (simp add: worker_step_cases worker_handle_queue pbind_def)
  next
    case (Some r)
    show ?thesis
    proof (cases r)
      case (Inl e)
      with Some p Cons.prems show ?thesis
        by (subst emptyQueue.simps) (simp add: worker_step_cases worker_handle_queue pbind_def)
    next
      case (Inr xp)
      then obtain p1 where p1: "worker_handle env item p = Some (Inr ((), p1))" using Some by (cases xp) auto
      let ?p1 = "p1\<lparr>pr_queue := q\<rparr>"
      have st: "pr_elStorage ?p1" using worker_handle_frame [OF p1] Cons.prems by simp
      have "emptyQueue env p = emptyQueue env ?p1"
        using p p1 Cons.prems by (subst emptyQueue.simps) (simp add: worker_step_cases worker_handle_queue)
      also have "\<dots> = obind (pfor q (worker_handle env) ?p1) (\<lambda>(_, p). Some (Inr ((), p\<lparr>pr_queue := []\<rparr>)))"
        using Cons.hyps(1) [OF _ st] by simp
      also have "\<dots> = obind (pfor q (worker_handle env) p1) (\<lambda>(_, p). Some (Inr ((), p\<lparr>pr_queue := []\<rparr>)))"
        by (auto simp: pfor_queue obind_def split: option.splits sum.splits)
      finally show ?thesis by (simp add: p pbind_def p1)
    qed
  qed
qed

lemma pfor_worker_frame:
  "pfor items (worker_handle env) p = Some (Inr (x, q)) \<Longrightarrow>
     pr_queue q = pr_queue p \<and> pr_elStorage q = pr_elStorage p \<and> pr_continueRunning q = pr_continueRunning p"
proof (induction items arbitrary: p)
  case Nil
  then show ?case by (simp add: preturn_def)
next
  case (Cons item items)
  then obtain x1 p1 where "worker_handle env item p = Some (Inr (x1, p1))"
      "pfor items (worker_handle env) p1 = Some (Inr (x, q))"
    by (auto simp: pbind_def obind_def split: option.splits sum.splits)
  with Cons.IH worker_handle_frame show ?case by metis
qed

lemma emptyQueue_frame:
  assumes "emptyQueue env p = Some (Inr (x, q))" "pr_elStorage p"
  shows "pr_queue q = []" "pr_elStorage q" "pr_continueRunning q = pr_continueRunning p"
proof -
  obtain q' where "pfor (pr_queue p) (worker_handle env) p = Some (Inr ((), q'))" "q = q'\<lparr>pr_queue := []\<rparr>"
    using assms by (auto simp: emptyQueue_handles obind_def split: option.splits sum.splits)
  with pfor_worker_frame [OF this(1)] assms(2)
  show "pr_queue q = []" "pr_elStorage q" "pr_continueRunning q = pr_continueRunning p" by simp_all
qed

section \<open>Starting and stopping the worker\<close>

lemma worker_run_does_not_return:
  assumes "worker_run env p = Some r"
  shows "pr_elStorage p \<longrightarrow> pr_continueRunning p \<longrightarrow> (\<exists>e. r = Inl e)"
proof (rule worker_run.raw_induct
    [where P = "\<lambda>_ p r. pr_elStorage p \<longrightarrow> pr_continueRunning p \<longrightarrow> (\<exists>e. r = Inl e)", OF _ assms])
  fix run env p r
  assume ih: "\<And>env q r. run env q = Some r \<Longrightarrow> pr_elStorage q \<longrightarrow> pr_continueRunning q \<longrightarrow> (\<exists>e. r = Inl e)"
    and r: "(if pr_continueRunning p
      then case emptyQueue env p of None \<Rightarrow> None | Some (Inl e) \<Rightarrow> Some (Inl e)
           | Some (Inr (_, p)) \<Rightarrow> run env p
      else Some (Inr ((), p))) = Some r"
  show "pr_elStorage p \<longrightarrow> pr_continueRunning p \<longrightarrow> (\<exists>e. r = Inl e)"
  proof (intro impI)
    assume s: "pr_elStorage p" "pr_continueRunning p"
    from r s(2) consider e where "r = Inl e"
      | q where "emptyQueue env p = Some (Inr ((), q))" "run env q = Some r"
      by (auto split: option.splits sum.splits)
    then show "\<exists>e. r = Inl e"
    proof cases
      case (2 q)
      with ih emptyQueue_frame [OF 2(1) s(1)] s(2) show ?thesis by blast
    qed blast
  qed
qed

text \<open>
  C32. Asynchronous logging never gets initialised. The constructor of the storage starts the
  worker, and starting it waits for its thread: once the loggers are there the thread reads the
  queue through the global pointer, which the constructor has not yet set, so the null pointer
  is dereferenced whatever the configuration is. Had the pointer been set, the start would not
  return either, since nothing ends the loop of the worker but the end of the program.
\<close>

theorem async_never_initialized:
  "initialize_async m env k s = obind (Storage_loggers m env k s) (\<lambda>_. Some (Inl NullDereference)) \<and>
   worker_start env p \<noteq> Some (Inr r)"
proof
  have "worker_start env q = Some (Inl NullDereference)" if "\<not> pr_elStorage q" for q :: "'a process"
    using that by (simp add: worker_start_def setContinueRunning_def worker_run.simps emptyQueue.simps worker_step_def
        pbind_def pmodify_def)
  then show "initialize_async m env k s = obind (Storage_loggers m env k s) (\<lambda>_. Some (Inl NullDereference))"
    by (auto simp: initialize_async_def Storage_async_def AsyncDispatchWorker_def setContinueRunning_def pbind_def
        pmodify_def on_storage_def obind_def split: option.splits sum.splits)
  show "worker_start env p \<noteq> Some (Inr r)"
  proof (cases "pr_elStorage p")
    case True
    then show ?thesis
      using worker_run_does_not_return [of env "p\<lparr>pr_continueRunning := True\<rparr>" "Inr r"]
      by (auto simp: worker_start_def setContinueRunning_def pbind_def pmodify_def)
  qed (simp add: worker_start_def setContinueRunning_def worker_run.simps emptyQueue.simps worker_step_def pbind_def
      pmodify_def)
qed

text \<open>
  C33. What deleting the worker does, on every path: with no storage it dereferences the null
  pointer; when the queue is empty, which is the case as soon as the worker has caught up, it
  waits for ever; otherwise the items left are written in their order, and the queue is empty
  afterwards, unless writing one of them fails.
\<close>

theorem worker_destroyed:
  "AsyncDispatchWorker_destroy env p =
     (if \<not> pr_elStorage p then Some (Inl NullDereference)
      else if pr_queue p = [] then None
      else obind (pfor (pr_queue p) (worker_handle env) (p\<lparr>pr_continueRunning := False\<rparr>))
             (\<lambda>(_, q). Some (Inr ((), q\<lparr>pr_queue := []\<rparr>))))"
proof -
  let ?p = "p\<lparr>pr_continueRunning := False\<rparr>"
  have start: "AsyncDispatchWorker_destroy env p = obind (clean env ?p) (\<lambda>(_, q). Some (Inr ((), q)))"
    by (simp add: AsyncDispatchWorker_destroy_def setContinueRunning_def pbind_def pmodify_def preturn_def)
  show ?thesis
  proof (cases "pr_elStorage p \<and> pr_queue p \<noteq> []")
    case True
    then have "clean env ?p = obind (emptyQueue env ?p) (\<lambda>(_, q). with_ELPP queue_empty q)"
      by (simp add: clean_def queue_empty_def pbind_def pget_def)
    moreover have "with_ELPP queue_empty q = Some (Inr (True, q))" if "emptyQueue env ?p = Some (Inr (x, q))" for x q
      using emptyQueue_frame [OF that] True by (simp add: queue_empty_def pget_def)
    ultimately have "clean env ?p = obind (emptyQueue env ?p) (\<lambda>(_, q). Some (Inr (True, q)))"
      by (auto simp: obind_def split: option.split sum.split)
    with True show ?thesis
      by (auto simp: start emptyQueue_handles obind_def split: option.splits sum.splits)
  next
    case False
    then show ?thesis by (auto simp: start clean_def queue_empty_def pbind_def pget_def)
  qed
qed

section \<open>The lines of a logger\<close>

text \<open>A logger that writes a level to a file, built by the default builder, and perhaps to the terminal.\<close>

definition async_logger :: "nat \<Rightarrow> level \<Rightarrow> string \<Rightarrow> nat \<Rightarrow> nat \<Rightarrow> bool \<Rightarrow> 'f storage \<Rightarrow> bool" where
  "async_logger a level f n c out s \<longleftrightarrow> file_logger a level f n c s \<and>
     (\<exists>l p ty b. st_objs (sg_heap s) a = Some l \<and> lg_typedConfigurations l = Some p \<and>
        st_objs (sg_typed s) p = Some ty \<and> lg_logBuilder l = Some b \<and> bl_kind b = DefaultLogBuilder \<and>
        tc_toStandardOutput level (to_tables ty) = out)"

lemma async_logger_same:
  assumes "async_logger a level f n c out s" "file_logger a level f n c' t" "same_logging s t"
  shows "async_logger a level f n c' out t"
proof -
  from assms(1) obtain l p ty b where o: "st_objs (sg_heap s) a = Some l" "lg_typedConfigurations l = Some p"
      "st_objs (sg_typed s) p = Some ty" "lg_logBuilder l = Some b" "bl_kind b = DefaultLogBuilder"
      "tc_toStandardOutput level (to_tables ty) = out"
    by (auto simp: async_logger_def)
  have "map_option (\<lambda>l. (lg_typedConfigurations l, lg_logBuilder l)) (st_objs (sg_heap t) a) = Some (Some p, Some b)"
    using assms(3) o by (simp add: same_logging_def)
  then obtain l' where "st_objs (sg_heap t) a = Some l'" "lg_typedConfigurations l' = Some p" "lg_logBuilder l' = Some b"
    by (cases "st_objs (sg_heap t) a") auto
  with o assms(2, 3) show ?thesis by (auto simp: async_logger_def same_logging_def)
qed

text \<open>A call adds one item to the queue, and its line to the terminal if the logger has one.\<close>

lemma default_build_reads: "default_build env msg nl s = Some (Inr (line, t)) \<Longrightarrow> t = s"
  by (auto simp: default_build_def tables_at_def typed_at_def logger_at_def pbind_def obind_def plift_def deref_def preturn_def
      split: option.splits sum.splits)

lemma build_line_reads:
  assumes "async_logger (lm_logger msg) level f n c out s" "build_line env msg action s = Some (Inr (line, t))"
  shows "t = s"
proof -
  from assms(1) obtain l b where "st_objs (sg_heap s) (lm_logger msg) = Some l" "lg_logBuilder l = Some b"
      "bl_kind b = DefaultLogBuilder"
    by (auto simp: async_logger_def)
  with assms(2) default_build_reads show ?thesis
    by (fastforce simp: build_line_def logger_builder_def pbind_def logger_at_Some lb_build_def preturn_def)
qed

lemma async_stdout_line:
  assumes "async_logger (lm_logger msg) (lm_level msg) f n c out s"
    "async_stdout msg NormalLog line s = Some (Inr (line', t))"
  shows "t = s\<lparr>sg_stdout := sg_stdout s @ (if out then line' else [])\<rparr>"
proof -
  from assms(1) obtain l p ty b where o: "st_objs (sg_heap s) (lm_logger msg) = Some l"
      "lg_typedConfigurations l = Some p" "st_objs (sg_typed s) p = Some ty" "lg_logBuilder l = Some b"
    and out: "tc_toStandardOutput (lm_level msg) (to_tables ty) = out"
    by (auto simp: async_logger_def)
  have b: "logger_builder (lm_logger msg) s = Some (Inr (b, s))"
    using o by (simp add: logger_builder_def pbind_logger_at preturn_def)
  have "async_stdout msg NormalLog line s =
    (if \<not> out then Some (Inr (line, s))
     else let line' = if sg_hasFlag ColoredTerminalOutput s then convertToColoredOutput b line (lm_level msg) else line
          in Some (Inr (line', s\<lparr>sg_stdout := sg_stdout s @ line'\<rparr>)))"
    by (simp add: async_stdout_def Let_def pbind_tables_at [OF o(1-3)] out preturn_def pbind_assoc
        pbind_Inr [where m = "logger_builder (lm_logger msg)", OF b])
  with assms(2) show ?thesis by (auto simp: Let_def split: if_splits)
qed

lemma async_call:
  assumes l: "async_logger (lm_logger msg) (lm_level msg) f n c out (pr_storage p)" and e: "pr_elStorage p"
    and h: "async_handle env msg NormalLog p = Some (Inr ((), q))"
  shows "\<exists>line. q = p\<lparr>pr_storage := (pr_storage p)\<lparr>sg_stdout := sg_stdout (pr_storage p) @ (if out then line else [])\<rparr>,
      pr_queue := pr_queue p @ [\<lparr>ai_logMessage = msg, ai_dispatchAction = NormalLog, ai_logLine = line\<rparr>]\<rparr>"
proof -
  let ?s = "pr_storage p"
  from h obtain line line' s1 where
      b: "build_line env msg NormalLog ?s = Some (Inr (line, ?s))" and
      o: "async_stdout msg NormalLog line ?s = Some (Inr (line', s1))"
    using build_line_reads [OF l] async_stdout_line [OF l]
    by (fastforce simp: async_handle_def pbind_def on_storage_def obind_def split: option.splits sum.splits)
  from async_stdout_line [OF l o] have s1: "s1 = ?s\<lparr>sg_stdout := sg_stdout ?s @ (if out then line' else [])\<rparr>" .
  from l obtain lg t ty where t: "st_objs (sg_heap s1) (lm_logger msg) = Some lg" "lg_typedConfigurations lg = Some t"
      "st_objs (sg_typed s1) t = Some ty" "tc_toFile (lm_level msg) (to_tables ty)"
    by (auto simp: async_logger_def file_logger_def s1)
  have "tables_at (lm_logger msg) s1 = Some (Inr (to_tables ty, s1))" by (rule tables_at_Some [OF t(1-3)])
  with h e t(4) have "q = p\<lparr>pr_storage := s1,
      pr_queue := pr_queue p @ [\<lparr>ai_logMessage = msg, ai_dispatchAction = NormalLog, ai_logLine = line'\<rparr>]\<rparr>"
    by (simp add: async_handle_def pbind_def on_storage_def b o queue_push_def pmodify_def)
  with s1 show ?thesis by blast
qed

definition held :: "'f threads \<Rightarrow> async_log_item list" where
  "held t = (case th_held t of None \<Rightarrow> [] | Some item \<Rightarrow> [item])"

text \<open>The items of the calls so far, in the order in which they leave the queue.\<close>

definition accepted :: "'f threads \<Rightarrow> async_log_item list" where
  "accepted t = th_written t @ held t @ pr_queue (th_process t)"

definition async_state :: "'f environment \<Rightarrow> nat \<Rightarrow> level \<Rightarrow> string \<Rightarrow> nat \<Rightarrow> bool \<Rightarrow> 'f storage \<Rightarrow> 'f threads \<Rightarrow> bool" where
  "async_state env a level f n out s t \<longleftrightarrow>
     (let items = accepted t; u = pr_storage (th_process t) in
      pr_elStorage (th_process t) \<and> \<not> sg_hasFlag ImmediateFlush u \<and>
      async_logger a level f n (length (th_written t) mod n) out u \<and>
      map (\<lambda>i. (ai_logMessage i, ai_dispatchAction i)) items = th_calls t \<and>
      w_files (sg_world u) = files_with_flushes env f n 0 (map ai_logLine (th_written t)) (w_files (sg_world s)) \<and>
      sg_stdout u = sg_stdout s @ (if out then concat (map ai_logLine items) else []))"

lemma files_with_flushes_append:
  "files_with_flushes env f n k (xs @ [x]) files =
     (let files = snd (en_write env f x (files_with_flushes env f n k xs files))
      in if Suc (k + length xs) mod n = 0 then en_flush env f files else files)"
  by (induction xs arbitrary: k files) (simp_all add: Let_def)

lemma async_write:
  assumes l: "async_logger a level f n (c mod n) out s" and n: "0 < n" "n < 2 ^ 32"
    and nf: "\<not> sg_hasFlag ImmediateFlush s" and writes: "\<And>line files. \<not> fst (en_write env f line files)"
    and m: "lm_logger msg = a" "lm_level msg = level"
  shows "\<exists>t. dispatch_file env msg line s = Some (Inr ((), t)) \<and> async_logger a level f n (Suc c mod n) out t \<and>
    same_logging s t \<and> w_files (sg_world t) = (let files = snd (en_write env f line (w_files (sg_world s)))
       in if Suc c mod n = 0 then en_flush env f files else files)"
proof -
  from l m have "file_logger (lm_logger msg) (lm_level msg) f n (c mod n) s" by (simp add: async_logger_def)
  from dispatch_file_line [OF this _ n(2) nf writes] n(1) m obtain t where
    t: "dispatch_file env msg line s = Some (Inr ((), t))" "file_logger a level f n (Suc c mod n) t" "same_logging s t"
      "w_files (sg_world t) = (let files = snd (en_write env f line (w_files (sg_world s)))
         in if Suc c mod n = 0 then en_flush env f files else files)"
    by (auto simp: mod_Suc_eq)
  with async_logger_same [OF l t(2, 3)] show ?thesis by blast
qed

lemma worker_writes:
  assumes "async_logger (lm_logger (ai_logMessage item)) level f n c out (pr_storage p)" "ai_dispatchAction item = NormalLog"
    "dispatch_file env (ai_logMessage item) (ai_logLine item) (pr_storage p) = Some (Inr ((), s))"
  shows "worker_handle env item p = Some (Inr ((), p\<lparr>pr_storage := s\<rparr>))"
  using assms by (auto simp: async_logger_def worker_handle_def pbind_def on_storage_def logger_at_Some)

lemma async_step_state:
  assumes st: "async_state env a level f n out s t" and step: "async_step env t u" and n: "0 < n" "n < 2 ^ 32"
    and calls: "\<forall>(msg, action) \<in> set (th_calls u). lm_logger msg = a \<and> lm_level msg = level \<and> action = NormalLog"
    and writes: "\<And>line files. \<not> fst (en_write env f line files)"
  shows "async_state env a level f n out s u"
  using step
proof (cases rule: async_step.cases)
  case (log_call msg action q)
  with calls have m: "lm_logger msg = a" "lm_level msg = level" "action = NormalLog" by auto
  from st m have "async_logger (lm_logger msg) (lm_level msg) f n (length (th_written t) mod n) out (pr_storage (th_process t))"
      "pr_elStorage (th_process t)"
    by (simp_all add: async_state_def Let_def)
  from async_call [OF this, of env q] log_call m obtain line where
    "q = (th_process t)\<lparr>pr_storage := (pr_storage (th_process t))\<lparr>sg_stdout :=
        sg_stdout (pr_storage (th_process t)) @ (if out then line else [])\<rparr>,
      pr_queue := pr_queue (th_process t) @ [\<lparr>ai_logMessage = msg, ai_dispatchAction = NormalLog, ai_logLine = line\<rparr>]\<rparr>"
    by blast
  with st log_call m show ?thesis
    by (auto simp: async_state_def Let_def accepted_def held_def sg_hasFlag_def async_logger_def file_logger_def)
next
  case (take_item item q)
  then show ?thesis
    using st by (auto simp: async_state_def Let_def accepted_def held_def queue_next_eq split: list.splits)
next
  case (write_item item q)
  let ?p = "th_process t" and ?c = "length (th_written t)"
  have l: "async_logger a level f n (?c mod n) out (pr_storage ?p)" and nf: "\<not> sg_hasFlag ImmediateFlush (pr_storage ?p)"
    and c: "th_calls u = map (\<lambda>i. (ai_logMessage i, ai_dispatchAction i)) (accepted t)" "item \<in> set (accepted t)"
    using st write_item by (simp_all add: async_state_def Let_def accepted_def held_def)
  then have "(\<lambda>i. (ai_logMessage i, ai_dispatchAction i)) item \<in> set (th_calls u)" by (simp only: set_map) (rule image_eqI [where x = item], simp_all)
  with calls have m: "lm_logger (ai_logMessage item) = a" "lm_level (ai_logMessage item) = level"
      "ai_dispatchAction item = NormalLog"
    by auto
  from async_write [OF l n nf writes m(1, 2)] obtain s' where
    s': "dispatch_file env (ai_logMessage item) (ai_logLine item) (pr_storage ?p) = Some (Inr ((), s'))"
      "async_logger a level f n (Suc ?c mod n) out s'" "same_logging (pr_storage ?p) s'"
      "w_files (sg_world s') = (let files = snd (en_write env f (ai_logLine item) (w_files (sg_world (pr_storage ?p))))
         in if Suc ?c mod n = 0 then en_flush env f files else files)"
    by blast
  from worker_writes [OF _ m(3) s'(1)] l m(1) write_item have "q = ?p\<lparr>pr_storage := s'\<rparr>" by auto
  with st write_item s'(2-4) show ?thesis
    by (simp add: async_state_def Let_def accepted_def held_def same_logging_def sg_hasFlag_def files_with_flushes_append)
qed

lemma async_calls_grow: "async_step env t u \<Longrightarrow> set (th_calls t) \<subseteq> set (th_calls u)"
  by (erule async_stepE) auto

lemma async_reaches_state:
  assumes "async_reaches env p t" and "async_logger a level f n 0 out (pr_storage p)" and n: "0 < n" "n < 2 ^ 32"
    and "\<not> sg_hasFlag ImmediateFlush (pr_storage p)" and w: "\<And>line files. \<not> fst (en_write env f line files)"
    and "\<forall>(msg, action) \<in> set (th_calls t). lm_logger msg = a \<and> lm_level msg = level \<and> action = NormalLog"
  shows "async_state env a level f n out (pr_storage p) t"
  using assms(1, 7)
proof induction
  case start
  with assms(2, 5) show ?case by (simp add: async_state_def Let_def accepted_def held_def)
next
  case (step t u)
  have "async_state env a level f n out (pr_storage p) t"
    by (rule step.IH) (use step.prems async_calls_grow [OF step.hyps(2)] in blast)
  from async_step_state [OF this step.hyps(2) n step.prems w] show ?case .
qed

text \<open>
  C24. Whatever the interleaving of the program and the worker, the log calls of a level of a
  logger keep their order: the items written, the one the worker holds and those in the queue
  are together the calls so far, none lost and none twice. The file has the lines written in
  that order, flushed in the rhythm of the threshold. A logger that also writes to the terminal
  has printed the lines of all the calls already, and they are the very lines of the items: the
  colour codes of the terminal reach the file.
\<close>

theorem async_lines_in_order:
  assumes "async_reaches env p t" and "async_logger a level f n 0 out (pr_storage p)" and "0 < n" and "n < 2 ^ 32"
    and "\<not> sg_hasFlag ImmediateFlush (pr_storage p)" and "\<And>line files. \<not> fst (en_write env f line files)"
    and "\<forall>(msg, action) \<in> set (th_calls t). lm_logger msg = a \<and> lm_level msg = level \<and> action = NormalLog"
  defines "items \<equiv> accepted t" and "s \<equiv> pr_storage (th_process t)"
  shows "map (\<lambda>i. (ai_logMessage i, ai_dispatchAction i)) items = th_calls t \<and>
    w_files (sg_world s) = files_with_flushes env f n 0 (map ai_logLine (th_written t)) (w_files (sg_world (pr_storage p))) \<and>
    sg_stdout s = sg_stdout (pr_storage p) @ (if out then concat (map ai_logLine items) else [])"
  using async_reaches_state [OF assms(1-7)] by (simp add: async_state_def Let_def items_def s_def)

text \<open>
  Two calls on a logger that writes to a file, flushed after two lines, and in colour to the
  terminal; the worker has written the first line.
\<close>

definition async_tables :: typed_configurations where
  "async_tables = file_tables\<lparr>tc_toStandardOutputMap := [(Level_Global, True)],
     tc_logFormatMap := [(Level_Global, example_format)]\<rparr>"

definition example_process :: "string list process" where
  "example_process = \<lparr>pr_storage = (trace_storage async_tables)\<lparr>sg_flags := 64\<rparr>, pr_queue = [],
     pr_continueRunning = True, pr_syslog = [], pr_elStorage = True\<rparr>"

definition hello_message :: log_message where
  "hello_message = message_of Level_Info ''main.cpp'' 7 ''main'' 0 0 ''hello''"

definition hello_item :: async_log_item where
  "hello_item = \<lparr>ai_logMessage = hello_message, ai_dispatchAction = NormalLog,
     ai_logLine = colored ''[36m'' (''INFO hello'' @ [CHR 0x0A])\<rparr>"

lemma example_tables:
  "tc_toFile Level_Info async_tables" "tc_fileStream Level_Info async_tables = Inr (Some ''log'')"
  "tc_logFlushThreshold Level_Info async_tables = 2" "tc_maxLogFileSize Level_Info async_tables = 0"
  "tc_toStandardOutput Level_Info async_tables" "tc_logFormat Level_Info async_tables = Inr example_format"
  by (simp_all add: async_tables_def file_tables_def no_typed_def tc_toFile_def tc_fileStream_def tc_logFormat_def
      tc_logFlushThreshold_def tc_maxLogFileSize_def tc_toStandardOutput_def getConfigByVal_def getConfigByRef_def
      unsafeGetConfigByVal_def unsafeGetConfigByRef_def)

lemma example_async_logger: "async_logger 0 Level_Info ''log'' 2 0 True (pr_storage example_process)"
  by (simp add: async_logger_def example_process_def file_logger_def trace_storage_def example_tables Logger_unflushed
      proper_levels_def)

lemma example_call:
  fixes q :: "async_log_item list" and o' :: string
  defines "after \<equiv> \<lambda>o' q. example_process\<lparr>pr_storage := (pr_storage example_process)\<lparr>sg_stdout := o'\<rparr>, pr_queue := q\<rparr>"
  shows "async_handle trace_env hello_message NormalLog (after o' q) =
    Some (Inr ((), after (o' @ ai_logLine hello_item) (q @ [hello_item])))"
proof -
  let ?s = "(pr_storage example_process)\<lparr>sg_stdout := o'\<rparr>" and ?line = "''INFO hello'' @ [CHR 0x0A]"
  let ?b = "\<lparr>bl_kind = DefaultLogBuilder, bl_termSupportsColor = True\<rparr>"
  have l: "st_objs (sg_heap ?s) 0 = Some (example_logger 0)" "lg_typedConfigurations (example_logger 0) = Some 0"
    "st_objs (sg_typed ?s) 0 = Some \<lparr>to_tables = async_tables, to_owner = 0\<rparr>" "sg_threadNames ?s = []"
    "sg_customFormatSpecifiers ?s = []" "lg_parentApplicationName (example_logger 0) = []"
    "lg_logBuilder (example_logger 0) = Some ?b"
    by (simp_all add: example_process_def trace_storage_def empty_storage_def example_logger_def Logger_def
        initUnflushedCount_def)
  have m: "lm_logger hello_message = 0" "lm_level hello_message = Level_Info"
    by (simp_all add: hello_message_def message_of_def)
  have b: "logger_builder 0 ?s = Some (Inr (?b, ?s))" by (simp add: logger_builder_def pbind_logger_at [OF l(1)] l(7) preturn_def)
  have r: "build_from example_format [] [] d [] hello_message True = Inr ?line" for d
    unfolding hello_message_def by (rule printed_example(1))
  have "default_build trace_env hello_message True ?s = Some (Inr (?line, ?s))"
    by (simp add: default_build_def m pbind_tables_at [OF l(1-3)] pbind_logger_at [OF l(1)] r [simplified]
        example_tables l(4-6) sg_getThreadName_def getCurrentThreadId_def plift_def)
  then have line: "build_line trace_env hello_message NormalLog ?s = Some (Inr (?line, ?s))"
    by (simp add: build_line_def m lb_build_def pbind_Inr [where m = "logger_builder 0", OF b])
  have "sg_hasFlag ColoredTerminalOutput ?s"
    by (simp add: example_process_def sg_hasFlag_def hasFlag_def bitwise_And_def)
  then have "async_stdout hello_message NormalLog ?line ?s =
    Some (Inr (ai_logLine hello_item, ?s\<lparr>sg_stdout := o' @ ai_logLine hello_item\<rparr>))"
    by (simp add: async_stdout_def m Let_def pbind_tables_at [OF l(1-3)] example_tables preturn_def pbind_assoc
        pbind_Inr [where m = "logger_builder 0", OF b] convertToColoredOutput_def hello_item_def)
  moreover have "tables_at 0 (?s\<lparr>sg_stdout := u\<rparr>) = Some (Inr (async_tables, ?s\<lparr>sg_stdout := u\<rparr>))" for u
    using tables_at_Some [of "?s\<lparr>sg_stdout := u\<rparr>" 0 "example_logger 0" 0 "\<lparr>to_tables = async_tables, to_owner = 0\<rparr>"]
      l(1-3) by simp
  ultimately show ?thesis
    using line by (simp add: async_handle_def after_def m pbind_def on_storage_def example_tables example_process_def
        queue_push_def pmodify_def hello_item_def)
qed

lemma example_run:
  "\<exists>t. async_reaches trace_env example_process t \<and>
     th_calls t = [(hello_message, NormalLog), (hello_message, NormalLog)] \<and> th_written t = [hello_item]"
proof -
  let ?after = "\<lambda>o' q. example_process\<lparr>pr_storage := (pr_storage example_process)\<lparr>sg_stdout := o'\<rparr>, pr_queue := q\<rparr>"
  let ?c = "(hello_message, NormalLog)" and ?line = "ai_logLine hello_item"
  let ?t = "\<lambda>p h cs ws. \<lparr>th_process = p, th_held = h, th_calls = cs, th_written = ws\<rparr>"
  have p: "example_process = ?after [] []"
    by (simp add: example_process_def trace_storage_def empty_storage_def)
  have 0: "async_reaches trace_env example_process (?t (?after [] []) None [] [])"
    using start [of example_process trace_env] p by (simp add: example_process_def)
  have call: "async_step trace_env (?t (?after o' q) h cs ws) (?t (?after (o' @ ?line) (q @ [hello_item])) h (cs @ [?c]) ws)"
    for o' q h cs ws
    using log_call [of trace_env hello_message NormalLog "?t (?after o' q) h cs ws"] example_call [where o' = o' and q = q] by simp
  have 1: "async_reaches trace_env example_process (?t (?after ?line [hello_item]) None [?c] [])"
    using step [OF 0 call] by simp
  have 2: "async_reaches trace_env example_process (?t (?after (?line @ ?line) [hello_item, hello_item]) None [?c, ?c] [])"
    using step [OF 1 call] by simp
  let ?p = "?after (?line @ ?line) [hello_item]"
  have "with_ELPP queue_next (?after (?line @ ?line) [hello_item, hello_item]) = Some (Inr (hello_item, ?p))"
    by (simp add: queue_next_eq with_ELPP_def example_process_def)
  then have "async_step trace_env (?t (?after (?line @ ?line) [hello_item, hello_item]) None [?c, ?c] [])
      (?t ?p (Some hello_item) [?c, ?c] [])"
    using take_item [of "?t (?after (?line @ ?line) [hello_item, hello_item]) None [?c, ?c] []" hello_item ?p trace_env] by simp
  with 2 have 3: "async_reaches trace_env example_process (?t ?p (Some hello_item) [?c, ?c] [])" by (rule step)
  have l: "async_logger 0 Level_Info ''log'' 2 (0 mod 2) True (pr_storage ?p)"
    using example_async_logger by (simp add: async_logger_def file_logger_def)
  from async_write [OF l, of trace_env hello_message "ai_logLine hello_item"] obtain s where
    "dispatch_file trace_env hello_message (ai_logLine hello_item) (pr_storage ?p) = Some (Inr ((), s))"
    by (auto simp: example_process_def sg_hasFlag_def hasFlag_def bitwise_And_def trace_env_def hello_message_def
        message_of_def)
  with l have "worker_handle trace_env hello_item ?p = Some (Inr ((), ?p\<lparr>pr_storage := s\<rparr>))"
    by (intro worker_writes) (simp_all add: hello_item_def, simp add: hello_message_def message_of_def)
  then have "async_step trace_env (?t ?p (Some hello_item) [?c, ?c] []) (?t (?p\<lparr>pr_storage := s\<rparr>) None [?c, ?c] [hello_item])"
    using write_item [of "?t ?p (Some hello_item) [?c, ?c] []" hello_item trace_env "?p\<lparr>pr_storage := s\<rparr>"] by simp
  from step [OF 3 this] show ?thesis by (meson threads.select_convs(3,4))
qed

theorem async_lines_in_order_witness:
  "\<exists>t. async_reaches trace_env example_process t \<and> length (th_calls t) = 2 \<and>
     w_files (sg_world (pr_storage (th_process t))) = [ai_logLine hello_item] \<and>
     ai_logMessage (accepted t ! 1) = hello_message \<and>
     take 5 (sg_stdout (pr_storage (th_process t))) = CHR 0x1B # ''[36m''"
proof -
  obtain t where t: "async_reaches trace_env example_process t" "th_written t = [hello_item]"
      "th_calls t = [(hello_message, NormalLog), (hello_message, NormalLog)]"
    using example_run by blast
  have i: "\<not> sg_hasFlag ImmediateFlush (pr_storage example_process)" "w_files (sg_world (pr_storage example_process)) = []"
    "sg_stdout (pr_storage example_process) = []" "\<And>line files. \<not> fst (en_write trace_env f line files)" for f
    by (simp_all add: example_process_def trace_storage_def empty_storage_def sg_hasFlag_def hasFlag_def bitwise_And_def
        trace_env_def)
  have calls: "\<forall>(msg, action) \<in> set (th_calls t). lm_logger msg = 0 \<and> lm_level msg = Level_Info \<and> action = NormalLog"
    by (simp add: t(3) hello_message_def message_of_def)
  note r = async_lines_in_order [OF t(1) example_async_logger _ _ i(1) i(4) calls]
  then have m: "map (\<lambda>i. (ai_logMessage i, ai_dispatchAction i)) (accepted t) = [(hello_message, NormalLog), (hello_message, NormalLog)]"
    by (simp add: t(3))
  then obtain item' item where "accepted t = [item', item]" "ai_logMessage item = hello_message"
    by (auto simp: map_eq_Cons_conv)
  with t(2) have items: "accepted t = [hello_item, item]" "ai_logMessage item = hello_message"
    by (simp_all add: accepted_def)
  have "w_files (sg_world (pr_storage (th_process t))) = [ai_logLine hello_item]"
    "take 5 (sg_stdout (pr_storage (th_process t))) = CHR 0x1B # ''[36m''"
    using r by (simp_all add: t(2) i(2, 3) items(1) trace_env_def) (simp add: hello_item_def colored_def)
  with t items show ?thesis by auto
qed

end
