(* ===== verification/Elpp_Locks.thy ===== *)
theory Elpp_Locks imports Elpp_Writer Elpp_Build "HOL-Library.Sublist" begin

text \<open>
  The locks of the logging library (namespace \<open>threading\<close>), and what they do for threads that
  log to one logger: the stream of the logger is shared, a log call holds the lock of the logger
  from its first write to the stream until its line is out.
\<close>

section \<open>Mutexes\<close>

text \<open>
  \<open>Mutex\<close> over a recursive mutex of POSIX: the thread that locked it last and how often it
  still holds it. To lock a mutex another thread holds is to wait, which is \<open>None\<close>; to unlock it
  is an error that is not looked at.
\<close>

type_synonym thread_id = nat

record mutex =
  mx_owner :: thread_id
  mx_count :: nat

definition Mutex :: mutex where
  "Mutex = \<lparr>mx_owner = 0, mx_count = 0\<rparr>"

definition mx_lock :: "thread_id \<Rightarrow> mutex \<Rightarrow> mutex option" where
  "mx_lock t m =
     (if mx_count m = 0 \<or> mx_owner m = t then Some \<lparr>mx_owner = t, mx_count = Suc (mx_count m)\<rparr>
      else None)"

definition mx_try_lock :: "thread_id \<Rightarrow> mutex \<Rightarrow> bool \<times> mutex" where
  "mx_try_lock t m = (case mx_lock t m of None \<Rightarrow> (False, m) | Some m' \<Rightarrow> (True, m'))"

definition mx_unlock :: "thread_id \<Rightarrow> mutex \<Rightarrow> mutex" where
  "mx_unlock t m =
     (if mx_owner m = t then m\<lparr>mx_count := mx_count m - 1\<rparr> else m)"

text \<open>The mutex of a build without threads.\<close>

definition NoMutex_lock :: "mutex \<Rightarrow> mutex" where
  "NoMutex_lock m = m"

definition NoMutex_try_lock :: "mutex \<Rightarrow> bool" where
  "NoMutex_try_lock m = True"

definition NoMutex_unlock :: "mutex \<Rightarrow> mutex" where
  "NoMutex_unlock m = m"

text \<open>\<open>ThreadSafe\<close>, the base of loggers and registries, has one or the other.\<close>

definition acquireLock :: "macros \<Rightarrow> thread_id \<Rightarrow> mutex \<Rightarrow> mutex option" where
  "acquireLock m t x = (if ELPP_THREADING_ENABLED m then mx_lock t x else Some (NoMutex_lock x))"

definition releaseLock :: "macros \<Rightarrow> thread_id \<Rightarrow> mutex \<Rightarrow> mutex" where
  "releaseLock m t x = (if ELPP_THREADING_ENABLED m then mx_unlock t x else NoMutex_unlock x)"

text \<open>A block with a \<open>ScopedLock\<close>: the mutex is locked, and unlocked when the block is left.\<close>

definition ScopedLock ::
  "macros \<Rightarrow> thread_id \<Rightarrow> (mutex \<times> 's \<Rightarrow> (mutex \<times> 's) option) \<Rightarrow> mutex \<times> 's \<Rightarrow> (mutex \<times> 's) option" where
  "ScopedLock m t block = (\<lambda>(x, s).
     case acquireLock m t x of
       None \<Rightarrow> None
     | Some x \<Rightarrow> map_option (apfst (releaseLock m t)) (block (x, s)))"

definition getCurrentThreadId_text :: "macros \<Rightarrow> bool \<Rightarrow> (thread_id \<Rightarrow> string) \<Rightarrow> thread_id \<Rightarrow> string" where
  "getCurrentThreadId_text m has_thread show_id t =
     (if ELPP_THREADING_ENABLED m \<and> ELPP_USE_STD_THREADING has_thread m then show_id t else [])"

subsection \<open>The locks of the files\<close>

text \<open>
  A callback keeps a mutex for each file it was given a line for, and one for the table of them;
  the callback of the library writes while it holds the mutex of the file. A build without
  \<open>ELPP_THREAD_SAFE\<close> locks nothing. Building and writing the line is the \<open>block\<close>.
\<close>

record callback_locks =
  cl_fileLocksMapLock :: mutex
  cl_fileLocks :: "string \<rightharpoonup> mutex"

definition new_file_lock :: "string \<Rightarrow> (string \<rightharpoonup> mutex) \<Rightarrow> (string \<rightharpoonup> mutex)" where
  "new_file_lock filename fileLocks =
     (if fileLocks filename = None then fileLocks(filename \<mapsto> Mutex) else fileLocks)"

definition callback_handle :: "macros \<Rightarrow> thread_id \<Rightarrow> string \<Rightarrow> callback_locks \<Rightarrow> callback_locks option" where
  "callback_handle m t filename c =
     (if macro_defined m ''ELPP_THREAD_SAFE'' then
        (case ScopedLock m t (\<lambda>(x, fileLocks). Some (x, new_file_lock filename fileLocks))
            (cl_fileLocksMapLock c, cl_fileLocks c) of
           None \<Rightarrow> None
         | Some (x, fileLocks) \<Rightarrow> Some \<lparr>cl_fileLocksMapLock = x, cl_fileLocks = fileLocks\<rparr>)
      else Some c)"

definition fileHandle :: "string \<Rightarrow> callback_locks \<Rightarrow> mutex option" where
  "fileHandle filename c = cl_fileLocks c filename"

definition locked_handle ::
  "macros \<Rightarrow> thread_id \<Rightarrow> string \<Rightarrow> ('s \<Rightarrow> 's) \<Rightarrow> callback_locks \<times> 's \<Rightarrow> (callback_locks \<times> 's) option" where
  "locked_handle m t filename block = (\<lambda>(c, s).
     if macro_defined m ''ELPP_THREAD_SAFE'' then
       (case callback_handle m t filename c of
          None \<Rightarrow> None
        | Some c \<Rightarrow>
            (case fileHandle filename c of
               None \<Rightarrow> None
             | Some file \<Rightarrow>
                 (case ScopedLock m t (\<lambda>(x, s). Some (x, block s)) (file, s) of
                    None \<Rightarrow> None
                  | Some (file, s) \<Rightarrow> Some (c\<lparr>cl_fileLocks := (cl_fileLocks c)(filename \<mapsto> file)\<rparr>, s))))
     else Some (c, block s))"

section \<open>Log calls of a thread\<close>

text \<open>
  What a log call does with the lock and the stream of its logger, step by step. \<open>Dispatch_line\<close>
  makes the message of what the stream holds and dispatches it.
\<close>

datatype log_action = Acquire_lock | Write_stream string | Dispatch_line | Clear_stream | Release_lock

text \<open>
  The end of every call in \<open>processDispatch\<close>, \<open>triggerDispatch\<close> and, for a level that is not
  allowed to be logged, \<open>log_\<close>. \<open>enabled\<close> says whether the level of the call is logged; a fatal
  level is not considered here, and neither is the flag for spacing.
\<close>

definition trigger_actions :: "bool \<Rightarrow> log_action list" where
  "trigger_actions enabled = (if enabled then [Dispatch_line] else []) @ [Clear_stream, Release_lock]"

text \<open>The loop of \<open>log_\<close>, with the rest of the format logged as it stands when no value is left.\<close>

fun format_actions :: "bool \<Rightarrow> string \<Rightarrow> string list \<Rightarrow> log_action list" where
  "format_actions enabled s [] = (if enabled then [Write_stream s] else []) @ trigger_actions enabled"
| "format_actions enabled [] (v # vs) = []"
| "format_actions enabled [c] (v # vs) = [Write_stream [c]]"
| "format_actions enabled (c # d # s) (v # vs) =
     (if c = CHR ''%'' \<and> d = CHR ''%'' then Write_stream [d] # format_actions enabled s (v # vs)
      else if c = CHR ''%'' \<and> d = CHR ''v'' then Write_stream v # format_actions enabled s vs
      else Write_stream [c] # format_actions enabled (d # s) (v # vs))"

text \<open>A call of a function of the logger, and a statement \<open>LOG(...) << p << q\<close>.\<close>

datatype log_call = Log_format bool string "string list" | Log_statement bool "string list"

fun call_actions :: "log_call \<Rightarrow> log_action list" where
  "call_actions (Log_format enabled s vs) = Acquire_lock # format_actions enabled s vs"
| "call_actions (Log_statement enabled parts) =
     Acquire_lock # (if enabled then map Write_stream parts else []) @ trigger_actions enabled"

section \<open>Threads\<close>

record 'm logging =
  lt_mutex :: 'm
  lt_stream :: string
  lt_lines :: "(thread_id \<times> string) list"
  lt_todo :: "thread_id \<Rightarrow> log_action list"

definition start_logging :: "'m \<Rightarrow> (thread_id \<Rightarrow> log_call list) \<Rightarrow> 'm logging" where
  "start_logging m calls =
     \<lparr>lt_mutex = m, lt_stream = [], lt_lines = [], lt_todo = (\<lambda>t. concat (map call_actions (calls t)))\<rparr>"

text \<open>One action of one thread.\<close>

inductive log_step ::
  "(thread_id \<Rightarrow> 'm \<Rightarrow> 'm option) \<Rightarrow> (thread_id \<Rightarrow> 'm \<Rightarrow> 'm) \<Rightarrow> thread_id \<Rightarrow> 'm logging \<Rightarrow> 'm logging \<Rightarrow> bool"
  for acquire release where
  acquire: "lt_todo s t = Acquire_lock # as \<Longrightarrow> acquire t (lt_mutex s) = Some m \<Longrightarrow>
     log_step acquire release t s (s\<lparr>lt_mutex := m, lt_todo := (lt_todo s)(t := as)\<rparr>)"
| stream: "lt_todo s t = Write_stream x # as \<Longrightarrow>
     log_step acquire release t s (s\<lparr>lt_stream := lt_stream s @ x, lt_todo := (lt_todo s)(t := as)\<rparr>)"
| dispatch: "lt_todo s t = Dispatch_line # as \<Longrightarrow>
     log_step acquire release t s (s\<lparr>lt_lines := lt_lines s @ [(t, lt_stream s)], lt_todo := (lt_todo s)(t := as)\<rparr>)"
| clear: "lt_todo s t = Clear_stream # as \<Longrightarrow>
     log_step acquire release t s (s\<lparr>lt_stream := [], lt_todo := (lt_todo s)(t := as)\<rparr>)"
| release: "lt_todo s t = Release_lock # as \<Longrightarrow>
     log_step acquire release t s (s\<lparr>lt_mutex := release t (lt_mutex s), lt_todo := (lt_todo s)(t := as)\<rparr>)"

inductive log_reaches ::
  "(thread_id \<Rightarrow> 'm \<Rightarrow> 'm option) \<Rightarrow> (thread_id \<Rightarrow> 'm \<Rightarrow> 'm) \<Rightarrow> 'm logging \<Rightarrow> 'm logging \<Rightarrow> bool"
  for acquire release s where
  start: "log_reaches acquire release s s"
| step: "log_reaches acquire release s u \<Longrightarrow> log_step acquire release t u v \<Longrightarrow> log_reaches acquire release s v"

definition lines_of :: "thread_id \<Rightarrow> 'm logging \<Rightarrow> string list" where
  "lines_of t s = map snd (filter (\<lambda>(u, _). u = t) (lt_lines s))"

text \<open>The line a call should give, if it gives one, and whether it has a place for each value.\<close>

fun call_lines :: "log_call \<Rightarrow> string list" where
  "call_lines (Log_format enabled s vs) = (if enabled then [fst (expand s vs)] else [])"
| "call_lines (Log_statement enabled parts) = (if enabled then [concat parts] else [])"

fun places_suffice :: "log_call \<Rightarrow> bool" where
  "places_suffice (Log_format enabled s vs) \<longleftrightarrow> snd (expand s vs)"
| "places_suffice (Log_statement enabled parts) \<longleftrightarrow> True"

text \<open>The same as a function, and the steps of a given schedule of the threads.\<close>

definition next_action ::
  "(thread_id \<Rightarrow> 'm \<Rightarrow> 'm option) \<Rightarrow> (thread_id \<Rightarrow> 'm \<Rightarrow> 'm) \<Rightarrow> thread_id \<Rightarrow> 'm logging \<Rightarrow> 'm logging option" where
  "next_action acquire release t s =
     (case lt_todo s t of
        [] \<Rightarrow> None
      | a # as \<Rightarrow>
          (let todo = (lt_todo s)(t := as)
           in case a of
                Acquire_lock \<Rightarrow> map_option (\<lambda>m. s\<lparr>lt_mutex := m, lt_todo := todo\<rparr>) (acquire t (lt_mutex s))
              | Write_stream x \<Rightarrow> Some (s\<lparr>lt_stream := lt_stream s @ x, lt_todo := todo\<rparr>)
              | Dispatch_line \<Rightarrow> Some (s\<lparr>lt_lines := lt_lines s @ [(t, lt_stream s)], lt_todo := todo\<rparr>)
              | Clear_stream \<Rightarrow> Some (s\<lparr>lt_stream := [], lt_todo := todo\<rparr>)
              | Release_lock \<Rightarrow> Some (s\<lparr>lt_mutex := release t (lt_mutex s), lt_todo := todo\<rparr>)))"

fun run_schedule ::
  "(thread_id \<Rightarrow> 'm \<Rightarrow> 'm option) \<Rightarrow> (thread_id \<Rightarrow> 'm \<Rightarrow> 'm) \<Rightarrow> thread_id list \<Rightarrow> 'm logging \<Rightarrow> 'm logging option" where
  "run_schedule acquire release [] s = Some s"
| "run_schedule acquire release (t # ts) s =
     (case next_action acquire release t s of None \<Rightarrow> None | Some u \<Rightarrow> run_schedule acquire release ts u)"

section \<open>Facts\<close>

lemma next_action_step: "next_action acquire release t s = Some u \<longleftrightarrow> log_step acquire release t s u"
proof
  show "next_action acquire release t s = Some u \<Longrightarrow> log_step acquire release t s u"
    by (auto simp: next_action_def Let_def split: list.splits log_action.splits
        simp del: logging.update_convs intro: log_step.intros)
  show "log_step acquire release t s u \<Longrightarrow> next_action acquire release t s = Some u"
    by (cases rule: log_step.cases) (auto simp: next_action_def)
qed

lemma schedule_reaches:
  "run_schedule acquire release ts u = Some v \<Longrightarrow> log_reaches acquire release s u \<Longrightarrow> log_reaches acquire release s v"
  by (induction ts arbitrary: u) (auto simp: next_action_step intro: log_reaches.step split: option.splits)

lemma scheduled:
  assumes "map_option f (run_schedule acquire release ts s) = Some x"
  shows "\<exists>u. log_reaches acquire release s u \<and> f u = x"
proof -
  from assms obtain u where "run_schedule acquire release ts s = Some u" "f u = x"
    by (cases "run_schedule acquire release ts s") auto
  with schedule_reaches [OF _ log_reaches.start] show ?thesis by blast
qed

subsection \<open>One thread\<close>

text \<open>The lines the actions give when they run alone, from the stream \<open>u\<close>.\<close>

fun written :: "string \<Rightarrow> log_action list \<Rightarrow> string list" where
  "written u [] = []"
| "written u (Write_stream x # as) = written (u @ x) as"
| "written u (Dispatch_line # as) = u # written u as"
| "written u (Clear_stream # as) = written [] as"
| "written u (Acquire_lock # as) = written u as"
| "written u (Release_lock # as) = written u as"

text \<open>
  Whether the actions use the stream only while they hold the lock, release it with the stream
  cleared, and end with the lock as \<open>leaves\<close> says. \<open>holds\<close> and \<open>clean\<close> are the lock and the
  stream before them.
\<close>

fun bracketed :: "bool \<Rightarrow> bool \<Rightarrow> bool \<Rightarrow> log_action list \<Rightarrow> bool" where
  "bracketed leaves holds clean [] \<longleftrightarrow> holds = leaves"
| "bracketed leaves holds clean (Acquire_lock # as) \<longleftrightarrow> \<not> holds \<and> bracketed leaves True False as"
| "bracketed leaves holds clean (Write_stream x # as) \<longleftrightarrow> holds \<and> bracketed leaves True False as"
| "bracketed leaves holds clean (Dispatch_line # as) \<longleftrightarrow> holds \<and> bracketed leaves True clean as"
| "bracketed leaves holds clean (Clear_stream # as) \<longleftrightarrow> holds \<and> bracketed leaves True True as"
| "bracketed leaves holds clean (Release_lock # as) \<longleftrightarrow> holds \<and> clean \<and> bracketed leaves False False as"

lemma bracketed_streams:
  "bracketed leaves True clean (map Write_stream parts @ as) \<longleftrightarrow>
    bracketed leaves True (clean \<and> parts = []) as"
  by (induction parts arbitrary: clean) simp_all

lemma written_streams: "written u (map Write_stream parts @ as) = written (u @ concat parts) as"
  by (induction parts arbitrary: u) simp_all

lemma format_actions_bracketed:
  assumes "snd (expand s vs)"
  shows "bracketed leaves True clean (format_actions enabled s vs @ as) \<longleftrightarrow> bracketed leaves False False as"
  using assms
  by (induction s vs arbitrary: clean rule: expand.induct) (auto simp: trigger_actions_def split: if_splits)

lemma format_actions_surplus:
  assumes "\<not> snd (expand s vs)"
  shows "\<exists>clean'. bracketed leaves True clean (format_actions enabled s vs @ as) \<longleftrightarrow> bracketed leaves True clean' as"
  using assms by (induction s vs arbitrary: clean rule: expand.induct) (auto split: if_splits)

lemma format_actions_written:
  assumes "snd (expand s vs)"
  shows "written u (format_actions enabled s vs @ as) = (if enabled then [u @ fst (expand s vs)] else []) @ written [] as"
  using assms
  by (induction s vs arbitrary: u rule: expand.induct) (auto simp: trigger_actions_def split: if_splits)

lemma call_bracketed:
  "places_suffice c \<Longrightarrow> bracketed leaves False clean (call_actions c @ as) \<longleftrightarrow> bracketed leaves False False as"
  by (cases c) (simp_all add: format_actions_bracketed bracketed_streams trigger_actions_def)

lemma call_written: "places_suffice c \<Longrightarrow> written [] (call_actions c @ as) = call_lines c @ written [] as"
  by (cases c) (simp_all add: format_actions_written written_streams trigger_actions_def)

lemma calls_bracketed:
  "\<forall>c \<in> set cs. places_suffice c \<Longrightarrow>
    bracketed leaves False False (concat (map call_actions cs) @ as) \<longleftrightarrow> bracketed leaves False False as"
  by (induction cs) (simp_all add: call_bracketed)

lemma calls_written:
  "\<forall>c \<in> set cs. places_suffice c \<Longrightarrow>
    written [] (concat (map call_actions cs) @ as) = concat (map call_lines cs) @ written [] as"
  by (induction cs) (simp_all add: call_written)

lemma surplus_call_bracketed: "\<not> places_suffice c \<Longrightarrow> bracketed True False clean (call_actions c)"
  using format_actions_surplus [where as = "[]"] by (cases c) auto

subsection \<open>Threads under a lock\<close>

text \<open>What the threads need of the lock. \<open>depth\<close> is how often a thread holds it.\<close>

locale mutual_exclusion =
  fixes acquire :: "thread_id \<Rightarrow> 'm \<Rightarrow> 'm option" and release :: "thread_id \<Rightarrow> 'm \<Rightarrow> 'm"
    and depth :: "thread_id \<Rightarrow> 'm \<Rightarrow> nat"
  assumes acquire_depth: "acquire t m = Some m' \<Longrightarrow> depth u m' = (if u = t then Suc (depth t m) else 0)"
    and acquire_waits: "acquire t m = None \<longleftrightarrow> (\<exists>u. u \<noteq> t \<and> 0 < depth u m)"
    and release_depth: "0 < depth t m \<Longrightarrow> depth u (release t m) = (if u = t then depth t m - 1 else depth u m)"
    and exclusive: "0 < depth t m \<Longrightarrow> u \<noteq> t \<Longrightarrow> depth u m = 0"
begin

text \<open>A thread in the midst of its actions; the invariant is that every thread is such a one.\<close>

definition thread_ok :: "bool \<Rightarrow> string list \<Rightarrow> 'm logging \<Rightarrow> thread_id \<Rightarrow> bool" where
  "thread_ok leaves lines s t \<longleftrightarrow>
     (let holds = depth t (lt_mutex s) = 1
      in depth t (lt_mutex s) \<le> 1 \<and>
         (\<exists>clean. bracketed leaves holds clean (lt_todo s t) \<and> (holds \<and> clean \<longrightarrow> lt_stream s = [])) \<and>
         lines_of t s @ written (if holds then lt_stream s else []) (lt_todo s t) = lines)"

definition logging_ok :: "(thread_id \<Rightarrow> bool) \<Rightarrow> (thread_id \<Rightarrow> string list) \<Rightarrow> 'm logging \<Rightarrow> bool" where
  "logging_ok leaves lines s \<longleftrightarrow>
     (\<forall>t. thread_ok (leaves t) (lines t) s t) \<and>
     ((\<forall>t. depth t (lt_mutex s) = 0) \<longrightarrow> lt_stream s = [])"

text \<open>A thread takes no notice of what another does, as long as it does not hold the lock.\<close>

lemma thread_ok_other:
  assumes "thread_ok l p s u" and "depth u (lt_mutex s) = 0" and "depth u (lt_mutex s') = 0"
    and "lt_todo s' u = lt_todo s u" and "lines_of u s' = lines_of u s"
  shows "thread_ok l p s' u"
  using assms by (auto simp: thread_ok_def Let_def)

lemma holder:
  assumes "thread_ok l p s t" and "lt_todo s t = a # as" and "a \<noteq> Acquire_lock"
  shows "depth t (lt_mutex s) = 1"
  using assms by (cases a) (auto simp: thread_ok_def Let_def)

lemma step_others:
  assumes "logging_ok leaves lines s" and "log_step acquire release t s s'" and "u \<noteq> t"
  shows "depth u (lt_mutex s) = 0" "depth u (lt_mutex s') = 0" "lt_todo s' u = lt_todo s u" "lines_of u s' = lines_of u s"
proof -
  from assms(1) have "thread_ok (leaves t) (lines t) s t" by (simp add: logging_ok_def)
  note holder = holder [OF this]
  show "depth u (lt_mutex s) = 0"
    using assms(2) holder exclusive [of t "lt_mutex s" u] acquire_waits [of t "lt_mutex s"] assms(3) by cases auto
  with assms(2) holder assms(3) show "depth u (lt_mutex s') = 0"
    by cases (auto simp: release_depth acquire_depth)
  from assms(2, 3) show "lt_todo s' u = lt_todo s u" by cases auto
  from assms(2, 3) show "lines_of u s' = lines_of u s" by cases (auto simp: lines_of_def)
qed

lemma acquire_clean:
  assumes "logging_ok leaves lines s" and "acquire t (lt_mutex s) = Some m" and "depth t (lt_mutex s) = 0"
  shows "lt_stream s = []"
proof -
  have "depth u (lt_mutex s) = 0" for u using assms(2, 3) acquire_waits [of t "lt_mutex s"] by (cases "u = t") auto
  with assms(1) show ?thesis by (simp add: logging_ok_def)
qed

lemma step_self:
  assumes ok: "logging_ok leaves lines s" and step: "log_step acquire release t s s'"
  shows "thread_ok (leaves t) (lines t) s' t \<and> (depth t (lt_mutex s') = 0 \<longrightarrow> lt_stream s' = [])"
proof -
  from ok have t: "thread_ok (leaves t) (lines t) s t" by (simp add: logging_ok_def)
  note holds = holder [OF t]
  show ?thesis
    using step
  proof cases
    case (acquire as m)
    then have "depth t (lt_mutex s) = 0" using t by (auto simp: thread_ok_def Let_def)
    with acquire acquire_clean [OF ok] t acquire_depth show ?thesis
      by (auto simp: thread_ok_def Let_def lines_of_def)
  qed (use t holds in \<open>auto simp: thread_ok_def Let_def lines_of_def release_depth\<close>)
qed

lemma step_ok:
  assumes "logging_ok leaves lines s" and "log_step acquire release t s s'"
  shows "logging_ok leaves lines s'"
proof -
  have "thread_ok (leaves u) (lines u) s' u" for u
    using step_self [OF assms] step_others [OF assms] thread_ok_other [of "leaves u" "lines u" s u s'] assms(1)
    by (cases "u = t") (auto simp: logging_ok_def)
  then show ?thesis using step_self [OF assms] by (simp add: logging_ok_def)
qed

lemma reaches_ok:
  assumes "log_reaches acquire release s u" and "logging_ok leaves lines s"
  shows "logging_ok leaves lines u"
  using assms by (induction) (auto intro: step_ok)

text \<open>While some thread has something to do and none left with the lock, a thread goes on.\<close>

lemma progress:
  assumes ok: "logging_ok (\<lambda>_. False) lines s" and todo: "lt_todo s t \<noteq> []"
  shows "\<exists>u s'. log_step acquire release u s s'"
proof -
  from ok have each: "thread_ok False (lines u) s u" for u by (simp add: logging_ok_def)
  obtain u where u: "lt_todo s u \<noteq> []" "\<And>v. v \<noteq> u \<Longrightarrow> depth v (lt_mutex s) = 0"
  proof (cases "\<exists>v. 0 < depth v (lt_mutex s)")
    case True
    then obtain v where v: "0 < depth v (lt_mutex s)" by blast
    with each [of v] have "lt_todo s v \<noteq> []" by (auto simp: thread_ok_def Let_def)
    with exclusive [OF v] that show ?thesis by blast
  qed (use todo that in auto)
  then obtain a as where a: "lt_todo s u = a # as" by (cases "lt_todo s u") auto
  have "\<exists>m. acquire u (lt_mutex s) = Some m" using u(2) acquire_waits [of u "lt_mutex s"] by auto
  with a show ?thesis by (cases a) (auto intro: log_step.intros)
qed

text \<open>A thread that has ended and holds the lock stops all others.\<close>

lemma stopped:
  assumes ok: "logging_ok leaves lines s" and t: "leaves t" "lt_todo s t = []"
  shows "\<not> log_step acquire release u s s'"
proof
  assume step: "log_step acquire release u s s'"
  from ok t have "depth t (lt_mutex s) = 1" by (auto simp: logging_ok_def thread_ok_def Let_def dest!: spec [of _ t])
  with step_others(1) [OF ok step, of t] have "t = u" by auto
  with step t show False by (auto elim: log_step.cases)
qed

lemma lines_left:
  assumes "logging_ok leaves lines s"
  shows "\<exists>u. lines_of t s @ written u (lt_todo s t) = lines t"
proof -
  from assms have "thread_ok (leaves t) (lines t) s t" by (simp add: logging_ok_def)
  then show ?thesis unfolding thread_ok_def Let_def by blast
qed

lemma lines_so_far: "logging_ok leaves lines s \<Longrightarrow> prefix (lines_of t s) (lines t)"
  by (metis lines_left prefixI)

lemma finished_lines: "logging_ok leaves lines s \<Longrightarrow> lt_todo s t = [] \<Longrightarrow> lines_of t s = lines t"
  using lines_left [of leaves lines s t] by simp

lemma start_ok:
  assumes "\<And>t. depth t m = 0" and "\<And>t. bracketed (leaves t) False False (concat (map call_actions (calls t)))"
  shows "logging_ok leaves (\<lambda>t. written [] (concat (map call_actions (calls t)))) (start_logging m calls)"
  using assms by (auto simp: logging_ok_def thread_ok_def Let_def start_logging_def lines_of_def)

end

section \<open>The lock of a logger\<close>

definition depth :: "thread_id \<Rightarrow> mutex \<Rightarrow> nat" where
  "depth t m = (if mx_owner m = t then mx_count m else 0)"

interpretation logger_lock: mutual_exclusion mx_lock mx_unlock depth
  by unfold_locales (auto simp: mx_lock_def mx_unlock_def depth_def split: if_splits)

lemma with_threads:
  assumes "ELPP_THREADING_ENABLED m"
  shows "acquireLock m = mx_lock" "releaseLock m = mx_unlock"
  using assms by (auto simp: acquireLock_def releaseLock_def fun_eq_iff)

lemma thread_safe_threads: "macro_defined m ''ELPP_THREAD_SAFE'' \<Longrightarrow> ELPP_THREADING_ENABLED m"
  by (simp add: ELPP_THREADING_ENABLED_def)

lemma without_threads:
  assumes "\<not> ELPP_THREADING_ENABLED m"
  shows "acquireLock m t x = Some x" "releaseLock m t x = x"
  using assms by (simp_all add: acquireLock_def releaseLock_def NoMutex_lock_def NoMutex_unlock_def)

lemma try_lock_eq: "mx_try_lock t m = (if \<exists>u. u \<noteq> t \<and> 0 < depth u m then (False, m) else (True, the (mx_lock t m)))"
  using logger_lock.acquire_waits [of t m] by (auto simp: mx_try_lock_def split: option.split)

lemma depth_Mutex [simp]: "depth t Mutex = 0"
  by (simp add: depth_def Mutex_def)

lemma lock_unlock: "mx_lock t m = Some m' \<Longrightarrow> depth u (mx_unlock t m') = depth u m"
  by (auto simp: mx_lock_def mx_unlock_def depth_def split: if_splits)

lemma scoped_lock_restores:
  assumes "ELPP_THREADING_ENABLED m" and "\<And>u. u \<noteq> t \<Longrightarrow> depth u x = 0"
  shows "\<exists>x'. ScopedLock m t (\<lambda>(x, s). Some (x, f s)) (x, s) = Some (x', f s) \<and> (\<forall>u. depth u x' = depth u x)"
proof -
  obtain x' where "mx_lock t x = Some x'" using assms(2) logger_lock.acquire_waits [of t x] by (cases "mx_lock t x") auto
  with lock_unlock [of t x x'] show ?thesis by (simp add: ScopedLock_def with_threads [OF assms(1)])
qed

text \<open>
  A line is written when no other thread holds the lock of the table or of its file, and the
  locks are then as before; a thread waits for the one that writes to the same file.
\<close>

lemma locked_handle_writes:
  assumes "macro_defined m ''ELPP_THREAD_SAFE''" and "\<And>u. u \<noteq> t \<Longrightarrow> depth u (cl_fileLocksMapLock c) = 0"
    and "\<And>u x. u \<noteq> t \<Longrightarrow> cl_fileLocks c filename = Some x \<Longrightarrow> depth u x = 0"
  shows "\<exists>c' x. locked_handle m t filename f (c, s) = Some (c', f s) \<and>
    cl_fileLocks c' = (cl_fileLocks c)(filename \<mapsto> x) \<and>
    (\<forall>u. depth u x = (case cl_fileLocks c filename of None \<Rightarrow> 0 | Some y \<Rightarrow> depth u y))"
proof -
  note e = thread_safe_threads [OF assms(1)]
  let ?file = "case cl_fileLocks c filename of None \<Rightarrow> Mutex | Some y \<Rightarrow> y"
  have "\<And>u. u \<noteq> t \<Longrightarrow> depth u ?file = 0" using assms(3) by (auto split: option.split)
  with scoped_lock_restores [OF e, of t ?file f s] obtain x where
    "ScopedLock m t (\<lambda>(x, s). Some (x, f s)) (?file, s) = Some (x, f s)" "\<forall>u. depth u x = depth u ?file" by blast
  moreover from scoped_lock_restores [OF e assms(2), where f = "new_file_lock filename" and s = "cl_fileLocks c"]
  obtain y where "ScopedLock m t (\<lambda>(x, l). Some (x, new_file_lock filename l)) (cl_fileLocksMapLock c, cl_fileLocks c) =
      Some (y, new_file_lock filename (cl_fileLocks c))" by blast
  ultimately show ?thesis using assms(1)
    by (cases "cl_fileLocks c filename")
       (auto simp: locked_handle_def callback_handle_def fileHandle_def new_file_lock_def)
qed

lemma locked_handle_waits:
  assumes "macro_defined m ''ELPP_THREAD_SAFE''" and "cl_fileLocks c filename = Some x" and "0 < depth u x" and "u \<noteq> t"
  shows "locked_handle m t filename f (c, s) = None"
proof -
  have "mx_lock t x = None" using assms(3, 4) logger_lock.acquire_waits by blast
  with assms(1, 2) show ?thesis
    by (auto simp: locked_handle_def callback_handle_def fileHandle_def new_file_lock_def ScopedLock_def
        with_threads [OF thread_safe_threads [OF assms(1)]] split: option.splits)
qed

lemma surplus_written:
  assumes "\<forall>c \<in> set cs. places_suffice c" and "\<not> places_suffice c"
  shows "written [] (concat (map call_actions (cs @ [c]))) = concat (map call_lines cs)"
proof -
  have "written u (format_actions enabled s vs) = []" if "\<not> snd (expand s vs)" for enabled s vs u
    using that by (induction s vs arbitrary: u rule: expand.induct) (auto split: if_splits)
  with assms(2) have "written [] (call_actions c) = []" by (cases c) auto
  with calls_written [OF assms(1), of "call_actions c"] show ?thesis by simp
qed

text \<open>What holds in every state threads reach, the lock being the mutex of the logger.\<close>

lemma logging_invariant:
  assumes "ELPP_THREADING_ENABLED m" and "log_reaches (acquireLock m) (releaseLock m) (start_logging Mutex calls) s"
    and "\<And>t. bracketed (leaves t) False False (concat (map call_actions (calls t)))"
  shows "logger_lock.logging_ok leaves (\<lambda>t. written [] (concat (map call_actions (calls t)))) s"
  using logger_lock.reaches_ok [OF assms(2) [unfolded with_threads [OF assms(1)]] logger_lock.start_ok] assms(3) by simp

section \<open>Properties\<close>

text \<open>
  C25. In a build with threads the log calls of any number of threads stay whole, however the
  threads interleave: the lines of a thread are those of its calls, each with exactly the text
  of its call and in their order; and as long as a thread has something to do, some thread can
  go on. The formats have a place for every value.
\<close>

theorem log_calls_stay_whole:
  assumes "ELPP_THREADING_ENABLED m"
    and "log_reaches (acquireLock m) (releaseLock m) (start_logging Mutex calls) s"
    and "\<And>t c. c \<in> set (calls t) \<Longrightarrow> places_suffice c"
  shows "prefix (lines_of t s) (concat (map call_lines (calls t))) \<and>
    (lt_todo s t = [] \<longrightarrow> lines_of t s = concat (map call_lines (calls t))) \<and>
    (lt_todo s t \<noteq> [] \<longrightarrow> (\<exists>u s'. log_step (acquireLock m) (releaseLock m) u s s'))"
proof -
  have "bracketed False False False (concat (map call_actions (calls u)))"
    and lines: "written [] (concat (map call_actions (calls u))) = concat (map call_lines (calls u))" for u
    using calls_bracketed [of "calls u" False "[]"] calls_written [of "calls u" "[]"] assms(3) by auto
  with logging_invariant [OF assms(1, 2), of "\<lambda>_. False"]
  have ok: "logger_lock.logging_ok (\<lambda>_. False) (\<lambda>t. concat (map call_lines (calls t))) s" by simp
  from logger_lock.progress [OF ok] logger_lock.lines_so_far [OF ok] logger_lock.finished_lines [OF ok] show ?thesis
    by (simp add: with_threads [OF assms(1)])
qed

text \<open>
  C28. A call with more values than places keeps the lock of the logger: once the thread that
  made it has ended, no other thread takes a further step, so its calls stay without their
  lines for ever; the calls before it have theirs.
\<close>

theorem surplus_value_stops_logging:
  assumes "ELPP_THREADING_ENABLED m"
    and "log_reaches (acquireLock m) (releaseLock m) (start_logging Mutex calls) s"
    and "calls t = cs @ [c]" and "\<not> places_suffice c" and "\<And>d. d \<in> set cs \<Longrightarrow> places_suffice d"
    and "\<And>u d. u \<noteq> t \<Longrightarrow> d \<in> set (calls u) \<Longrightarrow> places_suffice d"
    and "lt_todo s t = []"
  shows "\<not> log_step (acquireLock m) (releaseLock m) u s s' \<and> lines_of t s = concat (map call_lines cs) \<and>
    (\<forall>u. u \<noteq> t \<longrightarrow> prefix (lines_of u s) (concat (map call_lines (calls u))))"
proof -
  have "bracketed (u = t) False False (concat (map call_actions (calls u)))" for u
    using calls_bracketed [of cs True "call_actions c"] calls_bracketed [of "calls u" False "[]"]
      surplus_call_bracketed [OF assms(4)] assms(3, 5, 6) by (cases "u = t") auto
  then have ok: "logger_lock.logging_ok (\<lambda>u. u = t) (\<lambda>u. written [] (concat (map call_actions (calls u)))) s"
    by (rule logging_invariant [OF assms(1, 2)])
  have "written [] (concat (map call_actions (calls u))) = concat (map call_lines (calls u))" if "u \<noteq> t" for u
    using calls_written [of "calls u" "[]"] assms(6) that by auto
  with logger_lock.lines_so_far [OF ok] have "\<forall>u. u \<noteq> t \<longrightarrow> prefix (lines_of u s) (concat (map call_lines (calls u)))" by metis
  with logger_lock.stopped [OF ok _ assms(7)] logger_lock.finished_lines [OF ok assms(7)] surplus_written [OF _ assms(4), of cs]
    assms(3, 5) show ?thesis by (simp add: with_threads [OF assms(1)])
qed

text \<open>A build with threads, one without, and two threads.\<close>

definition thread_safe_build :: macros where
  "thread_safe_build = [''ELPP_THREAD_SAFE'' \<mapsto> 1]"

definition two_threads :: "log_call list \<Rightarrow> log_call list \<Rightarrow> thread_id \<Rightarrow> log_call list" where
  "two_threads a b t = (if t = 0 then a else if t = 1 then b else [])"

theorem log_calls_stay_whole_witness:
  "\<exists>s. log_reaches (acquireLock thread_safe_build) (releaseLock thread_safe_build)
      (start_logging Mutex (two_threads [Log_format True ''a%v'' [''1'']] [Log_statement True [''b'', ''c'']])) s \<and>
    lines_of 0 s = [''a1''] \<and> lines_of 1 s = [''bc'']"
proof -
  let ?acquire = "acquireLock thread_safe_build" and ?release = "releaseLock thread_safe_build"
  let ?calls = "two_threads [Log_format True ''a%v'' [''1'']] [Log_statement True [''b'', ''c'']]"
  have "map_option (\<lambda>s. (lt_todo s 0, lt_todo s 1))
      (run_schedule ?acquire ?release [1, 1, 1, 1, 1, 1, 0, 0, 0, 0, 0, 0, 0] (start_logging Mutex ?calls)) = Some ([], [])"
    by code_simp
  from scheduled [OF this] obtain s where s:
    "log_reaches ?acquire ?release (start_logging Mutex ?calls) s" "lt_todo s 0 = []" "lt_todo s 1 = []" by auto
  have e: "ELPP_THREADING_ENABLED thread_safe_build"
    by (simp add: thread_safe_build_def ELPP_THREADING_ENABLED_def macro_defined_def)
  have "places_suffice c" if "c \<in> set (?calls t)" for t c
    using that by (auto simp: two_threads_def split: if_splits)
  with log_calls_stay_whole [OF e s(1), of 0] log_calls_stay_whole [OF e s(1), of 1] s show ?thesis
    by (intro exI [of _ s]) (simp add: two_threads_def)
qed

theorem surplus_value_stops_logging_witness:
  "\<exists>s. log_reaches (acquireLock thread_safe_build) (releaseLock thread_safe_build)
      (start_logging Mutex (two_threads [Log_format True ''a'' [''1'']] [Log_statement True [''b'']])) s \<and>
    lt_todo s 1 \<noteq> [] \<and> (\<forall>u s'. \<not> log_step (acquireLock thread_safe_build) (releaseLock thread_safe_build) u s s')"
proof -
  let ?acquire = "acquireLock thread_safe_build" and ?release = "releaseLock thread_safe_build"
  let ?calls = "two_threads [Log_format True ''a'' [''1'']] [Log_statement True [''b'']]"
  have "map_option (\<lambda>s. (lt_todo s 0, lt_todo s 1 = []))
      (run_schedule ?acquire ?release [0, 0] (start_logging Mutex ?calls)) = Some ([], False)"
    by code_simp
  from scheduled [OF this] obtain s where s:
    "log_reaches ?acquire ?release (start_logging Mutex ?calls) s" "lt_todo s 0 = []" "lt_todo s 1 \<noteq> []" by auto
  have e: "ELPP_THREADING_ENABLED thread_safe_build"
    by (simp add: thread_safe_build_def ELPP_THREADING_ENABLED_def macro_defined_def)
  have "places_suffice d" if "u \<noteq> 0" "d \<in> set (?calls u)" for u d
    using that by (auto simp: two_threads_def split: if_splits)
  with surplus_value_stops_logging [OF e s(1), of 0 "[]" "Log_format True ''a'' [''1'']"] s(2, 3) s(1) show ?thesis
    by (auto simp: two_threads_def intro!: exI [of _ s])
qed

text \<open>
  In a build without threads, as the program is built, two threads mix their texts: the first
  line has the text of both, the second a part of one.
\<close>

theorem unlocked_calls_mix:
  assumes "\<not> ELPP_THREADING_ENABLED m"
  shows "\<exists>s. log_reaches (acquireLock m) (releaseLock m)
      (start_logging Mutex (two_threads [Log_statement True [''a'', ''b'']] [Log_statement True [''c'']])) s \<and>
    lt_lines s = [(1, ''ac''), (0, ''b'')] \<and> lt_todo s 0 = [] \<and> lt_todo s 1 = []"
proof -
  have "acquireLock m = (\<lambda>t. Some)" "releaseLock m = (\<lambda>t x. x)" using without_threads [OF assms] by (simp_all add: fun_eq_iff)
  moreover have run: "map_option (\<lambda>s. (lt_lines s, lt_todo s 0, lt_todo s 1))
      (run_schedule (\<lambda>t. Some) (\<lambda>t x. x) [0, 0, 1, 1, 1, 1, 1, 0, 0, 0, 0]
        (start_logging Mutex (two_threads [Log_statement True [''a'', ''b'']] [Log_statement True [''c'']]))) =
      Some ([(1, ''ac''), (0, ''b'')], [], [])" by code_simp
  ultimately show ?thesis using scheduled [OF run] by simp
qed

lemma unlocked_calls_mix_gcc:
  "\<exists>s. log_reaches (acquireLock gcc_linux) (releaseLock gcc_linux)
      (start_logging Mutex (two_threads [Log_statement True [''a'', ''b'']] [Log_statement True [''c'']])) s \<and>
    lt_lines s = [(1, ''ac''), (0, ''b'')] \<and> lt_todo s 0 = [] \<and> lt_todo s 1 = []"
  by (rule unlocked_calls_mix) (rule gcc_linux_build)

end
