(* ===== verification/Elpp_Lock_Order.thy ===== *)
theory Elpp_Lock_Order imports Elpp_Locks begin

text \<open>
  The locks an operation of the logging library takes, in a build with \<open>ELPP_THREAD_SAFE\<close>: which
  mutexes, in which order, nested in which others. Threads that call the operations never wait
  for each other in a circle, unless a statement is evaluated inside another one.
\<close>

section \<open>Threads over many locks\<close>

datatype 'l lock_action = Lock 'l | Unlock 'l

record ('l, 'm) locking =
  lk_mutex :: "'l \<Rightarrow> 'm"
  lk_todo :: "thread_id \<Rightarrow> 'l lock_action list"

definition start_locking :: "'m \<Rightarrow> (thread_id \<Rightarrow> 'l lock_action list) \<Rightarrow> ('l, 'm) locking" where
  "start_locking m todo = \<lparr>lk_mutex = (\<lambda>_. m), lk_todo = todo\<rparr>"

inductive lock_step ::
  "(thread_id \<Rightarrow> 'm \<Rightarrow> 'm option) \<Rightarrow> (thread_id \<Rightarrow> 'm \<Rightarrow> 'm) \<Rightarrow> thread_id \<Rightarrow>
   ('l, 'm) locking \<Rightarrow> ('l, 'm) locking \<Rightarrow> bool"
  for acquire release where
  lock: "lk_todo s t = Lock l # as \<Longrightarrow> acquire t (lk_mutex s l) = Some m \<Longrightarrow>
     lock_step acquire release t s (s\<lparr>lk_mutex := (lk_mutex s)(l := m), lk_todo := (lk_todo s)(t := as)\<rparr>)"
| unlock: "lk_todo s t = Unlock l # as \<Longrightarrow>
     lock_step acquire release t s
       (s\<lparr>lk_mutex := (lk_mutex s)(l := release t (lk_mutex s l)), lk_todo := (lk_todo s)(t := as)\<rparr>)"

inductive lock_reaches ::
  "(thread_id \<Rightarrow> 'm \<Rightarrow> 'm option) \<Rightarrow> (thread_id \<Rightarrow> 'm \<Rightarrow> 'm) \<Rightarrow> ('l, 'm) locking \<Rightarrow> ('l, 'm) locking \<Rightarrow> bool"
  for acquire release s where
  start: "lock_reaches acquire release s s"
| step: "lock_reaches acquire release s u \<Longrightarrow> lock_step acquire release t u v \<Longrightarrow> lock_reaches acquire release s v"

text \<open>The same as a function, and the steps of a given schedule of the threads.\<close>

definition next_locking ::
  "(thread_id \<Rightarrow> 'm \<Rightarrow> 'm option) \<Rightarrow> (thread_id \<Rightarrow> 'm \<Rightarrow> 'm) \<Rightarrow> thread_id \<Rightarrow>
   ('l, 'm) locking \<Rightarrow> ('l, 'm) locking option" where
  "next_locking acquire release t s =
     (case lk_todo s t of
        [] \<Rightarrow> None
      | Lock l # as \<Rightarrow>
          map_option (\<lambda>m. s\<lparr>lk_mutex := (lk_mutex s)(l := m), lk_todo := (lk_todo s)(t := as)\<rparr>)
            (acquire t (lk_mutex s l))
      | Unlock l # as \<Rightarrow>
          Some (s\<lparr>lk_mutex := (lk_mutex s)(l := release t (lk_mutex s l)), lk_todo := (lk_todo s)(t := as)\<rparr>))"

fun run_locking ::
  "(thread_id \<Rightarrow> 'm \<Rightarrow> 'm option) \<Rightarrow> (thread_id \<Rightarrow> 'm \<Rightarrow> 'm) \<Rightarrow> thread_id list \<Rightarrow>
   ('l, 'm) locking \<Rightarrow> ('l, 'm) locking option" where
  "run_locking acquire release [] s = Some s"
| "run_locking acquire release (t # ts) s =
     (case next_locking acquire release t s of None \<Rightarrow> None | Some u \<Rightarrow> run_locking acquire release ts u)"

text \<open>
  Actions that lock in the order of \<open>rank\<close>: a thread that holds the locks \<open>held\<close>, the last one
  first, takes one that it holds already or that comes after all of them, and gives back the
  last one; at the end it holds none.
\<close>

definition after_all :: "('l \<Rightarrow> nat) \<Rightarrow> 'l list \<Rightarrow> 'l \<Rightarrow> bool" where
  "after_all rank held l \<longleftrightarrow> l \<in> set held \<or> (\<forall>h \<in> set held. rank h < rank l)"

fun in_order :: "('l \<Rightarrow> nat) \<Rightarrow> 'l list \<Rightarrow> 'l lock_action list \<Rightarrow> bool" where
  "in_order rank held [] \<longleftrightarrow> held = []"
| "in_order rank held (Lock l # as) \<longleftrightarrow> after_all rank held l \<and> in_order rank (l # held) as"
| "in_order rank [] (Unlock l # as) \<longleftrightarrow> False"
| "in_order rank (h # held) (Unlock l # as) \<longleftrightarrow> h = l \<and> in_order rank held as"



section \<open>The locks of the library\<close>

text \<open>
  Configurations have a lock, those of the user, the default ones and those of each logger; so
  have the typed configurations of each logger, each performance tracker and each callback. Files
  are those of the callback of the library. The queue and the worker of asynchronous logging are
  not in this build.
\<close>

datatype conf_owner = User_conf nat | Default_conf | Logger_conf string

datatype lock_name =
    Registry_lock
  | Logger_lock string
  | Storage_lock
  | File_table_lock
  | File_lock string
  | Configurations_lock conf_owner
  | Typed_lock string
  | Custom_formats_lock
  | Thread_names_lock
  | Modules_lock
  | Counters_lock
  | Tracker_lock nat
  | Callback_lock nat

text \<open>A block under a \<open>ScopedLock\<close>.\<close>

definition scoped :: "'l \<Rightarrow> 'l lock_action list \<Rightarrow> 'l lock_action list" where
  "scoped l block = Lock l # block @ [Unlock l]"

text \<open>\<open>getConfigByVal\<close>, \<open>getConfigByRef\<close> and \<open>validateFileRolling\<close> of the typed configurations of a logger.\<close>

definition typed_get :: "string \<Rightarrow> lock_name lock_action list" where
  "typed_get a = scoped (Typed_lock a) []"

definition per_level :: "(uint32 \<Rightarrow> 'l lock_action list) \<Rightarrow> 'l lock_action list" where
  "per_level f =
     (case forEachLevel level_kMinValid (\<lambda>i as. (False, as @ f i)) [] of Some (_, as) \<Rightarrow> as | None \<Rightarrow> [])"

subsection \<open>Writing a line\<close>

text \<open>What the way of a line through the library depends on.\<close>

record line_branches =
  lb_checked :: bool
  lb_proceed :: bool
  lb_strict :: bool
  lb_callback :: bool
  lb_file :: string
  lb_threadId :: bool
  lb_dateTime :: bool
  lb_toFile :: bool
  lb_stream :: bool
  lb_failed :: bool
  lb_immediate :: bool
  lb_flush :: bool

definition build_locks :: "string \<Rightarrow> line_branches \<Rightarrow> lock_name lock_action list" where
  "build_locks a b =
     typed_get a @
     (if lb_threadId b then scoped Thread_names_lock [] else []) @
     (if lb_dateTime b then typed_get a else []) @
     scoped Custom_formats_lock []"

definition level_flush_locks :: "string \<Rightarrow> bool \<Rightarrow> bool \<Rightarrow> bool \<Rightarrow> lock_name lock_action list" where
  "level_flush_locks a given toFile stream =
     (if given then [] else typed_get a @ (if toFile then typed_get a else [])) @
     (if given \<or> toFile \<and> stream then typed_get a else [])"

definition write_locks :: "string \<Rightarrow> line_branches \<Rightarrow> lock_name lock_action list" where
  "write_locks a b =
     typed_get a @
     (if \<not> lb_toFile b then []
      else
        typed_get a @
        (if \<not> lb_stream b then []
         else if lb_failed b then typed_get a
         else
           (if lb_immediate b then [] else typed_get a) @
           (if lb_immediate b \<or> lb_flush b then level_flush_locks a True True True else []))) @
     typed_get a"

definition handle_locks :: "string \<Rightarrow> line_branches \<Rightarrow> lock_name lock_action list" where
  "handle_locks a b =
     scoped File_table_lock (typed_get a) @
     typed_get a @
     scoped (File_lock (lb_file b)) (build_locks a b @ write_locks a b)"

definition dispatch_locks :: "string \<Rightarrow> line_branches \<Rightarrow> lock_name lock_action list" where
  "dispatch_locks a b =
     scoped Storage_lock
       ((if lb_strict b then typed_get a else []) @ (if lb_callback b then handle_locks a b else []))"

subsection \<open>Configuring a logger\<close>

record configure_branches =
  cf_typed :: bool
  cf_filename :: bool
  cf_toFile :: "uint32 \<Rightarrow> bool"
  cf_stream :: "uint32 \<Rightarrow> bool"
  cf_differs :: bool
  cf_count :: nat

definition conf_locks :: "conf_owner \<Rightarrow> lock_name lock_action list" where
  "conf_locks c = scoped (Configurations_lock c) []"

text \<open>
  \<open>setFromBase\<close> with \<open>n\<close> configurations in the base: it holds the lock of the base while it takes
  its own for each of them.
\<close>

definition from_base_locks :: "conf_owner \<Rightarrow> conf_owner \<Rightarrow> nat \<Rightarrow> lock_name lock_action list" where
  "from_base_locks own base n =
     (if base = own then []
      else scoped (Configurations_lock base) (concat (replicate n (conf_locks own))))"

definition flush_locks :: "string \<Rightarrow> (uint32 \<Rightarrow> bool) \<Rightarrow> (uint32 \<Rightarrow> bool) \<Rightarrow> lock_name lock_action list" where
  "flush_locks a toFile stream =
     scoped (Logger_lock a) (per_level (\<lambda>i. level_flush_locks a False (toFile i) (stream i)))"

definition configure_locks :: "string \<Rightarrow> conf_owner \<Rightarrow> configure_branches \<Rightarrow> lock_name lock_action list" where
  "configure_locks a base c =
     (if cf_typed c then
        conf_locks (Logger_conf a) @ (if cf_filename c then flush_locks a (cf_toFile c) (cf_stream c) else [])
      else []) @
     scoped (Logger_lock a)
       ((if cf_differs c then from_base_locks (Logger_conf a) base (cf_count c) else []) @
        scoped (Typed_lock a) [] @
        per_level (\<lambda>_. typed_get a))"

text \<open>Getting a logger, which is made and configured if it is new.\<close>

definition get_locks :: "string \<Rightarrow> configure_branches option \<Rightarrow> lock_name lock_action list" where
  "get_locks a new =
     scoped Registry_lock
       (case new of None \<Rightarrow> [] | Some c \<Rightarrow> configure_locks a Default_conf (c\<lparr>cf_typed := False\<rparr>))"

subsection \<open>Calls\<close>

text \<open>
  A statement for one logger: its writer holds the lock of the logger until the line is out. In
  between come the \<open>parts\<close>, the locks taken while what is streamed is evaluated.
\<close>

definition writer_locks ::
  "string \<Rightarrow> configure_branches option \<Rightarrow> lock_name lock_action list \<Rightarrow> line_branches \<Rightarrow>
   lock_name lock_action list" where
  "writer_locks a new parts b =
     get_locks a new @
     scoped (Logger_lock a)
       ((if lb_checked b then typed_get a else []) @ parts @ (if lb_proceed b then dispatch_locks a b else []))"

text \<open>A whole statement: for loggers that are registered, or for one that is not.\<close>

datatype logged =
    Registered "(string \<times> configure_branches option \<times> line_branches) list"
  | Unregistered string "configure_branches option" line_branches

fun statement_locks :: "logged \<Rightarrow> lock_name lock_action list" where
  "statement_locks (Registered loggers) = concat (map (\<lambda>(a, new, b). writer_locks a new [] b) loggers)"
| "statement_locks (Unregistered a new b) =
     get_locks a None @ get_locks kDefaultLoggerId None @
     (case new of None \<Rightarrow> [] | Some c \<Rightarrow> get_locks kDefaultLoggerId new) @
     writer_locks kDefaultLoggerId None [] b"

text \<open>A call of \<open>Logger::log\<close>, whose writer gives the lock back at the end.\<close>

definition log_call_locks :: "string \<Rightarrow> bool \<Rightarrow> line_branches \<Rightarrow> lock_name lock_action list" where
  "log_call_locks a verbose b =
     scoped (Logger_lock a)
       ((if verbose then scoped Modules_lock [] else []) @
        (if lb_checked b then typed_get a else []) @
        (if lb_proceed b then dispatch_locks a b else []))"

text \<open>Parsing \<open>k\<close> configurations after those of the base.\<close>

definition parse_locks :: "conf_owner \<Rightarrow> (conf_owner \<times> nat) option \<Rightarrow> nat \<Rightarrow> lock_name lock_action list" where
  "parse_locks own base k =
     (case base of None \<Rightarrow> [] | Some (c, n) \<Rightarrow> from_base_locks own c n) @
     concat (replicate k (conf_locks own))"

definition specifier_locks :: "bool \<Rightarrow> lock_name lock_action list" where
  "specifier_locks new = scoped Custom_formats_lock [] @ (if new then scoped Custom_formats_lock [] else [])"

text \<open>\<open>convertTemplateToStdString\<close>, which borrows the stream of the default logger.\<close>

definition text_locks :: "configure_branches option \<Rightarrow> lock_name lock_action list" where
  "text_locks new = get_locks kDefaultLoggerId new @ scoped (Logger_lock kDefaultLoggerId) []"

text \<open>
  A performance tracker: its constructor, and what a checkpoint and its destructor do, with the
  statements the callbacks make under the lock of the tracker.
\<close>

definition tracker_locks :: "string \<Rightarrow> bool \<Rightarrow> lock_name lock_action list" where
  "tracker_locks a found = get_locks a None @ (if found then typed_get a else [])"

definition tracked_locks :: "nat \<Rightarrow> logged list \<Rightarrow> lock_name lock_action list" where
  "tracked_locks n statements = scoped (Tracker_lock n) (concat (map statement_locks statements))"

text \<open>
  The functions that take locks. A tracker is asked and ended by \<open>Call_tracked\<close>, with the
  statements its callbacks make; configurations are set from others, alone or before the lines of
  a file, by \<open>Call_from_base\<close> and \<open>Call_parse\<close>.
\<close>

datatype library_call =
    Call_statement logged
  | Call_log string bool line_branches
  | Call_get string "configure_branches option"
  | Call_configure string conf_owner configure_branches
  | Call_set conf_owner
  | Call_from_base conf_owner conf_owner nat
  | Call_parse conf_owner "(conf_owner \<times> nat) option" nat
  | Call_set_default conf_owner nat
  | Call_set_builder
  | Call_remove string bool
  | Call_flush_all
  | Call_flush string "uint32 \<Rightarrow> bool" "uint32 \<Rightarrow> bool"
  | Call_typed string
  | Call_verbose
  | Call_count
  | Call_specifier bool
  | Call_thread_name
  | Call_text "configure_branches option"
  | Call_tracker string bool
  | Call_tracked nat "logged list"
  | Call_enable nat

fun call_locks :: "library_call \<Rightarrow> lock_name lock_action list" where
  "call_locks (Call_statement st) = statement_locks st"
| "call_locks (Call_log a verbose b) = log_call_locks a verbose b"
| "call_locks (Call_get a new) = get_locks a new"
| "call_locks (Call_configure a base c) = configure_locks a base c"
| "call_locks (Call_set c) = conf_locks c"
| "call_locks (Call_from_base own base n) = from_base_locks own base n"
| "call_locks (Call_parse own base k) = parse_locks own base k"
| "call_locks (Call_set_default base n) = scoped Registry_lock (from_base_locks Default_conf base n)"
| "call_locks Call_set_builder = scoped Registry_lock []"
| "call_locks (Call_remove a found) = (if found then scoped Registry_lock [] else [])"
| "call_locks Call_flush_all = scoped Registry_lock []"
| "call_locks (Call_flush a toFile stream) = flush_locks a toFile stream"
| "call_locks (Call_typed a) = typed_get a"
| "call_locks Call_verbose = scoped Modules_lock []"
| "call_locks Call_count = scoped Counters_lock []"
| "call_locks (Call_specifier new) = specifier_locks new"
| "call_locks Call_thread_name = scoped Thread_names_lock []"
| "call_locks (Call_text new) = text_locks new"
| "call_locks (Call_tracker a found) = tracker_locks a found"
| "call_locks (Call_tracked n statements) = tracked_locks n statements"
| "call_locks (Call_enable n) = scoped (Callback_lock n) []"

text \<open>
  Which configurations a call sets from which others: pairs of a base and its heir. Making a
  logger sets its configurations from the default ones.
\<close>

definition heirs :: "conf_owner \<Rightarrow> conf_owner \<Rightarrow> (conf_owner \<times> conf_owner) list" where
  "heirs base own = (if base = own then [] else [(base, own)])"

definition new_bases :: "string \<Rightarrow> configure_branches option \<Rightarrow> (conf_owner \<times> conf_owner) list" where
  "new_bases a new =
     (case new of None \<Rightarrow> [] | Some c \<Rightarrow> if cf_differs c then heirs Default_conf (Logger_conf a) else [])"

fun statement_bases :: "logged \<Rightarrow> (conf_owner \<times> conf_owner) list" where
  "statement_bases (Registered loggers) = concat (map (\<lambda>(a, new, b). new_bases a new) loggers)"
| "statement_bases (Unregistered a new b) = new_bases kDefaultLoggerId new"



section \<open>Facts\<close>

text \<open>
  The order of the locks, for configurations in the order \<open>r\<close>, which is at most \<open>N\<close>: the base
  before its heirs.
\<close>

fun library_rank :: "(conf_owner \<Rightarrow> nat) \<Rightarrow> nat \<Rightarrow> lock_name \<Rightarrow> nat" where
  "library_rank r N (Tracker_lock n) = 0"
| "library_rank r N Registry_lock = 1"
| "library_rank r N (Logger_lock a) = 2"
| "library_rank r N Storage_lock = 3"
| "library_rank r N File_table_lock = 4"
| "library_rank r N (File_lock f) = 5"
| "library_rank r N (Configurations_lock c) = 6 + min (r c) N"
| "library_rank r N (Typed_lock a) = 7 + N"
| "library_rank r N _ = 8 + N"



lemma next_locking_step: "next_locking acquire release t s = Some u \<longleftrightarrow> lock_step acquire release t s u"
proof
  show "next_locking acquire release t s = Some u \<Longrightarrow> lock_step acquire release t s u"
    by (auto simp: next_locking_def split: list.splits lock_action.splits
        simp del: locking.update_convs intro: lock_step.intros)
  show "lock_step acquire release t s u \<Longrightarrow> next_locking acquire release t s = Some u"
    by (cases rule: lock_step.cases) (auto simp: next_locking_def)
qed

lemma locking_scheduled:
  assumes "map_option f (run_locking acquire release ts s) = Some x"
  shows "\<exists>u. lock_reaches acquire release s u \<and> f u = x"
proof -
  have "lock_reaches acquire release s v" if "run_locking acquire release ts u = Some v" "lock_reaches acquire release s u" for u v
    using that
    by (induction ts arbitrary: u) (auto simp: next_locking_step intro: lock_reaches.step split: option.splits)
  from this [OF _ lock_reaches.start] assms show ?thesis
    by (cases "run_locking acquire release ts s") auto
qed

text \<open>Actions that leave the locks as they found them, in the order.\<close>

definition nests ::
  "(conf_owner \<Rightarrow> nat) \<Rightarrow> nat \<Rightarrow> lock_name list \<Rightarrow> lock_name lock_action list \<Rightarrow> bool" where
  "nests r N held as \<longleftrightarrow>
     (\<forall>bs. in_order (library_rank r N) held bs \<longrightarrow> in_order (library_rank r N) held (as @ bs))"

definition below :: "(conf_owner \<Rightarrow> nat) \<Rightarrow> nat \<Rightarrow> nat \<Rightarrow> lock_name list \<Rightarrow> bool" where
  "below r N n held \<longleftrightarrow> (\<forall>h \<in> set held. library_rank r N h < n)"

lemma below_simps [simp]: "below r N n []" "below r N n (l # held) \<longleftrightarrow> library_rank r N l < n \<and> below r N n held"
  by (simp_all add: below_def)

lemma below_mono: "below r N m held \<Longrightarrow> m \<le> n \<Longrightarrow> below r N n held"
  by (auto simp: below_def)

named_theorems nesting

lemma nests_simple [nesting]:
  "nests r N held []"
  "nests r N held as \<Longrightarrow> nests r N held bs \<Longrightarrow> nests r N held (as @ bs)"
  "(b \<Longrightarrow> nests r N held as) \<Longrightarrow> (\<not> b \<Longrightarrow> nests r N held bs) \<Longrightarrow> nests r N held (if b then as else bs)"
  by (simp_all add: nests_def)

lemma nests_scoped:
  "below r N (library_rank r N l) held \<Longrightarrow> nests r N (l # held) as \<Longrightarrow> nests r N held (scoped l as)"
  by (simp add: nests_def scoped_def after_all_def below_def)

lemma nests_concat [nesting]: "(\<And>x. x \<in> set xs \<Longrightarrow> nests r N held (f x)) \<Longrightarrow> nests r N held (concat (map f xs))"
  by (induction xs) (auto intro: nests_simple)

lemma nests_replicate [nesting]: "nests r N held as \<Longrightarrow> nests r N held (concat (replicate n as))"
  by (induction n) (auto intro: nests_simple)

lemma per_level_eq:
  "per_level f = concat (map (f \<circ> level_castToInt) [Level_Trace, Level_Debug, Level_Fatal, Level_Error,
     Level_Warning, Level_Verbose, Level_Info])"
  by (simp add: per_level_def forEachLevel_def level_kMinValid_def level_kMaxValid_def for_each_index.simps)

lemma nests_per_level [nesting]: "(\<And>i. nests r N held (f i)) \<Longrightarrow> nests r N held (per_level f)"
  unfolding per_level_eq by (rule nests_concat) simp

lemma nests_typed_get [nesting]: "below r N (7 + N) held \<Longrightarrow> nests r N held (typed_get a)"
  unfolding typed_get_def by (intro nests_scoped nesting) simp

lemma nests_level_flush [nesting]: "below r N (7 + N) held \<Longrightarrow> nests r N held (level_flush_locks a given toFile stream)"
  unfolding level_flush_locks_def by (intro nesting)

lemma nests_build [nesting]: "below r N (7 + N) held \<Longrightarrow> nests r N held (build_locks a b)"
  unfolding build_locks_def by (intro nesting nests_scoped) (simp_all add: below_mono)

lemma nests_write [nesting]: "below r N (7 + N) held \<Longrightarrow> nests r N held (write_locks a b)"
  unfolding write_locks_def by (intro nesting)

lemma nests_dispatch [nesting]: "below r N 3 held \<Longrightarrow> nests r N held (dispatch_locks a b)"
  unfolding dispatch_locks_def handle_locks_def
  by (intro nesting nests_scoped) (simp_all add: below_mono)

lemma nests_conf [nesting]: "below r N 6 held \<Longrightarrow> nests r N held (conf_locks c)"
  unfolding conf_locks_def by (intro nests_scoped nesting) (simp add: below_mono)

lemma nests_flush [nesting]: "below r N 2 held \<Longrightarrow> nests r N held (flush_locks a toFile stream)"
  unfolding flush_locks_def by (intro nests_scoped nesting) (simp_all add: below_mono)

text \<open>Configurations are set from others in the order of the configurations.\<close>

definition ordered :: "(conf_owner \<Rightarrow> nat) \<Rightarrow> nat \<Rightarrow> (conf_owner \<times> conf_owner) list \<Rightarrow> bool" where
  "ordered r N es \<longleftrightarrow> (\<forall>(b, c) \<in> set es. r b < r c \<and> r c \<le> N)"

lemma ordered_simps [simp]: "ordered r N []" "ordered r N (es @ fs) \<longleftrightarrow> ordered r N es \<and> ordered r N fs"
  by (auto simp: ordered_def)

lemma ordered_concat [simp]: "ordered r N (concat xss) \<longleftrightarrow> (\<forall>es \<in> set xss. ordered r N es)"
  by (auto simp: ordered_def)

lemma nests_from_base [nesting]:
  assumes "below r N 6 held" and "ordered r N (heirs base own)"
  shows "nests r N held (from_base_locks own base n)"
proof -
  have b: "below r N (library_rank r N (Configurations_lock c)) held" for c
    using assms(1) by (auto intro: below_mono)
  have "nests r N (Configurations_lock base # held) (conf_locks own)" if "base \<noteq> own"
    using that assms(2) b [of own] b [of base] unfolding conf_locks_def
    by (intro nests_scoped nests_simple(1)) (simp add: ordered_def heirs_def)
  from nests_scoped [OF b nests_replicate [OF this]] show ?thesis
    by (simp add: from_base_locks_def nests_simple(1))
qed

lemma nests_configure [nesting]:
  assumes "below r N 2 held" and "ordered r N (if cf_differs c then heirs base (Logger_conf a) else [])"
  shows "nests r N held (configure_locks a base c)"
  using assms unfolding configure_locks_def
  by (intro nesting nests_scoped) (simp_all add: below_mono)

lemma nests_get [nesting]:
  assumes "below r N 1 held" and "ordered r N (new_bases a new)"
  shows "nests r N held (get_locks a new)"
  using assms below_mono [OF assms(1), of 2] unfolding get_locks_def new_bases_def
  by (intro nests_scoped) (auto intro!: nesting split: option.splits)

lemma nests_get_known [nesting]: "below r N 1 held \<Longrightarrow> nests r N held (get_locks a None)"
  by (rule nests_get) (simp_all add: new_bases_def)

lemma nests_writer [nesting]:
  assumes "below r N 1 held" and "ordered r N (new_bases a new)"
  shows "nests r N held (writer_locks a new [] b)"
  using assms unfolding writer_locks_def by (intro nesting nests_scoped) (simp_all add: below_mono)

lemma nests_statement [nesting]:
  assumes "below r N 1 held" and "ordered r N (statement_bases st)"
  shows "nests r N held (statement_locks st)"
proof (cases st)
  case (Registered loggers)
  with assms show ?thesis by (auto intro!: nesting)
next
  case (Unregistered a new b)
  have "nests r N held (writer_locks kDefaultLoggerId None [] b)"
    using assms(1) by (intro nests_writer) (simp_all add: new_bases_def)
  with Unregistered assms show ?thesis by (auto intro!: nesting split: option.split)
qed



text \<open>What holds in every state the calls reach.\<close>

definition start_calls :: "(thread_id \<Rightarrow> library_call list) \<Rightarrow> (lock_name, mutex) locking" where
  "start_calls calls = start_locking Mutex (\<lambda>t. concat (map call_locks (calls t)))"


lemma idle_stays:
  assumes "lock_reaches acquire release s u" and "lk_todo s t = []"
  shows "lk_todo u t = []"
  using assms by (induction) (auto elim!: lock_step.cases)


text \<open>Two threads, each of which waits for a lock of the other, stay where they are for ever.\<close>

lemma wait_for_each_other:
  assumes "lk_todo s 0 \<noteq> []" and "hd (lk_todo s 0) = Lock k" and "lk_todo s 1 \<noteq> []" and "hd (lk_todo s 1) = Lock l"
    and "mx_lock 0 (lk_mutex s k) = None" and "mx_lock 1 (lk_mutex s l) = None"
    and "\<And>t. t \<noteq> 0 \<Longrightarrow> t \<noteq> 1 \<Longrightarrow> lk_todo s t = []"
  shows "\<not> lock_step mx_lock mx_unlock t s s'"
proof -
  have "next_locking mx_lock mx_unlock t s = None"
    using assms by (cases "t = 0"; cases "t = 1") (auto simp: next_locking_def neq_Nil_conv)
  then show ?thesis by (simp flip: next_locking_step)
qed

section \<open>Properties\<close>


text \<open>A statement for one logger in whose text there is a statement for another one.\<close>

definition plain_branches :: line_branches where
  "plain_branches = \<lparr>lb_checked = True, lb_proceed = True, lb_strict = False, lb_callback = True,
     lb_file = ''log.txt'', lb_threadId = False, lb_dateTime = True, lb_toFile = True, lb_stream = True,
     lb_failed = False, lb_immediate = False, lb_flush = False\<rparr>"

definition nested_statement :: "string \<Rightarrow> string \<Rightarrow> lock_name lock_action list" where
  "nested_statement a b = writer_locks a None (writer_locks b None [] plain_branches) plain_branches"

text \<open>
  C27. A statement whose text is evaluated by a function that logs itself holds the lock of its
  logger meanwhile: two threads that do so with each other's loggers wait for ever.
\<close>

theorem nested_statements_deadlock:
  "\<exists>s. lock_reaches mx_lock mx_unlock
      (start_locking Mutex (\<lambda>t. if t = 0 then nested_statement ''a'' ''b'' else if t = 1 then nested_statement ''b'' ''a'' else [])) s \<and>
    lk_todo s 0 \<noteq> [] \<and> lk_todo s 1 \<noteq> [] \<and> (\<forall>t s'. \<not> lock_step mx_lock mx_unlock t s s')"
proof -
  let ?start = "start_locking Mutex (\<lambda>t. if t = 0 then nested_statement ''a'' ''b''
    else if t = (1 :: nat) then nested_statement ''b'' ''a'' else [])"
  have "map_option (\<lambda>s. (hd (lk_todo s 0), hd (lk_todo s 1), lk_todo s 0 = [], lk_todo s 1 = [],
        lk_mutex s (Logger_lock ''a''), lk_mutex s (Logger_lock ''b'')))
      (run_locking mx_lock mx_unlock (replicate 7 0 @ replicate 7 1) ?start) =
    Some (Lock (Logger_lock ''b''), Lock (Logger_lock ''a''), False, False,
      \<lparr>mx_owner = 0, mx_count = 1\<rparr>, \<lparr>mx_owner = 1, mx_count = 1\<rparr>)" by code_simp
  from locking_scheduled [OF this] obtain s where s: "lock_reaches mx_lock mx_unlock ?start s"
    "hd (lk_todo s 0) = Lock (Logger_lock ''b'')" "hd (lk_todo s 1) = Lock (Logger_lock ''a'')"
    "lk_todo s 0 \<noteq> []" "lk_todo s 1 \<noteq> []"
    "lk_mutex s (Logger_lock ''a'') = \<lparr>mx_owner = 0, mx_count = 1\<rparr>"
    "lk_mutex s (Logger_lock ''b'') = \<lparr>mx_owner = 1, mx_count = 1\<rparr>" by auto
  have "lk_todo s t = []" if "t \<noteq> 0" "t \<noteq> 1" for t
    using that by (intro idle_stays [OF s(1)]) (simp add: start_locking_def)
  then have "\<not> lock_step mx_lock mx_unlock t s s'" for t s'
    using s by (intro wait_for_each_other [OF s(4, 2, 5, 3)]) (simp_all add: mx_lock_def)
  with s(1, 4, 5) show ?thesis by blast
qed

text \<open>
  Configurations that are set from those of a logger, while the logger is configured from them:
  each call holds the lock of its base and waits for its own. Such circles are what the order of
  the configurations excludes.
\<close>

definition copying_branches :: configure_branches where
  "copying_branches = \<lparr>cf_typed = False, cf_filename = False, cf_toFile = (\<lambda>_. False), cf_stream = (\<lambda>_. False),
     cf_differs = True, cf_count = 1\<rparr>"

definition crossed_calls :: "thread_id \<Rightarrow> library_call list" where
  "crossed_calls t =
     (if t = 0 then [Call_from_base (User_conf 0) (Logger_conf ''a'') 1]
      else if t = 1 then [Call_configure ''a'' (User_conf 0) copying_branches] else [])"

theorem configurations_deadlock:
  "\<exists>s. lock_reaches mx_lock mx_unlock (start_calls crossed_calls) s \<and>
    lk_todo s 0 \<noteq> [] \<and> lk_todo s 1 \<noteq> [] \<and> (\<forall>t s'. \<not> lock_step mx_lock mx_unlock t s s')"
proof -
  let ?user = "Configurations_lock (User_conf 0)" and ?logger = "Configurations_lock (Logger_conf ''a'')"
  have "map_option (\<lambda>s. (hd (lk_todo s 0), hd (lk_todo s 1), lk_todo s 0 = [], lk_todo s 1 = [],
        lk_mutex s ?logger, lk_mutex s ?user))
      (run_locking mx_lock mx_unlock [0, 1, 1] (start_calls crossed_calls)) =
    Some (Lock ?user, Lock ?logger, False, False, \<lparr>mx_owner = 0, mx_count = 1\<rparr>, \<lparr>mx_owner = 1, mx_count = 1\<rparr>)"
    by code_simp
  from locking_scheduled [OF this] obtain s where s: "lock_reaches mx_lock mx_unlock (start_calls crossed_calls) s"
    "hd (lk_todo s 0) = Lock ?user" "hd (lk_todo s 1) = Lock ?logger" "lk_todo s 0 \<noteq> []" "lk_todo s 1 \<noteq> []"
    "lk_mutex s ?logger = \<lparr>mx_owner = 0, mx_count = 1\<rparr>" "lk_mutex s ?user = \<lparr>mx_owner = 1, mx_count = 1\<rparr>" by auto
  have "lk_todo s t = []" if "t \<noteq> 0" "t \<noteq> 1" for t
    using that by (intro idle_stays [OF s(1)]) (simp add: start_calls_def crossed_calls_def start_locking_def)
  then have "\<not> lock_step mx_lock mx_unlock t s s'" for t s'
    using s by (intro wait_for_each_other [OF s(4, 2, 5, 3)]) (simp_all add: mx_lock_def)
  with s(1, 4, 5) show ?thesis by blast
qed




end
