(* ===== verification/Elpp_Use.thy ===== *)
theory Elpp_Use imports Elpp_Macros Elpp_Values begin

text \<open>
  How a program uses the storage of the logging library: the functions of \<open>Loggers\<close>, settings,
  operations of a logger, statements of every macro with values of every kind, formats and
  tracked blocks, in any order. Each of them keeps the ownership of loggers and configurations.
\<close>

section \<open>Uses\<close>

text \<open>
  Whatever an operator of the user writes, it does not create, register or delete loggers; and
  a condition changes nothing but the hit counters.
\<close>

definition writes_value :: "(message_builder \<Rightarrow> ('f storage, unit) prog) \<Rightarrow> bool" where
  "writes_value v \<longleftrightarrow> (\<forall>b. same_skeleton (v b))"

definition counts_hits :: "'f condition \<Rightarrow> bool" where
  "counts_hits cond \<longleftrightarrow>
     (\<forall>s x t. cond s = Some (Inr (x, t)) \<longrightarrow> (\<exists>cs. t = s\<lparr>sg_registeredHitCounters := cs\<rparr>))"

text \<open>A statement with values of any kind; with texts it is \<open>write_log\<close>.\<close>

definition write_values ::
  "'f log_site \<Rightarrow> writer_class \<Rightarrow> level \<Rightarrow> dispatch_action \<Rightarrow> nat \<Rightarrow> string list \<Rightarrow>
   (message_builder \<Rightarrow> ('f storage, unit) prog) list \<Rightarrow> ('f storage, unit) prog" where
  "write_values c cls level action vlevel ids values =
     pbind (construct (ls_env c) (ls_inner c) ids
              (Writer level (ls_file c) (ls_line c) (ls_func c) action vlevel)) (\<lambda>w.
     pbind (pfor values (\<lambda>v. if wr_proceed w then v (wr_messageBuilder w) else preturn ())) (\<lambda>_.
     end_of_statement c cls w))"

lemma write_log_values:
  "write_log c cls level action vlevel ids texts =
     write_values c cls level action vlevel ids (map (\<lambda>txt b. mb_log b txt) texts)"
proof -
  have streamed: "pfor (map (\<lambda>txt b. mb_log b txt) texts) (\<lambda>v. if wr_proceed w then v (wr_messageBuilder w) else preturn ()) =
      pfor texts (\<lambda>txt. wr_log txt w)" for w
    by (induction texts) (simp_all add: wr_log_def)
  show ?thesis unfolding write_log_def write_values_def streamed ..
qed

definition no_answer :: "('s, 'a) prog \<Rightarrow> ('s, unit) prog" where
  "no_answer p = pbind p (\<lambda>_. preturn ())"

text \<open>What is set on the storage, besides configurations.\<close>

inductive setting :: "('f storage, unit) prog \<Rightarrow> bool" where
  "setting (sg_addFlag flag)" | "setting (sg_removeFlag flag)" | "setting (sg_setFlags flags)"
| "setting (sg_setLoggingLevel level)" | "setting (setVerboseLevel n)"
| "setting (setVModules modules)" | "setting clearVModules"
| "setting (no_answer (installLogDispatchCallback i k))" | "setting (uninstallLogDispatchCallback i)"
| "setting (no_answer (installLoggerRegistrationCallback i n))" | "setting (uninstallLoggerRegistrationCallback i)"
| "setting (no_answer (installPerformanceTrackingCallback i pk))" | "setting (uninstallPerformanceTrackingCallback i)"
| "setting (setPreRollOutCallback cb)" | "setting unsetPreRollOutCallback"
| "setting (sg_setThreadName name)" | "setting (RL_setDefaultLogBuilder lb)"

text \<open>One use of the storage that returned; \<open>user\<close> are the user's functions for tracked blocks.\<close>

inductive storage_step ::
  "'f environment \<Rightarrow> 'f tracking_functions \<Rightarrow> 'f storage \<Rightarrow> 'f storage \<Rightarrow> bool" for env user where
  api: "api_step env s t \<Longrightarrow> storage_step env user s t"
| has_logger: "hasLogger env i s = Some (Inr (b, t)) \<Longrightarrow> storage_step env user s t"
| from_arg: "configureFromArg env files key s = Some (Inr (b, t)) \<Longrightarrow> storage_step env user s t"
| default_typed: "defaultTypedConfigurations env s = Some (Inr (ty, t)) \<Longrightarrow> storage_step env user s t"
| setting: "setting p \<Longrightarrow> p s = Some (Inr ((), t)) \<Longrightarrow> storage_step env user s t"
| configure: "configure env a conf s = Some (Inr ((), t)) \<Longrightarrow> storage_step env user s t"
| reconfigure: "reconfigure env a s = Some (Inr ((), t)) \<Longrightarrow> storage_step env user s t"
| flush: "logger_flush env a s = Some (Inr ((), t)) \<Longrightarrow> storage_step env user s t"
| rolling: "Helpers_validateFileRolling env p level s = Some (Inr ((), t)) \<Longrightarrow> storage_step env user s t"
| statement: "ls_env c = env \<Longrightarrow> ls_inner c = writer_at_depth env d \<Longrightarrow> counts_hits cond \<Longrightarrow>
    \<forall>v \<in> set values. writes_value v \<Longrightarrow>
    pbind cond (\<lambda>b. if b then write_values c cls level action vlevel ids values else preturn ()) s =
      Some (Inr ((), t)) \<Longrightarrow> storage_step env user s t"
| format: "Logger_log env (writer_at_depth env d) fl a level vlevel fmt texts s = Some (Inr ((), t)) \<Longrightarrow>
    storage_step env user s t"
| text_of: "writes_value v \<Longrightarrow> convertTemplateToStdString env v s = Some (Inr (txt, t)) \<Longrightarrow>
    storage_step env user s t"
| tracker: "PerformanceTracker env garbage now name ts i scopedLog level s = Some (Inr (tr, t)) \<Longrightarrow>
    storage_step env user s t"
| checkpoint: "checkpoint env (writer_at_depth env d) user now later i fl ln fn tr s = Some (Inr (tr', t)) \<Longrightarrow>
    storage_step env user s t"
| tracked: "PerformanceTracker_destroy env (writer_at_depth env d) user now tr s = Some (Inr ((), t)) \<Longrightarrow>
    storage_step env user s t"

inductive storage_used :: "'f environment \<Rightarrow> 'f tracking_functions \<Rightarrow> 'f storage \<Rightarrow> bool" for env user where
  fresh: "no_loggers s \<Longrightarrow> storage_used env user s"
| used: "storage_used env user s \<Longrightarrow> storage_step env user s t \<Longrightarrow> storage_used env user t"

text \<open>The user's callbacks and builders may use the library as they like, as long as they keep the ownership.\<close>

definition good_user :: "'f environment \<Rightarrow> 'f tracking_functions \<Rightarrow> bool" where
  "good_user env user \<longleftrightarrow>
     good_callbacks env \<and> (\<forall>k msg action. prog_keeps owned (en_dispatched env k msg action)) \<and>
     (\<forall>k msg b. prog_keeps owned (en_build env k msg b)) \<and> (\<forall>k data. prog_keeps owned (user k data))"

section \<open>Values\<close>

lemma stream_append_skeleton [simp, intro]: "same_skeleton (stream_append p txt)"
  by (cases p) (simp_all add: stream_append_def same_skeleton_update)

lemma clear_stream_skeleton [simp, intro]: "same_skeleton (clear_stream p)"
  by (cases p) (simp_all add: clear_stream_def same_skeleton_update)

lemma mb_log_skeleton [simp, intro]: "same_skeleton (mb_log b txt)"
  unfolding mb_log_def by (intro same_skeleton_pbind same_skeleton_if) simp_all

lemma writeIterator_skeleton [simp, intro]: "same_skeleton (writeIterator b es sz)"
proof -
  have "same_skeleton (write_elements b sz i es)" for i
    by (induction es arbitrary: i) (auto intro!: same_skeleton_pbind)
  then show ?thesis
    unfolding writeIterator_def by (intro same_skeleton_pbind same_skeleton_if) simp_all
qed

lemma qt_map_loop_skeleton: "same_skeleton (qt_map_loop b sz i kt vt ks)"
  by (induction ks arbitrary: i) (auto intro!: same_skeleton_pbind)

text \<open>Every value the library knows how to stream.\<close>

lemma values_written:
  "writes_value (\<lambda>b. mb_log b txt)" "writes_value (\<lambda>b. mb_value enc b v)"
  "writes_value (\<lambda>b. mb_container b es)" "writes_value (\<lambda>b. mb_queue b es)" "writes_value (\<lambda>b. mb_stack b es)"
  "writes_value (\<lambda>b. mb_array b es)" "writes_value (\<lambda>b. mb_priority_queue lt txt_of b xs)"
  "writes_value (\<lambda>b. mb_pair b x y)" "writes_value (\<lambda>b. mb_bitset b txt)" "writes_value (\<lambda>b. mb_qt_text b txt)"
  "writes_value (\<lambda>b. mb_qt_pair b x y)" "writes_value (\<lambda>b. mb_qt_map b kt vt ks)"
  unfolding writes_value_def
  by (auto simp: mb_value_def mb_wide_def mb_manipulator_def mb_container_def mb_queue_def mb_stack_def mb_array_def
      mb_priority_queue_def mb_pair_def mb_bitset_def mb_qt_text_def mb_qt_pair_def mb_qt_map_def Let_def
      intro!: same_skeleton_pbind qt_map_loop_skeleton split: simple_value.split option.split)

lemma conditions_count:
  "counts_hits (preturn b)" "counts_hits (on_counters f)" "counts_hits (VLOG_IS_ON c vlevel)"
proof -
  have same: "\<exists>cs. t = s\<lparr>sg_registeredHitCounters := cs\<rparr>" if "t = s" for s t :: "'f storage"
    using that by (intro exI [of _ "sg_registeredHitCounters s"]) simp
  show "counts_hits (preturn b)" "counts_hits (VLOG_IS_ON c vlevel)"
    unfolding counts_hits_def VLOG_IS_ON_def by (auto simp: plift_eq intro!: same)
  show "counts_hits (on_counters f)"
    by (auto simp: counts_hits_def on_counters_def Let_def split: prod.splits)
qed

section \<open>Statements\<close>

lemma wr_log_skeleton [simp, intro]: "same_skeleton (wr_log txt w)"
  by (simp add: wr_log_def)

lemma RL_has_owned: "good_callbacks env \<Longrightarrow> prog_keeps owned (RL_has env i)"
  unfolding RL_has_def by (intro prog_keeps_pbind RL_get_owned) simp_all

lemmas owned_reads = same_skeleton_reads [THEN same_skeleton_owned]
lemmas owned_streams = stream_append_skeleton [THEN same_skeleton_owned] clear_stream_skeleton [THEN same_skeleton_owned]
  mb_log_skeleton [THEN same_skeleton_owned] wr_log_skeleton [THEN same_skeleton_owned]
lemmas owned_flush = same_skeleton_flush [THEN same_skeleton_owned] same_skeleton_files [THEN same_skeleton_owned]

text \<open>A writer inside a writer keeps the ownership, too.\<close>

definition good_inner :: "'f inner_writer \<Rightarrow> bool" where
  "good_inner inner \<longleftrightarrow> (\<forall>level fl ln fn texts. prog_keeps owned (inner level fl ln fn texts))"

lemma good_innerD: "good_inner inner \<Longrightarrow> prog_keeps owned (inner level fl ln fn texts)"
  by (simp add: good_inner_def)

lemma initializeLogger_owned:
  assumes "good_callbacks env" and "good_inner inner"
  shows "prog_keeps owned (initializeLogger env inner i lookup w)"
  unfolding initializeLogger_def Let_def using assms
  by (auto intro!: prog_keeps_pbind RL_get_owned RL_has_owned owned_reads good_innerD [OF assms(2)] split: option.split)

lemma construct_owned:
  assumes "good_callbacks env" and "good_inner inner"
  shows "prog_keeps owned (construct env inner ids w)" "prog_keeps owned (construct_logger env inner a w)"
  unfolding construct_def construct_logger_def initialize_builder_def
  using initializeLogger_owned [OF assms]
  by (auto intro!: prog_keeps_pbind owned_reads split: list.split)

lemma write_stream_skeleton: "same_skeleton (write_stream env f txt)"
  by (auto simp: same_skeleton_def prog_keeps_def write_stream_def skeleton_def Let_def split: prod.splits)

lemma dispatch_skeleton: "same_skeleton (dispatch env msg action txt)"
proof -
  have "same_skeleton (isFlushNeeded a level)" for a level
    unfolding isFlushNeeded_def
    by (auto intro!: same_skeleton_pbind simp: Let_def split: option.split)
  moreover have "same_skeleton (logger_builder a)" for a
    unfolding logger_builder_def by (auto intro!: same_skeleton_pbind split: option.split)
  ultimately show ?thesis
    unfolding dispatch_def dispatch_file_def dispatch_stdout_def Let_def
    by (auto intro!: same_skeleton_pbind write_stream_skeleton same_skeleton_modify split: option.split
        simp: skeleton_def)
qed

lemma default_build_skeleton: "same_skeleton (default_build env msg nl)"
  unfolding default_build_def
proof (intro same_skeleton_pbind)
  show "same_skeleton (\<lambda>s. plift (build_from f (lg_parentApplicationName l) (sg_getThreadName getCurrentThreadId s)
      (date_text (en_sys env) (w_files (sg_world s)) (lm_level msg) t f) (sg_customFormatSpecifiers s) msg nl) s)" for f l t
    by (rule same_skeleton_read) simp
qed simp_all

lemma log_dispatch_owned:
  assumes "good_user env user"
  shows "prog_keeps owned (log_dispatch env proceed msg action)"
proof -
  have b: "prog_keeps owned (logger_builder a)" for a
    unfolding logger_builder_def by (auto intro!: prog_keeps_pbind owned_reads split: option.split)
  have l: "prog_keeps owned (lb_build env lb msg nl)" for lb nl
    unfolding lb_build_def using assms same_skeleton_owned [OF default_build_skeleton]
    by (auto simp: good_user_def split: builder_kind.split)
  have "prog_keeps owned (handle env msg action cb)" for cb
    unfolding handle_def default_handle_def using assms
    by (auto intro!: prog_keeps_pbind b l same_skeleton_owned [OF dispatch_skeleton] simp: good_user_def
        split: dispatch_kind.split)
  then show ?thesis
    unfolding log_dispatch_def
    by (auto intro!: prog_keeps_pbind prog_keeps_pfor owned_reads owned_flush split: prod.split)
qed

lemma triggerDispatch_owned:
  assumes "good_user env user" and "good_inner inner"
  shows "prog_keeps owned (triggerDispatch env inner w)"
proof -
  have m: "prog_keeps owned (LogMessage level fl ln fn vlevel a)" for level fl ln fn vlevel a
    unfolding LogMessage_def by (intro prog_keeps_pbind owned_reads) simp
  have a: "prog_keeps owned (pmodify (\<lambda>s. s\<lparr>sg_aborted := True\<rparr>))"
    by (rule modify_owned) (simp add: skeleton_def)
  show ?thesis
    unfolding triggerDispatch_def using assms(2)
    by (auto intro!: prog_keeps_pbind m a owned_streams good_innerD [OF assms(2)] log_dispatch_owned [OF assms(1)]
        split: option.split)
qed

lemma process_loop_owned:
  assumes "good_user env user" and "good_inner inner"
  shows "prog_keeps owned (process_loop env inner several rest fd msg w)"
proof (induction rest arbitrary: fd msg w)
  case Nil
  show ?case
    using triggerDispatch_owned [OF assms]
    by (subst process_loop.simps)
       (auto intro!: prog_keeps_pbind owned_streams owned_reads split: option.split)
next
  case (Cons i rest)
  have "good_callbacks env" using assms(1) by (simp add: good_user_def)
  from initializeLogger_owned [OF this assms(2)]
  have "prog_keeps owned (pbind (initializeLogger env inner i True w) (process_loop env inner several rest fd msg))"
    for w fd msg using Cons.IH by (rule prog_keeps_pbind)
  then show ?case
    using triggerDispatch_owned [OF assms]
    by (subst process_loop.simps)
       (auto intro!: prog_keeps_pbind owned_streams owned_reads split: option.split simp del: process_loop.simps)
qed

lemma processDispatch_owned:
  assumes "good_user env user" and "good_inner inner"
  shows "prog_keeps owned (processDispatch env inner w)"
  unfolding processDispatch_def using triggerDispatch_owned [OF assms]
  by (auto intro!: prog_keeps_pbind owned_streams process_loop_owned [OF assms] simp del: process_loop.simps)

lemma log_statement_owned:
  assumes "good_user env user" and "good_inner inner"
  shows "prog_keeps owned (log_statement env inner ids texts w)"
  unfolding log_statement_def using assms
  by (auto intro!: prog_keeps_pbind prog_keeps_pfor owned_streams construct_owned processDispatch_owned [OF assms]
      simp: good_user_def)

lemma writer_at_depth_owned:
  assumes "good_user env user"
  shows "good_inner (writer_at_depth env d)"
proof (induction d)
  case 0
  show ?case by (simp add: good_inner_def prog_keeps_def)
next
  case (Suc d)
  then show ?case using log_statement_owned [OF assms, of "writer_at_depth env d"] by (simp add: good_inner_def)
qed

lemma pvalues_owned:
  "\<forall>v \<in> set values. writes_value v \<Longrightarrow>
     prog_keeps owned (pfor values (\<lambda>v. if wr_proceed w then v (wr_messageBuilder w) else preturn ()))"
  by (induction "values") (auto simp: writes_value_def intro!: prog_keeps_pbind intro: same_skeleton_owned)

lemma write_values_owned:
  assumes "good_user (ls_env c) user" and "good_inner (ls_inner c)" and "\<forall>v \<in> set values. writes_value v"
  shows "prog_keeps owned (write_values c cls level action vlevel ids values)"
proof -
  have "prog_keeps owned (PErrorWriter_destroy (ls_env c) (ls_inner c) strerror errno w)" for strerror errno w
    unfolding PErrorWriter_destroy_def
    by (auto intro!: prog_keeps_pbind owned_streams processDispatch_owned [OF assms(1, 2)])
  then have "prog_keeps owned (end_of_statement c cls w)" for w
    by (cases cls) (simp_all add: end_of_statement_def processDispatch_owned [OF assms(1, 2)])
  then show ?thesis
    unfolding write_values_def using assms
    by (auto intro!: prog_keeps_pbind construct_owned pvalues_owned [OF assms(3)] simp: good_user_def)
qed

lemma counts_hits_owned: "counts_hits cond \<Longrightarrow> prog_keeps owned cond"
proof (rule prog_keepsI)
  fix s x t assume "counts_hits cond" "owned s" "cond s = Some (Inr (x, t))"
  then obtain cs where "t = s\<lparr>sg_registeredHitCounters := cs\<rparr>" unfolding counts_hits_def by blast
  then have "skeleton t = skeleton s" by (simp add: skeleton_def)
  with \<open>owned s\<close> show "owned t" using owned_skeleton by blast
qed

lemma Logger_log_owned:
  assumes "good_user env user" and "good_inner inner"
  shows "prog_keeps owned (Logger_log env inner file_name a level vlevel fmt texts)"
proof -
  have g: "good_callbacks env" using assms(1) by (simp add: good_user_def)
  have r: "prog_keeps owned (\<lambda>s. plift (f s) s)" for f :: "'f storage \<Rightarrow> bool result"
    by (rule same_skeleton_owned, rule same_skeleton_read) simp
  have v: "prog_keeps owned (log_value env inner file_name a level vlevel tx)" for tx
    unfolding log_value_def Let_def
    by (auto intro!: prog_keeps_pbind r owned_streams construct_owned [OF g assms(2)] processDispatch_owned [OF assms])
  have "prog_keeps owned (log_format_loop env inner file_name a level vlevel b fmt texts)" for b
    using v
    by (induction env inner file_name a level vlevel b fmt texts rule: log_format_loop.induct)
       (auto intro!: prog_keeps_pbind v owned_streams)
  then show ?thesis unfolding Logger_log_def by (intro prog_keeps_pbind) simp_all
qed

lemma convert_owned:
  "good_callbacks env \<Longrightarrow> writes_value v \<Longrightarrow> prog_keeps owned (convertTemplateToStdString env v)"
proof -
  assume g: "good_callbacks env" and "writes_value v"
  then have v: "prog_keeps owned (v b)" for b by (simp add: writes_value_def same_skeleton_owned)
  show ?thesis unfolding convertTemplateToStdString_def
    by (auto intro!: prog_keeps_pbind RL_get_owned [OF g] v owned_reads owned_streams split: option.split)
qed

lemma tracking_owned:
  assumes "good_user env user" and "good_inner inner"
  shows "prog_keeps owned (PerformanceTracker env garbage now name ts i scopedLog level)"
    "prog_keeps owned (checkpoint env inner user now later j fl ln fn tr)"
    "prog_keeps owned (PerformanceTracker_destroy env inner user now tr)"
proof -
  have "prog_keeps owned (run_tracking_callbacks env inner user data)" for data
    unfolding run_tracking_callbacks_def default_tracking_handle_def using assms(1)
    by (auto intro!: prog_keeps_pbind prog_keeps_pfor log_statement_owned [OF assms] simp: good_user_def
        split: prod.split performance_kind.split)
  then show "prog_keeps owned (checkpoint env inner user now later j fl ln fn tr)"
    "prog_keeps owned (PerformanceTracker_destroy env inner user now tr)"
    unfolding checkpoint_def PerformanceTracker_destroy_def Let_def by (auto intro!: prog_keeps_pbind)
  show "prog_keeps owned (PerformanceTracker env garbage now name ts i scopedLog level)"
    unfolding PerformanceTracker_def using assms(1)
    by (auto intro!: prog_keeps_pbind RL_get_owned owned_reads simp: good_user_def split: option.split)
qed

lemma same_skeleton_returns:
  "(\<And>s. skeleton (f s) = skeleton s) \<Longrightarrow> same_skeleton (\<lambda>s. Some (Inr (x, f s)))"
  by (auto simp: same_skeleton_def prog_keeps_def)

lemma setting_skeleton: "setting p \<Longrightarrow> same_skeleton p"
  by (induction rule: setting.induct)
     (auto simp: sg_addFlag_def sg_removeFlag_def sg_setFlags_def sg_setLoggingLevel_def setVerboseLevel_def
        setVModules_def clearVModules_def no_answer_def installLogDispatchCallback_def uninstallLogDispatchCallback_def
        installLoggerRegistrationCallback_def uninstallLoggerRegistrationCallback_def
        installPerformanceTrackingCallback_def uninstallPerformanceTrackingCallback_def setPreRollOutCallback_def
        unsetPreRollOutCallback_def sg_setThreadName_def RL_setDefaultLogBuilder_def skeleton_def Let_def
        intro!: same_skeleton_pbind same_skeleton_modify same_skeleton_returns split: prod.split)

section \<open>Every use keeps the ownership\<close>

lemma storage_step_owned:
  assumes "good_user env user" and "storage_step env user s t" and "owned s"
  shows "owned t"
proof -
  have g: "good_callbacks env" using assms(1) by (simp add: good_user_def)
  note w = writer_at_depth_owned [OF assms(1)]
  show ?thesis using assms(2, 3)
  proof cases
    case api
    with g assms(3) show ?thesis by (blast intro: api_step_owned)
  next
    case (has_logger i b)
    with prog_keepsD [OF RL_has_owned [OF g]] assms(3) show ?thesis by (simp add: hasLogger_def)
  next
    case (from_arg files key b)
    have "prog_keeps owned (configureFromArg env files key)"
      unfolding configureFromArg_def configureFromGlobal_def
      by (auto intro!: prog_keeps_pbind global_lines_owned [OF g])
    from prog_keepsD [OF this assms(3) from_arg] show ?thesis .
  next
    case (default_typed ty)
    have "prog_keeps owned (defaultTypedConfigurations env)"
      unfolding defaultTypedConfigurations_def by (auto intro!: prog_keeps_pbind intro: same_skeleton_owned)
    from prog_keepsD [OF this assms(3) default_typed] show ?thesis .
  next
    case (setting p)
    from prog_keepsD [OF same_skeleton_owned [OF setting_skeleton [OF setting(1)]] assms(3) setting(2)] show ?thesis .
  next
    case (configure a conf)
    from prog_keepsD [OF configure_owned assms(3) this] show ?thesis .
  next
    case (reconfigure a)
    have "prog_keeps owned (reconfigure env a)"
      unfolding reconfigure_def by (auto intro!: prog_keeps_pbind owned_reads configure_owned)
    from prog_keepsD [OF this assms(3) reconfigure] show ?thesis .
  next
    case (flush a)
    from prog_keepsD [OF same_skeleton_owned [OF same_skeleton_flush(2)] assms(3) this] show ?thesis .
  next
    case (rolling p level)
    have "same_skeleton (Helpers_validateFileRolling env p level)"
      by (simp add: Helpers_validateFileRolling_def split: option.split)
    from prog_keepsD [OF same_skeleton_owned [OF this] assms(3) rolling] show ?thesis .
  next
    case (statement c d cond "values" cls level action vlevel ids)
    have "prog_keeps owned (write_values c cls level action vlevel ids values)"
      using write_values_owned [of c user "values"] assms(1) w statement(1, 2, 4) by simp
    then have "prog_keeps owned (pbind cond (\<lambda>b. if b then write_values c cls level action vlevel ids values else preturn ()))"
      using counts_hits_owned [OF statement(3)] by (auto intro!: prog_keeps_pbind)
    from prog_keepsD [OF this assms(3) statement(5)] show ?thesis .
  next
    case (format d fl a level vlevel fmt texts)
    from prog_keepsD [OF Logger_log_owned [OF assms(1) w] assms(3) this] show ?thesis .
  next
    case (text_of v tx)
    from prog_keepsD [OF convert_owned [OF g text_of(1)] assms(3) text_of(2)] show ?thesis .
  next
    case (tracker garbage now name ts i scopedLog level tr)
    from prog_keepsD [OF tracking_owned(1) [OF assms(1) w] assms(3) this] show ?thesis .
  next
    case (checkpoint d now later i fl ln fn tr tr')
    from prog_keepsD [OF tracking_owned(2) [OF assms(1) w] assms(3) this] show ?thesis .
  next
    case (tracked d now tr)
    from prog_keepsD [OF tracking_owned(3) [OF assms(1) w] assms(3) this] show ?thesis .
  qed
qed

lemma storage_used_owned: "good_user env user \<Longrightarrow> storage_used env user s \<Longrightarrow> owned s"
  by (rotate_tac, induction rule: storage_used.induct) (auto intro: no_loggers_owned storage_step_owned)

end
