(* ===== verification/Elpp_Storage.thy ===== *)
theory Elpp_Storage imports Elpp_Use begin

text \<open>
  The end of the storage of the logging library: the destructors of \<open>Storage\<close>,
  \<open>RegisteredLoggers\<close> and \<open>Registry\<close>, and what the functions of \<open>Loggers\<close> pass on to the
  storage.
\<close>

section \<open>Destructors\<close>

definition delete_each :: "string table \<Rightarrow> ('f storage, unit) prog" where
  "delete_each table = pfor table (\<lambda>(_, p). case p of None \<Rightarrow> preturn () | Some a \<Rightarrow> delete_logger a)"

definition RL_unregisterAll :: "('f storage, unit) prog" where
  "RL_unregisterAll =
     pbind (pget sg_registeredLoggers) (\<lambda>table.
     if table \<noteq> [] then
       pbind (delete_each table) (\<lambda>_.
       pmodify (\<lambda>s. s\<lparr>sg_registeredLoggers := []\<rparr>))
     else preturn ())"

text \<open>The destructor of the class, then the one of its base.\<close>

definition RegisteredLoggers_destroy :: "'f environment \<Rightarrow> ('f storage, unit) prog" where
  "RegisteredLoggers_destroy env = pbind (RL_unsafeFlushAll env) (\<lambda>_. RL_unregisterAll)"

definition RegisteredHitCounters_destroy :: "('f storage, unit) prog" where
  "RegisteredHitCounters_destroy = pmodify (\<lambda>s. s\<lparr>sg_registeredHitCounters := []\<rparr>)"

definition VRegistry_destroy :: "('f storage, unit) prog" where
  "VRegistry_destroy = preturn ()"

definition Storage_destroy :: "'f environment \<Rightarrow> ('f storage, unit) prog" where
  "Storage_destroy env =
     pbind RegisteredHitCounters_destroy (\<lambda>_.
     pbind (RegisteredLoggers_destroy env) (\<lambda>_.
     VRegistry_destroy))"

section \<open>What \<open>Loggers\<close> passes on\<close>

definition Loggers_setDefaultLogBuilder :: "log_builder option \<Rightarrow> ('f storage, unit) prog" where
  "Loggers_setDefaultLogBuilder logBuilderPtr = RL_setDefaultLogBuilder logBuilderPtr"

definition defaultConfigurations :: "'f storage \<Rightarrow> configurations" where
  "defaultConfigurations s = sg_defaultConfigurations s"

definition logStreamsReference :: "'f storage \<Rightarrow> (string \<times> stream) list" where
  "logStreamsReference s = w_streams (sg_world s)"

definition version :: string where
  "version = ''9.96.4''"

definition releaseDate :: string where
  "releaseDate = ''03-04-2018 1019hrs''"

section \<open>Facts\<close>

lemma owned_alive:
  assumes "owned s"
  shows "(k, p) \<in> set (sg_registeredLoggers s) \<Longrightarrow> \<exists>a l. p = Some a \<and> st_objs (sg_heap s) a = Some l"
    and "st_objs (sg_heap s) a = Some l \<Longrightarrow> lg_typedConfigurations l = Some q \<Longrightarrow> \<exists>t. st_objs (sg_typed s) q = Some t"
  using assms unfolding owned_def by blast+

lemma delete_logger_owned:
  assumes o: "owned (s\<lparr>sg_registeredLoggers := (i, p) # table\<rparr>)"
  obtains a l u where "p = Some a" "st_objs (sg_heap s) a = Some l" "delete_logger a s = Some (Inr ((), u))"
    "u\<lparr>sg_registeredLoggers := table\<rparr> = without i a l (s\<lparr>sg_registeredLoggers := (i, p) # table\<rparr>)"
    "sg_registeredLoggers u = sg_registeredLoggers s" "sg_world u = sg_world s"
    "sg_registeredHitCounters u = sg_registeredHitCounters s"
    "owned (u\<lparr>sg_registeredLoggers := table\<rparr>)"
proof -
  from owned_alive(1) [OF o, of i p] obtain a l where a: "p = Some a" "st_objs (sg_heap s) a = Some l" by auto
  let ?s = "s\<lparr>sg_registeredLoggers := (i, p) # table\<rparr>"
  have d: "distinct (i # map fst table)" using o by (simp add: owned_def)
  then have f: "filter (\<lambda>(k, _). k \<noteq> i) table = table" by (intro filter_True) (auto intro: rev_image_eqI)
  have t: "st_objs (sg_typed s) q \<noteq> None" if "lg_typedConfigurations l = Some q" for q
    using owned_alive(2) [OF o, of a l q] a that by simp
  let ?u = "s\<lparr>sg_typed := (sg_typed s)\<lparr>st_objs := (\<lambda>q. if Some q = lg_typedConfigurations l then None else st_objs (sg_typed s) q)\<rparr>,
     sg_heap := (sg_heap s)\<lparr>st_objs := (st_objs (sg_heap s))(a := None)\<rparr>\<rparr>"
  have u: "delete_logger a s = Some (Inr ((), ?u))"
    using a t by (cases "lg_typedConfigurations l")
      (auto simp: delete_logger_def logger_at_Some pbind_def delete_typed_def safeDelete_def fun_upd_def
        split: option.split cong: if_cong)
  have w: "?u\<lparr>sg_registeredLoggers := table\<rparr> = without i a l ?s" by (simp add: without_def f cong: if_cong)
  have "owned (without i a l ?s)"
    by (rule owned_without [OF o]) (simp_all add: a Registry_get_def)
  with that [OF a u] w show thesis by simp
qed

lemma delete_loggers:
  assumes "owned (s\<lparr>sg_registeredLoggers := table\<rparr>)"
  shows "\<exists>u. delete_each table s = Some (Inr ((), u)) \<and>
    sg_registeredLoggers u = sg_registeredLoggers s \<and> sg_world u = sg_world s \<and>
    sg_registeredHitCounters u = sg_registeredHitCounters s \<and>
    (\<forall>a. st_objs (sg_heap s) a = None \<longrightarrow> st_objs (sg_heap u) a = None) \<and>
    (\<forall>a. Some a \<in> snd ` set table \<longrightarrow> st_objs (sg_heap u) a = None) \<and>
    (\<forall>q. st_objs (sg_typed s) q = None \<longrightarrow> st_objs (sg_typed u) q = None) \<and>
    (\<forall>q a l. Some a \<in> snd ` set table \<longrightarrow> st_objs (sg_heap s) a = Some l \<longrightarrow> lg_typedConfigurations l = Some q \<longrightarrow>
      st_objs (sg_typed u) q = None)"
  using assms
proof (induction table arbitrary: s)
  case (Cons x table)
  obtain i p where x: "x = (i, p)" by (cases x)
  from Cons.prems [unfolded x] obtain a l u where
    a: "p = Some a" "st_objs (sg_heap s) a = Some l" "delete_logger a s = Some (Inr ((), u))"
    and w: "u\<lparr>sg_registeredLoggers := table\<rparr> = without i a l (s\<lparr>sg_registeredLoggers := (i, p) # table\<rparr>)"
    and frame: "sg_registeredLoggers u = sg_registeredLoggers s" "sg_world u = sg_world s"
      "sg_registeredHitCounters u = sg_registeredHitCounters s"
    and o: "owned (u\<lparr>sg_registeredLoggers := table\<rparr>)" by (rule delete_logger_owned)
  from arg_cong [OF w, of sg_heap] arg_cong [OF w, of sg_typed]
  have h: "sg_heap u = (sg_heap s)\<lparr>st_objs := (st_objs (sg_heap s))(a := None)\<rparr>"
    and t: "sg_typed u = (sg_typed s)\<lparr>st_objs := (\<lambda>q. if Some q = lg_typedConfigurations l then None else st_objs (sg_typed s) q)\<rparr>"
    by (simp_all add: without_def cong: if_cong)
  from Cons.IH [OF o] obtain v where
    v: "delete_each table u = Some (Inr ((), v))"
    "sg_registeredLoggers v = sg_registeredLoggers s" "sg_world v = sg_world s"
    "sg_registeredHitCounters v = sg_registeredHitCounters s"
    "\<And>a. st_objs (sg_heap u) a = None \<Longrightarrow> st_objs (sg_heap v) a = None"
    "\<And>a. Some a \<in> snd ` set table \<Longrightarrow> st_objs (sg_heap v) a = None"
    "\<And>q. st_objs (sg_typed u) q = None \<Longrightarrow> st_objs (sg_typed v) q = None"
    "\<And>q a l. Some a \<in> snd ` set table \<Longrightarrow> st_objs (sg_heap u) a = Some l \<Longrightarrow> lg_typedConfigurations l = Some q \<Longrightarrow>
      st_objs (sg_typed v) q = None" unfolding frame by blast
  have "delete_each (x # table) s = Some (Inr ((), v))"
    using v(1) by (simp add: delete_each_def x a(1) pbind_run [where m = "delete_logger a", OF a(3)])
  moreover have "st_objs (sg_heap v) b = None" if "st_objs (sg_heap s) b = None \<or> Some b \<in> snd ` set (x # table)" for b
    using that v(5, 6) [of b] by (auto simp: x a(1) h)
  moreover have "st_objs (sg_typed v) q = None" if "st_objs (sg_typed s) q = None" for q
    using that v(7) [of q] by (simp add: t)
  moreover have "st_objs (sg_typed v) q = None"
    if "Some b \<in> snd ` set (x # table)" "st_objs (sg_heap s) b = Some m" "lg_typedConfigurations m = Some q" for q b m
    using that v(7) [of q] v(8) [of b m q] by (cases "b = a") (auto simp: x a h t)
  ultimately show ?case using v(2, 3, 4) by blast
qed (simp add: delete_each_def)

definition flushed :: "'f environment \<Rightarrow> (string \<times> stream) list \<Rightarrow> 'f \<Rightarrow> 'f" where
  "flushed env streams = fold (\<lambda>(_, f). case f of None \<Rightarrow> id | Some f \<Rightarrow> en_flush env f) streams"

lemma flush_streams:
  "pfor streams (\<lambda>(_, stream). case stream of None \<Rightarrow> preturn () | Some f \<Rightarrow> flush_file env f) s =
    Some (Inr ((), s\<lparr>sg_world := (sg_world s)\<lparr>w_files := flushed env streams (w_files (sg_world s))\<rparr>\<rparr>))"
  by (induction streams arbitrary: s) (auto simp: flushed_def flush_file_def split: option.split)

section \<open>Properties\<close>

text \<open>
  C35. However the storage was used before, by functions of \<open>Loggers\<close>, settings, log statements of
  every kind, formats and tracked blocks, in any order and each to its end, its destructor
  returns: every file is flushed once for each name it is known by, every registered logger is
  deleted with its typed configurations, each exactly once, and no logger is registered
  afterwards. Copying or assigning a logger, whose configurations are then deleted twice, is not
  among these uses.
\<close>

theorem storage_destroyed:
  assumes "good_user env user" and "storage_used env user s"
  shows "\<exists>t. Storage_destroy env s = Some (Inr ((), t)) \<and>
    sg_registeredLoggers t = [] \<and> sg_registeredHitCounters t = [] \<and>
    sg_world t = (sg_world s)\<lparr>w_files := flushed env (w_streams (sg_world s)) (w_files (sg_world s))\<rparr> \<and>
    (\<forall>i a l. (i, Some a) \<in> set (sg_registeredLoggers s) \<longrightarrow> st_objs (sg_heap s) a = Some l \<longrightarrow>
      st_objs (sg_heap t) a = None \<and>
      (\<forall>q. lg_typedConfigurations l = Some q \<longrightarrow> st_objs (sg_typed t) q = None))"
proof -
  let ?s = "s\<lparr>sg_registeredHitCounters := [],
      sg_world := (sg_world s)\<lparr>w_files := flushed env (w_streams (sg_world s)) (w_files (sg_world s))\<rparr>\<rparr>"
  have "skeleton ?s = skeleton s" by (simp add: skeleton_def)
  with storage_used_owned [OF assms] have "owned (?s\<lparr>sg_registeredLoggers := sg_registeredLoggers s\<rparr>)"
    using owned_skeleton [of ?s s] by simp
  from delete_loggers [OF this] obtain u where
    u: "delete_each (sg_registeredLoggers s) ?s =
      Some (Inr ((), u))" "sg_world u = sg_world ?s" "sg_registeredHitCounters u = []"
    and gone: "\<And>a. Some a \<in> snd ` set (sg_registeredLoggers s) \<Longrightarrow> st_objs (sg_heap u) a = None"
      "\<And>q a l. Some a \<in> snd ` set (sg_registeredLoggers s) \<Longrightarrow> st_objs (sg_heap ?s) a = Some l \<Longrightarrow>
        lg_typedConfigurations l = Some q \<Longrightarrow> st_objs (sg_typed u) q = None" by auto
  have flush: "RL_unsafeFlushAll env (s\<lparr>sg_registeredHitCounters := []\<rparr>) = Some (Inr ((), ?s))"
    by (simp add: RL_unsafeFlushAll_def pbind_def obind_def pget_def flush_streams)
  have "Storage_destroy env s = RL_unregisterAll ?s"
    by (simp add: Storage_destroy_def RegisteredHitCounters_destroy_def RegisteredLoggers_destroy_def
        VRegistry_destroy_def pbind_assoc pbind_run [where m = "RL_unsafeFlushAll env", OF flush])
  also have "\<dots> = Some (Inr ((), u\<lparr>sg_registeredLoggers := []\<rparr>))"
  proof (cases "sg_registeredLoggers s")
    case Nil
    with u(1) have "u = ?s" by (simp add: delete_each_def)
    with Nil show ?thesis by (simp add: RL_unregisterAll_def)
  next
    case (Cons x table)
    then show ?thesis
      using pbind_run [where m = "delete_each (sg_registeredLoggers s)", OF u(1), of "\<lambda>_. pmodify (\<lambda>s. s\<lparr>sg_registeredLoggers := []\<rparr>)"]
      by (simp add: RL_unregisterAll_def)
  qed
  finally have "Storage_destroy env s = Some (Inr ((), u\<lparr>sg_registeredLoggers := []\<rparr>))" .
  moreover have "Some a \<in> snd ` set (sg_registeredLoggers s)" if "(i, Some a) \<in> set (sg_registeredLoggers s)" for i a
    using that by (rule rev_image_eqI) simp
  ultimately show ?thesis
    using u(2, 3) gone by (intro exI [of _ "u\<lparr>sg_registeredLoggers := []\<rparr>"]) (simp, blast)
qed

text \<open>A storage after a program has got a logger, set a flag and logged to the logger.\<close>

definition use_site :: "string list log_site" where
  "use_site = \<lparr>ls_macros = gcc_linux, ls_env = trace_env, ls_inner = writer_at_depth trace_env 1,
     ls_file = ''main.cpp'', ls_line = 7, ls_func = ''main'', ls_default_logger = None, ls_errno = 0,
     ls_strerror = []\<rparr>"

definition small_use :: "(string list storage, unit) prog" where
  "small_use =
     pbind (getLogger trace_env ''a'' True) (\<lambda>_.
     pbind (sg_addFlag AutoSpacing) (\<lambda>_.
     write_log use_site PlainWriter Level_Info NormalLog 0 [''a''] [''hi'']))"

lemma small_use_result:
  "case small_use small_storage of
     Some (Inr (_, t)) \<Rightarrow> map fst (sg_registeredLoggers t) = [''a'']
   | _ \<Rightarrow> False"
  by code_simp

lemma trace_user: "good_user trace_env (\<lambda>_ _. preturn ())"
  using trace_callbacks by (simp add: good_user_def trace_env_def)

lemma small_use_used:
  assumes "small_use small_storage = Some (Inr (x, t))"
  shows "storage_used trace_env (\<lambda>_ _. preturn ()) t"
proof -
  have z: "no_loggers small_storage" by (simp add: no_loggers_def small_storage_def empty_storage_def)
  have v: "\<forall>v \<in> set [\<lambda>b. mb_log b ''hi'']. writes_value v" by (simp add: values_written)
  from assms obtain p s s' where 1: "getLogger trace_env ''a'' True small_storage = Some (Inr (p, s))"
    and 2: "sg_addFlag AutoSpacing s = Some (Inr ((), s'))"
    and 3: "write_log use_site PlainWriter Level_Info NormalLog 0 [''a''] [''hi''] s' = Some (Inr ((), t))"
    by (auto simp: small_use_def pbind_eq_Inr)
  from 3 have 4: "pbind (preturn True) (\<lambda>b. if b then write_values use_site PlainWriter Level_Info NormalLog 0 [''a'']
      [\<lambda>b. mb_log b ''hi''] else preturn ()) s' = Some (Inr ((), t))" by (simp add: write_log_values)
  have site: "ls_env use_site = trace_env" "ls_inner use_site = writer_at_depth trace_env 1" by (simp_all add: use_site_def)
  have "storage_used trace_env (\<lambda>_ _. preturn ()) s"
    by (rule used [OF fresh [OF z] storage_step.api [OF api_step.get [OF 1]]])
  then have "storage_used trace_env (\<lambda>_ _. preturn ()) s'"
    by (rule used) (rule storage_step.setting [OF setting.intros(1) 2])
  then show ?thesis
    by (rule used) (rule storage_step.statement [OF site conditions_count(1) v 4])
qed

theorem storage_destroyed_witness:
  "\<exists>s t. small_use small_storage = Some (Inr ((), s)) \<and> map fst (sg_registeredLoggers s) = [''a''] \<and>
    Storage_destroy trace_env s = Some (Inr ((), t)) \<and> sg_registeredLoggers t = []"
proof -
  from small_use_result obtain s where s: "small_use small_storage = Some (Inr ((), s))"
    "map fst (sg_registeredLoggers s) = [''a'']"
    by (auto split: option.splits sum.splits)
  from storage_destroyed [OF trace_user small_use_used [OF s(1)]] obtain t where
    "Storage_destroy trace_env s = Some (Inr ((), t))" "sg_registeredLoggers t = []" by auto
  with s show ?thesis by (intro exI conjI)
qed

end
