(* ===== verification/Elpp_Platform.thy ===== *)
theory Elpp_Platform imports Elpp_Time Elpp_Build begin

text \<open>
  What \<open>easylogging++.cc\<close> compiles on systems other than Unix: variables of the environment and
  the clock of Windows, the properties of Android, how a time becomes a broken-down time for each
  compiler, and the constants that differ (default file, permissions, sleeping). The functions of
  the systems are arguments; where a lemma relies on what their documentation promises, that is a
  named hypothesis.
\<close>

section \<open>Variables of the environment on Windows\<close>

text \<open>
  \<open>GetEnvironmentVariableA\<close> takes a name, the length of a buffer and what is in the buffer, and
  gives a length and what is in the buffer afterwards. It is documented to copy a value that
  fits with its final zero, to return the length needed for one that does not and leave the
  buffer in an undefined state, and to return zero for a variable that does not exist.
\<close>

type_synonym get_variable = "string \<Rightarrow> nat \<Rightarrow> string \<Rightarrow> nat \<times> string"

definition windows_variables :: "get_variable \<Rightarrow> (string \<Rightarrow> string option) \<Rightarrow> bool" where
  "windows_variables api environment \<longleftrightarrow>
     (\<forall>x n buffer.
        case environment x of
          None \<Rightarrow> fst (api x n buffer) = 0
        | Some v \<Rightarrow>
            if length v < n then api x n buffer = (length v, v)
            else fst (api x n buffer) = Suc (length v))"

text \<open>The buffer is \<open>static\<close>: it is passed from one call to the next.\<close>

definition bufferLen :: nat where "bufferLen = 50"

definition getWindowsEnvironmentVariable :: "get_variable \<Rightarrow> string \<Rightarrow> string \<Rightarrow> string option \<times> string" where
  "getWindowsEnvironmentVariable api varname buffer =
     (let (n, buffer) = api varname bufferLen buffer
      in (if n \<noteq> 0 then Some buffer else None, buffer))"

definition getEnvironmentVariable_windows :: "get_variable \<Rightarrow> string \<Rightarrow> string \<Rightarrow> string \<Rightarrow> string \<times> string" where
  "getEnvironmentVariable_windows api variableName defaultVal buffer =
     (let (val, buffer) = getWindowsEnvironmentVariable api variableName buffer
      in (case val of
            None \<Rightarrow> defaultVal
          | Some v \<Rightarrow> if v = [] then defaultVal else v, buffer))"

definition currentUser_windows :: "get_variable \<Rightarrow> string \<Rightarrow> string \<times> string" where
  "currentUser_windows api = getEnvironmentVariable_windows api ''USERNAME'' ''user''"

definition currentHost_windows :: "get_variable \<Rightarrow> string \<Rightarrow> string \<times> string" where
  "currentHost_windows api = getEnvironmentVariable_windows api ''COMPUTERNAME'' ''unknown-host''"

text \<open>For values of fewer than fifty bytes the variant of Windows reads what that of Unix does.\<close>

lemma windows_reads_as_unix:
  assumes "windows_variables api environment" and "\<And>v. environment x = Some v \<Longrightarrow> length v < bufferLen"
  shows "fst (getEnvironmentVariable_windows api x d buffer) = getEnvironmentVariable environment x d None"
proof -
  from assms(1) have a: "case environment x of
          None \<Rightarrow> fst (api x bufferLen buffer) = 0
        | Some v \<Rightarrow>
            if length v < bufferLen then api x bufferLen buffer = (length v, v)
            else fst (api x bufferLen buffer) = Suc (length v)"
    unfolding windows_variables_def by blast
  show ?thesis
  proof (cases "environment x")
    case None
    with a have "fst (api x bufferLen buffer) = 0" by simp
    then obtain b where "api x bufferLen buffer = (0, b)" by (cases "api x bufferLen buffer") simp
    with None show ?thesis
      by (simp add: getEnvironmentVariable_windows_def getWindowsEnvironmentVariable_def
          getEnvironmentVariable_def)
  next
    case (Some v)
    with a assms(2) show ?thesis
      by (simp add: getEnvironmentVariable_windows_def getWindowsEnvironmentVariable_def
          getEnvironmentVariable_def split: prod.splits)
  qed
qed

text \<open>
  A longer value counts as read. A system that leaves the buffer alone is within the
  documentation, and on it the host is named after the user read before.
\<close>

definition careful_windows :: "(string \<Rightarrow> string option) \<Rightarrow> get_variable" where
  "careful_windows environment x n buffer =
     (case environment x of
        None \<Rightarrow> (0, buffer)
      | Some v \<Rightarrow> if length v < n then (length v, v) else (Suc (length v), buffer))"

lemma careful_windows_variables: "windows_variables (careful_windows environment) environment"
  by (simp add: windows_variables_def careful_windows_def split: option.split)

lemma long_host_is_user:
  assumes "environment ''USERNAME'' = Some user" "user \<noteq> []" "length user < bufferLen"
    and "environment ''COMPUTERNAME'' = Some host" "bufferLen \<le> length host"
  shows "fst (currentHost_windows (careful_windows environment)
           (snd (currentUser_windows (careful_windows environment) buffer))) = user"
  using assms
  by (simp add: currentHost_windows_def currentUser_windows_def getEnvironmentVariable_windows_def
      getWindowsEnvironmentVariable_def careful_windows_def)

section \<open>Properties of Android\<close>

text \<open>\<open>__system_property_get\<close> gives the length of a value and the value.\<close>

definition getProperty :: "(string \<Rightarrow> int \<times> string) \<Rightarrow> string \<Rightarrow> string" where
  "getProperty property prop = (let (ret, propVal) = property prop in if ret = 0 then [] else propVal)"

definition getDeviceName :: "(string \<Rightarrow> int \<times> string) \<Rightarrow> string" where
  "getDeviceName property =
     (let manufacturer = getProperty property ''ro.product.manufacturer'';
          model = getProperty property ''ro.product.model''
      in if manufacturer = [] \<or> model = [] then [] else manufacturer @ ''-'' @ model)"

lemma getDeviceName_empty_iff:
  "getDeviceName property = [] \<longleftrightarrow>
     getProperty property ''ro.product.manufacturer'' = [] \<or> getProperty property ''ro.product.model'' = []"
  by (simp add: getDeviceName_def Let_def)

section \<open>The user and the host of each system\<close>

definition currentUser_on ::
    "macros \<Rightarrow> (string \<Rightarrow> string option) \<Rightarrow> get_variable \<Rightarrow> string \<Rightarrow> string" where
  "currentUser_on m getenv api buffer =
     (if ELPP_OS_UNIX m \<and> \<not> ELPP_OS_ANDROID m then currentUser getenv
      else if ELPP_OS_WINDOWS m then fst (currentUser_windows api buffer)
      else if ELPP_OS_ANDROID m then ''android''
      else [])"

definition currentHost_on ::
    "macros \<Rightarrow> (string \<Rightarrow> string option) \<Rightarrow> get_variable \<Rightarrow> (string \<Rightarrow> int \<times> string) \<Rightarrow> string \<Rightarrow> string" where
  "currentHost_on m getenv api property buffer =
     (if ELPP_OS_UNIX m \<and> \<not> ELPP_OS_ANDROID m then currentHost getenv
      else if ELPP_OS_WINDOWS m then fst (currentHost_windows api buffer)
      else if ELPP_OS_ANDROID m then getDeviceName property
      else [])"

section \<open>The clock of Windows\<close>

text \<open>
  \<open>GetSystemTimeAsFileTime\<close> gives two words that count tenths of a microsecond since 1601. The
  product with \<open>0.000001\<close> is computed in floating point and truncated: that is the argument
  \<open>seconds\<close>, of which a lemma assumes that it is the quotient.
\<close>

definition epoch_delta :: uint64 where "epoch_delta = 11644473600000000"

definition usecOffSet :: uint64 where "usecOffSet = 1000000"

definition file_time :: "32 word \<Rightarrow> 32 word \<Rightarrow> uint64" where
  "file_time dwHighDateTime dwLowDateTime = or (push_bit 32 (ucast dwHighDateTime)) (ucast dwLowDateTime)"

definition gettimeofday_windows :: "(uint64 \<Rightarrow> int) \<Rightarrow> 32 word \<Rightarrow> 32 word \<Rightarrow> timeval" where
  "gettimeofday_windows seconds dwHighDateTime dwLowDateTime =
     (let present = file_time dwHighDateTime dwLowDateTime div 10 - epoch_delta
      in \<lparr>tv_sec = seconds present, tv_usec = uint (present mod usecOffSet)\<rparr>)"

lemma uint_file_time: "uint (file_time high low) = uint high * 2 ^ 32 + uint low"
proof -
  have "file_time high low = push_bit 32 (ucast high) + ucast low"
    unfolding file_time_def
    by (rule disjunctive_add [symmetric])
      (auto simp: bit_push_bit_iff bit_ucast_iff dest: bit_imp_le_length)
  moreover have "uint high < 2 ^ 32" "uint low < 2 ^ 32"
    using uint_lt2p [of high] uint_lt2p [of low] by simp_all
  ultimately show ?thesis
    by (simp add: uint_word_ariths unsigned_push_bit_eq take_bit_eq_mod push_bit_eq_mult
        unsigned_ucast_eq)
qed

lemma windows_clock:
  assumes "\<And>p. seconds p = uint p div 1000000"
    and "uint epoch_delta * 10 \<le> uint high * 2 ^ 32 + uint low"
  shows "1000000 * tv_sec (gettimeofday_windows seconds high low) + tv_usec (gettimeofday_windows seconds high low) =
      (uint high * 2 ^ 32 + uint low) div 10 - uint epoch_delta"
    and "0 \<le> tv_usec (gettimeofday_windows seconds high low)"
    and "tv_usec (gettimeofday_windows seconds high low) < 1000000"
proof -
  let ?p = "file_time high low div 10 - epoch_delta"
  have "uint epoch_delta \<le> uint (file_time high low div 10)"
    using assms(2) by (simp add: uint_div uint_file_time)
  then have "uint ?p = uint (file_time high low div 10) - uint epoch_delta"
    by (simp add: uint_sub_if')
  then have p: "uint ?p = (uint high * 2 ^ 32 + uint low) div 10 - uint epoch_delta"
    by (simp add: uint_div uint_file_time)
  have u: "tv_usec (gettimeofday_windows seconds high low) = uint ?p mod 1000000"
    by (simp add: gettimeofday_windows_def usecOffSet_def uint_mod Let_def)
  show "1000000 * tv_sec (gettimeofday_windows seconds high low) + tv_usec (gettimeofday_windows seconds high low) =
      (uint high * 2 ^ 32 + uint low) div 10 - uint epoch_delta"
    using assms(1) p u by (simp add: gettimeofday_windows_def Let_def)
  show "0 \<le> tv_usec (gettimeofday_windows seconds high low)"
    "tv_usec (gettimeofday_windows seconds high low) < 1000000"
    using u by simp_all
qed

section \<open>Broken-down time\<close>

text \<open>
  With the compiler of Microsoft \<open>buildTimeInfo\<close> does not use the time it is given: it reads the
  clock again (\<open>now\<close>).
\<close>

definition buildTimeInfo :: "macros \<Rightarrow> (int \<Rightarrow> tm) \<Rightarrow> int \<Rightarrow> timeval \<Rightarrow> tm" where
  "buildTimeInfo m localtime now currTime =
     (if ELPP_OS_UNIX m then localtime (tv_sec currTime)
      else if ELPP_COMPILER_MSVC m then localtime now
      else localtime (tv_sec currTime))"

definition timevalToString_on ::
    "macros \<Rightarrow> (int \<Rightarrow> tm) \<Rightarrow> int \<Rightarrow> timeval \<Rightarrow> string \<Rightarrow> subsecond_precision \<Rightarrow> string result" where
  "timevalToString_on m localtime now tval = timevalToString (\<lambda>_. buildTimeInfo m localtime now tval) tval"

lemma time_shown_on_unix:
  "ELPP_OS_UNIX m \<Longrightarrow> timevalToString_on m localtime now = timevalToString localtime"
  by (simp add: timevalToString_on_def buildTimeInfo_def timevalToString_def fun_eq_iff)

lemma same_second_shown:
  "now = tv_sec tval \<Longrightarrow> timevalToString_on m localtime now tval = timevalToString localtime tval"
  by (simp add: timevalToString_on_def buildTimeInfo_def timevalToString_def fun_eq_iff)

lemma later_second_shown:
  "\<not> ELPP_OS_UNIX m \<Longrightarrow> ELPP_COMPILER_MSVC m \<Longrightarrow>
     timevalToString_on m localtime (tv_sec tval + 1) tval = timevalToString localtime (tval\<lparr>tv_sec := tv_sec tval + 1\<rparr>)"
  by (simp add: timevalToString_on_def buildTimeInfo_def timevalToString_def fun_eq_iff)

section \<open>Constants of each system\<close>

text \<open>The file logged to by default; the text \<open>ELPP_DEFAULT_LOG_FILE\<close> expands to is an argument.\<close>

definition default_log_file :: "macros \<Rightarrow> string \<Rightarrow> string option" where
  "default_log_file m text =
     (if macro_defined m ''ELPP_NO_DEFAULT_LOG_FILE'' then
        (if ELPP_OS_UNIX m then Some ''/dev/null''
         else if ELPP_OS_WINDOWS m then Some ''nul''
         else None)
      else if macro_defined m ''ELPP_DEFAULT_LOG_FILE'' then Some text
      else Some kDefaultLogFile)"

text \<open>The permissions of new directories: all but reading by others.\<close>

definition S_IRUSR :: "32 word" where "S_IRUSR = 256"
definition S_IWUSR :: "32 word" where "S_IWUSR = 128"
definition S_IXUSR :: "32 word" where "S_IXUSR = 64"
definition S_IRGRP :: "32 word" where "S_IRGRP = 32"
definition S_IWGRP :: "32 word" where "S_IWGRP = 16"
definition S_IXGRP :: "32 word" where "S_IXGRP = 8"
definition S_IROTH :: "32 word" where "S_IROTH = 4"
definition S_IWOTH :: "32 word" where "S_IWOTH = 2"
definition S_IXOTH :: "32 word" where "S_IXOTH = 1"

definition ELPP_LOG_PERMS :: "32 word" where
  "ELPP_LOG_PERMS =
     or S_IRUSR (or S_IWUSR (or S_IXUSR (or S_IWGRP (or S_IRGRP (or S_IXGRP (or S_IWOTH S_IXOTH))))))"

lemma others_may_write_not_read: "and ELPP_LOG_PERMS S_IROTH = 0" "and ELPP_LOG_PERMS S_IWOTH = S_IWOTH"
  by (simp_all add: ELPP_LOG_PERMS_def S_IRUSR_def S_IWUSR_def S_IXUSR_def S_IRGRP_def S_IWGRP_def
      S_IXGRP_def S_IROTH_def S_IWOTH_def S_IXOTH_def)

text \<open>
  Sleeping, in microseconds: \<open>usleep\<close> takes its argument as an unsigned number after a product of
  \<open>int\<close>, which must not overflow.
\<close>

definition msleep :: "macros \<Rightarrow> int32 \<Rightarrow> int option" where
  "msleep m ms =
     (let us = sint ms * 1000
      in if macro_defined m ''ELPP_NO_SLEEP_FOR'' then
           (if - (2 ^ 31) \<le> us \<and> us < 2 ^ 31 then Some (us mod 2 ^ 32) else None)
         else Some (max 0 us))"

lemma msleep_variants:
  "0 \<le> sint ms \<Longrightarrow> sint ms \<le> 2147483 \<Longrightarrow> msleep m ms = Some (sint ms * 1000)"
  by (simp add: msleep_def Let_def)

end
