(* ===== verification/Spec2Isabelle.thy ===== *)
theory Spec2Isabelle
  imports Example_Program Benchmark Elpp_Registry Elpp_Typed Elpp_Hits Elpp_Verbose Elpp_Values Elpp_Crash
    Elpp_Async Elpp_Lock_Order Elpp_Storage Elpp_Platform
begin

text \<open>
  A model of vertx-cpp: a C++ node of a Vert.x cluster, with an event bus over TCP, cluster
  membership over Hazelcast, and TCP and HTTP servers.

  \<^bold>\<open>Parts and how they interact.\<close> A program builds a \<open>Vertx\<close> (\<open>src/vertx/vertx.h\<close>) from
  \<open>VertxOptions\<close>. Its event bus keeps a table of consumers. A request to a consumer of the
  same process runs as a task of an event loop; in the clustered configuration it is first
  given to one of the nodes that registered the address, which \<open>hazelcast_cluster::next\<close>
  chooses round robin, and travels as a frame on a TCP connection. The receiving node
  decodes the frame (\<open>to_message\<close>), calls its consumer and sends a response frame
  (\<open>to_string\<close>). \<open>Vertx::run\<close> starts the TCP server whose input goes to \<open>EventBus::onMessage\<close>.

  \<^bold>\<open>Theories.\<close>
  \<^item> \<open>Prelude\<close>: the errors a C++ program runs into (exceptions and undefined behaviour alike)
    as one datatype, the result type, list and word lemmas, the collections of facts.
  \<^item> \<open>Cxx_String\<close>, \<open>Cxx_Map\<close>: \<open>std::string\<close> operations and decimal formatting; associative
    containers, actions on a state with an error, and the \<open>keyed_store\<close> interface.
  \<^item> \<open>Message_Wire\<close>, \<open>Clustered_Message\<close>, \<open>Message_Codec\<close>: \<open>src/vertx/ClusteredMessage.h\<close>. The
    byte-level readers and writers, the message object with every accessor, the encoder and
    the five decoders, the format of a frame as an abstract specification, and the
    refinement of that specification by the byte-level code.
  \<^item> \<open>Uuid\<close>: \<open>src/vertx/uuid.hpp\<close> over an arbitrary pseudo-random source.
  \<^item> \<open>Hazelcast_Types\<close>, \<open>Hazelcast_Cluster\<close>: \<open>src/vertx/hazelcast_cluster.h\<close> and \<open>.cpp\<close>. Node
    data and its serialisation; endpoint queues, subscriptions, entry and membership events.
  \<^item> \<open>Event_Bus\<close>, \<open>Event_Bus_Facts\<close>: the tables, the dispatcher \<open>processOnTcpMessage\<close>, sending,
    intake and connections of \<open>src/vertx/event_bus.hpp\<close>, with their lemmas.
  \<^item> \<open>Event_Bus_Standalone\<close>: registration and requests of \<open>event_bus.hpp\<close>, its steps and
    reachable states.
  \<^item> \<open>Event_Bus_Hazelcast\<close>, \<open>Clustered_Bus\<close>: \<open>src/vertx/event_bus_hazeclast.hpp\<close>, with its own
    copies of the shared functions, and the steps and reachable states of a whole node.
  \<^item> \<open>Servers\<close>: \<open>net_server.hpp\<close> and \<open>http_server.hpp\<close>. \<open>Vertx\<close>: \<open>vertx.h\<close>.
  \<^item> \<open>Example_Program\<close>: \<open>main.cpp\<close>, on the buses of both configurations. \<open>Benchmark\<close>:
    \<open>benchmark.cpp\<close>, the addresses its loops build.

  The repository keeps a logging library, a renamed easylogging++
  (\<open>include/easylogging++/easylogging++.h\<close> and \<open>.cc\<close>), beside the node, which itself logs
  through another one. It is modelled as it compiles on Unix, with its optional parts and what differs on
  other systems in theories of their own:
  \<^item> \<open>Elpp_Str\<close>, \<open>Elpp_Time\<close>, \<open>Elpp_Types\<close>: \<open>Str\<close>, \<open>File\<close>, \<open>OS\<close>, \<open>CommandLineArgs\<close>; \<open>DateTime\<close>; levels,
    configuration types and flags.
  \<^item> \<open>Elpp_Registry\<close>, \<open>Elpp_Hits\<close>: \<open>Registry\<close> and \<open>RegistryWithPred\<close> over a heap of the objects they
    own, so that a double deletion is an error; the counters of occasional logging.
  \<^item> \<open>Elpp_Config\<close>, \<open>Elpp_Format\<close>, \<open>Elpp_Typed\<close>, \<open>Elpp_Verbose\<close>: \<open>Configurations\<close> and its parser,
    \<open>LogFormat\<close>, \<open>TypedConfigurations\<close> with the files it opens, \<open>VRegistry\<close>.
  \<^item> \<open>Elpp_Logger\<close>, \<open>Elpp_Loggers\<close>: programs on the storage of the library, \<open>Logger\<close>,
    \<open>RegisteredLoggers\<close>, \<open>Storage\<close> and the functions of \<open>Loggers\<close>.
  \<^item> \<open>Elpp_Dispatch\<close>, \<open>Elpp_Writer\<close>: \<open>DefaultLogBuilder\<close>, \<open>LogDispatcher\<close> and its callback;
    \<open>MessageBuilder\<close>, \<open>Writer\<close> and \<open>Logger::log\<close>, up to the line on the terminal or in a file.
  \<^item> \<open>Elpp_Values\<close>: what else can be streamed: wide strings, priority queues, the containers of
    other libraries; the text of a value outside of a statement; output of shell commands.
  \<^item> \<open>Elpp_Performance\<close>: \<open>PerformanceTracker\<close>, the times of a block and its checkpoints.
  \<^item> \<open>Elpp_Build\<close>: what the macros of compiler, system and features switch on, as functions of the
    macros given to the preprocessor.
  \<^item> \<open>Elpp_Macros\<close>, \<open>Elpp_Statements\<close>: \<open>LOG\<close>, \<open>VLOG\<close>, \<open>PLOG\<close>, \<open>SYSLOG\<close>, \<open>CHECK\<close> and their
    variants as programs under the names of the macros; what such statements do.
  \<^item> \<open>Elpp_Crash\<close>: \<open>StackTrace\<close>, \<open>CrashHandler\<close> and the reason of a crash
    (\<open>ELPP_FEATURE_CRASH_LOG\<close>).
  \<^item> \<open>Elpp_Async\<close>: the queue and the worker of \<open>ELPP_EXPERIMENTAL_ASYNC\<close> with the system log
    (\<open>ELPP_SYSLOG\<close>), as programs on a process and as steps of two threads.
  \<^item> \<open>Elpp_Locks\<close>: \<open>Mutex\<close>, \<open>ScopedLock\<close>, \<open>ThreadSafe\<close> (\<open>ELPP_THREAD_SAFE\<close>) and the locks of files;
    what log calls do with the lock and the stream of their logger, as actions of any number of
    threads.
  \<^item> \<open>Elpp_Lock_Order\<close>: all the locks of the library: in which order each of its calls takes and
    releases them, and threads that interleave such calls.
  \<^item> \<open>Elpp_Use\<close>: the uses of the storage by a program, as steps, and that each of them keeps the
    ownership of loggers and configurations.
  \<^item> \<open>Elpp_Storage\<close>: the destructor of \<open>Storage\<close>, and the functions of \<open>Loggers\<close> that only pass on.
  \<^item> \<open>Elpp_Platform\<close>: the variables and the clock of Windows, the properties of Android, the constants
    that depend on the system.

  \<^bold>\<open>State and operations.\<close> Each class is a record whose fields are the data members; each
  member function is one definition of the same name, prefixed where two classes share it.
  Operations that may fail are actions: a result (an error or a value) and the new state. A
  lambda that is handed to another event loop is filed as a task of the state, and the task
  has a definition of its own (\<open>run_message\<close>, \<open>run_connect\<close>, \<open>run_standalone_request\<close>,
  \<open>run_hz_request\<close>). What leaves the program (bytes sent, connections opened, callbacks
  called) is a trace of effects in the state.

  \<^bold>\<open>Parameters.\<close> The behaviour of user callbacks, \<open>std::hash\<close>, the pseudo-random source,
  Hazelcast's maps, boost's property trees and sockets, the HTTP server of evpp, and the operating
  system calls that \<open>VertxOptions\<close> makes are arguments of the definitions that use them; what a
  theorem needs of them is one of its hypotheses (\<open>asio_sockets\<close>: binding a socket that was never
  opened fails). A user callback maps a message to a
  message; that it might itself call the bus is not modelled.
  Of the logging library the clock, \<open>localtime_r\<close>, the file system, writing and flushing, the
  user's callbacks and builders, the order in which an unordered table is gone through, the
  contents of a pointer that is not initialised, the numbers of signals, the frames of the stack
  and their demangler, the encoding of the locale and the output of a shell are such
  arguments, most of them fields of the records \<open>system\<close> and \<open>environment\<close>.

  \<^bold>\<open>Lemmas.\<close> Message_Codec shows that encoding and decoding are inverse up to the exchange
  of the two addresses, the exact condition under which the encoder stays within its
  buffer, and what the decoder does with frames that have no body. Hazelcast_Cluster shows
  the rotation of the endpoint queues and that the endpoint table implements the
  registrations address by address. Event_Bus_Facts states the outcome of each branch of
  the dispatcher and, in the locale \<open>dispatch_invariant\<close>, that a property every elementary
  table operation keeps, for the frames of which a second property holds, is kept by the
  dispatcher; it is interpreted for the routes of frames, for the consistency of a node and for
  frames without a body. Event_Bus_Standalone and Clustered_Bus
  prove invariants of all reachable states by rule induction. Vertx shows that the port of a node
  is the first one drawn, untested.
  The logging theories show that the wildcard matcher accepts the language of its pattern,
  what the parser of configurations and the typed tables make of their input, when the
  buffers for dates, names and lines overflow, that loggers and their configurations are
  owned once in all states the functions of \<open>Loggers\<close> reach (Elpp_Loggers), that a file is
  flushed at every multiple of its threshold (Elpp_Dispatch), and what a log statement and a
  tracked block print (Elpp_Writer, Elpp_Performance). Elpp_Statements shows at which of its
  executions an occasional statement prints, and that a failed check ends the program;
  Elpp_Crash what a crash prints; Elpp_Async that no line is lost, doubled or overtaken under any
  interleaving, and that the worker is never started or stopped in the way meant. Elpp_Locks has
  in the locale \<open>mutual_exclusion\<close> what threads need of a lock, interpreted by the mutex of the
  library: log calls stay whole, unless one with a value too many keeps the lock. Elpp_Lock_Order
  extends that locale by an order of the locks, under which threads run to their end from every
  state they reach; the calls of the library keep to such an order as long as configurations are
  not set from each other in a circle. A statement in whose text there is another one does not
  keep to it, nor do such circles, and both deadlock. Elpp_Storage shows that the destructor of the
  storage deletes every logger exactly once, however it was used (Elpp_Use). Elpp_Platform compares the variants of Windows with
  those of Unix.

  \<^bold>\<open>Bounds.\<close> Integers are words of their C++ width; a string length converted to \<open>int\<close> wraps.
  The frame buffer has 2048 bytes and an access beyond a string's terminator is an error
  value, as is writing anything but a NUL on the terminator. The hit counters are words of 64 bits
  and wrap. The loop for a port is a partial function: that it does not return is the
  value \<open>None\<close>; so are the loops of the logging worker. Loops over data recurse on the data and need no bound. A log statement may run
  another one for a message of the library; such inner statements are an argument of the
  model, for which the theorems hold whatever it is, and \<open>writer_at_depth\<close> ties the knot to a
  given depth.

  \<^bold>\<open>Not modelled.\<close> Interleavings inside one operation (data races), event loops, sockets
  and the bytes of HTTP; what happens to the process after an exception left an event
  loop; the default constructor of a message, which leaves its fields unset. Of the logging
  library: fatal statements of several threads, the destruction of the storage while threads still
  log, the closing of files, which happens when the last reference to a stream goes, the streams of
  wide characters (\<open>ELPP_UNICODE\<close>), and on other systems whatever \<open>Elpp_Platform\<close> does not list.
  The theories of the operations take each operation as atomic; \<open>Elpp_Locks\<close> and
  \<open>Elpp_Lock_Order\<close> look at the locks alone, not at the data they protect. The messages of the
  library's own assertions are modelled as texts but not written anywhere. The macro
  \<open>ELPP_WX_HASH_MAP_ENABLED\<close> has no model, since its text lacks a parenthesis and does not compile. Of the benchmark, how
  often its loops run and what time they take is left to its framework.
\<close>

end
